(* ===== verification/Prelude.thy ===== *)
theory Prelude
  imports Main "HOL-Library.Word" "HOL-Library.Multiset"
begin

text \<open>
  Shared vocabulary of the development: the Go types the plugin uses (fixed-width integers,
  strings as byte strings, \<open>error\<close>, \<open>any\<close>), the protobuf values it passes through without
  looking inside (\<open>Payload\<close>, \<open>Payloads\<close>, \<open>Header\<close>, \<open>Failure\<close>), the outcome of a Go call that
  may panic, and the generic lemmas on lists with failing elements and on finite maps that
  the component theories use.

  A nil pointer is \<open>None\<close>. Go's \<open>int\<close> is 64 bits wide (the plugin is built for 64-bit
  targets); \<open>int\<close> and \<open>int64\<close> values are 64-bit words read with \<open>sint\<close>.
\<close>

section \<open>Collections of facts\<close>

named_theorems wf_simps \<open>unfoldings of the workflow operations\<close>
named_theorems frame_simps \<open>fields an operation leaves alone\<close>

section \<open>Go types\<close>

type_synonym u64 = "64 word"
type_synonym i64 = "64 word"
type_synonym u32 = "32 word"
type_synonym u8 = "8 word"
type_synonym bytes = string

text \<open>
  A \<open>float64\<close>: a finite one is a dyadic rational \<open>m * 2 ^ e\<close>, the others are the two
  infinities and NaN.
\<close>

datatype float64 = Fin int int | PosInf | NegInf | NaN

text \<open>A \<open>time.Time\<close>: the instant in nanoseconds since the epoch and the zone offset in seconds.\<close>

datatype go_time = GoTime int int

section \<open>Protobuf values\<close>

record payload =
  metadata :: "(string \<times> bytes) list"
  data :: bytes

type_synonym payloads = "payload list option"
type_synonym header = "(string \<times> payload) list option"

text \<open>
  A \<open>failure.Failure\<close>: the plugin reads its message only; \<open>failureRest\<close> stands for the other
  fields, which it hands on unread.
\<close>

record failure =
  Message :: string
  failureRest :: bytes

text \<open>The dynamic values of Go's \<open>any\<close> that the plugin distinguishes in its type switches.\<close>

datatype goval =
    VNil
  | VBool bool
  | VFloat64 float64
  | VInt i64
  | VInt64 i64
  | VInt32 "32 word"
  | VInt16 "16 word"
  | VInt8 "8 word"
  | VString string
  | VStrings "string list"
  | VAnys "goval list"
  | VTime go_time
  | VPayloads payloads
  | VExecution string string
  | VOther string

section \<open>Errors and outcomes\<close>

text \<open>
  A Go \<open>error\<close> that is not nil. \<open>ErrStr\<close> is \<open>errors.Str\<close> or a formatted text, \<open>ErrE op e\<close> is
  \<open>errors.E(op, e)\<close>, \<open>ErrExt\<close> is an error made by code outside the repository, identified by
  its text, \<open>ErrResultPending\<close> is \<open>activity.ErrResultPending\<close> and \<open>ContinueAsNewError\<close> is
  \<open>workflow.ContinueAsNewError\<close> with its fields.
\<close>

datatype go_error =
    ErrStr string
  | ErrE string go_error
  | ErrExt string
  | ErrResultPending
  | ContinueAsNewError string payloads header string i64 i64

text \<open>A call either returns or panics.\<close>

datatype 'a outcome = Returns 'a | Panics go_error

text \<open>\<open>errors.E(op, err)\<close> on a result: the error branch is wrapped, the value passes.\<close>

fun wrapE :: "string \<Rightarrow> go_error + 'a \<Rightarrow> go_error + 'a" where
  "wrapE op (Inl e) = Inl (ErrE op e)"
| "wrapE op (Inr x) = Inr x"

lemma wrapE_Inr_iff [simp]: "wrapE op r = Inr x \<longleftrightarrow> r = Inr x"
  by (cases r) auto

section \<open>Loops that stop at the first error\<close>

text \<open>
  The Go pattern \<open>for _, x := range xs { y, err := f(x); if err != nil { return err }; out = append(out, y) }\<close>.
\<close>

fun traverse :: "('a \<Rightarrow> go_error + 'b) \<Rightarrow> 'a list \<Rightarrow> go_error + 'b list" where
  "traverse f [] = Inr []"
| "traverse f (x # xs) =
     (case f x of
        Inl e \<Rightarrow> Inl e
      | Inr y \<Rightarrow> (case traverse f xs of Inl e \<Rightarrow> Inl e | Inr ys \<Rightarrow> Inr (y # ys)))"

lemma traverse_Inr_iff:
  "traverse f xs = Inr ys \<longleftrightarrow> list_all2 (\<lambda>x y. f x = Inr y) xs ys"
proof (induction xs arbitrary: ys)
  case (Cons x xs)
  show ?case
    by (cases ys; cases "f x"; cases "traverse f xs") (simp_all flip: Cons.IH)
qed auto

lemma traverse_length: "traverse f xs = Inr ys \<Longrightarrow> length ys = length xs"
  by (auto simp: traverse_Inr_iff dest: list_all2_lengthD)

lemma traverse_error_iff:
  "(\<exists>e. traverse f xs = Inl e) \<longleftrightarrow> (\<exists>x \<in> set xs. \<exists>e. f x = Inl e)"
  by (induction xs) (auto split: sum.splits)

lemma traverse_cong_set:
  "(\<And>x. x \<in> set xs \<Longrightarrow> f x = g x) \<Longrightarrow> traverse f xs = traverse g xs"
  by (induction xs) (auto split: sum.splits)

text \<open>Encoding element by element and decoding element by element is the identity.\<close>

lemma traverse_roundtrip:
  assumes "traverse f xs = Inr ys"
    and "\<And>x y. x \<in> set xs \<Longrightarrow> f x = Inr y \<Longrightarrow> g y = Inr x"
  shows "traverse g ys = Inr xs"
  using assms
proof (induction xs arbitrary: ys)
  case (Cons x xs)
  then obtain y ys' where "f x = Inr y" "traverse f xs = Inr ys'" "ys = y # ys'"
    by (auto split: sum.splits)
  moreover from this(1) have "g y = Inr x" by (simp add: Cons.prems(2))
  moreover have "traverse g ys' = Inr xs" using Cons calculation(2) by simp
  ultimately show ?case by simp
qed simp

section \<open>Lists and words\<close>

lemma strict_sorted_distinct: "sorted_wrt (<) (xs :: 'a::order list) \<Longrightarrow> distinct xs"
  by (induction xs) auto

lemma unat_Suc_word: "unat (w :: u64) < 2 ^ 64 - 1 \<Longrightarrow> unat (w + 1) = Suc (unat w)"
  by (simp add: unat_word_ariths)

section \<open>Stateful calls that may panic\<close>

text \<open>
  A Go method on a mutable receiver: a function from the state to an outcome and the state at the
  return or at the panic. \<open>bindA\<close> is sequencing; a panic skips what follows.
\<close>

type_synonym ('s, 'a) act = "'s \<Rightarrow> 'a outcome \<times> 's"

definition pureA :: "'a \<Rightarrow> ('s, 'a) act" where
  "pureA x s = (Returns x, s)"

definition panicA :: "go_error \<Rightarrow> ('s, 'a) act" where
  "panicA e s = (Panics e, s)"

definition modifyA :: "('s \<Rightarrow> 's) \<Rightarrow> ('s, unit) act" where
  "modifyA f s = (Returns (), f s)"

definition bindA :: "('s, 'a) act \<Rightarrow> ('a \<Rightarrow> ('s, 'b) act) \<Rightarrow> ('s, 'b) act" where
  "bindA m f s = (case m s of (Returns x, s') \<Rightarrow> f x s' | (Panics e, s') \<Rightarrow> (Panics e, s'))"

definition seqA :: "('s, unit) act \<Rightarrow> ('s, 'b) act \<Rightarrow> ('s, 'b) act" where
  "seqA m n = bindA m (\<lambda>_. n)"

fun mapA :: "('x \<Rightarrow> ('s, unit) act) \<Rightarrow> 'x list \<Rightarrow> ('s, unit) act" where
  "mapA f [] = pureA ()"
| "mapA f (x # xs) = seqA (f x) (mapA f xs)"

text \<open>The deferred function of Go: it runs at a return and at a panic.\<close>

definition deferA :: "('s \<Rightarrow> 's) \<Rightarrow> ('s, 'a) act \<Rightarrow> ('s, 'a) act" where
  "deferA g m s = (case m s of (r, s') \<Rightarrow> (r, g s'))"

text \<open>\<open>keeps P m\<close>: every call of \<open>m\<close> in a state with \<open>P\<close> ends, normally or not, in one with \<open>P\<close>.\<close>

definition keeps :: "('s \<Rightarrow> bool) \<Rightarrow> ('s, 'a) act \<Rightarrow> bool" where
  "keeps P m \<longleftrightarrow> (\<forall>s. P s \<longrightarrow> P (snd (m s)))"

named_theorems keeps_intros \<open>rules for keeps\<close>

lemma keepsD: "keeps P m \<Longrightarrow> P s \<Longrightarrow> P (snd (m s))"
  by (simp add: keeps_def)

lemma keeps_pure [keeps_intros]: "keeps P (pureA x)"
  by (simp add: keeps_def pureA_def)

lemma keeps_panic [keeps_intros]: "keeps P (panicA e)"
  by (simp add: keeps_def panicA_def)

lemma keeps_modify: "(\<And>s. P s \<Longrightarrow> P (f s)) \<Longrightarrow> keeps P (modifyA f)"
  by (simp add: keeps_def modifyA_def)

lemma keeps_bind [keeps_intros]: "keeps P m \<Longrightarrow> (\<And>x. keeps P (f x)) \<Longrightarrow> keeps P (bindA m f)"
  by (auto simp: keeps_def bindA_def split: prod.splits outcome.splits)

lemma keeps_seq [keeps_intros]: "keeps P m \<Longrightarrow> keeps P n \<Longrightarrow> keeps P (seqA m n)"
  by (simp add: seqA_def keeps_bind)

lemma keeps_mapA [keeps_intros]: "(\<And>x. x \<in> set xs \<Longrightarrow> keeps P (f x)) \<Longrightarrow> keeps P (mapA f xs)"
  by (induction xs) (auto intro: keeps_intros)

lemma keeps_defer: "keeps P m \<Longrightarrow> (\<And>s. P s \<Longrightarrow> P (g s)) \<Longrightarrow> keeps P (deferA g m)"
  by (auto simp: keeps_def deferA_def split: prod.splits)

lemma keeps_here: "(\<And>s. P s \<Longrightarrow> P (snd (m s s))) \<Longrightarrow> keeps P (\<lambda>s. m s s)"
  by (simp add: keeps_def)

lemma keeps_at: "(\<And>s. keeps P (m s)) \<Longrightarrow> keeps P (\<lambda>s. m s s)"
  by (simp add: keeps_def)

lemma seqA_modify [simp]: "seqA (modifyA f) m s = m (f s)"
  by (simp add: seqA_def bindA_def modifyA_def)

lemma bindA_pure [simp]: "bindA (pureA x) f = f x"
  by (simp add: bindA_def pureA_def fun_eq_iff)

lemma snd_bindA_pure [simp]: "snd (bindA m (\<lambda>x. pureA (f x)) s) = snd (m s)"
  by (auto simp: bindA_def pureA_def split: prod.splits outcome.splits)

lemma snd_pureA [simp]: "snd (pureA x s) = s"
  by (simp add: pureA_def)

lemma mapA_append: "mapA f (xs @ ys) = seqA (mapA f xs) (mapA f ys)"
  by (induction xs) (auto simp: seqA_def bindA_def pureA_def fun_eq_iff split: prod.splits outcome.splits)

end
