(* ===== verification/Strconv.thy ===== *)
theory Strconv
  imports Prelude
begin

text \<open>
  The parts of Go's \<open>strconv\<close> and of its numeric conversions that the plugin calls:
  \<open>strconv.Itoa\<close> (child workflow ids), \<open>strconv.ParseInt(s, 10, 64)\<close> and \<open>strconv.Atoi\<close>
  (integer search attributes given as text), and the conversion \<open>int64(f)\<close> of a float.
  The lemmas show that printing and parsing are inverse to each other on 64-bit integers and
  that the printed form is injective.
\<close>

definition digit_char :: "nat \<Rightarrow> char" where
  "digit_char d = char_of (48 + d)"

definition char_digit :: "char \<Rightarrow> nat option" where
  "char_digit c = (let n = of_char c in if 48 \<le> n \<and> n \<le> 57 then Some (n - 48) else None)"

fun itoa_nat :: "nat \<Rightarrow> string" where
  "itoa_nat n = (if n < 10 then [digit_char n] else itoa_nat (n div 10) @ [digit_char (n mod 10)])"

declare itoa_nat.simps [simp del]

definition Itoa :: "i64 \<Rightarrow> string" where
  "Itoa w = (let i = sint w in if i < 0 then CHR ''-'' # itoa_nat (nat (- i)) else itoa_nat (nat i))"

text \<open>The digit loop of \<open>ParseUint\<close>, most significant digit first.\<close>

fun parse_digits :: "nat \<Rightarrow> string \<Rightarrow> nat option" where
  "parse_digits acc [] = Some acc"
| "parse_digits acc (c # cs) =
     (case char_digit c of None \<Rightarrow> None | Some d \<Rightarrow> parse_digits (10 * acc + d) cs)"

definition parse_uint :: "string \<Rightarrow> nat option" where
  "parse_uint s = (if s = [] then None else parse_digits 0 s)"

text \<open>
  \<open>ParseInt(s, 10, 64)\<close>: an optional sign, at least one digit, digits only, and a value in
  the range of \<open>int64\<close>. \<open>None\<close> is the error return (\<open>ErrSyntax\<close> or \<open>ErrRange\<close>).
\<close>

definition in_int64 :: "bool \<Rightarrow> nat \<Rightarrow> i64 option" where
  "in_int64 neg n =
     (if neg then (if n \<le> 2 ^ 63 then Some (word_of_int (- int n)) else None)
      else (if n < 2 ^ 63 then Some (word_of_int (int n)) else None))"

fun ParseInt :: "string \<Rightarrow> i64 option" where
  "ParseInt [] = None"
| "ParseInt (c # cs) =
     (if c = CHR ''+'' then Option.bind (parse_uint cs) (in_int64 False)
      else if c = CHR ''-'' then Option.bind (parse_uint cs) (in_int64 True)
      else Option.bind (parse_uint (c # cs)) (in_int64 False))"

text \<open>
  \<open>int64(f)\<close>: the fraction is discarded (truncation towards zero). A value outside the range
  of \<open>int64\<close>, an infinity or NaN gives an implementation-specific result, the argument \<open>oob\<close>.
\<close>

definition trunc_dyadic :: "int \<Rightarrow> int \<Rightarrow> int" where
  "trunc_dyadic m e =
     (if 0 \<le> e then m * 2 ^ nat e else sgn m * (\<bar>m\<bar> div 2 ^ nat (- e)))"

fun float64_to_int64 :: "(float64 \<Rightarrow> i64) \<Rightarrow> float64 \<Rightarrow> i64" where
  "float64_to_int64 oob (Fin m e) =
     (let t = trunc_dyadic m e
      in if - (2 ^ 63) \<le> t \<and> t < 2 ^ 63 then word_of_int t else oob (Fin m e))"
| "float64_to_int64 oob f = oob f"

section \<open>Printing then parsing\<close>

lemma char_digit_digit_char [simp]: "d < 10 \<Longrightarrow> char_digit (digit_char d) = Some d"
  by (simp add: char_digit_def digit_char_def)

lemma digit_char_not_sign [simp]:
  assumes "d < 10"
  shows "digit_char d \<noteq> CHR ''+''" "digit_char d \<noteq> CHR ''-''" "digit_char d \<noteq> CHR ''_''"
proof -
  have "char_digit CHR ''+'' = None" "char_digit CHR ''-'' = None" "char_digit CHR ''_'' = None"
    by (simp_all add: char_digit_def)
  then show "digit_char d \<noteq> CHR ''+''" "digit_char d \<noteq> CHR ''-''" "digit_char d \<noteq> CHR ''_''"
    using char_digit_digit_char [OF assms] by auto
qed

lemma parse_digits_append:
  "parse_digits acc (xs @ ys) = Option.bind (parse_digits acc xs) (\<lambda>a. parse_digits a ys)"
  by (induction xs arbitrary: acc) (auto split: option.splits)

lemma itoa_nat_nonempty [simp]: "itoa_nat n \<noteq> []"
  by (subst itoa_nat.simps) simp

lemma itoa_nat_hd: "\<exists>d < 10. hd (itoa_nat n) = digit_char d"
proof (induction n rule: itoa_nat.induct)
  case (1 n)
  then show ?case
    by (cases "n < 10") (auto simp: itoa_nat.simps [of n] hd_append)
qed

lemma parse_digits_itoa_nat: "parse_digits 0 (itoa_nat n) = Some n"
proof (induction n rule: itoa_nat.induct)
  case (1 n)
  then show ?case
    by (cases "n < 10") (simp_all add: itoa_nat.simps [of n] parse_digits_append)
qed

lemma parse_uint_itoa_nat [simp]: "parse_uint (itoa_nat n) = Some n"
  by (simp add: parse_uint_def parse_digits_itoa_nat)

lemma itoa_nat_inj: "itoa_nat m = itoa_nat n \<Longrightarrow> m = n"
  by (metis parse_uint_itoa_nat option.inject)

lemma sint_range64: "- (2 ^ 63) \<le> sint (w :: i64)" "sint (w :: i64) < 2 ^ 63"
  using sint_ge [of w] sint_lt [of w] by simp_all

lemma sint_word_of_int64: "- (2 ^ 63) \<le> t \<Longrightarrow> t < 2 ^ 63 \<Longrightarrow> sint (word_of_int t :: i64) = t"
  by (simp add: signed_of_int signed_take_bit_int_eq_self)

lemma ParseInt_Itoa_value: "ParseInt (Itoa w) = Some w"
proof (cases "sint w < 0")
  case True
  have "nat (- sint w) \<le> 2 ^ 63" using sint_range64(1) [of w] by simp
  then show ?thesis using True
    by (simp add: Itoa_def in_int64_def Let_def)
next
  case False
  obtain d where d: "d < 10" "hd (itoa_nat (nat (sint w))) = digit_char d"
    using itoa_nat_hd by blast
  obtain c cs where c: "itoa_nat (nat (sint w)) = c # cs"
    by (cases "itoa_nat (nat (sint w))") auto
  have "parse_uint (c # cs) = Some (nat (sint w))" using parse_uint_itoa_nat c by metis
  moreover have "c \<noteq> CHR ''+''" "c \<noteq> CHR ''-''" using d c by auto
  moreover have "nat (sint w) < 2 ^ 63" using sint_range64(2) [of w] False by simp
  ultimately show ?thesis using False c
    by (simp add: Itoa_def in_int64_def Let_def)
qed

lemma Itoa_inj: "Itoa v = Itoa w \<Longrightarrow> v = w"
  by (metis ParseInt_Itoa_value option.inject)

end
