(* ===== verification/Protocol.thy ===== *)
theory Protocol
  imports Strconv
begin

text \<open>
  \<open>internal/protocol.go\<close>: the messages exchanged with the PHP workers, the commands they carry,
  the two tables \<open>CommandName\<close> and \<open>InitCommand\<close> between commands and their wire names, and the
  conversions of a command into the parameters of a Temporal SDK call.

  A command is a value of \<open>command\<close>, one constructor per struct of the file. The source passes
  some commands by value and some by pointer; both tables treat the two alike, and every decoded
  command is a pointer, so the model does not distinguish them. Options structs of the SDK are
  modelled by the fields the plugin reads or sets, and one field for the rest, handed on unread.
\<close>

section \<open>Options and parameters of the SDK\<close>

record activity_options =
  aoTaskQueueName :: string
  aoRest :: bytes

record durationpb =
  seconds :: i64
  nanos :: "32 word"

record retry_policy_pb =
  rpbInitialInterval :: "durationpb option"
  rpbBackoffCoefficient :: float64
  rpbMaximumInterval :: "durationpb option"
  rpbMaximumAttempts :: "32 word"
  rpbNonRetryableErrorTypes :: "string list"

record retry_policy =
  rpInitialInterval :: i64
  rpBackoffCoefficient :: float64
  rpMaximumInterval :: i64
  rpMaximumAttempts :: "32 word"
  rpNonRetryableErrorTypes :: "string list"

record ExecuteLocalActivityOptions =
  ScheduleToCloseTimeout :: i64
  StartToCloseTimeout :: i64
  RetryPolicy :: "retry_policy_pb option"
  Summary :: string

record workflow_options =
  woTaskQueueName :: string
  woWorkflowID :: string
  woNamespace :: string
  woRest :: bytes

record workflow_info =
  TaskQueueName :: string
  WorkflowID :: string
  RunID :: string
  infoRest :: bytes

record activity_info =
  TaskToken :: bytes
  ActivityTypeName :: string
  aiTaskQueue :: string
  ActivityID :: string
  aiRest :: bytes

section \<open>Typed search attributes on the wire\<close>

text \<open>
  \<open>TypedSearchAttributeType\<close> and \<open>TypedSearchAttributeOperation\<close> are strings in the source;
  the constants are the constructors, any other text is \<open>OtherType\<close> or \<open>OtherOperation\<close>.
\<close>

datatype tsa_type =
  BoolType | FloatType | IntType | KeywordType | KeywordListType | StringType | DatetimeType
| OtherType string

datatype tsa_operation = OperationSet | OperationUnset | OtherOperation string

record TypedSearchAttribute =
  tsaType :: tsa_type
  tsaOperation :: tsa_operation
  tsaValue :: goval

type_synonym tsa_map = "(string \<times> TypedSearchAttribute) list"

section \<open>Commands and messages\<close>

datatype command =
    GetWorkerInfo string i64
  | InvokeActivity string activity_info i64
  | InvokeLocalActivity string activity_info
  | StartWorkflow workflow_info i64 tsa_map
  | InvokeSignal string string
  | InvokeQuery string string
  | InvokeUpdate string string string string
  | CancelWorkflow string
  | DestroyWorkflow string
  | GetStackTrace string
  | ExecuteActivity string activity_options
  | ExecuteLocalActivity string ExecuteLocalActivityOptions
  | ExecuteChildWorkflow string workflow_options
  | GetChildWorkflowExecution u64
  | UpsertMemo "(string \<times> goval) list"
  | NewTimer i64 string
  | SideEffect
  | GetVersion string i64 i64
  | CompleteWorkflow
  | UpdateCompleted string
  | UpdateValidated string
  | ContinueAsNew string string i64 i64
  | UpsertWorkflowSearchAttributes "(string \<times> goval) list"
  | UpsertWorkflowTypedSearchAttributes tsa_map
  | SignalExternalWorkflow string string string string bool
  | CancelExternalWorkflow string string string
  | UndefinedResponse string
  | Cancel "u64 list"
  | Panic string

record message =
  ID :: u64
  Command :: "command option"
  Failure :: "failure option"
  Payloads :: payloads
  Header :: header

record Context =
  TaskQueue :: string
  TickTime :: string
  Replay :: bool
  HistoryLen :: i64
  HistorySize :: i64
  RrID :: string
  ContinueAsNewSuggested :: bool

definition IsEmpty :: "Context \<Rightarrow> bool" where
  "IsEmpty ctx \<longleftrightarrow> TaskQueue ctx = []"

definition IsCommand :: "message \<Rightarrow> bool" where
  "IsCommand msg \<longleftrightarrow> Command msg \<noteq> None"

definition isUndefinedResponse :: "message \<Rightarrow> bool" where
  "isUndefinedResponse msg \<longleftrightarrow> (case Command msg of Some (UndefinedResponse _) \<Rightarrow> True | _ \<Rightarrow> False)"

definition emptyMessage :: message where
  "emptyMessage = \<lparr>ID = 0, Command = None, Failure = None, Payloads = None, Header = None\<rparr>"

definition Reset :: "message \<Rightarrow> message" where
  "Reset msg = msg\<lparr>ID := 0, Command := None, Failure := None, Payloads := None, Header := None\<rparr>"

section \<open>Parameters of SDK calls\<close>

record activity_params =
  apOptions :: activity_options
  apActivityType :: string
  apInput :: payloads
  apHeader :: header

definition ActivityParams ::
  "string \<Rightarrow> activity_options \<Rightarrow> workflow_info \<Rightarrow> payloads \<Rightarrow> header \<Rightarrow> activity_params" where
  "ActivityParams name options info pls hdr =
     (let params = \<lparr>apOptions = options, apActivityType = name, apInput = pls, apHeader = hdr\<rparr>
      in if aoTaskQueueName (apOptions params) = []
         then params\<lparr>apOptions := (apOptions params)\<lparr>aoTaskQueueName := TaskQueueName info\<rparr>\<rparr>
         else params)"

definition minute :: i64 where
  "minute = 60000000000"

definition ifNotNil :: "(durationpb \<Rightarrow> i64) \<Rightarrow> durationpb option \<Rightarrow> i64" where
  "ifNotNil asDuration val = (case val of Some d \<Rightarrow> asDuration d | None \<Rightarrow> 0)"

record la_options =
  laScheduleToCloseTimeout :: i64
  laStartToCloseTimeout :: i64
  laRetryPolicy :: "retry_policy option"
  laSummary :: string

record la_params =
  lapOptions :: la_options
  lapActivityFn :: string
  lapActivityType :: string
  lapInputArgs :: "header \<times> payloads"
  lapWorkflowInfo :: workflow_info
  lapScheduledTime :: go_time
  lapHeader :: header

text \<open>
  \<open>asDuration\<close> is \<open>durationpb.Duration.AsDuration\<close>, \<open>fn\<close> names the function value passed on as
  the local activity's body and \<open>now\<close> is the value of \<open>time.Now()\<close>.
\<close>

definition LocalActivityParams ::
  "(durationpb \<Rightarrow> i64) \<Rightarrow> go_time \<Rightarrow> string \<Rightarrow> ExecuteLocalActivityOptions \<Rightarrow> workflow_info \<Rightarrow> string
   \<Rightarrow> payloads \<Rightarrow> header \<Rightarrow> la_params" where
  "LocalActivityParams asDuration now name opts0 info fn pls hdr =
     (let opts1 = (if StartToCloseTimeout opts0 = 0
                   then opts0\<lparr>StartToCloseTimeout := minute\<rparr> else opts0);
          opts = (if ScheduleToCloseTimeout opts1 = 0
                  then opts1\<lparr>ScheduleToCloseTimeout := minute\<rparr> else opts1);
          rp = (case RetryPolicy opts of
                  None \<Rightarrow> None
                | Some p \<Rightarrow> Some \<lparr>rpInitialInterval = ifNotNil asDuration (rpbInitialInterval p),
                                   rpBackoffCoefficient = rpbBackoffCoefficient p,
                                   rpMaximumInterval = ifNotNil asDuration (rpbMaximumInterval p),
                                   rpMaximumAttempts = rpbMaximumAttempts p,
                                   rpNonRetryableErrorTypes = rpbNonRetryableErrorTypes p\<rparr>)
      in \<lparr>lapOptions = \<lparr>laScheduleToCloseTimeout = ScheduleToCloseTimeout opts,
                         laStartToCloseTimeout = StartToCloseTimeout opts,
                         laRetryPolicy = rp, laSummary = Summary opts\<rparr>,
          lapActivityFn = fn, lapActivityType = name, lapInputArgs = (hdr, pls),
          lapWorkflowInfo = info, lapScheduledTime = now, lapHeader = hdr\<rparr>)"

record workflow_params =
  wpOptions :: workflow_options
  wpWorkflowType :: string
  wpInput :: payloads
  wpHeader :: header

definition WorkflowParams ::
  "string \<Rightarrow> workflow_options \<Rightarrow> workflow_info \<Rightarrow> payloads \<Rightarrow> header \<Rightarrow> workflow_params" where
  "WorkflowParams name options info pls hdr =
     (let params = \<lparr>wpOptions = options, wpWorkflowType = name, wpInput = pls, wpHeader = hdr\<rparr>
      in if woTaskQueueName (wpOptions params) = []
         then params\<lparr>wpOptions := (wpOptions params)\<lparr>woTaskQueueName := TaskQueueName info\<rparr>\<rparr>
         else params)"

text \<open>\<open>time.Millisecond * time.Duration(cmd.Milliseconds)\<close>: a 64-bit product, which wraps.\<close>

definition ToDuration :: "i64 \<Rightarrow> i64" where
  "ToDuration ms = 1000000 * ms"

section \<open>The two name tables\<close>

fun CommandName :: "command \<Rightarrow> go_error + string" where
  "CommandName (GetWorkerInfo _ _) = Inr ''GetWorkerInfo''"
| "CommandName (StartWorkflow _ _ _) = Inr ''StartWorkflow''"
| "CommandName (InvokeSignal _ _) = Inr ''InvokeSignal''"
| "CommandName (InvokeQuery _ _) = Inr ''InvokeQuery''"
| "CommandName (DestroyWorkflow _) = Inr ''DestroyWorkflow''"
| "CommandName (CancelWorkflow _) = Inr ''CancelWorkflow''"
| "CommandName (GetStackTrace _) = Inr ''StackTrace''"
| "CommandName (InvokeActivity _ _ _) = Inr ''InvokeActivity''"
| "CommandName (ExecuteActivity _ _) = Inr ''ExecuteActivity''"
| "CommandName (InvokeLocalActivity _ _) = Inr ''InvokeLocalActivity''"
| "CommandName (ExecuteLocalActivity _ _) = Inr ''ExecuteLocalActivity''"
| "CommandName (ExecuteChildWorkflow _ _) = Inr ''ExecuteChildWorkflow''"
| "CommandName (GetChildWorkflowExecution _) = Inr ''GetChildWorkflowExecution''"
| "CommandName (NewTimer _ _) = Inr ''NewTimer''"
| "CommandName (GetVersion _ _ _) = Inr ''GetVersion''"
| "CommandName SideEffect = Inr ''SideEffect''"
| "CommandName CompleteWorkflow = Inr ''CompleteWorkflow''"
| "CommandName (UpdateCompleted _) = Inr ''UpdateCompleted''"
| "CommandName (UpdateValidated _) = Inr ''UpdateValidated''"
| "CommandName (ContinueAsNew _ _ _ _) = Inr ''ContinueAsNew''"
| "CommandName (UpsertWorkflowSearchAttributes _) = Inr ''UpsertWorkflowSearchAttributes''"
| "CommandName (UpsertWorkflowTypedSearchAttributes _) = Inr ''UpsertWorkflowTypedSearchAttributes''"
| "CommandName (SignalExternalWorkflow _ _ _ _ _) = Inr ''SignalExternalWorkflow''"
| "CommandName (CancelExternalWorkflow _ _ _) = Inr ''CancelExternalWorkflow''"
| "CommandName (Cancel _) = Inr ''Cancel''"
| "CommandName (Panic _) = Inr ''Panic''"
| "CommandName (UpsertMemo _) = Inr ''UpsertMemo''"
| "CommandName (InvokeUpdate _ _ _ _) = Inr ''InvokeUpdate''"
| "CommandName (UndefinedResponse _) = Inl (ErrE ''command_name'' (ErrStr ''undefined command type''))"

text \<open>Zero values of the structs nested in a command.\<close>

definition zero_activity_options :: activity_options where
  "zero_activity_options = \<lparr>aoTaskQueueName = [], aoRest = []\<rparr>"

definition zero_la_options :: ExecuteLocalActivityOptions where
  "zero_la_options = \<lparr>ScheduleToCloseTimeout = 0, StartToCloseTimeout = 0, RetryPolicy = None, Summary = []\<rparr>"

definition zero_workflow_options :: workflow_options where
  "zero_workflow_options = \<lparr>woTaskQueueName = [], woWorkflowID = [], woNamespace = [], woRest = []\<rparr>"

definition zero_workflow_info :: workflow_info where
  "zero_workflow_info = \<lparr>TaskQueueName = [], WorkflowID = [], RunID = [], infoRest = []\<rparr>"

definition zero_activity_info :: activity_info where
  "zero_activity_info = \<lparr>TaskToken = [], ActivityTypeName = [], aiTaskQueue = [], ActivityID = [], aiRest = []\<rparr>"

definition InitCommand :: "string \<Rightarrow> go_error + command" where
  "InitCommand name =
     (if name = ''GetWorkerInfo'' then Inr (GetWorkerInfo [] 0)
      else if name = ''StartWorkflow'' then Inr (StartWorkflow zero_workflow_info 0 [])
      else if name = ''InvokeSignal'' then Inr (InvokeSignal [] [])
      else if name = ''InvokeQuery'' then Inr (InvokeQuery [] [])
      else if name = ''DestroyWorkflow'' then Inr (DestroyWorkflow [])
      else if name = ''CancelWorkflow'' then Inr (CancelWorkflow [])
      else if name = ''StackTrace'' then Inr (GetStackTrace [])
      else if name = ''InvokeActivity'' then Inr (InvokeActivity [] zero_activity_info 0)
      else if name = ''ExecuteActivity'' then Inr (ExecuteActivity [] zero_activity_options)
      else if name = ''ExecuteLocalActivity'' then Inr (ExecuteLocalActivity [] zero_la_options)
      else if name = ''ExecuteChildWorkflow'' then Inr (ExecuteChildWorkflow [] zero_workflow_options)
      else if name = ''GetChildWorkflowExecution'' then Inr (GetChildWorkflowExecution 0)
      else if name = ''NewTimer'' then Inr (NewTimer 0 [])
      else if name = ''GetVersion'' then Inr (GetVersion [] 0 0)
      else if name = ''SideEffect'' then Inr SideEffect
      else if name = ''CompleteWorkflow'' then Inr CompleteWorkflow
      else if name = ''UpdateCompleted'' then Inr (UpdateCompleted [])
      else if name = ''UpdateValidated'' then Inr (UpdateValidated [])
      else if name = ''ContinueAsNew'' then Inr (ContinueAsNew [] [] 0 0)
      else if name = ''UpsertWorkflowSearchAttributes'' then Inr (UpsertWorkflowSearchAttributes [])
      else if name = ''UpsertWorkflowTypedSearchAttributes'' then Inr (UpsertWorkflowTypedSearchAttributes [])
      else if name = ''UpsertMemo'' then Inr (UpsertMemo [])
      else if name = ''SignalExternalWorkflow'' then Inr (SignalExternalWorkflow [] [] [] [] False)
      else if name = ''CancelExternalWorkflow'' then Inr (CancelExternalWorkflow [] [] [])
      else if name = ''Cancel'' then Inr (Cancel [])
      else if name = ''Panic'' then Inr (Panic [])
      else if name = ''UndefinedResponse'' then Inr (UndefinedResponse [])
      else if name = ''InvokeUpdate'' then Inr (InvokeUpdate [] [] [] [])
      else Inl (ErrE ''init_command'' (ErrStr
             (''undefined command name: '' @ name @ '', possible outdated RoadRunner version''))))"

section \<open>The tables are inverse to each other\<close>

text \<open>
  \<open>zero_of c\<close> is the zero value of the struct of \<open>c\<close>, the value \<open>InitCommand\<close> allocates before
  the options are unmarshalled into it.
\<close>

fun zero_of :: "command \<Rightarrow> command" where
  "zero_of (GetWorkerInfo _ _) = GetWorkerInfo [] 0"
| "zero_of (StartWorkflow _ _ _) = StartWorkflow zero_workflow_info 0 []"
| "zero_of (InvokeSignal _ _) = InvokeSignal [] []"
| "zero_of (InvokeQuery _ _) = InvokeQuery [] []"
| "zero_of (DestroyWorkflow _) = DestroyWorkflow []"
| "zero_of (CancelWorkflow _) = CancelWorkflow []"
| "zero_of (GetStackTrace _) = GetStackTrace []"
| "zero_of (InvokeActivity _ _ _) = InvokeActivity [] zero_activity_info 0"
| "zero_of (ExecuteActivity _ _) = ExecuteActivity [] zero_activity_options"
| "zero_of (InvokeLocalActivity _ _) = InvokeLocalActivity [] zero_activity_info"
| "zero_of (ExecuteLocalActivity _ _) = ExecuteLocalActivity [] zero_la_options"
| "zero_of (ExecuteChildWorkflow _ _) = ExecuteChildWorkflow [] zero_workflow_options"
| "zero_of (GetChildWorkflowExecution _) = GetChildWorkflowExecution 0"
| "zero_of (NewTimer _ _) = NewTimer 0 []"
| "zero_of (GetVersion _ _ _) = GetVersion [] 0 0"
| "zero_of SideEffect = SideEffect"
| "zero_of CompleteWorkflow = CompleteWorkflow"
| "zero_of (UpdateCompleted _) = UpdateCompleted []"
| "zero_of (UpdateValidated _) = UpdateValidated []"
| "zero_of (ContinueAsNew _ _ _ _) = ContinueAsNew [] [] 0 0"
| "zero_of (UpsertWorkflowSearchAttributes _) = UpsertWorkflowSearchAttributes []"
| "zero_of (UpsertWorkflowTypedSearchAttributes _) = UpsertWorkflowTypedSearchAttributes []"
| "zero_of (SignalExternalWorkflow _ _ _ _ _) = SignalExternalWorkflow [] [] [] [] False"
| "zero_of (CancelExternalWorkflow _ _ _) = CancelExternalWorkflow [] [] []"
| "zero_of (Cancel _) = Cancel []"
| "zero_of (Panic _) = Panic []"
| "zero_of (UpsertMemo _) = UpsertMemo []"
| "zero_of (InvokeUpdate _ _ _ _) = InvokeUpdate [] [] [] []"
| "zero_of (UndefinedResponse _) = UndefinedResponse []"

text \<open>The commands both tables know: every one but \<open>InvokeLocalActivity\<close> and \<open>UndefinedResponse\<close>.\<close>

fun in_both_tables :: "command \<Rightarrow> bool" where
  "in_both_tables (InvokeLocalActivity _ _) = False"
| "in_both_tables (UndefinedResponse _) = False"
| "in_both_tables _ = True"

text \<open>
  The contract the codec relies on: for the commands in \<open>both\<close>, allocating by the printed name
  gives the zero value of the same struct, and no printed name is empty (an empty name on the
  wire means that the message is a response).
\<close>

locale command_table =
  fixes name :: "'c \<Rightarrow> go_error + string"
    and init :: "string \<Rightarrow> go_error + 'c"
    and zero :: "'c \<Rightarrow> 'c"
    and both :: "'c \<Rightarrow> bool"
  assumes name_total: "both c \<Longrightarrow> \<exists>n. name c = Inr n"
    and init_name: "both c \<Longrightarrow> name c = Inr n \<Longrightarrow> init n = Inr (zero c)"
    and name_nonempty: "name c = Inr n \<Longrightarrow> n \<noteq> []"
    and zero_both: "both (zero c) = both c"
    and name_zero: "name (zero c) = name c"
    and zero_zero: "zero (zero c) = zero c"
begin

lemma same_name_same_struct:
  "both c \<Longrightarrow> both d \<Longrightarrow> name c = name d \<Longrightarrow> zero c = zero d"
  using name_total [of c] init_name [of c] init_name [of d] by force

lemma init_of_zero: "both c \<Longrightarrow> \<exists>n. name c = Inr n \<and> n \<noteq> [] \<and> init n = Inr (zero c)"
  using name_total [of c] init_name [of c] name_nonempty [of c] by blast

end

lemma CommandName_nonempty: "CommandName c = Inr n \<Longrightarrow> n \<noteq> []"
  by (cases c) auto

lemma InitCommand_CommandName:
  "in_both_tables c \<Longrightarrow> CommandName c = Inr n \<Longrightarrow> InitCommand n = Inr (zero_of c)"
proof -
  assume "in_both_tables c" "CommandName c = Inr n"
  moreover have "in_both_tables c \<Longrightarrow> InitCommand (projr (CommandName c)) = Inr (zero_of c)"
    by (cases c; simp add: InitCommand_def)
  ultimately show ?thesis by simp
qed

interpretation tables: command_table CommandName InitCommand zero_of in_both_tables
proof unfold_locales
  fix c
  show "in_both_tables c \<Longrightarrow> \<exists>n. CommandName c = Inr n" by (cases c) auto
  show "in_both_tables (zero_of c) = in_both_tables c" by (cases c) auto
  show "CommandName (zero_of c) = CommandName c" by (cases c) auto
  show "zero_of (zero_of c) = zero_of c" by (cases c) auto
qed (auto simp: InitCommand_CommandName dest: CommandName_nonempty)

section \<open>Properties\<close>

text \<open>
  C24: the two tables fit together. A command's wire name allocates the zero value of the same struct
  for every command but \<open>InvokeLocalActivity\<close>, which \<open>InitCommand\<close> does not know, and
  \<open>UndefinedResponse\<close>, which \<open>CommandName\<close> does not know.
\<close>

theorem command_tables_inverse:
  "(\<exists>n. CommandName c = Inr n \<and> InitCommand n = Inr (zero_of c)) \<longleftrightarrow>
     \<not> (\<exists>name info. c = InvokeLocalActivity name info) \<and> \<not> (\<exists>txt. c = UndefinedResponse txt)"
proof (cases "in_both_tables c")
  case True
  then have "\<not> (\<exists>name info. c = InvokeLocalActivity name info) \<and> \<not> (\<exists>txt. c = UndefinedResponse txt)"
    by auto
  then show ?thesis using tables.init_of_zero [OF True] by blast
next
  case False
  then show ?thesis by (cases c) (simp_all add: InitCommand_def)
qed

text \<open>
  C25: the duration of a timer is the given number of milliseconds, in nanoseconds, exactly for numbers
  between -9223372036854 and 9223372036854; outside of this range the product wraps around.
\<close>

theorem ToDuration_exact:
  "sint (ToDuration ms) = 1000000 * sint ms \<longleftrightarrow> -9223372036854 \<le> sint ms \<and> sint ms \<le> 9223372036854"
proof -
  have wrap: "sint (ToDuration ms) = (1000000 * sint ms + 2 ^ 63) mod 2 ^ 64 - 2 ^ 63"
    by (simp add: ToDuration_def sint_word_ariths signed_take_bit_eq_take_bit_shift take_bit_eq_mod
        mod_simps algebra_simps)
  show ?thesis
  proof
    assume eq: "sint (ToDuration ms) = 1000000 * sint ms"
    have "- (2 ^ 63) \<le> sint (ToDuration ms)" "sint (ToDuration ms) < 2 ^ 63"
      using sint_range64 by auto
    then show "-9223372036854 \<le> sint ms \<and> sint ms \<le> 9223372036854" using eq by simp
  next
    assume "-9223372036854 \<le> sint ms \<and> sint ms \<le> 9223372036854"
    then have "0 \<le> 1000000 * sint ms + 2 ^ 63" "1000000 * sint ms + 2 ^ 63 < 2 ^ 64" by simp_all
    then show "sint (ToDuration ms) = 1000000 * sint ms" using wrap by simp
  qed
qed

text \<open>
  A local activity always has timeouts: each is the one of the command, or a minute if that is
  zero; and its retry policy is the one of the command.
\<close>

lemma local_activity_timeouts:
  "let o' = lapOptions (LocalActivityParams asDuration now name opts info fn pls hdr)
   in laStartToCloseTimeout o' \<noteq> 0 \<and> laScheduleToCloseTimeout o' \<noteq> 0 \<and>
      laStartToCloseTimeout o' = (if StartToCloseTimeout opts = 0 then minute else StartToCloseTimeout opts) \<and>
      laScheduleToCloseTimeout o' = (if ScheduleToCloseTimeout opts = 0 then minute else ScheduleToCloseTimeout opts) \<and>
      map_option rpMaximumAttempts (laRetryPolicy o') = map_option rpbMaximumAttempts (RetryPolicy opts)"
  by (simp add: LocalActivityParams_def Let_def minute_def split: option.split)

end
