(* ===== verification/Codec.thy ===== *)
theory Codec
  imports Protocol
begin

unbundle bit_operations_syntax

text \<open>
  \<open>internal/codec/proto/proto.go\<close> and the \<open>Codec\<close> interface of \<open>api/interfaces.go\<close>: packing a
  batch of messages and the batch context into the payload sent to a worker, and parsing the
  worker's payload into messages.

  The serialisers are libraries: \<open>goccy/go-json\<close>, \<open>protobuf\<close> and the generated frame type of
  \<open>roadrunner-server/api\<close>. They are the fields of the record \<open>wire\<close>, an argument of every
  definition. \<open>unjson_command z bs\<close> is \<open>json.Unmarshal(bs, &msg.Command)\<close> where the interface
  holds a pointer to the freshly allocated struct \<open>z\<close>; unmarshalling the JSON text \<open>null\<close> sets
  the interface to nil, hence the option. A frame is the list of its messages.
\<close>

section \<open>Wire types and the serialisers\<close>

record proto_message =
  Id :: u64
  pmCommand :: string
  Options :: bytes
  pmPayloads :: payloads
  pmFailure :: "failure option"
  pmHeader :: header
  HistoryLength :: i64
  RunId :: string
  pmTaskQueue :: string
  pmTickTime :: string
  pmReplay :: bool
  pmContinueAsNewSuggested :: bool
  pmHistorySize :: i64

definition new_proto_message :: proto_message where
  "new_proto_message =
     \<lparr>Id = 0, pmCommand = [], Options = [], pmPayloads = None, pmFailure = None, pmHeader = None,
      HistoryLength = 0, RunId = [], pmTaskQueue = [], pmTickTime = [], pmReplay = False,
      pmContinueAsNewSuggested = False, pmHistorySize = 0\<rparr>"

text \<open>\<open>payload.Payload\<close> of the worker pool.\<close>

record pool_payload =
  plCodec :: u8
  plContext :: bytes
  plBody :: bytes
  plFlags :: u8

definition new_pool_payload :: pool_payload where
  "new_pool_payload = \<lparr>plCodec = 0, plContext = [], plBody = [], plFlags = 0\<rparr>"

record wire =
  json_context :: "Context \<Rightarrow> go_error + bytes"
  json_command :: "command \<Rightarrow> go_error + bytes"
  unjson_command :: "command \<Rightarrow> bytes \<Rightarrow> go_error + command option"
  proto_marshal :: "proto_message list \<Rightarrow> go_error + bytes"
  proto_unmarshal :: "bytes \<Rightarrow> go_error + proto_message list"

section \<open>Packing\<close>

definition packMessage :: "'z wire_scheme \<Rightarrow> message \<Rightarrow> Context \<Rightarrow> go_error + proto_message" where
  "packMessage W msg ctx =
     (let pm = new_proto_message\<lparr>Id := ID msg, pmPayloads := Payloads msg, pmFailure := Failure msg,
                 pmHeader := Header msg, HistoryLength := HistoryLen ctx, RunId := RrID ctx,
                 pmTaskQueue := TaskQueue ctx, pmTickTime := TickTime ctx, pmReplay := Replay ctx,
                 pmContinueAsNewSuggested := ContinueAsNewSuggested ctx,
                 pmHistorySize := HistorySize ctx\<rparr>
      in case Command msg of
           None \<Rightarrow> Inr pm
         | Some cmd \<Rightarrow>
             (case CommandName cmd of
                Inl e \<Rightarrow> Inl e
              | Inr name \<Rightarrow>
                  (case json_command W cmd of
                     Inl e \<Rightarrow> Inl e
                   | Inr opts \<Rightarrow> Inr (pm\<lparr>pmCommand := name, Options := opts\<rparr>))))"

text \<open>
  \<open>Encode\<close>: the payload argument is an in-out parameter. With no message nothing happens; an
  error leaves in the payload what was written before it. The assignment of the text \<open>null\<close> for
  an empty context is overwritten by the marshalled context in the next statement, as in the
  source.
\<close>

definition Encode ::
  "'z wire_scheme \<Rightarrow> Context \<Rightarrow> pool_payload \<Rightarrow> message list \<Rightarrow> go_error option \<times> pool_payload" where
  "Encode W ctx p msgs =
     (if msgs = [] then (None, p)
      else case traverse (\<lambda>m. packMessage W m ctx) msgs of
        Inl e \<Rightarrow> (Some e, p)
      | Inr request \<Rightarrow>
          (let p1 = (if IsEmpty ctx then p\<lparr>plContext := ''null''\<rparr> else p)
           in case json_context W ctx of
                Inl e \<Rightarrow> (Some (ErrE ''encode_context'' e), p1\<lparr>plContext := []\<rparr>)
              | Inr cbytes \<Rightarrow>
                  (let p2 = p1\<lparr>plContext := cbytes\<rparr>
                   in case proto_marshal W request of
                        Inl e \<Rightarrow> (Some (ErrE ''encode_payload'' e), p2\<lparr>plBody := []\<rparr>)
                      | Inr body \<Rightarrow> (None, p2\<lparr>plBody := body\<rparr>))))"

section \<open>Parsing\<close>

definition parseMessage :: "'z wire_scheme \<Rightarrow> proto_message \<Rightarrow> go_error + message" where
  "parseMessage W frame =
     (let msg = \<lparr>ID = Id frame, Command = None, Failure = pmFailure frame,
                 Payloads = pmPayloads frame, Header = pmHeader frame\<rparr>
      in if pmCommand frame = [] then Inr msg
         else case InitCommand (pmCommand frame) of
                Inl e \<Rightarrow> Inl (ErrE ''proto_codec_parse_message'' e)
              | Inr z \<Rightarrow>
                  (case unjson_command W z (Options frame) of
                     Inl e \<Rightarrow> Inl (ErrE ''proto_codec_parse_message'' e)
                   | Inr cmd \<Rightarrow> Inr (msg\<lparr>Command := cmd\<rparr>)))"

text \<open>
  \<open>Decode\<close> appends to the slice it is given; every caller passes an empty one and drops it on
  an error. The result is the list of parsed messages. A payload with no body is no message.
\<close>

definition Decode :: "'z wire_scheme \<Rightarrow> pool_payload \<Rightarrow> go_error + message list" where
  "Decode W pld =
     (if plBody pld = [] then Inr []
      else case proto_unmarshal W (plBody pld) of
             Inl e \<Rightarrow> Inl (ErrE ''codec_parse_response'' e)
           | Inr response \<Rightarrow> traverse (parseMessage W) response)"

text \<open>
  \<open>worker_info.go\<close>: what a worker announces. \<open>worker.Options\<close> of the SDK is represented by the
  two fields the plugin sets and the rest.
\<close>

record worker_options =
  Identity :: string
  WorkerStopTimeout :: i64
  Interceptors :: "string list"
  woptRest :: bytes

record workflow_desc =
  wdName :: string
  Queries :: "string list"
  Signals :: "string list"
  VersioningBehavior :: i64

record activity_desc =
  adName :: string

record WorkerInfo =
  wiTaskQueue :: string
  wiOptions :: worker_options
  PhpSdkVersion :: string
  Flags :: "(string \<times> string) list"
  Workflows :: "workflow_desc list"
  Activities :: "activity_desc list"

text \<open>\<open>from_payload\<close> is the data converter's \<open>FromPayload\<close> into a fresh \<open>WorkerInfo\<close>.\<close>

definition DecodeWorkerInfo ::
  "'z wire_scheme \<Rightarrow> (payload \<Rightarrow> go_error + WorkerInfo) \<Rightarrow> pool_payload \<Rightarrow> go_error + WorkerInfo list" where
  "DecodeWorkerInfo W from_payload p =
     (case Decode W p of
        Inl e \<Rightarrow> Inl e
      | Inr [info] \<Rightarrow>
          (if ID info \<noteq> 0
           then Inl (ErrE ''workflow_fetch_wf_info'' (ErrStr
                  (''fetch confirmation missing, need ID: 0, got: '' @ itoa_nat (unat (ID info)))))
           else traverse (\<lambda>pl. wrapE ''workflow_fetch_wf_info'' (from_payload pl))
                  (case Payloads info of None \<Rightarrow> [] | Some pls \<Rightarrow> pls))
      | Inr _ \<Rightarrow> Inl (ErrE ''workflow_fetch_wf_info'' (ErrStr ''unable to read worker info'')))"

section \<open>Encoding then decoding\<close>

text \<open>
  What the serialisers promise: unmarshalling what was marshalled gives the value back, and a
  non-empty frame has a non-empty encoding.
\<close>

definition wire_ok :: "'z wire_scheme \<Rightarrow> bool" where
  "wire_ok W \<longleftrightarrow>
     (\<forall>c bs. json_command W c = Inr bs \<longrightarrow> unjson_command W (zero_of c) bs = Inr (Some c)) \<and>
     (\<forall>fr bs. proto_marshal W fr = Inr bs \<longrightarrow> proto_unmarshal W bs = Inr fr) \<and>
     (\<forall>fr bs. proto_marshal W fr = Inr bs \<longrightarrow> fr \<noteq> [] \<longrightarrow> bs \<noteq> [])"

text \<open>A message that the receiving side can read: a response, or a command of both tables.\<close>

definition readable :: "message \<Rightarrow> bool" where
  "readable msg \<longleftrightarrow> (case Command msg of None \<Rightarrow> True | Some c \<Rightarrow> in_both_tables c)"

lemma parseMessage_packMessage:
  assumes "wire_ok W" "readable msg" "packMessage W msg ctx = Inr pm"
  shows "parseMessage W pm = Inr msg"
proof (cases "Command msg")
  case None
  with assms show ?thesis
    by (auto simp: packMessage_def parseMessage_def new_proto_message_def Let_def)
next
  case (Some c)
  with assms(2) have both: "in_both_tables c" by (simp add: readable_def)
  from Some assms(3) obtain n bs where n: "CommandName c = Inr n" and bs: "json_command W c = Inr bs"
    and pm: "pmCommand pm = n" "Options pm = bs" "Id pm = ID msg" "pmFailure pm = Failure msg"
      "pmPayloads pm = Payloads msg" "pmHeader pm = Header msg"
    by (auto simp: packMessage_def Let_def split: sum.splits)
  have "n \<noteq> []" "InitCommand n = Inr (zero_of c)"
    using tables.init_of_zero [OF both] n by auto
  moreover have "unjson_command W (zero_of c) bs = Inr (Some c)"
    using assms(1) bs by (simp add: wire_ok_def)
  ultimately show ?thesis using pm Some by (simp add: parseMessage_def Let_def)
qed

lemma Encode_success:
  assumes "Encode W ctx p msgs = (None, q)" "msgs \<noteq> []"
  obtains fr cb body where "traverse (\<lambda>m. packMessage W m ctx) msgs = Inr fr"
    "json_context W ctx = Inr cb" "proto_marshal W fr = Inr body"
    "q = p\<lparr>plContext := cb, plBody := body\<rparr>"
  using assms by (auto simp: Encode_def Let_def split: sum.splits if_splits)

lemma Decode_Encode_readable:
  assumes "wire_ok W" "\<forall>m \<in> set msgs. readable m" "Encode W ctx p msgs = (None, q)" "msgs \<noteq> []"
  shows "Decode W q = Inr msgs"
proof -
  obtain fr cb body where fr: "traverse (\<lambda>m. packMessage W m ctx) msgs = Inr fr"
    and body: "proto_marshal W fr = Inr body" and q: "q = p\<lparr>plContext := cb, plBody := body\<rparr>"
    using Encode_success [OF assms(3,4)] by blast
  have "fr \<noteq> []" using traverse_length [OF fr] assms(4) by auto
  then have "body \<noteq> []" "proto_unmarshal W body = Inr fr"
    using assms(1) body by (auto simp: wire_ok_def)
  moreover have "traverse (parseMessage W) fr = Inr msgs"
    using traverse_roundtrip [OF fr] parseMessage_packMessage [OF assms(1)] assms(2) by blast
  ultimately show ?thesis using q by (simp add: Decode_def)
qed

section \<open>The codec interface\<close>

text \<open>
  What the pools rely on when they talk to a worker through \<open>api.Codec\<close>: an empty batch leaves the
  payload alone, a batch of readable messages that was encoded is decoded unchanged and in order,
  and encoding writes nothing but the context and the body.
\<close>

locale api_codec =
  fixes encode :: "Context \<Rightarrow> pool_payload \<Rightarrow> message list \<Rightarrow> go_error option \<times> pool_payload"
    and decode :: "pool_payload \<Rightarrow> go_error + message list"
    and ok :: bool
  assumes encode_nil: "encode ctx p [] = (None, p)"
    and decode_encode: "ok \<Longrightarrow> \<forall>m \<in> set msgs. readable m \<Longrightarrow> encode ctx p msgs = (None, q) \<Longrightarrow>
          msgs \<noteq> [] \<Longrightarrow> decode q = Inr msgs"
    and encode_frame: "plFlags (snd (encode ctx p msgs)) = plFlags p"
      "plCodec (snd (encode ctx p msgs)) = plCodec p"
    and decode_no_body: "plBody p = [] \<Longrightarrow> decode p = Inr []"
begin

lemma encode_injective:
  assumes "ok" "\<forall>m \<in> set ms. readable m" "\<forall>m \<in> set ns. readable m" "ms \<noteq> []" "ns \<noteq> []"
    and "encode ctx p ms = (None, q)" "encode ctx' p' ns = (None, q)"
  shows "ms = ns"
proof -
  have "decode q = Inr ms" using assms(1,2,6,4) by (rule decode_encode)
  moreover have "decode q = Inr ns" using assms(1,3,7,5) by (rule decode_encode)
  ultimately show ?thesis by simp
qed

end

interpretation proto: api_codec "Encode W" "Decode W" "wire_ok W" for W :: "'z wire_scheme"
proof unfold_locales
  show "plFlags (snd (Encode W ctx p msgs)) = plFlags p" "plCodec (snd (Encode W ctx p msgs)) = plCodec p"
    for ctx p msgs
    by (auto simp: Encode_def Let_def split: sum.splits)
  show "Encode W ctx p [] = (None, p)" for ctx p by (simp add: Encode_def)
  show "plBody p = [] \<Longrightarrow> Decode W p = Inr []" for p by (simp add: Decode_def)
qed (rule Decode_Encode_readable)

section \<open>Serialisers that read what they wrote\<close>

text \<open>
  Concrete serialisers that write the frames and commands of a table, fail on all others, and read
  back what they wrote.
\<close>

definition table_wire :: "(proto_message list \<times> bytes) list \<Rightarrow> (command \<times> bytes) list \<Rightarrow> 'z wire_scheme \<Rightarrow> 'z wire_scheme" where
  "table_wire frames cmds W =
     W\<lparr>json_context := (\<lambda>_. Inr ''context''),
       json_command := (\<lambda>c. case map_of cmds c of Some bs \<Rightarrow> Inr bs | None \<Rightarrow> Inl (ErrExt ''json'')),
       unjson_command := (\<lambda>z bs. case map_of (map prod.swap cmds) bs of
                                   Some c \<Rightarrow> Inr (Some c) | None \<Rightarrow> Inl (ErrExt ''json'')),
       proto_marshal := (\<lambda>fr. case map_of frames fr of Some bs \<Rightarrow> Inr bs | None \<Rightarrow> Inl (ErrExt ''proto'')),
       proto_unmarshal := (\<lambda>bs. case map_of (map prod.swap frames) bs of
                                  Some fr \<Rightarrow> Inr fr | None \<Rightarrow> Inl (ErrExt ''proto''))\<rparr>"

lemma map_of_swap:
  "distinct (map snd xs) \<Longrightarrow> map_of xs a = Some b \<Longrightarrow> map_of (map prod.swap xs) b = Some a"
  by (intro map_of_is_SomeI) (auto simp: comp_def dest: map_of_SomeD)

lemma table_wire_ok:
  assumes "distinct (map snd frames)" "distinct (map snd cmds)" "[] \<notin> set (map snd frames)"
  shows "wire_ok (table_wire frames cmds W)"
  using assms
  by (force simp: wire_ok_def table_wire_def map_of_swap split: option.splits dest: map_of_SomeD)

section \<open>Properties\<close>


definition sample_wire :: wire where
  "sample_wire =
     table_wire
       [([new_proto_message\<lparr>Id := 4, pmCommand := ''NewTimer'', Options := ''{ms:5}'', pmTaskQueue := ''default''\<rparr>,
          new_proto_message\<lparr>Id := 2, pmFailure := Some \<lparr>Message = ''no'', failureRest = []\<rparr>, pmTaskQueue := ''default''\<rparr>],
         ''frame'')]
       [(NewTimer 5 [], ''{ms:5}'')]
       \<lparr>json_context = (\<lambda>_. Inr []), json_command = (\<lambda>_. Inr []), unjson_command = (\<lambda>_ _. Inr None),
        proto_marshal = (\<lambda>_. Inr []), proto_unmarshal = (\<lambda>_. Inr [])\<rparr>"

definition sample_context :: "string \<Rightarrow> Context" where
  "sample_context tq = \<lparr>TaskQueue = tq, TickTime = [], Replay = False, HistoryLen = 0, HistorySize = 0, RrID = [],
     ContinueAsNewSuggested = False\<rparr>"

definition sample_batch :: "message list" where
  "sample_batch = [emptyMessage\<lparr>ID := 4, Command := Some (NewTimer 5 [])\<rparr>,
                   emptyMessage\<lparr>ID := 2, Failure := Some \<lparr>Message = ''no'', failureRest = []\<rparr>\<rparr>]"


text \<open>
  The context of an encoded batch is always the marshalled context: the literal \<open>null\<close> that \<open>Encode\<close>
  first writes for an empty context never reaches the payload.
\<close>

lemma Encode_context:
  assumes "Encode W ctx p msgs = (None, q)" "msgs \<noteq> []"
  shows "json_context W ctx = Inr (plContext q)"
  using assms by (cases rule: Encode_success) simp

text \<open>
  The descriptions of the workers are returned exactly when the worker's answer is a single message
  with id 0 whose payloads all convert.
\<close>

lemma DecodeWorkerInfo_iff:
  "DecodeWorkerInfo W conv p = Inr wis \<longleftrightarrow>
     (\<exists>m. Decode W p = Inr [m] \<and> ID m = 0 \<and>
          list_all2 (\<lambda>pl wi. conv pl = Inr wi) (case Payloads m of None \<Rightarrow> [] | Some pls \<Rightarrow> pls) wis)"
  by (auto simp: DecodeWorkerInfo_def traverse_Inr_iff split: sum.splits list.splits)

end
