(* ===== verification/Pool_Exchange.thy ===== *)
theory Pool_Exchange
  imports Codec
begin

unbundle bit_operations_syntax

text \<open>
  The exchange with a RoadRunner worker pool, as \<open>flushQueue\<close>, \<open>runCommand\<close>, the activity pool
  and \<open>WorkerInfo\<close> perform it. The pool and the PHP worker behind it are not part of the
  repository: \<open>exec h\<close> is what \<open>Pool.Exec\<close> does with the last payload of the history \<open>h\<close> of
  payloads this component has sent, so a worker may answer differently each time. \<open>Exec\<close> fails,
  or hands over a result channel that is empty (the \<open>default\<close> branch of the source's \<open>select\<close>) or
  holds one response with an error or a payload. \<open>stream_flag\<close> is goridge's \<open>frame.STREAM\<close> bit.
\<close>

datatype exec_outcome =
    ExecError go_error
  | NoResponse
  | Response "go_error option" pool_payload

record host = wire +
  exec :: "pool_payload list \<Rightarrow> exec_outcome"
  stream_flag :: u8
  queue_size :: "nat \<Rightarrow> u64"

text \<open>
  The \<open>select\<close> on the result channel: \<open>op\<close> is the caller's operation name and \<open>emptymsg\<close> the text of
  its error for an empty channel.
\<close>

definition receive :: "'z host_scheme \<Rightarrow> string \<Rightarrow> string \<Rightarrow> exec_outcome \<Rightarrow> go_error + pool_payload" where
  "receive W op emptymsg out =
     (case out of
        ExecError e \<Rightarrow> Inl e
      | NoResponse \<Rightarrow> Inl (ErrE op (ErrStr emptymsg))
      | Response (Some e) _ \<Rightarrow> Inl (ErrE op e)
      | Response None r \<Rightarrow>
          (if plFlags r AND stream_flag W \<noteq> 0
           then Inl (ErrE op (ErrStr ''streaming is not supported'')) else Inr r))"

lemma receive_Inr_iff:
  "receive W op emptymsg out = Inr r \<longleftrightarrow> out = Response None r \<and> plFlags r AND stream_flag W = 0"
  by (auto simp: receive_def split: exec_outcome.splits option.splits if_splits)

text \<open>The messages in a worker's answer; an answer that cannot be read has none.\<close>

definition answered :: "'z host_scheme \<Rightarrow> exec_outcome \<Rightarrow> message list" where
  "answered W out =
     (case out of
        Response None r \<Rightarrow> (case Decode W r of Inr ms \<Rightarrow> ms | Inl _ \<Rightarrow> [])
      | _ \<Rightarrow> [])"

lemma answered_receive:
  "receive W op emptymsg out = Inr r \<Longrightarrow> Decode W r = Inr ms \<Longrightarrow> answered W out = ms"
  by (auto simp: receive_Inr_iff answered_def)

end
