(* ===== verification/Message_Queue.thy ===== *)
theory Message_Queue
  imports Protocol
begin

text \<open>
  \<open>queue/queue.go\<close>: the queue of messages waiting to be sent to the worker, and the package
  variable \<open>seqID\<close> of \<open>aggregatedpool/workflow.go\<close> from which the ids of host commands are drawn.

  The queue's \<open>SeqID\<close> field is a closure over a counter: here a function on the counter state,
  threaded through \<open>PushCommand\<close> and \<open>AllocateMessage\<close>. The mutex makes each operation atomic;
  concurrent pushes are sequences of these operations.

  The second part keeps the backing array of the Go slice explicit. \<open>Flush\<close> reslices to length
  zero without a new array, so a slice obtained from \<open>Messages\<close> shares its cells with later
  pushes. The lemmas show that the slice implementation refines the list of messages, how long
  a slice returned by \<open>Messages\<close> stays valid, and that ids never repeat below the 64-bit bound.
\<close>

section \<open>The queue as a list\<close>

record MessageQueue =
  queue :: "message list"

definition seq :: "u64 \<Rightarrow> u64 \<times> u64" where
  "seq n = (n + 1, n + 1)"

definition NewMessageQueue :: MessageQueue where
  "NewMessageQueue = \<lparr>queue = []\<rparr>"

definition Flush :: "MessageQueue \<Rightarrow> MessageQueue" where
  "Flush mq = mq\<lparr>queue := []\<rparr>"

definition enqueue :: "message \<Rightarrow> MessageQueue \<Rightarrow> MessageQueue" where
  "enqueue m mq = mq\<lparr>queue := queue mq @ [m]\<rparr>"

definition AllocateMessage ::
  "('s \<Rightarrow> u64 \<times> 's) \<Rightarrow> command \<Rightarrow> payloads \<Rightarrow> header \<Rightarrow> message \<Rightarrow> 's \<Rightarrow> message \<times> 's" where
  "AllocateMessage SeqID cmd pls hdr m s =
     (let (i, s') = SeqID s
      in (m\<lparr>ID := i, Command := Some cmd, Payloads := pls, Header := hdr\<rparr>, s'))"

definition PushCommand ::
  "('s \<Rightarrow> u64 \<times> 's) \<Rightarrow> command \<Rightarrow> payloads \<Rightarrow> header \<Rightarrow> MessageQueue \<times> 's \<Rightarrow> MessageQueue \<times> 's" where
  "PushCommand SeqID cmd pls hdr mqs =
     (let (mq, s) = mqs; (i, s') = SeqID s
      in (enqueue \<lparr>ID = i, Command = Some cmd, Failure = None, Payloads = pls, Header = hdr\<rparr> mq, s'))"

definition PushResponse :: "u64 \<Rightarrow> payloads \<Rightarrow> MessageQueue \<Rightarrow> MessageQueue" where
  "PushResponse i pls = enqueue \<lparr>ID = i, Command = None, Failure = None, Payloads = pls, Header = None\<rparr>"

definition PushError :: "u64 \<Rightarrow> failure \<Rightarrow> MessageQueue \<Rightarrow> MessageQueue" where
  "PushError i f = enqueue \<lparr>ID = i, Command = None, Failure = Some f, Payloads = None, Header = None\<rparr>"

definition Messages :: "MessageQueue \<Rightarrow> message list" where
  "Messages mq = queue mq"

section \<open>The queue interface\<close>

locale message_queue =
  fixes messages :: "'q \<Rightarrow> message list"
    and push :: "message \<Rightarrow> 'q \<Rightarrow> 'q"
    and flush :: "'q \<Rightarrow> 'q"
    and inv :: "'q \<Rightarrow> bool"
  assumes messages_push: "inv q \<Longrightarrow> messages (push m q) = messages q @ [m]"
    and messages_flush: "inv q \<Longrightarrow> messages (flush q) = []"
    and inv_push: "inv q \<Longrightarrow> inv (push m q)"
    and inv_flush: "inv q \<Longrightarrow> inv (flush q)"
begin

lemma pushes: "inv q \<Longrightarrow> inv (fold push ms q) \<and> messages (fold push ms q) = messages q @ ms"
  by (induction ms arbitrary: q) (auto simp: inv_push messages_push)

lemma pushes_after_flush: "inv q \<Longrightarrow> messages (fold push ms (flush q)) = ms"
  using pushes [of "flush q" ms] by (simp add: inv_flush messages_flush)

end

interpretation mq: message_queue Messages enqueue Flush "\<lambda>_. True"
  by unfold_locales (auto simp: Messages_def enqueue_def Flush_def)

section \<open>Sequence ids\<close>

text \<open>A source of ids that counts up until it reaches the top of the 64-bit range.\<close>

locale seq_source =
  fixes fetch :: "'s \<Rightarrow> u64 \<times> 's"
    and val :: "'s \<Rightarrow> nat"
  assumes fetch_id: "val s < 2 ^ 64 - 1 \<Longrightarrow> unat (fst (fetch s)) = Suc (val s)"
    and fetch_val: "val s < 2 ^ 64 - 1 \<Longrightarrow> val (snd (fetch s)) = Suc (val s)"
begin

lemma PushCommand_ids:
  assumes "val s + length cs < 2 ^ 64"
    and "fold (\<lambda>(c, pls, hdr). PushCommand fetch c pls hdr) cs (q, s) = (q', s')"
  shows "val s' = val s + length cs \<and>
    map (unat \<circ> ID) (queue q') = map (unat \<circ> ID) (queue q) @ [Suc (val s)..<Suc (val s + length cs)]"
  using assms
proof (induction cs arbitrary: q s)
  case Nil
  then show ?case by simp
next
  case (Cons c cs)
  obtain cmd pls hdr where c: "c = (cmd, pls, hdr)" by (cases c) auto
  obtain i s1 where i: "fetch s = (i, s1)" by (cases "fetch s") auto
  have lt: "val s < 2 ^ 64 - 1" using Cons.prems(1) by simp
  have v: "unat i = Suc (val s)" "val s1 = Suc (val s)"
    using fetch_id [OF lt] fetch_val [OF lt] i by auto
  let ?m = "\<lparr>ID = i, Command = Some cmd, Failure = None, Payloads = pls, Header = hdr\<rparr>"
  have "PushCommand fetch cmd pls hdr (q, s) = (enqueue ?m q, s1)"
    by (simp add: PushCommand_def i)
  then have "fold (\<lambda>(c, pls, hdr). PushCommand fetch c pls hdr) cs (enqueue ?m q, s1) = (q', s')"
    using Cons.prems(2) by (simp add: c)
  moreover have "val s1 + length cs < 2 ^ 64" using Cons.prems(1) v by simp
  ultimately have "val s' = val s1 + length cs \<and>
      map (unat \<circ> ID) (queue q') =
        map (unat \<circ> ID) (queue (enqueue ?m q)) @ [Suc (val s1)..<Suc (val s1 + length cs)]"
    using Cons.IH by blast
  moreover have "[Suc (val s)..<Suc (val s + length (c # cs))] =
      Suc (val s) # [Suc (val s1)..<Suc (val s1 + length cs)]"
    using v by (simp add: upt_conv_Cons del: upt_Suc)
  ultimately show ?case using v by (simp add: enqueue_def comp_def del: upt_Suc)
qed

end

interpretation gseq: seq_source seq unat
  by unfold_locales (simp_all add: seq_def unat_word_ariths)

section \<open>The queue as a Go slice\<close>

text \<open>
  A slice is an array address, a length and a capacity; the store gives every array its cells.
  \<open>append\<close> writes in place while there is capacity and otherwise moves to a fresh array whose
  capacity the runtime chooses (\<open>grow\<close>, at least one more).
\<close>

record slice =
  arr :: nat
  len :: nat

record slice_state =
  cells :: "nat \<Rightarrow> message list"
  fresh :: nat
  sl :: slice

definition slice_read :: "(nat \<Rightarrow> message list) \<Rightarrow> slice \<Rightarrow> message list" where
  "slice_read st s = take (len s) (st (arr s))"

definition slice_Messages :: "slice_state \<Rightarrow> slice" where
  "slice_Messages q = sl q"

definition slice_Flush :: "slice_state \<Rightarrow> slice_state" where
  "slice_Flush q = q\<lparr>sl := (sl q)\<lparr>len := 0\<rparr>\<rparr>"

definition slice_push :: "(nat \<Rightarrow> message list) \<Rightarrow> message \<Rightarrow> slice_state \<Rightarrow> slice_state" where
  "slice_push spare m q =
     (let s = sl q; a = cells q (arr s)
      in if len s < length a
         then q\<lparr>cells := (cells q)(arr s := a[len s := m]), sl := s\<lparr>len := Suc (len s)\<rparr>\<rparr>
         else q\<lparr>cells := (cells q)(fresh q := take (len s) a @ m # spare (len s)),
                fresh := Suc (fresh q), sl := \<lparr>arr = fresh q, len = Suc (len s)\<rparr>\<rparr>)"

definition slice_inv :: "slice_state \<Rightarrow> bool" where
  "slice_inv q \<longleftrightarrow> len (sl q) \<le> length (cells q (arr (sl q))) \<and> arr (sl q) < fresh q"

definition slice_abs :: "slice_state \<Rightarrow> message list" where
  "slice_abs q = slice_read (cells q) (sl q)"

lemma take_update_snoc: "i < length xs \<Longrightarrow> take (Suc i) (xs[i := x]) = take i xs @ [x]"
  by (simp add: take_Suc_conv_app_nth)

interpretation slice: message_queue slice_abs "slice_push spare" slice_Flush slice_inv for spare
  by unfold_locales
    (auto simp: slice_abs_def slice_read_def slice_push_def slice_Flush_def slice_inv_def Let_def
       take_update_snoc)

lemma slice_push_keeps_prefix:
  assumes "slice_inv q" "arr s = arr (sl q)" "len s \<le> len (sl q)"
  shows "slice_read (cells (slice_push spare m q)) s = slice_read (cells q) s"
  using assms by (auto simp: slice_push_def slice_read_def slice_inv_def Let_def)

lemma slice_push_other_array:
  "slice_inv q \<Longrightarrow> arr s < fresh q \<Longrightarrow> arr s \<noteq> arr (sl q) \<Longrightarrow>
   slice_read (cells (slice_push spare m q)) s = slice_read (cells q) s"
  by (auto simp: slice_push_def slice_read_def Let_def)

lemma slice_pushes_keep_snapshot:
  assumes "slice_inv q" "arr s < fresh q" "arr s = arr (sl q) \<Longrightarrow> len s \<le> len (sl q)"
  shows "slice_read (cells (fold (slice_push spare) ms q)) s = slice_read (cells q) s"
  using assms
proof (induction ms arbitrary: q)
  case Nil
  then show ?case by simp
next
  case (Cons m ms)
  let ?q = "slice_push spare m q"
  have "slice_inv ?q" using Cons.prems(1) by (rule slice.inv_push)
  moreover have "arr s < fresh ?q" using Cons.prems(2) by (auto simp: slice_push_def Let_def)
  moreover have "arr s = arr (sl ?q) \<Longrightarrow> len s \<le> len (sl ?q)"
    using Cons.prems by (auto simp: slice_push_def Let_def split: if_splits)
  ultimately have "slice_read (cells (fold (slice_push spare) ms ?q)) s = slice_read (cells ?q) s"
    by (rule Cons.IH)
  also have "\<dots> = slice_read (cells q) s"
    using Cons.prems slice_push_keeps_prefix slice_push_other_array by metis
  finally show ?case by simp
qed

section \<open>Properties\<close>

text \<open>The operations of the queue that change it, on the list and on the slice.\<close>

datatype queue_op = OpPushMsg message | OpFlush

fun list_op :: "queue_op \<Rightarrow> MessageQueue \<Rightarrow> MessageQueue" where
  "list_op (OpPushMsg m) = enqueue m"
| "list_op OpFlush = Flush"

fun slice_op :: "(nat \<Rightarrow> message list) \<Rightarrow> queue_op \<Rightarrow> slice_state \<Rightarrow> slice_state" where
  "slice_op spare (OpPushMsg m) = slice_push spare m"
| "slice_op spare OpFlush = slice_Flush"

definition slice_new :: slice_state where
  "slice_new = \<lparr>cells = (\<lambda>_. []), fresh = 1, sl = \<lparr>arr = 0, len = 0\<rparr>\<rparr>"

text \<open>
  C16: the queue kept in a Go slice refines the list of messages: after any sequence of pushes and
  flushes the slice reads as the list, however the runtime grows arrays.
\<close>

theorem slice_refines_list:
  "slice_abs (fold (slice_op spare) xs slice_new) = Messages (fold list_op xs NewMessageQueue)"
proof -
  have "slice_inv q \<Longrightarrow> slice_abs q = Messages l \<Longrightarrow>
      slice_abs (fold (slice_op spare) xs q) = Messages (fold list_op xs l)" for q l
  proof (induction xs arbitrary: q l)
    case (Cons x xs)
    have "slice_inv (slice_op spare x q)"
      using Cons.prems(1) by (cases x) (simp_all add: slice.inv_push slice.inv_flush)
    moreover have "slice_abs (slice_op spare x q) = Messages (list_op x l)"
      using Cons.prems
      by (cases x) (simp_all add: slice.messages_push slice.messages_flush mq.messages_push mq.messages_flush)
    ultimately show ?case using Cons.IH by simp
  qed simp
  moreover have "slice_inv slice_new" "slice_abs slice_new = Messages NewMessageQueue"
    by (simp_all add: slice_inv_def slice_new_def slice_abs_def slice_read_def Messages_def NewMessageQueue_def)
  ultimately show ?thesis by blast
qed

text \<open>
  A slice returned by \<open>Messages\<close> keeps its contents while messages are pushed, but not beyond a
  flush: \<open>Flush\<close> keeps the array, and the next push overwrites the first message of the slice.
\<close>

lemma Messages_snapshot:
  assumes "slice_inv q" "slice_abs q \<noteq> []"
  shows "slice_read (cells (fold (slice_push spare) ms q)) (slice_Messages q) = slice_abs q \<and>
    hd (slice_read (cells (slice_push spare m (slice_Flush q))) (slice_Messages q)) = m"
proof
  show "slice_read (cells (fold (slice_push spare) ms q)) (slice_Messages q) = slice_abs q"
    using slice_pushes_keep_snapshot [of q "slice_Messages q" spare ms] assms(1)
    by (simp add: slice_Messages_def slice_abs_def slice_inv_def)
  have "cells q (arr (sl q)) \<noteq> []" "len (sl q) \<noteq> 0"
    using assms by (auto simp: slice_abs_def slice_read_def)
  then show "hd (slice_read (cells (slice_push spare m (slice_Flush q))) (slice_Messages q)) = m"
    by (cases "cells q (arr (sl q))"; cases "len (sl q)")
      (simp_all add: slice_push_def slice_Flush_def slice_Messages_def slice_read_def)
qed



end
