(* ===== verification/Canceller.thy ===== *)
theory Canceller
  imports Prelude
begin

text \<open>
  \<open>canceller/canceller.go\<close>: the pending cancellable operations of a workflow, keyed by the id of
  the command that started them.

  A \<open>Cancellable\<close> is a Go closure; here it is a value of any type \<open>'c\<close> together with a function
  \<open>run\<close> that executes it on the caller's state and may fail. The closure runs after its entry
  was removed (\<open>LoadAndDelete\<close>), and it may itself call the canceller (a cancelled timer
  reports back through a callback that discards its id), so the map is part of the state that
  \<open>run\<close> transforms.
\<close>

type_synonym 'c cancel_ids = "64 word \<rightharpoonup> 'c"

definition Register :: "u64 \<Rightarrow> 'c \<Rightarrow> 'c cancel_ids \<Rightarrow> 'c cancel_ids" where
  "Register i cancel c = c(i \<mapsto> cancel)"

definition Discard :: "u64 \<Rightarrow> 'c cancel_ids \<Rightarrow> 'c cancel_ids" where
  "Discard i c = c(i := None)"

definition LoadAndDelete :: "u64 \<Rightarrow> 'c cancel_ids \<Rightarrow> 'c option \<times> 'c cancel_ids" where
  "LoadAndDelete i c = (c i, c(i := None))"

text \<open>
  The loop of \<open>Cancel\<close> over a state \<open>'s\<close> in which the map is found by \<open>get\<close> and stored by
  \<open>put\<close>. It stops at the first error and leaves the remaining ids alone.
\<close>

fun CancelIds ::
  "('s \<Rightarrow> 'c cancel_ids) \<Rightarrow> ('c cancel_ids \<Rightarrow> 's \<Rightarrow> 's) \<Rightarrow> ('c \<Rightarrow> ('s, go_error option) act) \<Rightarrow>
   u64 list \<Rightarrow> ('s, go_error option) act" where
  "CancelIds get put run [] s = (Returns None, s)"
| "CancelIds get put run (i # ids) s =
     (case LoadAndDelete i (get s) of
        (None, _) \<Rightarrow> CancelIds get put run ids s
      | (Some cancel, c') \<Rightarrow>
          (case run cancel (put c' s) of
             (Panics p, s') \<Rightarrow> (Panics p, s')
           | (Returns (Some e), s') \<Rightarrow> (Returns (Some e), s')
           | (Returns None, s') \<Rightarrow> CancelIds get put run ids s'))"

section \<open>The interface\<close>

text \<open>
  A store of cancellables: what a lookup finds after each operation. The client facts say that
  a discarded id is never cancelled and that cancelling twice does nothing the second time.
\<close>

locale cancel_store =
  fixes lookup :: "'m \<Rightarrow> u64 \<Rightarrow> 'c option"
    and register :: "u64 \<Rightarrow> 'c \<Rightarrow> 'm \<Rightarrow> 'm"
    and discard :: "u64 \<Rightarrow> 'm \<Rightarrow> 'm"
    and load_delete :: "u64 \<Rightarrow> 'm \<Rightarrow> 'c option \<times> 'm"
  assumes lookup_register: "lookup (register i c m) j = (if j = i then Some c else lookup m j)"
    and lookup_discard: "lookup (discard i m) j = (if j = i then None else lookup m j)"
    and load_delete_fst: "fst (load_delete i m) = lookup m i"
    and load_delete_snd: "lookup (snd (load_delete i m)) j = (if j = i then None else lookup m j)"
begin

lemma load_delete_twice: "fst (load_delete i (snd (load_delete i m))) = None"
  by (simp add: load_delete_fst load_delete_snd)

lemma load_after_discard: "fst (load_delete i (discard i m)) = None"
  by (simp add: load_delete_fst lookup_discard)

lemma load_register_discard:
  "i \<noteq> j \<Longrightarrow> fst (load_delete i (discard j (register i c m))) = Some c"
  by (simp add: load_delete_fst lookup_discard lookup_register)

end

interpretation cids: cancel_store "\<lambda>c i. c i" Register Discard LoadAndDelete
  by unfold_locales (simp_all add: Register_def Discard_def LoadAndDelete_def)

section \<open>Cancelling\<close>

text \<open>
  A cancellable is well behaved when running it removes entries at most (it may discard ids but
  registers none).
\<close>

definition only_removes :: "('s \<Rightarrow> 'c cancel_ids) \<Rightarrow> ('c \<Rightarrow> ('s, go_error option) act) \<Rightarrow> bool" where
  "only_removes get run \<longleftrightarrow> (\<forall>c i. keeps (\<lambda>s. get s i = None) (run c))"

lemma keeps_CancelIds:
  assumes "\<And>c. keeps P (run c)"
    and "\<And>i c s. P s \<Longrightarrow> get s i = Some c \<Longrightarrow> P (put ((get s)(i := None)) s)"
  shows "keeps P (CancelIds get put run ids)"
proof (induction ids)
  case Nil
  then show ?case by (simp add: keeps_def)
next
  case (Cons i ids)
  show ?case unfolding keeps_def
  proof (intro allI impI)
    fix s assume P: "P s"
    show "P (snd (CancelIds get put run (i # ids) s))"
    proof (cases "get s i")
      case None
      then show ?thesis using Cons P by (simp add: LoadAndDelete_def keepsD)
    next
      case (Some c)
      let ?s = "put ((get s)(i := None)) s"
      have "P (snd (run c ?s))" using assms P Some by (simp add: keepsD)
      then show ?thesis using Cons Some
        by (auto simp: LoadAndDelete_def keeps_def split: prod.splits outcome.splits option.splits)
    qed
  qed
qed

lemma CancelIds_only_removes:
  assumes "only_removes get run" "\<And>c s. get (put c s) = c"
  shows "keeps (\<lambda>s. get s j = None) (CancelIds get put run ids)"
  using assms by (intro keeps_CancelIds) (auto simp: only_removes_def)

lemma CancelIds_clears:
  assumes "only_removes get run" "\<And>c s. get (put c s) = c"
    and "CancelIds get put run ids s = (Returns None, s')" "i \<in> set ids"
  shows "get s' i = None"
  using assms(3,4)
proof (induction ids arbitrary: s)
  case (Cons j ids)
  have keep: "get (snd (CancelIds get put run ids t)) k = None" if "get t k = None" for t k
    using CancelIds_only_removes [OF assms(1), of put k ids] assms(2) that
    by (simp add: keeps_def)
  show ?case
  proof (cases "get s j")
    case None
    then have step: "CancelIds get put run ids s = (Returns None, s')"
      using Cons.prems(1) by (simp add: LoadAndDelete_def)
    show ?thesis
      using keep [of s i] None step Cons.IH [OF step] Cons.prems(2) by (cases "i = j") auto
  next
    case (Some c)
    let ?s = "put ((get s)(j := None)) s"
    obtain s1 where s1: "run c ?s = (Returns None, s1)" "CancelIds get put run ids s1 = (Returns None, s')"
      using Cons.prems(1) Some
      by (auto simp: LoadAndDelete_def split: prod.splits option.splits outcome.splits)
    have "get s1 j = None"
      using keepsD [of "\<lambda>s. get s j = None" "run c" ?s] assms(1,2) s1(1)
      by (simp add: only_removes_def)
    then show ?thesis
      using keep [of s1 i] s1(2) Cons.IH [OF s1(2)] Cons.prems(2) by (cases "i = j") auto
  qed
qed simp

text \<open>Cancelling ids that are not registered does nothing and reports no error.\<close>

lemma CancelIds_unknown:
  "\<forall>i \<in> set ids. get s i = None \<Longrightarrow> CancelIds get put run ids s = (Returns None, s)"
  by (induction ids) (auto simp: LoadAndDelete_def)

end
