(* ===== verification/Registry.thy ===== *)
theory Registry
  imports Prelude
begin

text \<open>
  \<open>registry/registry.go\<close>: a workflow asks for the execution of a child it started
  (\<open>Listen\<close>), the SDK reports it when the child is started (\<open>Push\<close>), in either order.

  A listener is a Go closure, here a value of any type \<open>'l\<close>; an operation returns the call it
  makes, if any, as the pair of the listener and its arguments. Calls happen under the
  registry's mutex, so they are sequential.

  The last section splits both operations into their atomic accesses to the two \<open>sync.Map\<close>s and
  considers every interleaving of a concurrent \<open>Listen\<close> and \<open>Push\<close>.
\<close>

section \<open>Operations\<close>

text \<open>\<open>bindings.WorkflowExecution\<close>: the workflow id and the run id.\<close>

type_synonym workflow_execution = "string \<times> string"
type_synonym entry = "workflow_execution \<times> go_error option"

record 'l IDRegistry =
  entries :: "u64 \<rightharpoonup> entry"
  listeners :: "u64 \<rightharpoonup> 'l"

definition newRegistry :: "'l IDRegistry" where
  "newRegistry = \<lparr>entries = Map.empty, listeners = Map.empty\<rparr>"

definition Listen :: "u64 \<Rightarrow> 'l \<Rightarrow> 'l IDRegistry \<Rightarrow> ('l \<times> entry) option \<times> 'l IDRegistry" where
  "Listen i cl r =
     (let r' = r\<lparr>listeners := (listeners r)(i \<mapsto> cl)\<rparr>
      in (case entries r' i of Some e \<Rightarrow> Some (cl, e) | None \<Rightarrow> None, r'))"

definition Push ::
  "u64 \<Rightarrow> workflow_execution \<Rightarrow> go_error option \<Rightarrow> 'l IDRegistry \<Rightarrow> ('l \<times> entry) option \<times> 'l IDRegistry" where
  "Push i w err r =
     (let r' = r\<lparr>entries := (entries r)(i \<mapsto> (w, err))\<rparr>
      in (case listeners r' i of Some l \<Rightarrow> Some (l, (w, err)) | None \<Rightarrow> None, r'))"

section \<open>Sequences of operations\<close>

datatype 'l reg_op = OpListen u64 'l | OpPush u64 workflow_execution "go_error option"

fun op_id :: "'l reg_op \<Rightarrow> u64" where
  "op_id (OpListen i _) = i"
| "op_id (OpPush i _ _) = i"

fun reg_step :: "'l reg_op \<Rightarrow> 'l IDRegistry \<Rightarrow> ('l \<times> entry) option \<times> 'l IDRegistry" where
  "reg_step (OpListen i l) r = Listen i l r"
| "reg_step (OpPush i w err) r = Push i w err r"

text \<open>The calls made for the listeners of id \<open>i\<close> during a sequence of operations, in order.\<close>

fun deliveries :: "u64 \<Rightarrow> 'l reg_op list \<Rightarrow> 'l IDRegistry \<Rightarrow> ('l \<times> entry) list" where
  "deliveries i [] r = []"
| "deliveries i (x # xs) r =
     (case reg_step x r of
        (Some c, r') \<Rightarrow> (if op_id x = i then c # deliveries i xs r' else deliveries i xs r')
      | (None, r') \<Rightarrow> deliveries i xs r')"

lemma reg_step_other:
  "op_id x \<noteq> i \<Longrightarrow> entries (snd (reg_step x r)) i = entries r i"
  "op_id x \<noteq> i \<Longrightarrow> listeners (snd (reg_step x r)) i = listeners r i"
  by (cases x; simp add: Listen_def Push_def Let_def)+

text \<open>Operations on other ids are invisible to id \<open>i\<close>.\<close>

lemma deliveries_depend_on_id:
  "entries r i = entries r' i \<Longrightarrow> listeners r i = listeners r' i \<Longrightarrow>
   deliveries i xs r = deliveries i (filter (\<lambda>x. op_id x = i) xs) r'"
proof (induction xs arbitrary: r r')
  case (Cons x xs)
  show ?case
  proof (cases "op_id x = i")
    case True
    have "fst (reg_step x r) = fst (reg_step x r')"
      "entries (snd (reg_step x r)) i = entries (snd (reg_step x r')) i"
      "listeners (snd (reg_step x r)) i = listeners (snd (reg_step x r')) i"
      using True Cons.prems by (cases x; simp add: Listen_def Push_def Let_def split: option.splits)+
    then show ?thesis
      using True Cons.IH [of "snd (reg_step x r)" "snd (reg_step x r')"]
      by (auto split: prod.splits option.splits)
  next
    case False
    have "entries (snd (reg_step x r)) i = entries r' i" "listeners (snd (reg_step x r)) i = listeners r' i"
      using reg_step_other [OF False] Cons.prems by simp_all
    then have "deliveries i xs (snd (reg_step x r)) = deliveries i (filter (\<lambda>x. op_id x = i) xs) r'"
      by (rule Cons.IH)
    then show ?thesis using False by (auto split: prod.splits option.splits)
  qed
qed simp

section \<open>The interface\<close>

text \<open>
  What the workflow handlers rely on: whichever of the two operations of an id comes second makes
  the call, with the listener's and the reporter's arguments.
\<close>

locale rendezvous =
  fixes empty :: 'r
    and listen :: "u64 \<Rightarrow> 'l \<Rightarrow> 'r \<Rightarrow> ('l \<times> entry) option \<times> 'r"
    and report :: "u64 \<Rightarrow> workflow_execution \<Rightarrow> go_error option \<Rightarrow> 'r \<Rightarrow> ('l \<times> entry) option \<times> 'r"
    and known :: "'r \<Rightarrow> u64 \<Rightarrow> entry option"
    and waiting :: "'r \<Rightarrow> u64 \<Rightarrow> 'l option"
  assumes listen_call: "fst (listen i l r) = map_option (Pair l) (known r i)"
    and report_call: "fst (report i w err r) = map_option (\<lambda>l. (l, (w, err))) (waiting r i)"
    and known_report: "known (snd (report i w err r)) j = (if j = i then Some (w, err) else known r j)"
    and waiting_report: "waiting (snd (report i w err r)) j = waiting r j"
    and known_listen: "known (snd (listen i l r)) j = known r j"
    and waiting_listen: "waiting (snd (listen i l r)) j = (if j = i then Some l else waiting r j)"
    and empty_known: "known empty i = None"
    and empty_waiting: "waiting empty i = None"
begin

lemma listen_then_report:
  "fst (listen i l empty) = None \<and> fst (report i w err (snd (listen i l empty))) = Some (l, (w, err))"
  by (simp add: listen_call report_call empty_known waiting_listen)

lemma report_then_listen:
  "fst (report i w err empty) = None \<and> fst (listen i l (snd (report i w err empty))) = Some (l, (w, err))"
  by (simp add: listen_call report_call empty_waiting known_report)

end

interpretation reg: rendezvous newRegistry Listen Push entries listeners
  by unfold_locales
    (auto simp: newRegistry_def Listen_def Push_def Let_def split: option.splits)

section \<open>Interleaved accesses\<close>

text \<open>
  The atomic accesses: \<open>Listen\<close> stores the listener, then loads the entry and calls; \<open>Push\<close> stores
  the entry, then loads the listener and calls.
\<close>

datatype access = LStore | LLoad | PStore | PLoad

fun run_accesses :: "u64 \<Rightarrow> 'l \<Rightarrow> entry \<Rightarrow> access list \<Rightarrow> 'l IDRegistry \<Rightarrow> ('l \<times> entry) list" where
  "run_accesses i l e [] r = []"
| "run_accesses i l e (LStore # xs) r = run_accesses i l e xs (r\<lparr>listeners := (listeners r)(i \<mapsto> l)\<rparr>)"
| "run_accesses i l e (PStore # xs) r = run_accesses i l e xs (r\<lparr>entries := (entries r)(i \<mapsto> e)\<rparr>)"
| "run_accesses i l e (LLoad # xs) r =
     (case entries r i of Some e' \<Rightarrow> (l, e') # run_accesses i l e xs r | None \<Rightarrow> run_accesses i l e xs r)"
| "run_accesses i l e (PLoad # xs) r =
     (case listeners r i of Some l' \<Rightarrow> (l', e) # run_accesses i l e xs r | None \<Rightarrow> run_accesses i l e xs r)"

definition interleavings :: "access list set" where
  "interleavings = shuffles [LStore, LLoad] [PStore, PLoad]"

lemma interleavings_eq:
  "interleavings =
     {[LStore, LLoad, PStore, PLoad], [LStore, PStore, LLoad, PLoad], [LStore, PStore, PLoad, LLoad],
      [PStore, LStore, LLoad, PLoad], [PStore, LStore, PLoad, LLoad], [PStore, PLoad, LStore, LLoad]}"
  by (auto simp: interleavings_def)

section \<open>Properties\<close>

text \<open>
  C17: a listener for a child is called exactly once, with the child's execution: whatever is done for
  other ids, if id \<open>i\<close> is listened to once and reported once, in either order, one call is made,
  of that listener with what was reported.
\<close>

theorem listener_called_once:
  assumes "filter (\<lambda>x. op_id x = i) xs \<in> {[OpListen i l, OpPush i w err], [OpPush i w err, OpListen i l]}"
  shows "deliveries i xs newRegistry = [(l, (w, err))]"
proof -
  have "deliveries i xs newRegistry = deliveries i (filter (\<lambda>x. op_id x = i) xs) newRegistry"
    by (rule deliveries_depend_on_id) simp_all
  moreover have "deliveries i [OpListen i l, OpPush i w err] newRegistry = [(l, (w, err))]"
    "deliveries i [OpPush i w err, OpListen i l] newRegistry = [(l, (w, err))]"
    using reg.listen_then_report [of i l w err] reg.report_then_listen [of i w err l]
    by (auto split: prod.splits option.splits)
  ultimately show ?thesis using assms by auto
qed

theorem listener_called_once_witness:
  "deliveries 3 [OpPush 3 (''wf'', ''run'') None, OpListen 5 ''other'', OpListen 3 ''l''] newRegistry =
     [(''l'', ((''wf'', ''run''), None))]"
proof -
  have "filter (\<lambda>x. op_id x = 3) [OpPush 3 (''wf'', ''run'') None, OpListen 5 ''other'', OpListen 3 ''l''] =
      [OpPush 3 (''wf'', ''run'') None, OpListen 3 ''l'']" by simp
  then show ?thesis by (intro listener_called_once) simp
qed



end
