(* ===== verification/Search_Attributes.thy ===== *)
theory Search_Attributes
  imports Protocol "HOL-Library.AList"
begin

text \<open>
  Typed search attributes, both ways: the conversion of the attributes of a starting workflow
  into the \<open>StartWorkflow\<close> command (\<open>Workflow.Execute\<close> in \<open>aggregatedpool/workflow.go\<close>) and the
  conversion of an \<open>UpsertWorkflowTypedSearchAttributes\<close> command into typed updates
  (\<open>handleMessage\<close> in \<open>aggregatedpool/handler.go\<close>).

  A Go map is an association list in the order of one iteration over it; Go leaves that order
  open, and the lemmas hold for every list. Formatting and parsing of RFC 3339 times and the
  result of converting an out-of-range float are the fields of \<open>time_lib\<close>. Log lines are not
  modelled.
\<close>

record time_lib =
  format_rfc3339 :: "go_time \<Rightarrow> string"
  parse_rfc3339 :: "string \<Rightarrow> go_error + go_time"
  float_oob :: "float64 \<Rightarrow> i64"

section \<open>Updates sent to the SDK\<close>

datatype key_kind = KBool | KFloat64 | KInt64 | KKeyword | KKeywordList | KString | KTime

datatype sa_update =
    ValueUnset key_kind string
  | SetBool string bool
  | SetFloat64 string float64
  | SetInt64 string i64
  | SetKeyword string string
  | SetKeywordList string "string list"
  | SetString string string
  | SetTime string go_time

fun update_key :: "sa_update \<Rightarrow> string" where
  "update_key (ValueUnset _ k) = k"
| "update_key (SetBool k _) = k"
| "update_key (SetFloat64 k _) = k"
| "update_key (SetInt64 k _) = k"
| "update_key (SetKeyword k _) = k"
| "update_key (SetKeywordList k _) = k"
| "update_key (SetString k _) = k"
| "update_key (SetTime k _) = k"

fun update_kind :: "sa_update \<Rightarrow> key_kind" where
  "update_kind (ValueUnset kd _) = kd"
| "update_kind (SetBool _ _) = KBool"
| "update_kind (SetFloat64 _ _) = KFloat64"
| "update_kind (SetInt64 _ _) = KInt64"
| "update_kind (SetKeyword _ _) = KKeyword"
| "update_kind (SetKeywordList _ _) = KKeywordList"
| "update_kind (SetString _ _) = KString"
| "update_kind (SetTime _ _) = KTime"

section \<open>From a command to updates\<close>

text \<open>The int64 case of the value switch.\<close>

fun int_update :: "time_lib \<Rightarrow> string \<Rightarrow> goval \<Rightarrow> sa_update option" where
  "int_update T k (VFloat64 f) = Some (SetInt64 k (float64_to_int64 (float_oob T) f))"
| "int_update T k (VInt n) = Some (SetInt64 k n)"
| "int_update T k (VInt64 n) = Some (SetInt64 k n)"
| "int_update T k (VInt32 n) = Some (SetInt64 k (scast n))"
| "int_update T k (VInt16 n) = Some (SetInt64 k (scast n))"
| "int_update T k (VInt8 n) = Some (SetInt64 k (scast n))"
| "int_update T k (VString s) =
     (case ParseInt s of None \<Rightarrow> None | Some n \<Rightarrow> Some (SetInt64 k n))"
| "int_update T k _ = None"

text \<open>The strings among the elements of a \<open>[]any\<close>.\<close>

fun strings_of :: "goval list \<Rightarrow> string list" where
  "strings_of [] = []"
| "strings_of (VString s # vs) = s # strings_of vs"
| "strings_of (_ # vs) = strings_of vs"

fun keyword_list_update :: "string \<Rightarrow> goval \<Rightarrow> sa_update option" where
  "keyword_list_update k (VStrings ss) = Some (SetKeywordList k ss)"
| "keyword_list_update k (VAnys vs) = Some (SetKeywordList k (strings_of vs))"
| "keyword_list_update k _ = None"

text \<open>
  One iteration of the loop: \<open>Inr None\<close> when the attribute is skipped with a warning, an error
  for a datetime that does not parse.
\<close>

definition attribute_update ::
  "time_lib \<Rightarrow> string \<Rightarrow> TypedSearchAttribute \<Rightarrow> go_error + sa_update option" where
  "attribute_update T k v =
     (let unset = (tsaOperation v = OperationUnset); val = tsaValue v
      in case tsaType v of
           BoolType \<Rightarrow>
             (if unset then Inr (Some (ValueUnset KBool k))
              else case val of VBool b \<Rightarrow> Inr (Some (SetBool k b)) | _ \<Rightarrow> Inr None)
         | FloatType \<Rightarrow>
             (if unset then Inr (Some (ValueUnset KFloat64 k))
              else case val of VFloat64 f \<Rightarrow> Inr (Some (SetFloat64 k f)) | _ \<Rightarrow> Inr None)
         | IntType \<Rightarrow>
             (if unset then Inr (Some (ValueUnset KInt64 k)) else Inr (int_update T k val))
         | KeywordType \<Rightarrow>
             (if unset then Inr (Some (ValueUnset KKeyword k))
              else case val of VString s \<Rightarrow> Inr (Some (SetKeyword k s)) | _ \<Rightarrow> Inr None)
         | KeywordListType \<Rightarrow>
             (if unset then Inr (Some (ValueUnset KKeywordList k)) else Inr (keyword_list_update k val))
         | StringType \<Rightarrow>
             (if unset then Inr (Some (ValueUnset KString k))
              else case val of VString s \<Rightarrow> Inr (Some (SetString k s)) | _ \<Rightarrow> Inr None)
         | DatetimeType \<Rightarrow>
             (if unset then Inr (Some (ValueUnset KTime k))
              else case val of
                     VString s \<Rightarrow>
                       (case parse_rfc3339 T s of
                          Inl e \<Rightarrow> Inl (ErrE ''handleMessage''
                                     (ErrE ''failed to parse time into RFC3339'' e))
                        | Inr tm \<Rightarrow> Inr (Some (SetTime k tm)))
                   | _ \<Rightarrow> Inr None)
         | OtherType _ \<Rightarrow> Inr None)"

text \<open>The loop over the attributes: the updates in iteration order, or the first error.\<close>

fun attribute_updates :: "time_lib \<Rightarrow> tsa_map \<Rightarrow> go_error + sa_update list" where
  "attribute_updates T [] = Inr []"
| "attribute_updates T ((k, v) # kvs) =
     (case attribute_update T k v of
        Inl e \<Rightarrow> Inl e
      | Inr u \<Rightarrow>
          (case attribute_updates T kvs of
             Inl e \<Rightarrow> Inl e
           | Inr us \<Rightarrow> Inr (case u of None \<Rightarrow> us | Some x \<Rightarrow> x # us)))"

section \<open>From the attributes of a workflow to the start command\<close>

datatype indexed_type =
  IVT_UNSPECIFIED | IVT_TEXT | IVT_KEYWORD | IVT_INT | IVT_DOUBLE | IVT_BOOL | IVT_DATETIME | IVT_KEYWORD_LIST

text \<open>One attribute of \<open>tsa.GetUntypedValues()\<close>: \<open>None\<close> when it is skipped.\<close>

definition start_attribute ::
  "time_lib \<Rightarrow> indexed_type \<Rightarrow> goval \<Rightarrow> TypedSearchAttribute option" where
  "start_attribute T vt v =
     (let attr = (\<lambda>t x. Some \<lparr>tsaType = t, tsaOperation = OtherOperation [], tsaValue = x\<rparr>)
      in case vt of
           IVT_UNSPECIFIED \<Rightarrow> None
         | IVT_TEXT \<Rightarrow> (case v of VString s \<Rightarrow> attr StringType (VString s) | _ \<Rightarrow> None)
         | IVT_KEYWORD \<Rightarrow> (case v of VString s \<Rightarrow> attr KeywordType (VString s) | _ \<Rightarrow> None)
         | IVT_INT \<Rightarrow>
             (case v of
                VInt n \<Rightarrow> attr IntType (VInt n)
              | VInt64 n \<Rightarrow> attr IntType (VInt64 n)
              | VString s \<Rightarrow> (case ParseInt s of None \<Rightarrow> None | Some n \<Rightarrow> attr IntType (VInt n))
              | _ \<Rightarrow> None)
         | IVT_DOUBLE \<Rightarrow> (case v of VFloat64 f \<Rightarrow> attr FloatType (VFloat64 f) | _ \<Rightarrow> None)
         | IVT_BOOL \<Rightarrow> (case v of VBool b \<Rightarrow> attr BoolType (VBool b) | _ \<Rightarrow> None)
         | IVT_DATETIME \<Rightarrow>
             (case v of VTime t \<Rightarrow> attr DatetimeType (VString (format_rfc3339 T t)) | _ \<Rightarrow> None)
         | IVT_KEYWORD_LIST \<Rightarrow> (case v of VStrings ss \<Rightarrow> attr KeywordListType (VStrings ss) | _ \<Rightarrow> None))"

fun start_attributes ::
  "time_lib \<Rightarrow> (string \<times> indexed_type \<times> goval) list \<Rightarrow> tsa_map \<Rightarrow> tsa_map" where
  "start_attributes T [] acc = acc"
| "start_attributes T ((k, vt, v) # kvs) acc =
     (case start_attribute T vt v of
        None \<Rightarrow> start_attributes T kvs acc
      | Some a \<Rightarrow> start_attributes T kvs (AList.update k a acc))"

section \<open>What the updates contain\<close>

fun kind_of_type :: "tsa_type \<Rightarrow> key_kind option" where
  "kind_of_type BoolType = Some KBool"
| "kind_of_type FloatType = Some KFloat64"
| "kind_of_type IntType = Some KInt64"
| "kind_of_type KeywordType = Some KKeyword"
| "kind_of_type KeywordListType = Some KKeywordList"
| "kind_of_type StringType = Some KString"
| "kind_of_type DatetimeType = Some KTime"
| "kind_of_type (OtherType _) = None"

lemma int_update_kind: "int_update T k v = Some u \<Longrightarrow> update_kind u = KInt64 \<and> update_key u = k"
  by (cases v) (auto split: option.splits)

lemma keyword_list_update_kind:
  "keyword_list_update k v = Some u \<Longrightarrow> update_kind u = KKeywordList \<and> update_key u = k"
  by (cases v) auto

lemma attribute_update_kind:
  "attribute_update T k v = Inr (Some u) \<Longrightarrow>
   kind_of_type (tsaType v) = Some (update_kind u) \<and> update_key u = k"
  by (cases "tsaType v"; cases "tsaOperation v = OperationUnset")
    (auto simp: attribute_update_def Let_def dest: int_update_kind keyword_list_update_kind
       split: goval.splits sum.splits)

text \<open>The loop is a traversal whose skipped attributes are dropped.\<close>

lemma attribute_updates_traverse:
  "attribute_updates T kvs =
     map_sum id (List.map_filter id) (traverse (\<lambda>(k, v). attribute_update T k v) kvs)"
  by (induction kvs) (auto simp: List.map_filter_def split: sum.splits option.splits)

lemma attribute_updates_mem:
  "attribute_updates T kvs = Inr us \<Longrightarrow>
   set us = {u. \<exists>k v. (k, v) \<in> set kvs \<and> attribute_update T k v = Inr (Some u)}"
proof (induction kvs arbitrary: us)
  case (Cons kv kvs)
  obtain k v where kv: "kv = (k, v)" by (cases kv)
  with Cons.prems obtain u us' where u: "attribute_update T k v = Inr u"
    "attribute_updates T kvs = Inr us'" "us = (case u of None \<Rightarrow> us' | Some x \<Rightarrow> x # us')"
    by (auto split: sum.splits)
  then show ?case using Cons.IH [OF u(2)] kv by (cases u) auto
qed simp

lemma attribute_updates_perm:
  assumes "mset kvs = mset kvs'" "attribute_updates T kvs = Inr us"
  shows "\<exists>us'. attribute_updates T kvs' = Inr us' \<and> mset us' = mset us"
proof -
  let ?f = "\<lambda>(k, v). attribute_update T k v"
  have ok: "\<forall>kv \<in> set kvs. \<exists>u. ?f kv = Inr u"
  proof -
    have "\<not> (\<exists>e. traverse ?f kvs = Inl e)"
      using assms(2) by (auto simp: attribute_updates_traverse)
    then have "\<not> (\<exists>kv \<in> set kvs. \<exists>e. ?f kv = Inl e)" by (simp add: traverse_error_iff)
    then show ?thesis by (metis sum.exhaust)
  qed
  have eq: "attribute_updates T xs = Inr (List.map_filter id (map (projr \<circ> ?f) xs))"
    if "\<forall>kv \<in> set xs. \<exists>u. ?f kv = Inr u" for xs
    using that
    by (induction xs) (auto simp: List.map_filter_def split: option.splits)
  have "set kvs' = set kvs" using assms(1) by (metis set_mset_mset)
  then have "attribute_updates T kvs' = Inr (List.map_filter id (map (projr \<circ> ?f) kvs'))"
    using ok by (intro eq) simp
  moreover have "us = List.map_filter id (map (projr \<circ> ?f) kvs)"
    using eq [OF ok] assms(2) by simp
  moreover have "mset (List.map_filter id (map (projr \<circ> ?f) kvs')) =
      mset (List.map_filter id (map (projr \<circ> ?f) kvs))"
    using assms(1) by (simp add: List.map_filter_def)
  ultimately show ?thesis by auto
qed

section \<open>Properties\<close>


definition sample_time :: time_lib where
  "sample_time = \<lparr>format_rfc3339 = (\<lambda>t. ''t''), parse_rfc3339 = (\<lambda>s. Inr (GoTime 0 0)), float_oob = (\<lambda>f. 0)\<rparr>"

lemma Itoa_12: "Itoa 12 = ''12''"
  by code_simp

lemma Itoa_7: "Itoa 7 = ''7''"
  by code_simp




text \<open>The value of an update is the given attribute value.\<close>

fun same_value :: "sa_update \<Rightarrow> goval \<Rightarrow> bool" where
  "same_value (SetBool _ b) v \<longleftrightarrow> v = VBool b"
| "same_value (SetFloat64 _ f) v \<longleftrightarrow> v = VFloat64 f"
| "same_value (SetInt64 _ n) v \<longleftrightarrow> v = VInt n \<or> v = VInt64 n \<or> v = VString (Itoa n)"
| "same_value (SetKeyword _ s) v \<longleftrightarrow> v = VString s"
| "same_value (SetKeywordList _ ss) v \<longleftrightarrow> v = VStrings ss"
| "same_value (SetString _ s) v \<longleftrightarrow> v = VString s"
| "same_value (SetTime _ t) v \<longleftrightarrow> v = VTime t"
| "same_value (ValueUnset _ _) v \<longleftrightarrow> False"





end
