(* ===== verification/Workflow_State.thy ===== *)
theory Workflow_State
  imports Pool_Exchange Message_Queue Canceller Registry Search_Attributes
begin

text \<open>
  The state of a workflow instance (\<open>aggregatedpool/workflow.go\<close>, struct \<open>Workflow\<close>) and the
  Temporal SDK as the workflow sees it.

  Go closures are values here, one constructor per closure of the source with the variables it
  captures: the handlers given to the SDK, the callbacks deferred to the next workflow task, the
  cancellables, the listeners of the id registry and the queued updates.

  The SDK's workflow environment (\<open>bindings.WorkflowEnvironment\<close>) is not part of the repository.
  Every call to it that changes something is appended to the log \<open>calls\<close>, and its answers are
  the functions of the record \<open>world\<close> applied to the log, whose last entry is the call being
  answered. Since the log grows with every call, any sequence of answers is such a function.
  Within a call the SDK may run handlers it was given; \<open>ret_sync\<close> lists these, in order. What
  the environment's accessors return (run id, replay flag, history length) is \<open>env_view\<close>, which
  is constant during a workflow task and arbitrary from one task to the next.
\<close>

section \<open>Closures\<close>

text \<open>Handlers given to the SDK, by the function of \<open>handler.go\<close> that makes them.\<close>

datatype handler =
    Callback u64 string
  | ContinuableCallback u64 string
  | LocalActivityCallback u64
  | ChildStarted u64

text \<open>An invocation of a handler by the SDK, with its arguments.\<close>

datatype handler_call =
    CallResult u64 string payloads "go_error option"
  | CallLocal u64 payloads "go_error option"
  | CallChildStarted u64 workflow_execution "go_error option"

fun called_handler :: "handler_call \<Rightarrow> handler" where
  "called_handler (CallResult i t _ _) = Callback i t"
| "called_handler (CallLocal i _ _) = LocalActivityCallback i"
| "called_handler (CallChildStarted i _ _) = ChildStarted i"

datatype deferred =
    DeferResult u64 string payloads "go_error option"
  | DeferLocal u64 payloads "go_error option"

datatype cancellable =
    CancelActivity string
  | CancelLocalActivity string
  | CancelChildWorkflow string string
  | CancelTimer "string option"

text \<open>
  The closure \<open>updatesQueueCb\<close> of \<open>handleUpdate\<close>; \<open>quHandle\<close> identifies the SDK's
  \<open>UpdateCallbacks\<close> object. The closures stored in the two update maps capture the last three.
\<close>

record queued_update =
  quName :: string
  quID :: string
  quInput :: payloads
  quHeader :: header
  quRunID :: string
  quHandle :: nat

section \<open>Calls to the SDK\<close>

datatype env_call =
    EnvRegisterHandlers
  | EnvExecuteActivity activity_params handler
  | EnvExecuteLocalActivity la_params handler
  | EnvExecuteChildWorkflow workflow_params handler handler
  | EnvNewTimer i64 string handler
  | EnvGetVersion string i64 i64
  | EnvSideEffect payloads handler
  | EnvRequestCancelActivity string
  | EnvRequestCancelLocalActivity string
  | EnvRequestCancelChildWorkflow string string
  | EnvRequestCancelTimer string
  | EnvComplete payloads "go_error option"
  | EnvUpsertSearchAttributes "(string \<times> goval) list"
  | EnvUpsertTypedSearchAttributes "sa_update list"
  | EnvUpsertMemo "(string \<times> goval) list"
  | EnvSignalExternalWorkflow string string string string payloads header bool handler
  | EnvRequestCancelExternalWorkflow string string string handler
  | EnvQueueUpdate string queued_update
  | EnvHandleQueuedUpdates string
  | EnvDrainUnhandledUpdates
  | EnvUpdateAccept nat
  | EnvUpdateReject nat go_error
  | EnvUpdateComplete nat payloads "go_error option"

text \<open>The handlers a call hands over.\<close>

fun handlers_of :: "env_call \<Rightarrow> handler list" where
  "handlers_of (EnvExecuteActivity _ h) = [h]"
| "handlers_of (EnvExecuteLocalActivity _ h) = [h]"
| "handlers_of (EnvExecuteChildWorkflow _ h h') = [h, h']"
| "handlers_of (EnvNewTimer _ _ h) = [h]"
| "handlers_of (EnvSideEffect _ h) = [h]"
| "handlers_of (EnvSignalExternalWorkflow _ _ _ _ _ _ _ h) = [h]"
| "handlers_of (EnvRequestCancelExternalWorkflow _ _ _ h) = [h]"
| "handlers_of _ = []"

record world = host +
  ret_activity :: "env_call list \<Rightarrow> string"
  ret_timer :: "env_call list \<Rightarrow> string option"
  ret_version :: "env_call list \<Rightarrow> i64"
  ret_error :: "env_call list \<Rightarrow> go_error option"
  ret_side_effect :: "env_call list \<Rightarrow> payloads \<times> go_error option"
  ret_queued :: "env_call list \<Rightarrow> queued_update list"
  ret_sync :: "env_call list \<Rightarrow> handler_call list"
  to_payloads :: "goval \<Rightarrow> go_error + payloads"
  from_payload_string :: "payload \<Rightarrow> go_error + string"
  failure_to_error :: "failure \<Rightarrow> go_error"
  error_to_failure :: "go_error \<Rightarrow> failure"
  error_text :: "go_error \<Rightarrow> string"
  as_duration :: "durationpb \<Rightarrow> i64"
  timeLib :: time_lib

record env_view =
  info :: workflow_info
  Now :: go_time
  wallClock :: go_time
  IsReplaying :: bool
  CurrentHistoryLength :: i64
  CurrentHistorySize :: i64
  ContinueAsNewSuggestedNow :: bool
  attributes :: "(string \<times> indexed_type \<times> goval) list"
  lastCompletionResult :: payloads

section \<open>The workflow instance\<close>

text \<open>
  \<open>gseq\<close> is the package variable \<open>seqID\<close> shared by all workflows, \<open>seqID\<close> the field of that name.
  \<open>sent\<close> is the history of payloads given to the pool, \<open>pldOut\<close> the number of payload objects
  taken from \<open>pldPool\<close> and not returned, \<open>gauges\<close> the updates of the metrics handler (\<open>mh\<close> tells
  whether there is one) and \<open>qreads\<close> the number of reads of the pool's queue size so far.
\<close>

record Workflow =
  rrID :: string
  env :: env_view
  header :: header
  mq :: MessageQueue
  gseq :: u64
  ids :: "u64 IDRegistry"
  seqID :: u64
  pipeline :: "message list"
  updatesQueue :: "string list"
  callbacks :: "deferred list"
  canceller :: "cancellable cancel_ids"
  inLoop :: u32
  updateCompleteCb :: "string \<rightharpoonup> queued_update"
  updateValidateCb :: "string \<rightharpoonup> queued_update"
  mh :: bool
  pldOut :: int
  calls :: "env_call list"
  sent :: "pool_payload list"
  gauges :: "(string \<times> u64) list"
  qreads :: nat

type_synonym 'a wact = "(Workflow, 'a) act"

text \<open>
  The factory method \<open>NewWorkflowDefinition\<close>. The pointers \<open>env\<close>, \<open>mq\<close>, \<open>ids\<close> and \<open>canceller\<close> are nil
  until \<open>Execute\<close>, before which the SDK calls no other method; the model has the empty
  structures. \<open>rid\<close> is the fresh UUID, \<open>n\<close> the current value of the shared counter.
\<close>

definition NewWorkflowDefinition :: "string \<Rightarrow> env_view \<Rightarrow> u64 \<Rightarrow> Workflow" where
  "NewWorkflowDefinition rid ev n =
     \<lparr>rrID = rid, env = ev, header = None, mq = NewMessageQueue, gseq = n, ids = newRegistry,
      seqID = 0, pipeline = [], updatesQueue = [], callbacks = [], canceller = Map.empty,
      inLoop = 0, updateCompleteCb = Map.empty, updateValidateCb = Map.empty, mh = False,
      pldOut = 0, calls = [], sent = [], gauges = [], qreads = 0\<rparr>"

definition getContext :: "'z world_scheme \<Rightarrow> Workflow \<Rightarrow> Context" where
  "getContext S wp =
     \<lparr>TaskQueue = TaskQueueName (info (env wp)),
      TickTime = format_rfc3339 (timeLib S) (Now (env wp)),
      Replay = IsReplaying (env wp),
      HistoryLen = CurrentHistoryLength (env wp),
      HistorySize = CurrentHistorySize (env wp),
      RrID = rrID wp,
      ContinueAsNewSuggested = ContinueAsNewSuggestedNow (env wp)\<rparr>"

section \<open>Callbacks\<close>

text \<open>
  The body shared by the closures of \<open>createCallback\<close> and \<open>createLocalActivityCallback\<close>: the
  command is no longer cancellable and its result is queued for the worker.
\<close>

definition deliver :: "'z world_scheme \<Rightarrow> u64 \<Rightarrow> payloads \<Rightarrow> go_error option \<Rightarrow> Workflow \<Rightarrow> Workflow" where
  "deliver S i result err wp =
     wp\<lparr>canceller := Discard i (canceller wp),
        mq := (case err of
                 Some e \<Rightarrow> PushError i (error_to_failure S e) (mq wp)
               | None \<Rightarrow> PushResponse i result (mq wp))\<rparr>"

fun runDeferred :: "'z world_scheme \<Rightarrow> deferred \<Rightarrow> Workflow \<Rightarrow> Workflow" where
  "runDeferred S (DeferResult i t result err) = deliver S i result err"
| "runDeferred S (DeferLocal i result err) = deliver S i result err"

definition createCallback ::
  "'z world_scheme \<Rightarrow> u64 \<Rightarrow> string \<Rightarrow> payloads \<Rightarrow> go_error option \<Rightarrow> Workflow \<Rightarrow> Workflow" where
  "createCallback S i t result err wp =
     (if inLoop wp = 1 then deliver S i result err wp
      else wp\<lparr>callbacks := callbacks wp @ [DeferResult i t result err]\<rparr>)"

definition createLocalActivityCallback ::
  "'z world_scheme \<Rightarrow> u64 \<Rightarrow> payloads \<Rightarrow> go_error option \<Rightarrow> Workflow \<Rightarrow> Workflow" where
  "createLocalActivityCallback S i result err wp =
     (if inLoop wp = 1 then deliver S i result err wp
      else wp\<lparr>callbacks := callbacks wp @ [DeferLocal i result err]\<rparr>)"

text \<open>
  The listener closure of \<open>GetChildWorkflowExecution\<close>; \<open>i\<close> is the id of that message. It panics
  when the execution cannot be converted.
\<close>

definition childListener :: "'z world_scheme \<Rightarrow> u64 \<Rightarrow> entry \<Rightarrow> unit wact" where
  "childListener S i e =
     (case e of
        (w, Some err) \<Rightarrow> modifyA (createCallback S i ''GetChildWorkflow'' None (Some err))
      | (w, None) \<Rightarrow>
          (case to_payloads S (VExecution (fst w) (snd w)) of
             Inl er \<Rightarrow> panicA er
           | Inr p \<Rightarrow> modifyA (createCallback S i ''GetChildWorkflow'' p None)))"

definition callListener :: "'z world_scheme \<Rightarrow> (u64 \<times> entry) option \<Rightarrow> unit wact" where
  "callListener S c = (case c of None \<Rightarrow> pureA () | Some (l, e) \<Rightarrow> childListener S l e)"

text \<open>What happens when the SDK invokes one of the handlers.\<close>

fun runHandler :: "'z world_scheme \<Rightarrow> handler_call \<Rightarrow> unit wact" where
  "runHandler S (CallResult i t result err) = modifyA (createCallback S i t result err)"
| "runHandler S (CallLocal i result err) = modifyA (createLocalActivityCallback S i result err)"
| "runHandler S (CallChildStarted i w err) =
     (\<lambda>wp. let (c, r) = Push i w err (ids wp) in callListener S c (wp\<lparr>ids := r\<rparr>))"

text \<open>A call to the SDK: logged, answered, and the handlers run that the SDK invokes meanwhile.\<close>

definition envCall :: "'z world_scheme \<Rightarrow> env_call \<Rightarrow> (env_call list) wact" where
  "envCall S c wp =
     (let log = calls wp @ [c]
      in seqA (mapA (runHandler S) (ret_sync S log)) (pureA log) (wp\<lparr>calls := log\<rparr>))"

end
