(* ===== verification/Workflow_Handlers.thy ===== *)
theory Workflow_Handlers
  imports Workflow_State
begin

text \<open>
  \<open>aggregatedpool/handler.go\<close>: the exchange of the queued messages with the worker
  (\<open>flushQueue\<close>, \<open>runCommand\<close>), the handlers of signals, queries, updates and cancellation, and
  \<open>handleMessage\<close>, which executes one command of the worker, one definition per case of its
  switch. A handler returns a Go error (\<open>None\<close> is nil) or panics.
\<close>

section \<open>Constants\<close>

abbreviation "completed \<equiv> ''completed''"
abbreviation "valExec \<equiv> ''validate_execute''"
abbreviation "RrMetricName \<equiv> ''rr_activities_pool_queue_size''"
abbreviation "RrWorkflowsMetricName \<equiv> ''rr_workflows_pool_queue_size''"

section \<open>Exchange with the worker\<close>

text \<open>
  \<open>getPld\<close> and \<open>putPld\<close> on the object pool: what matters is whether every object taken is
  returned.
\<close>

definition getPld :: "Workflow \<Rightarrow> Workflow" where
  "getPld wp = wp\<lparr>pldOut := pldOut wp + 1\<rparr>"

definition putPld :: "Workflow \<Rightarrow> Workflow" where
  "putPld wp = wp\<lparr>pldOut := pldOut wp - 1\<rparr>"

text \<open>
  The gauge updates around an exchange. The argument of the deferred update is evaluated where
  the \<open>defer\<close> statement stands, so both values are read before the exchange.
\<close>

definition gaugeNow :: "'z world_scheme \<Rightarrow> string \<Rightarrow> Workflow \<Rightarrow> Workflow" where
  "gaugeNow S name wp =
     (if mh wp then wp\<lparr>gauges := gauges wp @ [(name, queue_size S (qreads wp))], qreads := qreads wp + 2\<rparr>
      else wp)"

definition gaugeDeferred :: "'z world_scheme \<Rightarrow> string \<Rightarrow> nat \<Rightarrow> Workflow \<Rightarrow> Workflow" where
  "gaugeDeferred S name k wp =
     (if mh wp then wp\<lparr>gauges := gauges wp @ [(name, queue_size S (Suc k))]\<rparr> else wp)"

text \<open>\<open>pool.Exec\<close> with a payload: the history grows by it, the outcome is the worker's.\<close>

definition poolExec :: "'z world_scheme \<Rightarrow> pool_payload \<Rightarrow> Workflow \<Rightarrow> exec_outcome \<times> Workflow" where
  "poolExec S pl wp = (let h = sent wp @ [pl] in (exec S h, wp\<lparr>sent := h\<rparr>))"

text \<open>The part of \<open>flushQueue\<close> between the first and the last statement run by \<open>defer\<close>.\<close>

definition exchangeQueue :: "'z world_scheme \<Rightarrow> Workflow \<Rightarrow> go_error option \<times> Workflow" where
  "exchangeQueue S wp =
     (case Encode S (getContext S wp) new_pool_payload (Messages (mq wp)) of
        (Some e, _) \<Rightarrow> (Some e, wp)
      | (None, pl) \<Rightarrow>
          (let (out, wp1) = poolExec S pl wp
           in case receive S ''flush_queue'' ''worker empty response'' out of
                Inl e \<Rightarrow> (Some e, wp1)
              | Inr r \<Rightarrow>
                  (case Decode S r of
                     Inl e \<Rightarrow> (Some e, wp1)
                   | Inr msgs \<Rightarrow>
                       (None, wp1\<lparr>mq := Flush (mq wp1), pipeline := pipeline wp1 @ msgs\<rparr>))))"

definition flushQueue :: "'z world_scheme \<Rightarrow> Workflow \<Rightarrow> go_error option \<times> Workflow" where
  "flushQueue S wp =
     (if Messages (mq wp) = [] then (None, wp)
      else let k = qreads wp;
               (err, wp1) = exchangeQueue S (getPld (gaugeNow S RrWorkflowsMetricName wp))
           in (err, gaugeDeferred S RrWorkflowsMetricName k (putPld wp1)))"

text \<open>
  \<open>runCommand\<close>: one command outside the queue, one message back. As in the source, the payload
  object is not returned on the three error branches of the \<open>select\<close>, and the gauge is the one
  of the activity pool.
\<close>

definition exchangeCommand :: "'z world_scheme \<Rightarrow> message \<Rightarrow> Workflow \<Rightarrow> (go_error + message) \<times> Workflow" where
  "exchangeCommand S msg wp =
     (case Encode S (getContext S wp) new_pool_payload [msg] of
        (Some e, _) \<Rightarrow> (Inl e, putPld wp)
      | (None, pl) \<Rightarrow>
          (let (out, wp1) = poolExec S pl wp
           in case out of
                ExecError e \<Rightarrow> (Inl e, putPld wp1)
              | _ \<Rightarrow>
                  (case receive S ''workflow_process_runcommand'' ''worker empty response'' out of
                     Inl e \<Rightarrow> (Inl e, wp1)
                   | Inr r \<Rightarrow>
                       (case Decode S r of
                          Inl e \<Rightarrow> (Inl e, putPld wp1)
                        | Inr [m] \<Rightarrow> (Inr m, putPld wp1)
                        | Inr _ \<Rightarrow>
                            (Inl (ErrE ''workflow_process_runcommand'' (ErrStr ''unexpected pool response'')),
                             putPld wp1)))))"

definition runCommand ::
  "'z world_scheme \<Rightarrow> command \<Rightarrow> payloads \<Rightarrow> header \<Rightarrow> Workflow \<Rightarrow> (go_error + message) \<times> Workflow" where
  "runCommand S cmd pls hdr wp =
     (let (msg, n) = AllocateMessage seq cmd pls hdr emptyMessage (gseq wp);
          wp1 = wp\<lparr>gseq := n\<rparr>; k = qreads wp1;
          (r, wp2) = exchangeCommand S msg (getPld (gaugeNow S RrMetricName wp1))
      in (r, gaugeDeferred S RrMetricName k wp2))"

definition pushCommand :: "command \<Rightarrow> payloads \<Rightarrow> header \<Rightarrow> Workflow \<Rightarrow> Workflow" where
  "pushCommand cmd pls hdr wp =
     (let (q, n) = PushCommand seq cmd pls hdr (mq wp, gseq wp) in wp\<lparr>mq := q, gseq := n\<rparr>)"

definition pushResponse :: "u64 \<Rightarrow> payloads \<Rightarrow> Workflow \<Rightarrow> Workflow" where
  "pushResponse i pls wp = wp\<lparr>mq := PushResponse i pls (mq wp)\<rparr>"

section \<open>Signals, queries, updates, cancellation\<close>

definition handleCancel :: "Workflow \<Rightarrow> Workflow" where
  "handleCancel wp = pushCommand (CancelWorkflow (RunID (info (env wp)))) None (header wp) wp"

definition handleSignal :: "string \<Rightarrow> payloads \<Rightarrow> header \<Rightarrow> Workflow \<Rightarrow> go_error option \<times> Workflow" where
  "handleSignal name input hdr wp =
     (None, pushCommand (InvokeSignal (RunID (info (env wp))) name) input hdr wp)"

definition handleQuery ::
  "'z world_scheme \<Rightarrow> string \<Rightarrow> payloads \<Rightarrow> header \<Rightarrow> Workflow \<Rightarrow> (go_error + payloads) \<times> Workflow" where
  "handleQuery S queryType queryArgs hdr wp =
     (case runCommand S (InvokeQuery (RunID (info (env wp))) queryType) queryArgs hdr wp of
        (Inl e, wp') \<Rightarrow> (Inl (ErrE ''workflow_process_handle_query'' e), wp')
      | (Inr result, wp') \<Rightarrow>
          (case Failure result of
             Some f \<Rightarrow> (Inl (ErrE ''workflow_process_handle_query'' (failure_to_error S f)), wp')
           | None \<Rightarrow> (Inr (Payloads result), wp')))"

definition handleUpdate ::
  "'z world_scheme \<Rightarrow> string \<Rightarrow> string \<Rightarrow> payloads \<Rightarrow> header \<Rightarrow> nat \<Rightarrow> unit wact" where
  "handleUpdate S name uid input hdr cbs =
     (\<lambda>wp. let qu = \<lparr>quName = name, quID = uid, quInput = input, quHeader = hdr,
                      quRunID = RunID (info (env wp)), quHandle = cbs\<rparr>
           in bindA (envCall S (EnvQueueUpdate name qu)) (\<lambda>_. pureA ())
                (wp\<lparr>updatesQueue := List.insert name (updatesQueue wp)\<rparr>))"

text \<open>The closure \<open>updatesQueueCb\<close>, run by the SDK inside \<open>HandleQueuedUpdates\<close>.\<close>

definition updatesQueueCb :: "queued_update \<Rightarrow> Workflow \<Rightarrow> Workflow" where
  "updatesQueueCb qu wp =
     pushCommand (InvokeUpdate (quID qu) (quRunID qu) (quName qu) valExec) (quInput qu) (quHeader qu)
       (wp\<lparr>updateValidateCb := (updateValidateCb wp)(quID qu \<mapsto> qu),
           updateCompleteCb := (updateCompleteCb wp)(quID qu \<mapsto> qu)\<rparr>)"

text \<open>The validate and the complete callback of an update.\<close>

definition validateCb :: "'z world_scheme \<Rightarrow> queued_update \<Rightarrow> message \<Rightarrow> unit wact" where
  "validateCb S qu msg =
     (\<lambda>wp. bindA
        (case (IsReplaying (env wp), Failure msg) of
           (False, Some f) \<Rightarrow> envCall S (EnvUpdateReject (quHandle qu) (failure_to_error S f))
         | _ \<Rightarrow> envCall S (EnvUpdateAccept (quHandle qu)))
        (\<lambda>_. pureA ()) wp)"

definition completeCb :: "'z world_scheme \<Rightarrow> queued_update \<Rightarrow> message \<Rightarrow> unit wact" where
  "completeCb S qu msg =
     bindA
       (case Failure msg of
          Some f \<Rightarrow> envCall S (EnvUpdateComplete (quHandle qu) None (Some (failure_to_error S f)))
        | None \<Rightarrow> envCall S (EnvUpdateComplete (quHandle qu) (Payloads msg) None))
       (\<lambda>_. pureA ())"

section \<open>The cases of handleMessage\<close>

abbreviation (input) "register i c \<equiv> modifyA (\<lambda>wp. wp\<lparr>canceller := Register i c (canceller wp)\<rparr>)"

definition hmExecuteActivity :: "'z world_scheme \<Rightarrow> message \<Rightarrow> string \<Rightarrow> activity_options \<Rightarrow> (go_error option) wact" where
  "hmExecuteActivity S msg name opts =
     (\<lambda>wp. let params = ActivityParams name opts (info (env wp)) (Payloads msg) (Header msg)
           in bindA (envCall S (EnvExecuteActivity params (Callback (ID msg) ''activity'')))
                (\<lambda>log. seqA (register (ID msg) (CancelActivity (ret_activity S log))) (pureA None)) wp)"

definition hmExecuteLocalActivity ::
  "'z world_scheme \<Rightarrow> message \<Rightarrow> string \<Rightarrow> ExecuteLocalActivityOptions \<Rightarrow> (go_error option) wact" where
  "hmExecuteLocalActivity S msg name opts =
     (\<lambda>wp. let params = LocalActivityParams (as_duration S) (wallClock (env wp)) name opts
                          (info (env wp)) ''ExecuteLA'' (Payloads msg) (Header msg)
           in bindA (envCall S (EnvExecuteLocalActivity params (LocalActivityCallback (ID msg))))
                (\<lambda>log. seqA (register (ID msg) (CancelLocalActivity (ret_activity S log))) (pureA None)) wp)"

text \<open>The deterministic id of a child without one: the parent's run id and the next number.\<close>

definition childWorkflowID :: "string \<Rightarrow> u64 \<Rightarrow> string" where
  "childWorkflowID runID nextID = runID @ ''_'' @ Itoa nextID"

definition hmExecuteChildWorkflow ::
  "'z world_scheme \<Rightarrow> message \<Rightarrow> string \<Rightarrow> workflow_options \<Rightarrow> (go_error option) wact" where
  "hmExecuteChildWorkflow S msg name opts =
     (\<lambda>wp. let p0 = WorkflowParams name opts (info (env wp)) (Payloads msg) (Header msg);
               (params, wp1) =
                 (if woWorkflowID (wpOptions p0) = []
                  then (p0\<lparr>wpOptions := (wpOptions p0)\<lparr>woWorkflowID :=
                              childWorkflowID (RunID (info (env wp))) (seqID wp + 1)\<rparr>\<rparr>,
                        wp\<lparr>seqID := seqID wp + 1\<rparr>)
                  else (p0, wp))
           in bindA (envCall S (EnvExecuteChildWorkflow params (Callback (ID msg) ''ExecuteChildWorkflow'')
                                  (ChildStarted (ID msg))))
                (\<lambda>_. seqA (register (ID msg)
                             (CancelChildWorkflow (woNamespace (wpOptions params)) (woWorkflowID (wpOptions params))))
                       (pureA None)) wp1)"

definition hmGetChildWorkflowExecution :: "'z world_scheme \<Rightarrow> message \<Rightarrow> u64 \<Rightarrow> (go_error option) wact" where
  "hmGetChildWorkflowExecution S msg cid =
     (\<lambda>wp. let (c, r) = Listen cid (ID msg) (ids wp)
           in seqA (callListener S c) (pureA None) (wp\<lparr>ids := r\<rparr>))"

definition hmNewTimer :: "'z world_scheme \<Rightarrow> message \<Rightarrow> i64 \<Rightarrow> string \<Rightarrow> (go_error option) wact" where
  "hmNewTimer S msg ms summary =
     bindA (envCall S (EnvNewTimer (ToDuration ms) summary (Callback (ID msg) ''NewTimer'')))
       (\<lambda>log. seqA (register (ID msg) (CancelTimer (ret_timer S log))) (pureA None))"

text \<open>A response followed by an exchange, the error wrapped with the operation's name.\<close>

definition respondAndFlush :: "'z world_scheme \<Rightarrow> u64 \<Rightarrow> payloads \<Rightarrow> (go_error option) wact" where
  "respondAndFlush S i result =
     (\<lambda>wp. case flushQueue S (pushResponse i result wp) of
        (Some e, wp') \<Rightarrow> (Returns (Some (ErrE ''handleMessage'' e)), wp')
      | (None, wp') \<Rightarrow> (Returns None, wp'))"

definition hmGetVersion :: "'z world_scheme \<Rightarrow> message \<Rightarrow> string \<Rightarrow> i64 \<Rightarrow> i64 \<Rightarrow> (go_error option) wact" where
  "hmGetVersion S msg changeID minSupported maxSupported =
     bindA (envCall S (EnvGetVersion changeID minSupported maxSupported))
       (\<lambda>log. case to_payloads S (VInt (ret_version S log)) of
                Inl e \<Rightarrow> pureA (Some (ErrE ''handleMessage'' e))
              | Inr result \<Rightarrow> respondAndFlush S (ID msg) result)"

definition createContinuableCallback ::
  "'z world_scheme \<Rightarrow> u64 \<Rightarrow> payloads \<Rightarrow> go_error option \<Rightarrow> unit wact" where
  "createContinuableCallback S i result err =
     (\<lambda>wp. case err of
        Some e \<Rightarrow> (Returns (), deliver S i result (Some e) wp)
      | None \<Rightarrow>
          (case flushQueue S (deliver S i result None wp) of
             (Some e, wp') \<Rightarrow> (Panics e, wp')
           | (None, wp') \<Rightarrow> (Returns (), wp')))"

definition hmSideEffect :: "'z world_scheme \<Rightarrow> message \<Rightarrow> (go_error option) wact" where
  "hmSideEffect S msg =
     bindA (envCall S (EnvSideEffect (Payloads msg) (ContinuableCallback (ID msg) ''SideEffect'')))
       (\<lambda>log. case ret_side_effect S log of
                (result, err) \<Rightarrow>
                  seqA (createContinuableCallback S (ID msg) result err) (pureA None))"

definition hmUpdateCompleted :: "'z world_scheme \<Rightarrow> message \<Rightarrow> string \<Rightarrow> (go_error option) wact" where
  "hmUpdateCompleted S msg uid =
     (\<lambda>wp. if uid = [] then (Returns (Some (ErrStr ''update id is empty, can't complete update'')), wp)
           else case updateCompleteCb wp uid of
                  None \<Rightarrow> (Returns None, wp)
                | Some qu \<Rightarrow>
                    seqA (completeCb S qu msg)
                      (seqA (modifyA (\<lambda>wp. wp\<lparr>updateCompleteCb := (updateCompleteCb wp)(uid := None)\<rparr>))
                         (pureA None)) wp)"

definition hmUpdateValidated :: "'z world_scheme \<Rightarrow> message \<Rightarrow> string \<Rightarrow> (go_error option) wact" where
  "hmUpdateValidated S msg uid =
     (\<lambda>wp. if uid = [] then (Returns (Some (ErrStr ''update id is empty, can't validate update'')), wp)
           else case updateValidateCb wp uid of
                  None \<Rightarrow> (Returns None, wp)
                | Some qu \<Rightarrow>
                    seqA (validateCb S qu msg)
                      (seqA (modifyA (\<lambda>wp. wp\<lparr>updateValidateCb := (updateValidateCb wp)(uid := None),
                               updateCompleteCb := (if Failure msg \<noteq> None
                                                    then (updateCompleteCb wp)(uid := None)
                                                    else updateCompleteCb wp)\<rparr>))
                         (pureA None)) wp)"

text \<open>\<open>result, _ := ToPayloads(completed)\<close>: the error is ignored, the result is nil then.\<close>

definition completedPayloads :: "'z world_scheme \<Rightarrow> payloads" where
  "completedPayloads S = (case to_payloads S (VString completed) of Inr p \<Rightarrow> p | Inl _ \<Rightarrow> None)"

definition hmCompleteWorkflow :: "'z world_scheme \<Rightarrow> message \<Rightarrow> (go_error option) wact" where
  "hmCompleteWorkflow S msg =
     seqA (modifyA (pushResponse (ID msg) (completedPayloads S)))
       (bindA (case Failure msg of
                 None \<Rightarrow> envCall S (EnvComplete (Payloads msg) None)
               | Some f \<Rightarrow> envCall S (EnvComplete None (Some (failure_to_error S f))))
          (\<lambda>_. pureA None))"

definition hmContinueAsNew ::
  "'z world_scheme \<Rightarrow> message \<Rightarrow> string \<Rightarrow> string \<Rightarrow> i64 \<Rightarrow> i64 \<Rightarrow> (go_error option) wact" where
  "hmContinueAsNew S msg name tqn runTimeout taskTimeout =
     seqA (modifyA (pushResponse (ID msg) (completedPayloads S)))
       (bindA (envCall S (EnvComplete None
                 (Some (ContinueAsNewError name (Payloads msg) (Header msg) tqn runTimeout taskTimeout))))
          (\<lambda>_. pureA None))"

text \<open>A call whose error return is wrapped and returned.\<close>

definition envCallErr :: "'z world_scheme \<Rightarrow> env_call \<Rightarrow> (go_error option) wact" where
  "envCallErr S c =
     bindA (envCall S c) (\<lambda>log. pureA (map_option (ErrE ''handleMessage'') (ret_error S log)))"

definition hmUpsertSearchAttributes ::
  "'z world_scheme \<Rightarrow> (string \<times> goval) list \<Rightarrow> (go_error option) wact" where
  "hmUpsertSearchAttributes S attrs = envCallErr S (EnvUpsertSearchAttributes attrs)"

definition hmUpsertTypedSearchAttributes :: "'z world_scheme \<Rightarrow> tsa_map \<Rightarrow> (go_error option) wact" where
  "hmUpsertTypedSearchAttributes S attrs =
     (case attribute_updates (timeLib S) attrs of
        Inl e \<Rightarrow> pureA (Some e)
      | Inr sau \<Rightarrow>
          (if sau = [] then pureA None else envCallErr S (EnvUpsertTypedSearchAttributes sau)))"

definition hmSignalExternalWorkflow ::
  "'z world_scheme \<Rightarrow> message \<Rightarrow> string \<Rightarrow> string \<Rightarrow> string \<Rightarrow> string \<Rightarrow> bool \<Rightarrow> (go_error option) wact" where
  "hmSignalExternalWorkflow S msg ns wid rid signal childOnly =
     bindA (envCall S (EnvSignalExternalWorkflow ns wid rid signal (Payloads msg) (Header msg) childOnly
                         (Callback (ID msg) ''SignalExternalWorkflow'')))
       (\<lambda>_. pureA None)"

definition hmCancelExternalWorkflow ::
  "'z world_scheme \<Rightarrow> message \<Rightarrow> string \<Rightarrow> string \<Rightarrow> string \<Rightarrow> (go_error option) wact" where
  "hmCancelExternalWorkflow S msg ns wid rid =
     bindA (envCall S (EnvRequestCancelExternalWorkflow ns wid rid
                         (Callback (ID msg) ''CancelExternalWorkflow'')))
       (\<lambda>_. pureA None)"

text \<open>The four cancellable closures.\<close>

fun runCancellable :: "'z world_scheme \<Rightarrow> cancellable \<Rightarrow> (go_error option) wact" where
  "runCancellable S (CancelActivity aid) =
     bindA (envCall S (EnvRequestCancelActivity aid)) (\<lambda>_. pureA None)"
| "runCancellable S (CancelLocalActivity aid) =
     bindA (envCall S (EnvRequestCancelLocalActivity aid)) (\<lambda>_. pureA None)"
| "runCancellable S (CancelChildWorkflow ns wid) =
     bindA (envCall S (EnvRequestCancelChildWorkflow ns wid)) (\<lambda>_. pureA None)"
| "runCancellable S (CancelTimer (Some tid)) =
     bindA (envCall S (EnvRequestCancelTimer tid)) (\<lambda>_. pureA None)"
| "runCancellable S (CancelTimer None) = pureA None"

definition cancelIDs :: "'z world_scheme \<Rightarrow> u64 list \<Rightarrow> (go_error option) wact" where
  "cancelIDs S = CancelIds canceller (\<lambda>c wp. wp\<lparr>canceller := c\<rparr>) (runCancellable S)"

definition hmCancel :: "'z world_scheme \<Rightarrow> message \<Rightarrow> u64 list \<Rightarrow> (go_error option) wact" where
  "hmCancel S msg commandIDs =
     bindA (cancelIDs S commandIDs)
       (\<lambda>err. case err of
                Some e \<Rightarrow> pureA (Some (ErrE ''handleMessage'' e))
              | None \<Rightarrow> respondAndFlush S (ID msg) (completedPayloads S))"

text \<open>\<open>FailureToError\<close> of a nil failure is nil: such a panic command is ignored.\<close>

definition hmPanic :: "'z world_scheme \<Rightarrow> message \<Rightarrow> (go_error option) wact" where
  "hmPanic S msg = pureA (map_option (failure_to_error S) (Failure msg))"

definition hmUpsertMemo :: "'z world_scheme \<Rightarrow> (string \<times> goval) list \<Rightarrow> (go_error option) wact" where
  "hmUpsertMemo S memo = (if memo = [] then pureA None else envCallErr S (EnvUpsertMemo memo))"

definition handleMessage :: "'z world_scheme \<Rightarrow> message \<Rightarrow> (go_error option) wact" where
  "handleMessage S msg =
     (case Command msg of
        Some (ExecuteActivity name opts) \<Rightarrow> hmExecuteActivity S msg name opts
      | Some (ExecuteLocalActivity name opts) \<Rightarrow> hmExecuteLocalActivity S msg name opts
      | Some (ExecuteChildWorkflow name opts) \<Rightarrow> hmExecuteChildWorkflow S msg name opts
      | Some (GetChildWorkflowExecution cid) \<Rightarrow> hmGetChildWorkflowExecution S msg cid
      | Some (NewTimer ms summary) \<Rightarrow> hmNewTimer S msg ms summary
      | Some (GetVersion ch lo hi) \<Rightarrow> hmGetVersion S msg ch lo hi
      | Some SideEffect \<Rightarrow> hmSideEffect S msg
      | Some (UpdateCompleted uid) \<Rightarrow> hmUpdateCompleted S msg uid
      | Some (UpdateValidated uid) \<Rightarrow> hmUpdateValidated S msg uid
      | Some CompleteWorkflow \<Rightarrow> hmCompleteWorkflow S msg
      | Some (ContinueAsNew name tqn rt tt) \<Rightarrow> hmContinueAsNew S msg name tqn rt tt
      | Some (UpsertWorkflowSearchAttributes attrs) \<Rightarrow> hmUpsertSearchAttributes S attrs
      | Some (UpsertWorkflowTypedSearchAttributes attrs) \<Rightarrow> hmUpsertTypedSearchAttributes S attrs
      | Some (SignalExternalWorkflow ns wid rid signal co) \<Rightarrow> hmSignalExternalWorkflow S msg ns wid rid signal co
      | Some (CancelExternalWorkflow ns wid rid) \<Rightarrow> hmCancelExternalWorkflow S msg ns wid rid
      | Some (Cancel cids) \<Rightarrow> hmCancel S msg cids
      | Some (Panic _) \<Rightarrow> hmPanic S msg
      | Some (UpsertMemo memo) \<Rightarrow> hmUpsertMemo S memo
      | _ \<Rightarrow> pureA (Some (ErrE ''handleMessage'' (ErrStr ''undefined command''))))"

end
