(* ===== verification/Workflow_Loop.thy ===== *)
theory Workflow_Loop
  imports Workflow_Handlers
begin

text \<open>
  \<open>aggregatedpool/workflow.go\<close>: the methods the SDK calls on a workflow definition. \<open>Execute\<close>
  prepares the start command, \<open>OnWorkflowTaskStarted\<close> runs a workflow task, \<open>StackTrace\<close> and
  \<open>Close\<close> talk to the worker outside of a task.

  The pipeline loop of a task may run for ever: a worker can answer every exchange with a
  command that causes the next exchange. The model has a fuel argument, \<open>None\<close> is out of fuel;
  \<open>Workflow_Progress\<close> shows which workers make every task end and that the fuel does not
  change the result. The order in which Go iterates over the set of queued update names is the
  argument \<open>order\<close>.
\<close>

section \<open>Execute\<close>

text \<open>The last completion result is appended to the input and its length recorded.\<close>

definition withLastCompletion :: "payloads \<Rightarrow> payloads \<Rightarrow> payloads \<times> i64" where
  "withLastCompletion lastCompletion input =
     (case lastCompletion of
        Some (p # ps) \<Rightarrow>
          (Some ((case input of None \<Rightarrow> [] | Some xs \<Rightarrow> xs) @ p # ps), of_nat (length (p # ps)))
      | _ \<Rightarrow> (input, 0))"

definition startCommand :: "'z world_scheme \<Rightarrow> env_view \<Rightarrow> i64 \<Rightarrow> command" where
  "startCommand S ev n =
     StartWorkflow (info ev) n
       (if length (attributes ev) > 0 then start_attributes (timeLib S) (attributes ev) [] else [])"

definition Execute ::
  "'z world_scheme \<Rightarrow> bool \<Rightarrow> env_view \<Rightarrow> header \<Rightarrow> payloads \<Rightarrow> Workflow \<Rightarrow> Workflow" where
  "Execute S metrics ev hdr input wp =
     (let wp1 = wp\<lparr>mh := metrics, env := ev, header := hdr, seqID := 0, canceller := Map.empty,
                   mq := NewMessageQueue, ids := newRegistry,
                   calls := calls wp @ [EnvRegisterHandlers]\<rparr>;
          (input', n) = withLastCompletion (lastCompletionResult ev) input
      in pushCommand (startCommand S ev n) input' hdr wp1)"

section \<open>A workflow task\<close>

text \<open>\<open>HandleQueuedUpdates\<close> and \<open>DrainUnhandledUpdates\<close> run the queued closures.\<close>

definition runQueued :: "'z world_scheme \<Rightarrow> env_call \<Rightarrow> unit wact" where
  "runQueued S c =
     bindA (envCall S c) (\<lambda>log. mapA (\<lambda>qu. modifyA (updatesQueueCb qu)) (ret_queued S log))"

definition runUpdates :: "'z world_scheme \<Rightarrow> string list \<Rightarrow> unit wact" where
  "runUpdates S order =
     seqA (mapA (\<lambda>k. seqA (runQueued S (EnvHandleQueuedUpdates k))
                        (modifyA (\<lambda>wp. wp\<lparr>updatesQueue := removeAll k (updatesQueue wp)\<rparr>))) order)
       (modifyA (\<lambda>wp. wp\<lparr>updatesQueue := []\<rparr>))"

definition runCallbacks :: "'z world_scheme \<Rightarrow> Workflow \<Rightarrow> Workflow" where
  "runCallbacks S wp = (fold (runDeferred S) (callbacks wp) wp)\<lparr>callbacks := []\<rparr>"

definition flushOrPanic :: "'z world_scheme \<Rightarrow> unit wact" where
  "flushOrPanic S wp =
     (case flushQueue S wp of (Some e, wp') \<Rightarrow> (Panics e, wp') | (None, wp') \<Rightarrow> (Returns (), wp'))"

text \<open>Everything before the pipeline loop.\<close>

definition taskPrologue :: "'z world_scheme \<Rightarrow> string list \<Rightarrow> unit wact" where
  "taskPrologue S order =
     seqA (modifyA (\<lambda>wp. runCallbacks S (wp\<lparr>inLoop := 1\<rparr>)))
       (seqA (runUpdates S order) (flushOrPanic S))"

definition undefinedMessage :: "message \<Rightarrow> string" where
  "undefinedMessage msg = (case Command msg of Some (UndefinedResponse m) \<Rightarrow> m | _ \<Rightarrow> [])"

fun processPipeline :: "nat \<Rightarrow> 'z world_scheme \<Rightarrow> Workflow \<Rightarrow> (unit outcome \<times> Workflow) option" where
  "processPipeline 0 S wp = None"
| "processPipeline (Suc fuel) S wp =
     (case pipeline wp of
        [] \<Rightarrow> Some (Returns (), wp)
      | msg # rest \<Rightarrow>
          (let wp1 = wp\<lparr>pipeline := rest\<rparr>
           in if IsCommand msg
              then if isUndefinedResponse msg
                   then Some (Panics (ErrStr (''undefined response: '' @ undefinedMessage msg)),
                              wp1\<lparr>pipeline := []\<rparr>)
                   else (case handleMessage S msg wp1 of
                           (Panics e, wp2) \<Rightarrow> Some (Panics e, wp2)
                         | (Returns (Some e), wp2) \<Rightarrow> Some (Panics e, wp2\<lparr>pipeline := []\<rparr>)
                         | (Returns None, wp2) \<Rightarrow> processPipeline fuel S wp2)
              else processPipeline fuel S wp1))"

definition OnWorkflowTaskStarted ::
  "nat \<Rightarrow> 'z world_scheme \<Rightarrow> string list \<Rightarrow> Workflow \<Rightarrow> (unit outcome \<times> Workflow) option" where
  "OnWorkflowTaskStarted fuel S order wp =
     map_option (map_prod id (\<lambda>wp. wp\<lparr>inLoop := 0\<rparr>))
       (case taskPrologue S order wp of
          (Panics e, wp1) \<Rightarrow> Some (Panics e, wp1)
        | (Returns _, wp1) \<Rightarrow> processPipeline fuel S wp1)"

section \<open>Outside of a task\<close>

definition StackTrace :: "'z world_scheme \<Rightarrow> Workflow \<Rightarrow> string \<times> Workflow" where
  "StackTrace S wp =
     (case runCommand S (GetStackTrace (RunID (info (env wp)))) None (header wp) wp of
        (Inl e, wp') \<Rightarrow> (error_text S e, wp')
      | (Inr result, wp') \<Rightarrow>
          (case Payloads result of
             Some (p # _) \<Rightarrow>
               (case from_payload_string S p of
                  Inl e \<Rightarrow> (error_text S e, wp')
                | Inr s \<Rightarrow> (s, wp'))
           | _ \<Rightarrow> ([], wp')))"

definition Close :: "'z world_scheme \<Rightarrow> unit wact" where
  "Close S =
     seqA (runQueued S EnvDrainUnhandledUpdates)
       (modifyA (\<lambda>wp. let wp1 = wp\<lparr>updatesQueue := [], updateCompleteCb := Map.empty\<rparr>;
                          (_, wp2) = runCommand S (DestroyWorkflow (RunID (info (env wp1)))) None
                                       (header wp1) wp1
                      in wp2\<lparr>mq := Flush (mq wp2)\<rparr>))"

end
