(* ===== verification/Workflow_Steps.thy ===== *)
theory Workflow_Steps
  imports Workflow_Loop
begin

text \<open>
  The runs of a workflow instance: the SDK calls the methods of the definition in any order, one
  at a time (the SDK dispatches a workflow on a single goroutine). A run starts with \<open>Execute\<close> on
  a fresh instance; every later step is one call, a change of what the environment's accessors
  return, or another workflow drawing a number from the shared counter.

  The two predicates on \<open>world\<close> state documented behaviour of the SDK: it calls only handlers it
  was given; and \<open>HandleQueuedUpdates\<close> and \<open>DrainUnhandledUpdates\<close> run the closures queued with
  \<open>QueueUpdate\<close>, each once, and the calls that concern updates run no other handler.
\<close>

section \<open>The SDK's side of the contract\<close>

definition given :: "env_call list \<Rightarrow> handler set" where
  "given log = (\<Union>c \<in> set log. set (handlers_of c))"

definition sync_ok :: "'z world_scheme \<Rightarrow> bool" where
  "sync_ok S \<longleftrightarrow> (\<forall>log. \<forall>hc \<in> set (ret_sync S log). called_handler hc \<in> given log)"

text \<open>
  The queued updates after a log: those still waiting, and those whose closure was run, both
  oldest first.
\<close>

fun update_log :: "env_call list \<Rightarrow> queued_update list \<times> queued_update list \<Rightarrow>
    queued_update list \<times> queued_update list" where
  "update_log [] pr = pr"
| "update_log (EnvQueueUpdate k qu # cs) (pend, gone) = update_log cs (pend @ [qu], gone)"
| "update_log (EnvHandleQueuedUpdates k # cs) (pend, gone) =
     update_log cs (filter (\<lambda>qu. quName qu \<noteq> k) pend, gone @ filter (\<lambda>qu. quName qu = k) pend)"
| "update_log (EnvDrainUnhandledUpdates # cs) (pend, gone) = update_log cs ([], gone @ pend)"
| "update_log (_ # cs) pr = update_log cs pr"

definition waiting_updates :: "env_call list \<Rightarrow> queued_update list" where
  "waiting_updates log = fst (update_log log ([], []))"

definition started_updates :: "env_call list \<Rightarrow> queued_update list" where
  "started_updates log = snd (update_log log ([], []))"

text \<open>The calls that do not concern updates.\<close>

fun plain_call :: "env_call \<Rightarrow> bool" where
  "plain_call (EnvQueueUpdate _ _) = False"
| "plain_call (EnvHandleQueuedUpdates _) = False"
| "plain_call EnvDrainUnhandledUpdates = False"
| "plain_call (EnvUpdateAccept _) = False"
| "plain_call (EnvUpdateReject _ _) = False"
| "plain_call (EnvUpdateComplete _ _ _) = False"
| "plain_call _ = True"

definition updates_ok :: "'z world_scheme \<Rightarrow> bool" where
  "updates_ok S \<longleftrightarrow>
     (\<forall>log k. ret_queued S (log @ [EnvHandleQueuedUpdates k]) =
                filter (\<lambda>qu. quName qu = k) (waiting_updates log)) \<and>
     (\<forall>log. ret_queued S (log @ [EnvDrainUnhandledUpdates]) = waiting_updates log) \<and>
     (\<forall>log c. \<not> plain_call c \<longrightarrow> ret_sync S (log @ [c]) = [])"

section \<open>Steps and reachable states\<close>

inductive wf_step :: "'z world_scheme \<Rightarrow> Workflow \<Rightarrow> Workflow \<Rightarrow> bool" for S where
  step_task: "mset order = mset (updatesQueue wp) \<Longrightarrow>
     OnWorkflowTaskStarted fuel S order wp = Some (r, wp') \<Longrightarrow> wf_step S wp wp'"
| step_result: "called_handler hc \<in> given (calls wp) \<Longrightarrow> wf_step S wp (snd (runHandler S hc wp))"
| step_signal: "wf_step S wp (snd (handleSignal name input hdr wp))"
| step_cancel: "wf_step S wp (handleCancel wp)"
| step_query: "wf_step S wp (snd (handleQuery S name input hdr wp))"
| step_update: "\<forall>qu \<in> set (waiting_updates (calls wp) @ started_updates (calls wp)). quHandle qu \<noteq> cbs \<Longrightarrow>
     wf_step S wp (snd (handleUpdate S name uid input hdr cbs wp))"
| step_trace: "wf_step S wp (snd (StackTrace S wp))"
| step_close: "wf_step S wp (snd (Close S wp))"
| step_view: "wf_step S wp (wp\<lparr>env := ev\<rparr>)"
| step_seq: "wf_step S wp (wp\<lparr>gseq := n\<rparr>)"

inductive reachable :: "'z world_scheme \<Rightarrow> Workflow \<Rightarrow> bool" for S where
  reach_start: "reachable S (Execute S metrics ev hdr input (NewWorkflowDefinition rid ev n))"
| reach_step: "reachable S wp \<Longrightarrow> wf_step S wp wp' \<Longrightarrow> reachable S wp'"

lemma update_log_append: "update_log (xs @ ys) pr = update_log ys (update_log xs pr)"
  by (induction xs pr rule: update_log.induct) auto

lemma update_log_simps [simp]:
  "waiting_updates (log @ [EnvQueueUpdate k qu]) = waiting_updates log @ [qu]"
  "started_updates (log @ [EnvQueueUpdate k qu]) = started_updates log"
  "waiting_updates (log @ [EnvHandleQueuedUpdates k]) = filter (\<lambda>qu. quName qu \<noteq> k) (waiting_updates log)"
  "started_updates (log @ [EnvHandleQueuedUpdates k]) =
     started_updates log @ filter (\<lambda>qu. quName qu = k) (waiting_updates log)"
  "waiting_updates (log @ [EnvDrainUnhandledUpdates]) = []"
  "started_updates (log @ [EnvDrainUnhandledUpdates]) = started_updates log @ waiting_updates log"
  by (cases "update_log log ([], [])";
      simp add: waiting_updates_def started_updates_def update_log_append)+

lemma update_log_plain [simp]:
  assumes "plain_call c"
  shows "waiting_updates (log @ [c]) = waiting_updates log" "started_updates (log @ [c]) = started_updates log"
  using assms
  by (cases c; cases "update_log log ([], [])";
      simp add: waiting_updates_def started_updates_def update_log_append)+

lemma update_log_decision [simp]:
  "waiting_updates (log @ [EnvUpdateAccept h]) = waiting_updates log"
  "started_updates (log @ [EnvUpdateAccept h]) = started_updates log"
  "waiting_updates (log @ [EnvUpdateReject h e]) = waiting_updates log"
  "started_updates (log @ [EnvUpdateReject h e]) = started_updates log"
  "waiting_updates (log @ [EnvUpdateComplete h p er]) = waiting_updates log"
  "started_updates (log @ [EnvUpdateComplete h p er]) = started_updates log"
  by (cases "update_log log ([], [])";
      simp add: waiting_updates_def started_updates_def update_log_append)+

end
