(* ===== verification/Workflow_Invariants.thy ===== *)
theory Workflow_Invariants
  imports Workflow_Steps
begin

text \<open>
  The proof rules for properties that every handler of a workflow keeps. The locale
  \<open>call_invariant\<close> is about the handlers the SDK runs during a call. \<open>handler_invariant\<close> lists the
  elementary changes the message handlers make to the state; a property \<open>P\<close> that each of them
  keeps is kept by \<open>handleMessage\<close>, whatever the command, and by the pipeline loop.
  \<open>task_invariant\<close> adds the changes of \<open>OnWorkflowTaskStarted\<close>, \<open>Close\<close> and the handlers
  called between tasks.

  \<open>K i h\<close> says which command ids \<open>i\<close> are known after the payloads \<open>h\<close> were exchanged with the
  worker; a property about answers restricts it, the others take it to be always true.
\<close>

section \<open>What the operations leave alone\<close>

fun handler_id :: "handler \<Rightarrow> u64" where
  "handler_id (Callback i _) = i"
| "handler_id (ContinuableCallback i _) = i"
| "handler_id (LocalActivityCallback i) = i"
| "handler_id (ChildStarted i) = i"

fun deferred_id :: "deferred \<Rightarrow> u64" where
  "deferred_id (DeferResult i _ _ _) = i"
| "deferred_id (DeferLocal i _ _) = i"

lemma deliver_frame [simp]:
  "calls (deliver S i r e wp) = calls wp" "sent (deliver S i r e wp) = sent wp"
  "inLoop (deliver S i r e wp) = inLoop wp" "pipeline (deliver S i r e wp) = pipeline wp"
  "ids (deliver S i r e wp) = ids wp" "callbacks (deliver S i r e wp) = callbacks wp"
  "env (deliver S i r e wp) = env wp"
  by (simp_all add: deliver_def)

lemma createCallback_frame [simp]:
  "calls (createCallback S i t r e wp) = calls wp" "sent (createCallback S i t r e wp) = sent wp"
  "ids (createCallback S i t r e wp) = ids wp" "env (createCallback S i t r e wp) = env wp"
  by (simp_all add: createCallback_def)

lemma createLocalActivityCallback_frame [simp]:
  "calls (createLocalActivityCallback S i r e wp) = calls wp"
  "sent (createLocalActivityCallback S i r e wp) = sent wp"
  "env (createLocalActivityCallback S i r e wp) = env wp"
  by (simp_all add: createLocalActivityCallback_def)

text \<open>
  An exchange changes the queue, the pipeline, the history, the shared counter and the bookkeeping
  of payload objects and metrics; \<open>core\<close> is the rest of the state.
\<close>

definition core :: "Workflow \<Rightarrow> Workflow" where
  "core wp = wp\<lparr>mq := NewMessageQueue, gseq := 0, pipeline := [], pldOut := 0, sent := [],
                 gauges := [], qreads := 0\<rparr>"

lemma poolExec_eq: "poolExec S pl wp = (exec S (sent wp @ [pl]), wp\<lparr>sent := sent wp @ [pl]\<rparr>)"
  by (simp add: poolExec_def Let_def)

lemma core_bookkeeping [simp]:
  "core (getPld wp) = core wp" "core (putPld wp) = core wp" "core (gaugeNow S n wp) = core wp"
  "core (gaugeDeferred S n k wp) = core wp" "core (wp\<lparr>gseq := m\<rparr>) = core wp"
  "core (wp\<lparr>mq := q\<rparr>) = core wp"
  by (simp_all add: core_def getPld_def putPld_def gaugeNow_def gaugeDeferred_def)

lemma core_exchangeQueue [simp]: "core (snd (exchangeQueue S wp)) = core wp"
  by (auto simp: exchangeQueue_def core_def poolExec_eq split: prod.splits option.splits sum.splits)

lemma core_flushQueue [simp]: "core (snd (flushQueue S wp)) = core wp"
  by (simp add: flushQueue_def Let_def split_beta)

lemma core_exchangeCommand [simp]: "core (snd (exchangeCommand S msg wp)) = core wp"
  by (auto simp: exchangeCommand_def core_def poolExec_eq putPld_def
      split: prod.splits option.splits sum.splits exec_outcome.splits list.splits)

lemma core_runCommand [simp]: "core (snd (runCommand S cmd pls hdr wp)) = core wp"
  by (simp add: runCommand_def Let_def split_beta)

lemma core_pushCommand [simp]: "core (pushCommand cmd pls hdr wp) = core wp"
  by (simp add: core_def pushCommand_def split_beta Let_def)

lemma core_eqD:
  assumes "core w = core v"
  shows "calls w = calls v"
    "updateValidateCb w = updateValidateCb v"
    "updateCompleteCb w = updateCompleteCb v"
    "callbacks w = callbacks v"
    "ids w = ids v"
    "canceller w = canceller v"
    "inLoop w = inLoop v"
    "env w = env v"
    "header w = header v"
    "seqID w = seqID v"
    "updatesQueue w = updatesQueue v"
    "rrID w = rrID v"
    "mh w = mh v"
  using arg_cong [OF assms, of calls] arg_cong [OF assms, of updateValidateCb] arg_cong [OF assms, of updateCompleteCb] arg_cong [OF assms, of callbacks] arg_cong [OF assms, of ids] arg_cong [OF assms, of canceller] arg_cong [OF assms, of inLoop] arg_cong [OF assms, of env] arg_cong [OF assms, of header] arg_cong [OF assms, of seqID] arg_cong [OF assms, of updatesQueue] arg_cong [OF assms, of rrID] arg_cong [OF assms, of mh]
  by (simp_all add: core_def)

lemma snd_handleQuery:
  "snd (handleQuery S name input hdr wp) = snd (runCommand S (InvokeQuery (RunID (info (env wp))) name) input hdr wp)"
  by (auto simp: handleQuery_def split: prod.splits sum.splits option.splits)

lemma snd_StackTrace:
  "snd (StackTrace S wp) = snd (runCommand S (GetStackTrace (RunID (info (env wp)))) None (header wp) wp)"
  by (auto simp: StackTrace_def split: prod.splits sum.splits option.splits list.splits)

lemma core_handleQuery [simp]: "core (snd (handleQuery S name input hdr wp)) = core wp"
  by (simp add: snd_handleQuery)

lemma core_StackTrace [simp]: "core (snd (StackTrace S wp)) = core wp"
  by (simp add: snd_StackTrace)

lemma snd_flushOrPanic [simp]: "snd (flushOrPanic S wp) = snd (flushQueue S wp)"
  by (auto simp: flushOrPanic_def split: prod.splits option.splits)

lemmas exchange_frames [simp] =
  core_eqD [OF core_flushQueue] core_eqD [OF core_runCommand] core_eqD [OF core_pushCommand]
  core_eqD [OF core_handleQuery] core_eqD [OF core_StackTrace]

section \<open>The outcomes of an exchange\<close>

lemma getContext_core: "core w = core v \<Longrightarrow> getContext S w = getContext S v"
  using core_eqD(8,12) [of w v] by (simp add: getContext_def)

lemma exchangeQueue_cases:
  fixes S :: "'z world_scheme" and wp :: Workflow
  defines "w \<equiv> snd (exchangeQueue S wp)"
  assumes ne: "Messages (mq wp) \<noteq> []"
  obtains (unsent) e pl where "Encode S (getContext S wp) new_pool_payload (Messages (mq wp)) = (Some e, pl)"
      "fst (exchangeQueue S wp) = Some e" "w = wp"
  | (failed) e pl where "Encode S (getContext S wp) new_pool_payload (Messages (mq wp)) = (None, pl)"
      "fst (exchangeQueue S wp) = Some e" "w = wp\<lparr>sent := sent wp @ [pl]\<rparr>"
  | (answer) pl where "Encode S (getContext S wp) new_pool_payload (Messages (mq wp)) = (None, pl)"
      "fst (exchangeQueue S wp) = None"
      "w = wp\<lparr>sent := sent wp @ [pl], mq := Flush (mq wp),
              pipeline := pipeline wp @ answered S (exec S (sent wp @ [pl]))\<rparr>"
proof (cases "Encode S (getContext S wp) new_pool_payload (Messages (mq wp))")
  case (Pair err pl)
  show thesis
  proof (cases err)
    case (Some e)
    then show ?thesis using Pair unsent by (simp add: w_def exchangeQueue_def)
  next
    case None
    let ?out = "exec S (sent wp @ [pl])"
    show ?thesis
    proof (cases "receive S ''flush_queue'' ''worker empty response'' ?out")
      case (Inl e)
      then show ?thesis using Pair None failed [of pl e]
        by (simp add: w_def exchangeQueue_def poolExec_eq)
    next
      case (Inr r)
      then show ?thesis
        using Pair None failed [of pl] answer [of pl] answered_receive [OF Inr]
        by (cases "Decode S r") (simp_all add: w_def exchangeQueue_def poolExec_eq)
    qed
  qed
qed

text \<open>The messages, the pipeline and the history after \<open>flushQueue\<close>, without the bookkeeping.\<close>

lemma bookkeeping_frame [simp]:
  "mq (getPld wp) = mq wp" "mq (putPld wp) = mq wp" "mq (gaugeNow S n wp) = mq wp" "mq (gaugeDeferred S n k wp) = mq wp"
  "sent (getPld wp) = sent wp" "sent (putPld wp) = sent wp" "sent (gaugeNow S n wp) = sent wp"
  "sent (gaugeDeferred S n k wp) = sent wp"
  "pipeline (getPld wp) = pipeline wp" "pipeline (putPld wp) = pipeline wp"
  "pipeline (gaugeNow S n wp) = pipeline wp" "pipeline (gaugeDeferred S n k wp) = pipeline wp"
  "gseq (getPld wp) = gseq wp" "gseq (putPld wp) = gseq wp" "gseq (gaugeNow S n wp) = gseq wp"
  "gseq (gaugeDeferred S n k wp) = gseq wp"
  by (simp_all add: getPld_def putPld_def gaugeNow_def gaugeDeferred_def)

lemma flushQueue_cases:
  fixes S :: "'z world_scheme" and wp :: Workflow
  defines "w \<equiv> snd (flushQueue S wp)"
  obtains (nothing) "Messages (mq wp) = []" "flushQueue S wp = (None, wp)" "w = wp"
  | (unsent) e pl where "Messages (mq wp) \<noteq> []" "fst (flushQueue S wp) = Some e"
      "Encode S (getContext S wp) new_pool_payload (Messages (mq wp)) = (Some e, pl)"
      "sent w = sent wp" "mq w = mq wp" "pipeline w = pipeline wp"
  | (failed) e pl where "Messages (mq wp) \<noteq> []" "fst (flushQueue S wp) = Some e"
      "Encode S (getContext S wp) new_pool_payload (Messages (mq wp)) = (None, pl)"
      "sent w = sent wp @ [pl]" "mq w = mq wp" "pipeline w = pipeline wp"
  | (answer) pl where "Messages (mq wp) \<noteq> []" "fst (flushQueue S wp) = None"
      "Encode S (getContext S wp) new_pool_payload (Messages (mq wp)) = (None, pl)"
      "sent w = sent wp @ [pl]" "mq w = Flush (mq wp)"
      "pipeline w = pipeline wp @ answered S (exec S (sent wp @ [pl]))"
proof (cases "Messages (mq wp) = []")
  case True
  show thesis by (rule nothing) (simp_all add: w_def flushQueue_def True)
next
  case False
  let ?wp = "getPld (gaugeNow S RrWorkflowsMetricName wp)"
  have ctx: "getContext S ?wp = getContext S wp" by (rule getContext_core) simp
  have w: "w = gaugeDeferred S RrWorkflowsMetricName (qreads wp) (putPld (snd (exchangeQueue S ?wp)))"
    "fst (flushQueue S wp) = fst (exchangeQueue S ?wp)"
    using False by (simp_all add: w_def flushQueue_def Let_def split_beta)
  have "Messages (mq ?wp) \<noteq> []" using False by simp
  then show thesis
  proof (cases rule: exchangeQueue_cases [where S = S])
    case (unsent e pl)
    then show ?thesis using False w ctx that(2) [of e pl] by simp
  next
    case (failed e pl)
    then show ?thesis using False w ctx that(3) [of e pl] by simp
  next
    case (answer pl)
    then show ?thesis using False w ctx that(4) [of pl] by simp
  qed
qed

text \<open>\<open>runCommand\<close> leaves the queue and the pipeline alone.\<close>

lemma exchangeCommand_frame:
  "mq (snd (exchangeCommand S msg wp)) = mq wp \<and> pipeline (snd (exchangeCommand S msg wp)) = pipeline wp \<and>
   (sent (snd (exchangeCommand S msg wp)) = sent wp \<or>
    (\<exists>pl. Encode S (getContext S wp) new_pool_payload [msg] = (None, pl) \<and>
          sent (snd (exchangeCommand S msg wp)) = sent wp @ [pl]))"
  by (auto simp: exchangeCommand_def poolExec_eq
      split: prod.splits option.splits sum.splits exec_outcome.splits list.splits)

lemma runCommand_frame:
  "mq (snd (runCommand S cmd pls hdr wp)) = mq wp \<and> pipeline (snd (runCommand S cmd pls hdr wp)) = pipeline wp \<and>
   (sent (snd (runCommand S cmd pls hdr wp)) = sent wp \<or>
    (\<exists>msg pl. Command msg = Some cmd \<and> Encode S (getContext S wp) new_pool_payload [msg] = (None, pl) \<and>
          sent (snd (runCommand S cmd pls hdr wp)) = sent wp @ [pl]))"
proof -
  let ?msg = "fst (AllocateMessage seq cmd pls hdr emptyMessage (gseq wp))"
  let ?n = "snd (AllocateMessage seq cmd pls hdr emptyMessage (gseq wp))"
  let ?wp = "getPld (gaugeNow S RrMetricName (wp\<lparr>gseq := ?n\<rparr>))"
  have "getContext S ?wp = getContext S wp" by (rule getContext_core) simp
  moreover have "Command ?msg = Some cmd" by (simp add: AllocateMessage_def seq_def)
  ultimately show ?thesis
    using exchangeCommand_frame [of S ?msg ?wp]
    by (auto simp: runCommand_def Let_def split_beta)
qed

section \<open>Invariants of the message handlers\<close>

locale call_invariant =
  fixes S :: "'z world_scheme"
    and P :: "Workflow \<Rightarrow> bool"
    and K :: "u64 \<Rightarrow> pool_payload list \<Rightarrow> bool"
  assumes P_deliver: "P wp \<Longrightarrow> K i (sent wp) \<Longrightarrow> P (deliver S i r e wp)"
    and P_defer: "P wp \<Longrightarrow> inLoop wp \<noteq> 1 \<Longrightarrow> K (deferred_id d) (sent wp) \<Longrightarrow>
          P (wp\<lparr>callbacks := callbacks wp @ [d]\<rparr>)"
    and P_push: "P wp \<Longrightarrow> P (wp\<lparr>ids := snd (Push j w err (ids wp))\<rparr>)"
    and P_listener: "P wp \<Longrightarrow> listeners (ids wp) j = Some i \<Longrightarrow> K i (sent wp)"
    and P_sync: "P wp \<Longrightarrow> hc \<in> set (ret_sync S (calls wp)) \<Longrightarrow> K (handler_id (called_handler hc)) (sent wp)"
begin

lemma createCallback_P: "P wp \<Longrightarrow> K i (sent wp) \<Longrightarrow> P (createCallback S i t r e wp)"
  by (simp add: createCallback_def P_deliver P_defer)

lemma createLocalActivityCallback_P:
  "P wp \<Longrightarrow> K i (sent wp) \<Longrightarrow> P (createLocalActivityCallback S i r e wp)"
  by (simp add: createLocalActivityCallback_def P_deliver P_defer)

text \<open>Running handlers changes neither the log nor the history.\<close>

abbreviation at :: "env_call list \<Rightarrow> pool_payload list \<Rightarrow> Workflow \<Rightarrow> bool" where
  "at log h wp \<equiv> P wp \<and> calls wp = log \<and> sent wp = h"

lemma childListener_keeps: "K i h \<Longrightarrow> keeps (at log h) (childListener S i e)"
  unfolding childListener_def
  by (auto split: prod.splits option.splits sum.splits
      intro!: keeps_intros keeps_modify createCallback_P)

lemma childListener_at:
  "K i h \<Longrightarrow> at log h wp \<Longrightarrow> at log h (snd (childListener S i e wp))"
  using childListener_keeps [of i h log e] by (simp add: keeps_def)

lemma runHandler_keeps:
  assumes "K (handler_id (called_handler hc)) h"
  shows "keeps (at log h) (runHandler S hc)"
proof (cases hc)
  case (CallResult i t r e)
  with assms show ?thesis by (auto intro!: keeps_modify createCallback_P)
next
  case (CallLocal i r e)
  with assms show ?thesis by (auto intro!: keeps_modify createLocalActivityCallback_P)
next
  case (CallChildStarted i w err)
  show ?thesis unfolding keeps_def
  proof (intro allI impI)
    fix wp assume at: "at log h wp"
    let ?wp = "wp\<lparr>ids := snd (Push i w err (ids wp))\<rparr>"
    have P: "at log h ?wp" using at P_push by simp
    have "at log h (snd (callListener S (fst (Push i w err (ids wp))) ?wp))"
    proof (cases "fst (Push i w err (ids wp))")
      case None
      then show ?thesis using P by (simp add: callListener_def pureA_def)
    next
      case (Some le)
      then obtain l where "listeners (ids ?wp) i = Some l" "fst le = l"
        by (auto simp: Push_def Let_def split: option.splits)
      then have "K (fst le) h" using P P_listener by metis
      then show ?thesis
        using Some P childListener_at [of "fst le" h ?wp log "snd le"]
        by (cases le) (simp add: callListener_def)
    qed
    then show "at log h (snd (runHandler S hc wp))"
      using CallChildStarted by (simp add: split_beta Let_def)
  qed
qed

lemma envCall_P:
  assumes "P (wp\<lparr>calls := calls wp @ [c]\<rparr>)"
  shows "P (snd (envCall S c wp)) \<and> sent (snd (envCall S c wp)) = sent wp"
proof -
  let ?log = "calls wp @ [c]"
  let ?wp = "wp\<lparr>calls := ?log\<rparr>"
  have "keeps (at ?log (sent wp)) (mapA (runHandler S) (ret_sync S ?log))"
    using P_sync [OF assms] by (intro keeps_mapA runHandler_keeps) simp
  then have "keeps (at ?log (sent wp)) (seqA (mapA (runHandler S) (ret_sync S ?log)) (pureA ?log))"
    by (intro keeps_seq keeps_pure)
  then show ?thesis
    using assms by (simp add: envCall_def Let_def keeps_def)
qed

end

text \<open>
  The rest of the changes of \<open>handleMessage\<close>; the two handlers of update answers are assumed whole.
\<close>

locale handler_invariant = call_invariant +
  assumes K_mono: "K i h \<Longrightarrow> K i (h @ [p])"
    and P_canceller: "P wp \<Longrightarrow> P (wp\<lparr>canceller := cm\<rparr>)"
    and P_seqID: "P wp \<Longrightarrow> P (wp\<lparr>seqID := n\<rparr>)"
    and P_listen: "P wp \<Longrightarrow> K i (sent wp) \<Longrightarrow> P (wp\<lparr>ids := snd (Listen j i (ids wp))\<rparr>)"
    and P_response: "P wp \<Longrightarrow> K i (sent wp) \<Longrightarrow> P (pushResponse i r wp)"
    and P_flush: "P wp \<Longrightarrow> P (snd (flushQueue S wp))"
    and P_call: "P wp \<Longrightarrow> plain_call c \<Longrightarrow> (\<forall>h \<in> set (handlers_of c). K (handler_id h) (sent wp)) \<Longrightarrow>
          P (wp\<lparr>calls := calls wp @ [c]\<rparr>)"
    and P_completed: "P wp \<Longrightarrow> updateCompleteCb wp uid = Some qu \<Longrightarrow>
          P (snd (hmUpdateCompleted S msg uid wp))"
    and P_validated: "P wp \<Longrightarrow> updateValidateCb wp uid = Some qu \<Longrightarrow>
          P (snd (hmUpdateValidated S msg uid wp))"
    and P_head: "P wp \<Longrightarrow> pipeline wp = m # rest \<Longrightarrow> K (ID m) (sent wp) \<and> P (wp\<lparr>pipeline := rest\<rparr>)"
    and P_nil: "P wp \<Longrightarrow> P (wp\<lparr>pipeline := []\<rparr>)"
begin

lemma envCall_plain:
  assumes "P wp" "plain_call c" "\<forall>h \<in> set (handlers_of c). K (handler_id h) (sent wp)"
  shows "P (snd (envCall S c wp)) \<and> sent (snd (envCall S c wp)) = sent wp"
  using envCall_P [OF P_call [OF assms]] .

text \<open>A call followed by a step that keeps \<open>P\<close> wherever the history has not changed.\<close>

lemma envCall_then:
  assumes "P wp" "plain_call c" "\<forall>h \<in> set (handlers_of c). K (handler_id h) (sent wp)"
    and "\<And>log wp'. P wp' \<Longrightarrow> sent wp' = sent wp \<Longrightarrow> P (snd (f log wp'))"
  shows "P (snd (bindA (envCall S c) f wp))"
  using envCall_plain [OF assms(1-3)] assms(4)
  by (auto simp: bindA_def split: prod.splits outcome.splits)

lemma respondAndFlush_P: "P wp \<Longrightarrow> K i (sent wp) \<Longrightarrow> P (snd (respondAndFlush S i r wp))"
  using P_flush [OF P_response, of wp i r]
  by (auto simp: respondAndFlush_def split: prod.splits option.splits)

lemma continuable_P: "P wp \<Longrightarrow> K i (sent wp) \<Longrightarrow> P (snd (createContinuableCallback S i r e wp))"
  using P_deliver [of wp i r e] P_flush [OF P_deliver, of wp i r e]
  by (auto simp: createContinuableCallback_def split: prod.splits option.splits)

lemma runCancellable_P: "P wp \<and> sent wp = h \<Longrightarrow>
    P (snd (runCancellable S c wp)) \<and> sent (snd (runCancellable S c wp)) = h"
  by (cases "(S, c)" rule: runCancellable.cases) (auto simp: envCall_plain)

lemma cancelIDs_P: "P wp \<Longrightarrow> P (snd (cancelIDs S cids wp)) \<and> sent (snd (cancelIDs S cids wp)) = sent wp"
proof -
  have "keeps (\<lambda>v. P v \<and> sent v = sent wp) (cancelIDs S cids)"
    unfolding cancelIDs_def
    by (rule keeps_CancelIds) (auto simp: keeps_def runCancellable_P P_canceller)
  then show "P wp \<Longrightarrow> ?thesis" by (simp add: keeps_def)
qed

text \<open>Each case of the switch.\<close>

lemma hmExecuteActivity_P:
  "P wp \<Longrightarrow> K (ID msg) (sent wp) \<Longrightarrow> P (snd (hmExecuteActivity S msg name opts wp))"
  unfolding hmExecuteActivity_def Let_def
  by (rule envCall_then) (auto simp: pureA_def P_canceller)

lemma hmExecuteLocalActivity_P:
  "P wp \<Longrightarrow> K (ID msg) (sent wp) \<Longrightarrow> P (snd (hmExecuteLocalActivity S msg name lopts wp))"
  unfolding hmExecuteLocalActivity_def Let_def
  by (rule envCall_then) (auto simp: pureA_def P_canceller)

lemma hmExecuteChildWorkflow_P:
  "P wp \<Longrightarrow> K (ID msg) (sent wp) \<Longrightarrow> P (snd (hmExecuteChildWorkflow S msg name wopts wp))"
  unfolding hmExecuteChildWorkflow_def Let_def
  by (auto simp: P_seqID pureA_def P_canceller intro!: envCall_then)

lemma hmGetChildWorkflowExecution_P:
  assumes "P wp" "K (ID msg) (sent wp)"
  shows "P (snd (hmGetChildWorkflowExecution S msg cid wp))"
proof -
  let ?wp = "wp\<lparr>ids := snd (Listen cid (ID msg) (ids wp))\<rparr>"
  have P: "P ?wp" using assms by (rule P_listen)
  have "P (snd (callListener S (fst (Listen cid (ID msg) (ids wp))) ?wp))"
  proof (cases "fst (Listen cid (ID msg) (ids wp))")
    case None
    then show ?thesis using P by (simp add: callListener_def pureA_def)
  next
    case (Some le)
    then have "fst le = ID msg" by (auto simp: Listen_def Let_def split: option.splits)
    then have "K (fst le) (sent wp)" using assms(2) by simp
    then show ?thesis
      using Some P childListener_at [of "fst le" "sent wp" ?wp "calls wp" "snd le"]
      by (cases le) (simp add: callListener_def)
  qed
  then show ?thesis
    by (auto simp: hmGetChildWorkflowExecution_def split_beta Let_def seqA_def bindA_def pureA_def
        split: prod.splits outcome.splits)
qed

lemma hmNewTimer_P: "P wp \<Longrightarrow> K (ID msg) (sent wp) \<Longrightarrow> P (snd (hmNewTimer S msg ms sm wp))"
  unfolding hmNewTimer_def
  by (rule envCall_then) (auto simp: pureA_def P_canceller)

lemma hmGetVersion_P: "P wp \<Longrightarrow> K (ID msg) (sent wp) \<Longrightarrow> P (snd (hmGetVersion S msg ch lo hi wp))"
  unfolding hmGetVersion_def
  by (rule envCall_then) (auto simp: pureA_def respondAndFlush_P split: sum.splits)

lemma hmSideEffect_P: "P wp \<Longrightarrow> K (ID msg) (sent wp) \<Longrightarrow> P (snd (hmSideEffect S msg wp))"
  unfolding hmSideEffect_def
proof (rule envCall_then)
  fix log wp' assume "P wp'" "sent wp' = sent wp" "K (ID msg) (sent wp)"
  then show "P (snd ((case ret_side_effect S log of
      (result, err) \<Rightarrow> seqA (createContinuableCallback S (ID msg) result err) (pureA None)) wp'))"
    using continuable_P [of wp' "ID msg" "fst (ret_side_effect S log)" "snd (ret_side_effect S log)"]
    by (auto simp: seqA_def bindA_def pureA_def split: prod.splits outcome.splits)
qed auto

lemma hmCompleteWorkflow_P:
  "P wp \<Longrightarrow> K (ID msg) (sent wp) \<Longrightarrow> P (snd (hmCompleteWorkflow S msg wp))"
  by (cases "Failure msg") (simp_all add: hmCompleteWorkflow_def envCall_plain P_response)

lemma hmContinueAsNew_P:
  "P wp \<Longrightarrow> K (ID msg) (sent wp) \<Longrightarrow> P (snd (hmContinueAsNew S msg name tqn rt tt wp))"
  by (simp add: hmContinueAsNew_def envCall_plain P_response)

lemma envCallErr_P: "P wp \<Longrightarrow> plain_call c \<Longrightarrow> handlers_of c = [] \<Longrightarrow> P (snd (envCallErr S c wp))"
  unfolding envCallErr_def by (rule envCall_then) (auto simp: pureA_def)

lemma hmUpsertTypedSearchAttributes_P:
  "P wp \<Longrightarrow> P (snd (hmUpsertTypedSearchAttributes S attrs wp))"
  by (auto simp: hmUpsertTypedSearchAttributes_def pureA_def envCallErr_P split: sum.splits)

lemma hmSignalExternalWorkflow_P:
  "P wp \<Longrightarrow> K (ID msg) (sent wp) \<Longrightarrow> P (snd (hmSignalExternalWorkflow S msg ns wid rid sg co wp))"
  unfolding hmSignalExternalWorkflow_def by (rule envCall_then) (auto simp: pureA_def)

lemma hmCancelExternalWorkflow_P:
  "P wp \<Longrightarrow> K (ID msg) (sent wp) \<Longrightarrow> P (snd (hmCancelExternalWorkflow S msg ns wid rid wp))"
  unfolding hmCancelExternalWorkflow_def by (rule envCall_then) (auto simp: pureA_def)

lemma hmCancel_P: "P wp \<Longrightarrow> K (ID msg) (sent wp) \<Longrightarrow> P (snd (hmCancel S msg cids wp))"
  using cancelIDs_P [of wp cids] respondAndFlush_P
  by (auto simp: hmCancel_def bindA_def pureA_def split: prod.splits outcome.splits option.splits)

lemma hmUpdateCompleted_P: "P wp \<Longrightarrow> P (snd (hmUpdateCompleted S msg uid wp))"
  using P_completed [of wp uid _ msg]
  by (cases "updateCompleteCb wp uid") (simp_all add: hmUpdateCompleted_def)

lemma hmUpdateValidated_P: "P wp \<Longrightarrow> P (snd (hmUpdateValidated S msg uid wp))"
  using P_validated [of wp uid _ msg]
  by (cases "updateValidateCb wp uid") (simp_all add: hmUpdateValidated_def)

lemmas cases_P = hmExecuteActivity_P hmExecuteLocalActivity_P hmExecuteChildWorkflow_P
  hmGetChildWorkflowExecution_P hmNewTimer_P hmGetVersion_P hmSideEffect_P hmCompleteWorkflow_P
  hmContinueAsNew_P envCallErr_P hmUpsertTypedSearchAttributes_P hmSignalExternalWorkflow_P
  hmCancelExternalWorkflow_P hmCancel_P hmUpdateCompleted_P hmUpdateValidated_P

lemma handleMessage_P:
  assumes "P wp" "K (ID msg) (sent wp)"
  shows "P (snd (handleMessage S msg wp))"
proof (cases "Command msg")
  case None
  then show ?thesis using assms by (simp add: handleMessage_def pureA_def)
next
  case (Some c)
  then show ?thesis using assms
    by (cases c)
      (simp_all add: handleMessage_def cases_P pureA_def hmPanic_def hmUpsertMemo_def
         hmUpsertSearchAttributes_def)
qed

lemma processPipeline_P:
  "P wp \<Longrightarrow> processPipeline fuel S wp = Some (r, wp') \<Longrightarrow> P wp'"
proof (induction fuel arbitrary: wp)
  case (Suc fuel)
  show ?case
  proof (cases "pipeline wp")
    case Nil
    then show ?thesis using Suc.prems by simp
  next
    case (Cons m rest)
    note head = P_head [OF Suc.prems(1) Cons]
    let ?wp = "wp\<lparr>pipeline := rest\<rparr>"
    have "P (snd (handleMessage S m ?wp))" using head by (intro handleMessage_P) auto
    then show ?thesis using Suc Cons head P_nil
      by (auto simp: Let_def split: if_splits prod.splits outcome.splits option.splits)
  qed
qed simp

end

section \<open>Invariants of workflow tasks\<close>

text \<open>
  The changes made outside of the pipeline loop: entering and leaving a task, running the
  deferred callbacks and the queued updates, pushing host commands, drawing a sequence number and
  the exchange of a single command.
\<close>

locale task_invariant = handler_invariant +
  assumes P_inLoop: "P wp \<Longrightarrow> P (wp\<lparr>inLoop := b\<rparr>)"
    and P_deferred: "P wp \<Longrightarrow> d \<in> set (callbacks wp) \<Longrightarrow> K (deferred_id d) (sent wp)"
    and P_callbacks: "P wp \<Longrightarrow> P (wp\<lparr>callbacks := []\<rparr>)"
    and P_updatesQueue: "P wp \<Longrightarrow> P (wp\<lparr>updatesQueue := us\<rparr>)"
    and P_runQueued: "P wp \<Longrightarrow> c = EnvDrainUnhandledUpdates \<or> c = EnvHandleQueuedUpdates k \<Longrightarrow>
          P (snd (runQueued S c wp))"
    and P_handleUpdate: "P wp \<Longrightarrow> \<forall>qu \<in> set (waiting_updates (calls wp) @ started_updates (calls wp)). quHandle qu \<noteq> cbs \<Longrightarrow>
          P (snd (handleUpdate S k uid input hdr cbs wp))"
    and P_pushCommand: "P wp \<Longrightarrow> in_both_tables cmd \<Longrightarrow> P (pushCommand cmd input hdr wp)"
    and P_runCommand: "P wp \<Longrightarrow> in_both_tables cmd \<Longrightarrow> P (snd (runCommand S cmd input hdr wp))"
    and P_clearComplete: "P wp \<Longrightarrow> P (wp\<lparr>updateCompleteCb := Map.empty\<rparr>)"
    and P_mqFlush: "P wp \<Longrightarrow> P (wp\<lparr>mq := Flush (mq wp)\<rparr>)"
    and P_given: "P wp \<Longrightarrow> h \<in> given (calls wp) \<Longrightarrow> K (handler_id h) (sent wp)"
    and P_env: "P wp \<Longrightarrow> P (wp\<lparr>env := ev\<rparr>)"
    and P_gseq: "P wp \<Longrightarrow> P (wp\<lparr>gseq := n\<rparr>)"
    and P_start: "P (Execute S metrics ev hdr input (NewWorkflowDefinition uid ev n))"
begin

lemma runDeferreds_P:
  "P wp \<Longrightarrow> \<forall>d \<in> set ds. K (deferred_id d) (sent wp) \<Longrightarrow> P (fold (runDeferred S) ds wp)"
proof (induction ds arbitrary: wp)
  case (Cons d ds)
  have "runDeferred S d wp = deliver S (deferred_id d)
      (case d of DeferResult _ _ r _ \<Rightarrow> r | DeferLocal _ r _ \<Rightarrow> r)
      (case d of DeferResult _ _ _ e \<Rightarrow> e | DeferLocal _ _ e \<Rightarrow> e) wp"
    by (cases d) simp_all
  then show ?case using Cons by (simp add: P_deliver)
qed simp

lemma runCallbacks_P: "P wp \<Longrightarrow> P (runCallbacks S wp)"
  unfolding runCallbacks_def by (intro P_callbacks runDeferreds_P) (auto dest: P_deferred)

lemma runUpdates_P: "P wp \<Longrightarrow> P (snd (runUpdates S order wp))"
proof -
  have "keeps P (runUpdates S order)"
    unfolding runUpdates_def
    by (intro keeps_seq keeps_mapA keeps_modify P_updatesQueue) (auto simp: keeps_def P_runQueued)
  then show "P wp \<Longrightarrow> ?thesis" by (rule keepsD)
qed

lemma taskPrologue_P: "P wp \<Longrightarrow> P (snd (taskPrologue S order wp))"
proof -
  have "keeps P (taskPrologue S order)"
    unfolding taskPrologue_def
  proof (intro keeps_seq keeps_modify)
    show "keeps P (runUpdates S order)" by (simp add: keeps_def runUpdates_P)
    show "keeps P (flushOrPanic S)"
      by (simp add: keeps_def P_flush)
  qed (intro runCallbacks_P P_inLoop)
  then show "P wp \<Longrightarrow> ?thesis" by (rule keepsD)
qed

lemma OnWorkflowTaskStarted_P:
  "P wp \<Longrightarrow> OnWorkflowTaskStarted fuel S order wp = Some (r, wp') \<Longrightarrow> P wp'"
  using taskPrologue_P [of wp order] processPipeline_P
  by (auto simp: OnWorkflowTaskStarted_def split: prod.splits outcome.splits intro!: P_inLoop)

lemma Close_P: "P wp \<Longrightarrow> P (snd (Close S wp))"
proof -
  have "keeps P (Close S)"
    unfolding Close_def
  proof (intro keeps_seq keeps_modify)
    show "keeps P (runQueued S EnvDrainUnhandledUpdates)" by (simp add: keeps_def P_runQueued)
    fix wp assume "P wp"
    then have "P (wp\<lparr>updatesQueue := [], updateCompleteCb := Map.empty\<rparr>)"
      using P_clearComplete [OF P_updatesQueue, of wp "[]"] by simp
    then show "P (let wp1 = wp\<lparr>updatesQueue := [], updateCompleteCb := Map.empty\<rparr>;
          (_, wp2) = runCommand S (DestroyWorkflow (RunID (info (env wp1)))) None (header wp1) wp1
        in wp2\<lparr>mq := Flush (mq wp2)\<rparr>)"
      by (simp add: Let_def split_beta P_mqFlush P_runCommand)
  qed
  then show "P wp \<Longrightarrow> ?thesis" by (rule keepsD)
qed

lemma runHandler_P: "P wp \<Longrightarrow> called_handler hc \<in> given (calls wp) \<Longrightarrow> P (snd (runHandler S hc wp))"
  using runHandler_keeps [of hc "sent wp" "calls wp"] P_given by (simp add: keeps_def)

lemma handleQuery_P: "P wp \<Longrightarrow> P (snd (handleQuery S name input hdr wp))"
  by (simp add: snd_handleQuery P_runCommand)

lemma StackTrace_P: "P wp \<Longrightarrow> P (snd (StackTrace S wp))"
  by (simp add: snd_StackTrace P_runCommand)

lemma wf_step_P: "wf_step S wp wp' \<Longrightarrow> P wp \<Longrightarrow> P wp'"
proof (induction rule: wf_step.induct)
  case (step_task order wp fuel r wp')
  then show ?case by (blast intro: OnWorkflowTaskStarted_P)
qed (auto simp: handleSignal_def handleCancel_def runHandler_P handleQuery_P StackTrace_P Close_P
    P_pushCommand P_handleUpdate P_env P_gseq)

lemma reachable_P: "reachable S wp \<Longrightarrow> P wp"
  by (induction rule: reachable.induct) (auto intro: P_start wf_step_P)

end

end
