(* ===== verification/Sample_World.thy ===== *)
theory Sample_World
  imports Workflow_Steps
begin

text \<open>
  A concrete SDK and a concrete worker, for running the model on examples. The worker answers its
  \<open>n\<close>-th exchange with the frame \<open>script n\<close>; the options of a command are its text argument. The
  SDK runs the queued updates when asked to and calls no handler on its own. A second
  world has the codec \<open>table_wire\<close>, which reads back what it wrote.
\<close>

fun sample_command :: "command \<Rightarrow> bytes \<Rightarrow> command" where
  "sample_command (UpdateValidated _) bs = UpdateValidated bs"
| "sample_command (UpdateCompleted _) bs = UpdateCompleted bs"
| "sample_command (NewTimer _ _) bs = NewTimer (of_nat (length bs)) bs"
| "sample_command (GetVersion _ _ _) bs = GetVersion bs 1 2"
| "sample_command (Cancel _) bs = Cancel [of_nat (length bs)]"
| "sample_command c bs = c"

definition sample_queued :: "env_call list \<Rightarrow> queued_update list" where
  "sample_queued log =
     (if log = [] then []
      else case last log of
             EnvHandleQueuedUpdates k \<Rightarrow> filter (\<lambda>qu. quName qu = k) (waiting_updates (butlast log))
           | EnvDrainUnhandledUpdates \<Rightarrow> waiting_updates (butlast log)
           | _ \<Rightarrow> [])"

definition sample_frame :: "u64 \<Rightarrow> string \<Rightarrow> bytes \<Rightarrow> proto_message" where
  "sample_frame i name opts = new_proto_message\<lparr>Id := i, pmCommand := name, Options := opts\<rparr>"

definition sample_world :: "(nat \<Rightarrow> proto_message list) \<Rightarrow> world" where
  "sample_world script =
     \<lparr>json_context = (\<lambda>_. Inr ''context''), json_command = (\<lambda>_. Inr ''options''),
      unjson_command = (\<lambda>z bs. Inr (Some (sample_command z bs))),
      proto_marshal = (\<lambda>_. Inr ''frame''), proto_unmarshal = (\<lambda>bs. Inr (script (length bs))),
      exec = (\<lambda>h. Response None (new_pool_payload\<lparr>plBody := replicate (length h) (CHR ''x'')\<rparr>)),
      stream_flag = 1, queue_size = of_nat,
      ret_activity = (\<lambda>log. ''activity''), ret_timer = (\<lambda>log. Some ''timer''),
      ret_version = (\<lambda>log. 1), ret_error = (\<lambda>log. None), ret_side_effect = (\<lambda>log. (Some [], None)),
      ret_queued = sample_queued, ret_sync = (\<lambda>log. []),
      to_payloads = (\<lambda>v. Inr (Some [])), from_payload_string = (\<lambda>p. Inr (data p)),
      failure_to_error = (\<lambda>f. ErrExt (Message f)),
      error_to_failure = (\<lambda>e. \<lparr>Message = ''failed'', failureRest = []\<rparr>),
      error_text = (\<lambda>e. ''error''), as_duration = seconds,
      timeLib = \<lparr>format_rfc3339 = (\<lambda>t. ''now''), parse_rfc3339 = (\<lambda>s. Inr (GoTime 0 0)),
                 float_oob = (\<lambda>f. 0)\<rparr>\<rparr>"

definition sample_view :: env_view where
  "sample_view =
     \<lparr>info = \<lparr>TaskQueueName = ''default'', WorkflowID = ''wf'', RunID = ''run'', infoRest = []\<rparr>,
      Now = GoTime 0 0, wallClock = GoTime 0 0, IsReplaying = False, CurrentHistoryLength = 3,
      CurrentHistorySize = 100, ContinueAsNewSuggestedNow = False, attributes = [],
      lastCompletionResult = None\<rparr>"

definition sample_start :: "(nat \<Rightarrow> proto_message list) \<Rightarrow> Workflow" where
  "sample_start script =
     Execute (sample_world script) True sample_view None (Some []) (NewWorkflowDefinition ''rr'' sample_view 0)"

lemma sample_start_reachable: "reachable (sample_world script) (sample_start script)"
  unfolding sample_start_def by (rule reach_start)

lemma sample_sync_ok: "sync_ok (sample_world script)"
  by (simp add: sync_ok_def sample_world_def)

lemma sample_updates_ok: "updates_ok (sample_world script)"
  by (simp add: updates_ok_def sample_world_def sample_queued_def)

text \<open>A workflow task with the fuel the examples need.\<close>

definition sample_task :: "(nat \<Rightarrow> proto_message list) \<Rightarrow> string list \<Rightarrow> Workflow \<Rightarrow> Workflow" where
  "sample_task script order wp =
     (case OnWorkflowTaskStarted 20 (sample_world script) order wp of
        Some (r, wp') \<Rightarrow> wp' | None \<Rightarrow> wp)"

lemma sample_task_reachable:
  assumes "reachable (sample_world script) wp" "mset order = mset (updatesQueue wp)"
  shows "reachable (sample_world script) (sample_task script order wp)"
  using assms reach_step [OF assms(1) step_task, of order 20]
  by (auto simp: sample_task_def split: option.splits prod.splits)

lemma sample_update_reachable:
  assumes "reachable (sample_world script) wp"
    "\<forall>qu \<in> set (waiting_updates (calls wp) @ started_updates (calls wp)). quHandle qu \<noteq> cbs"
  shows "reachable (sample_world script) (snd (handleUpdate (sample_world script) name uid input hdr cbs wp))"
  using assms by (blast intro: reach_step step_update)

section \<open>A world whose codec reads what it wrote\<close>

text \<open>
  A world with this codec: the worker answers the start of the workflow with a timer command and
  everything else with nothing.
\<close>

definition timer_command :: message where
  "timer_command = emptyMessage\<lparr>ID := 100, Command := Some (NewTimer 5 [])\<rparr>"

definition timer_cmds :: "(command \<times> bytes) list" where
  "timer_cmds = [(startCommand (sample_world (\<lambda>_. [])) sample_view 0, ''start''), (NewTimer 5 [], ''timer'')]"

definition timer_frame :: "message list \<Rightarrow> proto_message list" where
  "timer_frame ms =
     projr (traverse (\<lambda>m. packMessage (table_wire [] timer_cmds (sample_world (\<lambda>_. []))) m
                            (getContext (sample_world (\<lambda>_. [])) (sample_start (\<lambda>_. [])))) ms)"

definition timer_result :: message where
  "timer_result = emptyMessage\<lparr>ID := 100\<rparr>"

definition timer_world :: world where
  "timer_world =
     table_wire [(timer_frame (Messages (mq (sample_start (\<lambda>_. [])))), ''1''), (timer_frame [timer_command], ''2''),
                 (timer_frame [timer_result], ''3''), ([], ''4'')] timer_cmds
       ((sample_world (\<lambda>_. []))\<lparr>exec := (\<lambda>h. Response None
          (new_pool_payload\<lparr>plBody := (if length h = 1 then ''2'' else ''4'')\<rparr>))\<rparr>)"

definition timer_start :: Workflow where
  "timer_start = Execute timer_world True sample_view None (Some []) (NewWorkflowDefinition ''rr'' sample_view 0)"

definition timer_task :: "Workflow \<Rightarrow> Workflow" where
  "timer_task wp = (case OnWorkflowTaskStarted 20 timer_world [] wp of Some (r, wp') \<Rightarrow> wp' | None \<Rightarrow> wp)"

text \<open>The first task starts the timer; it fires before the second task.\<close>

definition timer_fired :: Workflow where
  "timer_fired = snd (runHandler timer_world (CallResult 100 ''NewTimer'' None None) (timer_task timer_start))"

lemma timer_world_ok: "wire_ok timer_world" "sync_ok timer_world" "updates_ok timer_world"
proof -
  show "wire_ok timer_world" unfolding timer_world_def
    by (rule table_wire_ok) (simp_all add: timer_cmds_def)
  show "sync_ok timer_world" by (simp add: sync_ok_def timer_world_def table_wire_def sample_world_def)
  show "updates_ok timer_world"
    by (simp add: updates_ok_def timer_world_def table_wire_def sample_world_def sample_queued_def)
qed

lemma timer_task_reachable:
  assumes "reachable timer_world wp" "updatesQueue wp = []"
  shows "reachable timer_world (timer_task wp)"
  using reach_step [OF assms(1) step_task, of "[]" 20] assms
  by (auto simp: timer_task_def split: option.splits prod.splits)

lemma timer_fired_reachable: "reachable timer_world timer_fired"
proof -
  have "reachable timer_world timer_start" unfolding timer_start_def by (rule reach_start)
  moreover have "updatesQueue timer_start = []" by code_simp
  ultimately have "reachable timer_world (timer_task timer_start)" by (rule timer_task_reachable)
  moreover have "Callback 100 ''NewTimer'' \<in> set (concat (map handlers_of (calls (timer_task timer_start))))"
    by code_simp
  ultimately show ?thesis unfolding timer_fired_def
    by (intro reach_step [OF _ step_result]) (auto simp: given_def)
qed

end
