(* ===== verification/Workflow_Responses.thy ===== *)
theory Workflow_Responses
  imports Workflow_Invariants Sample_World
begin

text \<open>
  Commands and responses. A worker sends a command with an id; the workflow executes it and later
  sends a response with that id. The invariant \<open>answers_inv\<close> follows an id from the command in
  the pipeline, through the handler given to the SDK, the id registry and the deferred callbacks,
  into the queue and the payload of an exchange; interpreting \<open>task_invariant\<close> shows that all
  reachable states have it.
\<close>

section \<open>What was heard and told\<close>

text \<open>The messages the worker sent in answer to the payloads \<open>h\<close>, and the messages of a payload.\<close>

fun heard_upto :: "'z world_scheme \<Rightarrow> pool_payload list \<Rightarrow> nat \<Rightarrow> message list" where
  "heard_upto S h 0 = []"
| "heard_upto S h (Suc k) = heard_upto S h k @ answered S (exec S (take (Suc k) h))"

definition heard :: "'z world_scheme \<Rightarrow> pool_payload list \<Rightarrow> message list" where
  "heard S h = heard_upto S h (length h)"

definition contents :: "'z world_scheme \<Rightarrow> pool_payload \<Rightarrow> message list" where
  "contents S pl = (case Decode S pl of Inr ms \<Rightarrow> ms | Inl _ \<Rightarrow> [])"

definition commanded :: "'z world_scheme \<Rightarrow> pool_payload list \<Rightarrow> u64 set" where
  "commanded S h = ID ` set (heard S h)"

text \<open>Every response in the history answers a message the worker had sent before.\<close>

definition answers_only :: "'z world_scheme \<Rightarrow> pool_payload list \<Rightarrow> bool" where
  "answers_only S h \<longleftrightarrow>
     (\<forall>k < length h. \<forall>m \<in> set (contents S (h ! k)). Command m = None \<longrightarrow> ID m \<in> commanded S (take k h))"

lemma heard_upto_append: "k \<le> length h \<Longrightarrow> heard_upto S (h @ xs) k = heard_upto S h k"
  by (induction k) simp_all

lemma heard_snoc: "heard S (h @ [p]) = heard S h @ answered S (exec S (h @ [p]))"
  by (simp add: heard_def heard_upto_append)

lemma commanded_mono: "i \<in> commanded S h \<Longrightarrow> i \<in> commanded S (h @ [p])"
  by (auto simp: commanded_def heard_snoc)

lemma answers_only_snoc:
  "answers_only S (h @ [p]) \<longleftrightarrow>
     answers_only S h \<and> (\<forall>m \<in> set (contents S p). Command m = None \<longrightarrow> ID m \<in> commanded S h)"
  by (auto simp: answers_only_def nth_append less_Suc_eq)

section \<open>The invariant\<close>

definition answers_inv :: "'z world_scheme \<Rightarrow> Workflow \<Rightarrow> bool" where
  "answers_inv S wp \<longleftrightarrow>
     (\<forall>m \<in> set (Messages (mq wp)). readable m \<and> (Command m = None \<longrightarrow> ID m \<in> commanded S (sent wp))) \<and>
     (\<forall>m \<in> set (pipeline wp). ID m \<in> commanded S (sent wp)) \<and>
     (\<forall>d \<in> set (callbacks wp). deferred_id d \<in> commanded S (sent wp)) \<and>
     (\<forall>i \<in> ran (listeners (ids wp)). i \<in> commanded S (sent wp)) \<and>
     (\<forall>h \<in> given (calls wp). handler_id h \<in> commanded S (sent wp)) \<and>
     answers_only S (sent wp)"

abbreviation ans_P :: "'z world_scheme \<Rightarrow> Workflow \<Rightarrow> bool" where
  "ans_P S wp \<equiv> sync_ok S \<and> wire_ok S \<longrightarrow> answers_inv S wp"

lemma given_snoc [simp]: "given (log @ [c]) = given log \<union> set (handlers_of c)"
  by (auto simp: given_def)

text \<open>The invariant reads only these fields; a payload may be added to the history.\<close>

lemma answers_inv_cong:
  assumes "answers_inv S wp" "mq w = mq wp" "pipeline w = pipeline wp" "callbacks w = callbacks wp"
    "ids w = ids wp" "calls w = calls wp" "sent w = sent wp"
  shows "answers_inv S w"
  using assms by (simp add: answers_inv_def)

lemma answers_inv_sent:
  assumes "answers_inv S wp" "core w = core wp"
    "\<forall>m \<in> set (Messages (mq w)). m \<in> set (Messages (mq wp)) \<or> readable m \<and> Command m \<noteq> None"
    "\<forall>m \<in> set (pipeline w). m \<in> set (pipeline wp) \<or> m \<in> set (answered S (exec S (sent wp @ [pl])))"
    "sent w = sent wp @ [pl]"
    "\<forall>m \<in> set (contents S pl). Command m = None \<longrightarrow> ID m \<in> commanded S (sent wp)"
  shows "answers_inv S w"
proof -
  have new: "ID m \<in> commanded S (sent wp @ [pl])" if "m \<in> set (answered S (exec S (sent wp @ [pl])))" for m
    using that by (auto simp: commanded_def heard_snoc)
  have grow: "i \<in> commanded S (sent wp @ [pl])" if "i \<in> commanded S (sent wp)" for i
    using that by (rule commanded_mono)
  note frame = core_eqD(1,4,5) [OF assms(2)]
  show ?thesis
    using assms(1,3-6) new grow unfolding answers_inv_def frame assms(5) answers_only_snoc
    by blast
qed

lemma contents_of_batch:
  assumes "wire_ok S" "\<forall>m \<in> set ms. readable m" "Encode S ctx p ms = (None, pl)" "ms \<noteq> []"
  shows "contents S pl = ms"
  using proto.decode_encode [OF assms] by (simp add: contents_def)

lemma answers_inv_flush:
  assumes inv: "answers_inv S wp" and ok: "wire_ok S"
  shows "answers_inv S (snd (flushQueue S wp))"
proof -
  have batch: "\<forall>m \<in> set (contents S pl). Command m = None \<longrightarrow> ID m \<in> commanded S (sent wp)"
    if "Encode S (getContext S wp) new_pool_payload (Messages (mq wp)) = (None, pl)" "Messages (mq wp) \<noteq> []" for pl
    using contents_of_batch [OF ok _ that] inv by (simp add: answers_inv_def)
  show ?thesis
  proof (cases rule: flushQueue_cases [of wp S])
    case nothing
    then show ?thesis using inv by simp
  next
    case (unsent e pl)
    then show ?thesis using inv by (intro answers_inv_cong [OF inv]) simp_all
  next
    case (failed e pl)
    then show ?thesis using batch [of pl] by (intro answers_inv_sent [OF inv, of _ pl]) simp_all
  next
    case (answer pl)
    then show ?thesis using batch [of pl]
      by (intro answers_inv_sent [OF inv, of _ pl]) (auto simp: Flush_def Messages_def)
  qed
qed

lemma answers_inv_runCommand:
  assumes inv: "answers_inv S wp" and ok: "wire_ok S" and cmd: "in_both_tables cmd"
  shows "answers_inv S (snd (runCommand S cmd pls hdr wp))"
proof -
  let ?w = "snd (runCommand S cmd pls hdr wp)"
  note fr = runCommand_frame [of S cmd pls hdr wp]
  show ?thesis
  proof (cases "sent ?w = sent wp")
    case True
    then show ?thesis using fr by (intro answers_inv_cong [OF inv]) simp_all
  next
    case False
    then obtain msg pl where m: "Command msg = Some cmd" "sent ?w = sent wp @ [pl]"
      "Encode S (getContext S wp) new_pool_payload [msg] = (None, pl)" using fr by auto
    have "contents S pl = [msg]"
      using contents_of_batch [OF ok _ m(3)] m(1) cmd by (simp add: readable_def)
    then show ?thesis using fr m by (intro answers_inv_sent [OF inv, of _ pl]) simp_all
  qed
qed

lemma answers_inv_push:
  assumes "answers_inv S wp" "in_both_tables cmd"
  shows "answers_inv S (pushCommand cmd pls hdr wp)"
  using assms
  by (auto simp: answers_inv_def pushCommand_def PushCommand_def seq_def enqueue_def Messages_def readable_def)

lemma answers_inv_response:
  assumes "answers_inv S wp" "i \<in> commanded S (sent wp)"
  shows "answers_inv S (pushResponse i r wp)"
  using assms
  by (simp add: answers_inv_def pushResponse_def PushResponse_def enqueue_def Messages_def readable_def)

lemma answers_inv_deliver:
  assumes "answers_inv S wp" "i \<in> commanded S (sent wp)"
  shows "answers_inv S (deliver S i r e wp)"
  using assms
  by (cases e)
    (simp_all add: deliver_def answers_inv_def PushResponse_def PushError_def enqueue_def Messages_def readable_def)

lemma answers_inv_call:
  assumes "answers_inv S wp" "\<forall>h \<in> set (handlers_of c). handler_id h \<in> commanded S (sent wp)"
  shows "answers_inv S (wp\<lparr>calls := calls wp @ [c]\<rparr>)"
  using assms by (auto simp: answers_inv_def)

interpretation sync: call_invariant S "ans_P S" "\<lambda>i h. sync_ok S \<and> wire_ok S \<longrightarrow> i \<in> commanded S h"
  for S :: "'z world_scheme"
proof (unfold_locales, goal_cases)
  case (2 wp d)
  then show ?case by (auto simp: answers_inv_def)
next
  case (3 wp j w err)
  then show ?case by (auto simp: answers_inv_def Push_def Let_def)
next
  case (4 wp j i)
  then show ?case by (auto simp: answers_inv_def intro: ranI)
next
  case (5 wp hc)
  then show ?case by (auto simp: answers_inv_def sync_ok_def)
qed (auto simp: answers_inv_deliver)

lemma answers_inv_envCall:
  assumes "ans_P S wp" "handlers_of c = []"
  shows "ans_P S (snd (envCall S c wp))"
proof -
  have "ans_P S (wp\<lparr>calls := calls wp @ [c]\<rparr>)" using assms by (simp add: answers_inv_call)
  then show ?thesis using sync.envCall_P [of S wp c] by blast
qed

lemma answers_inv_updates:
  assumes "ans_P S wp"
  shows "ans_P S (wp\<lparr>updateCompleteCb := m\<rparr>)" "ans_P S (wp\<lparr>updateValidateCb := m, updateCompleteCb := n\<rparr>)"
    "ans_P S (wp\<lparr>updatesQueue := us\<rparr>)" "ans_P S (wp\<lparr>canceller := cm\<rparr>)" "ans_P S (wp\<lparr>seqID := k\<rparr>)"
    "ans_P S (wp\<lparr>inLoop := b\<rparr>)" "ans_P S (wp\<lparr>env := ev\<rparr>)" "ans_P S (wp\<lparr>gseq := g\<rparr>)"
  using assms by (simp_all add: answers_inv_def)

lemma keeps_envCall: "handlers_of c = [] \<Longrightarrow> keeps (ans_P S) (envCall S c)"
  unfolding keeps_def using answers_inv_envCall by blast

lemma answers_inv_hmUpdates:
  assumes "ans_P S wp"
  shows "ans_P S (snd (hmUpdateCompleted S msg u wp))" "ans_P S (snd (hmUpdateValidated S msg u wp))"
proof -
  have c: "keeps (ans_P S) (completeCb S qu msg)" for qu
    unfolding completeCb_def by (intro keeps_bind keeps_pure) (auto split: option.splits intro: keeps_envCall)
  have v: "keeps (ans_P S) (validateCb S qu msg)" for qu
  proof -
    have "keeps (ans_P S) (bindA (case (b, Failure msg) of
           (False, Some f) \<Rightarrow> envCall S (EnvUpdateReject (quHandle qu) (failure_to_error S f))
         | _ \<Rightarrow> envCall S (EnvUpdateAccept (quHandle qu))) (\<lambda>_. pureA ()))" for b
      by (intro keeps_bind keeps_pure) (cases b; cases "Failure msg"; simp add: keeps_envCall)
    then show ?thesis unfolding validateCb_def keeps_def by blast
  qed
  have "keeps (ans_P S) (seqA (completeCb S qu msg)
      (seqA (modifyA (\<lambda>wp. wp\<lparr>updateCompleteCb := (updateCompleteCb wp)(u := None)\<rparr>)) (pureA x)))"
    for qu and x :: "go_error option"
    by (intro keeps_seq c keeps_modify keeps_pure answers_inv_updates(1))
  then show "ans_P S (snd (hmUpdateCompleted S msg u wp))"
    using assms unfolding hmUpdateCompleted_def keeps_def by (simp split: option.split)
  have "keeps (ans_P S) (seqA (validateCb S qu msg)
      (seqA (modifyA (\<lambda>wp. wp\<lparr>updateValidateCb := (updateValidateCb wp)(u := None),
                               updateCompleteCb := (if Failure msg \<noteq> None
                                                    then (updateCompleteCb wp)(u := None)
                                                    else updateCompleteCb wp)\<rparr>)) (pureA x)))"
    for qu and x :: "go_error option"
    by (intro keeps_seq v keeps_modify keeps_pure answers_inv_updates(2))
  then show "ans_P S (snd (hmUpdateValidated S msg u wp))"
    using assms unfolding hmUpdateValidated_def keeps_def by (simp split: option.split)
qed

lemma keeps_updatesQueueCb: "keeps (ans_P S) (modifyA (updatesQueueCb qu))"
  unfolding updatesQueueCb_def
  by (intro keeps_modify impI answers_inv_push) (simp_all add: answers_inv_def)

lemma keeps_runQueued: "handlers_of c = [] \<Longrightarrow> keeps (ans_P S) (runQueued S c)"
  unfolding runQueued_def by (intro keeps_bind keeps_mapA keeps_envCall keeps_updatesQueueCb)

lemma answers_inv_start: "answers_inv S (Execute S metrics ev hdr input (NewWorkflowDefinition rid ev n))"
proof -
  have "answers_inv S (wp\<lparr>mh := m, env := e, header := hd', seqID := 0, canceller := Map.empty,
      mq := NewMessageQueue, ids := newRegistry, calls := [EnvRegisterHandlers]\<rparr>)"
    if "wp = NewWorkflowDefinition rid ev n" for wp m e hd'
    using that
    by (simp add: NewWorkflowDefinition_def answers_inv_def Messages_def NewMessageQueue_def newRegistry_def
        given_def answers_only_def)
  from answers_inv_push [OF this [OF refl]] show ?thesis
    by (simp add: Execute_def Let_def split_beta startCommand_def)
      (simp add: NewWorkflowDefinition_def)
qed

lemma answers_inv_frame:
  assumes "answers_inv S wp"
  shows "answers_inv S (wp\<lparr>canceller := cm\<rparr>)" "answers_inv S (wp\<lparr>seqID := k\<rparr>)"
    "answers_inv S (wp\<lparr>inLoop := b\<rparr>)" "answers_inv S (wp\<lparr>env := ev\<rparr>)" "answers_inv S (wp\<lparr>gseq := g\<rparr>)"
    "answers_inv S (wp\<lparr>updatesQueue := us\<rparr>)" "answers_inv S (wp\<lparr>updateCompleteCb := um\<rparr>)"
    "answers_inv S (wp\<lparr>pipeline := []\<rparr>)" "answers_inv S (wp\<lparr>callbacks := []\<rparr>)"
    "answers_inv S (wp\<lparr>mq := Flush (mq wp)\<rparr>)"
  using assms by (simp_all add: answers_inv_def Flush_def Messages_def)

lemma answers_inv_listen:
  "answers_inv S wp \<Longrightarrow> i \<in> commanded S (sent wp) \<Longrightarrow> answers_inv S (wp\<lparr>ids := snd (Listen j i (ids wp))\<rparr>)"
  by (auto simp: answers_inv_def Listen_def Let_def ran_def split: if_splits)

lemma answers_inv_pipeline:
  "answers_inv S wp \<Longrightarrow> pipeline wp = m # rest \<Longrightarrow>
   ID m \<in> commanded S (sent wp) \<and> answers_inv S (wp\<lparr>pipeline := rest\<rparr>)"
  by (simp add: answers_inv_def)

lemma answers_inv_runQueued:
  "ans_P S wp \<Longrightarrow> c = EnvDrainUnhandledUpdates \<or> c = EnvHandleQueuedUpdates k \<Longrightarrow> ans_P S (snd (runQueued S c wp))"
  by (rule keepsD [OF keeps_runQueued]) auto

lemma answers_inv_handleUpdate: "ans_P S wp \<Longrightarrow> ans_P S (snd (handleUpdate S k uid input hdr cbs wp))"
  by (simp add: handleUpdate_def Let_def answers_inv_envCall answers_inv_frame del: imp_conjL)

lemma answers_inv_ids:
  "answers_inv S wp \<Longrightarrow> d \<in> set (callbacks wp) \<Longrightarrow> deferred_id d \<in> commanded S (sent wp)"
  "answers_inv S wp \<Longrightarrow> h \<in> given (calls wp) \<Longrightarrow> handler_id h \<in> commanded S (sent wp)"
  by (simp_all add: answers_inv_def)

interpretation answers: task_invariant S "ans_P S" "\<lambda>i h. sync_ok S \<and> wire_ok S \<longrightarrow> i \<in> commanded S h"
  for S :: "'z world_scheme"
proof (unfold_locales, goal_cases)
  case (16 wp c k)
  then show ?case by (rule answers_inv_runQueued)
next
  case (17 wp cbs k uid input hdr)
  then show ?case using answers_inv_handleUpdate by blast
qed (simp_all add: commanded_mono answers_inv_frame answers_inv_listen answers_inv_pipeline answers_inv_response
    answers_inv_flush answers_inv_call answers_inv_hmUpdates answers_inv_start answers_inv_push
    answers_inv_runCommand answers_inv_ids)

section \<open>Properties\<close>

text \<open>
  C1: the worker never receives a response to a command it did not send: in every reachable
  state, each response in a payload sent to the pool carries the id of a message that the worker
  sent in answer to an earlier payload; and so does each response still in the queue.
\<close>

theorem responses_answer_commands:
  assumes "sync_ok S" "wire_ok S" "reachable S wp"
  shows "(\<forall>k < length (sent wp). \<forall>m \<in> set (contents S (sent wp ! k)).
           Command m = None \<longrightarrow> ID m \<in> commanded S (take k (sent wp))) \<and>
         (\<forall>m \<in> set (Messages (mq wp)). Command m = None \<longrightarrow> ID m \<in> commanded S (sent wp))"
  using answers.reachable_P [OF assms(3)] assms(1,2) unfolding answers_inv_def answers_only_def by blast

theorem responses_answer_commands_witness:
  "map (contents timer_world) (sent (timer_task timer_fired)) =
     [Messages (mq timer_start), [timer_result]] \<and>
   100 \<in> commanded timer_world (take 1 (sent (timer_task timer_fired)))"
proof -
  have "updatesQueue timer_fired = []" by code_simp
  then have "reachable timer_world (timer_task timer_fired)"
    using timer_fired_reachable by (simp add: timer_task_reachable)
  note claim = conjunct1 [OF responses_answer_commands [OF timer_world_ok(2,1) this]]
  have c: "map (contents timer_world) (sent (timer_task timer_fired)) =
      [Messages (mq timer_start), [timer_result]]" by code_simp
  have "map (contents timer_world) (sent (timer_task timer_fired)) ! 1 = [timer_result]"
    unfolding c by simp
  moreover have len: "length (sent (timer_task timer_fired)) = 2" using arg_cong [OF c, of length] by simp
  ultimately have "contents timer_world (sent (timer_task timer_fired) ! 1) = [timer_result]"
    by simp
  then have "ID timer_result \<in> commanded timer_world (take 1 (sent (timer_task timer_fired)))"
    using claim [rule_format, of 1 timer_result] len by (simp add: timer_result_def emptyMessage_def)
  then show ?thesis using c by (simp add: timer_result_def)
qed

end
