(* ===== verification/Workflow_Progress.thy ===== *)
theory Workflow_Progress
  imports Workflow_Responses
begin

text \<open>
  Termination of a workflow task. The pipeline loop goes on as long as the worker's answers contain
  commands that cause another exchange. If from some exchange on the worker's answers contain
  none, every task ends; the fuel of the model does not influence the result.
\<close>

section \<open>How a handler moves the pipeline\<close>

fun causes_exchange :: "command \<Rightarrow> bool" where
  "causes_exchange (GetVersion _ _ _) = True"
| "causes_exchange SideEffect = True"
| "causes_exchange (Cancel _) = True"
| "causes_exchange _ = False"

definition flushing :: "message \<Rightarrow> bool" where
  "flushing m \<longleftrightarrow> (case Command m of None \<Rightarrow> False | Some c \<Rightarrow> causes_exchange c)"

definition flow :: "Workflow \<Rightarrow> message list \<times> pool_payload list" where
  "flow wp = (pipeline wp, sent wp)"

lemma flow_frame [simp]:
  "flow (deliver S i r e wp) = flow wp" "flow (pushResponse i p wp) = flow wp"
  "flow (wp\<lparr>canceller := c\<rparr>) = flow wp" "flow (wp\<lparr>seqID := n\<rparr>) = flow wp" "flow (wp\<lparr>ids := is\<rparr>) = flow wp"
  "flow (wp\<lparr>callbacks := ds\<rparr>) = flow wp" "flow (wp\<lparr>calls := cs\<rparr>) = flow wp"
  "flow (wp\<lparr>updateCompleteCb := uc\<rparr>) = flow wp" "flow (wp\<lparr>updateValidateCb := uv\<rparr>) = flow wp"
  by (simp_all add: flow_def deliver_def pushResponse_def)

interpretation flow: call_invariant S "\<lambda>wp. flow wp = f" "\<lambda>_ _. True" for S :: "'z world_scheme" and f
  by unfold_locales simp_all

lemma envCall_flow [simp]: "flow (snd (envCall S c wp)) = flow wp"
  using flow.envCall_P [of wp c "flow wp" S] by simp

lemma callListener_flow [simp]: "flow (snd (callListener S c wp)) = flow wp"
  using flow.childListener_at [where f = "flow wp" and wp = wp and h = "sent wp" and log = "calls wp" and S = S]
  by (cases c) (auto simp: callListener_def pureA_def)

lemma runCancellable_flow: "flow (snd (runCancellable S c wp)) = flow wp"
  by (cases "(S, c)" rule: runCancellable.cases) simp_all

lemma cancelIDs_flow [simp]: "flow (snd (cancelIDs S is wp)) = flow wp"
  using keepsD [OF keeps_CancelIds [of "\<lambda>w. flow w = flow wp" "runCancellable S" canceller
        "\<lambda>c wp. wp\<lparr>canceller := c\<rparr>" "is"], of wp]
  by (simp add: keeps_def runCancellable_flow cancelIDs_def)

lemmas act_simps = bindA_def seqA_def pureA_def modifyA_def Let_def split_beta

lemma not_flushing_flow:
  assumes "\<not> flushing msg"
  shows "flow (snd (handleMessage S msg wp)) = flow wp"
proof (cases "Command msg")
  case None
  then show ?thesis by (simp add: handleMessage_def pureA_def)
next
  case (Some c)
  then show ?thesis using assms
    by (cases c)
      (simp_all add: handleMessage_def flushing_def act_simps envCallErr_def
        hmExecuteActivity_def hmExecuteLocalActivity_def hmExecuteChildWorkflow_def
        hmGetChildWorkflowExecution_def hmNewTimer_def hmUpdateCompleted_def hmUpdateValidated_def
        completeCb_def validateCb_def hmCompleteWorkflow_def hmContinueAsNew_def
        hmUpsertSearchAttributes_def hmUpsertTypedSearchAttributes_def hmSignalExternalWorkflow_def
        hmCancelExternalWorkflow_def hmPanic_def hmUpsertMemo_def
        split: outcome.split option.split sum.split bool.split)
qed

text \<open>A step of the loop without error: no exchange, or one answer more in the pipeline.\<close>

definition moves :: "'z world_scheme \<Rightarrow> Workflow \<Rightarrow> Workflow \<Rightarrow> bool" where
  "moves S wp w \<longleftrightarrow> flow w = flow wp \<or>
     (\<exists>pl. flow w = (pipeline wp @ answered S (exec S (sent wp @ [pl])), sent wp @ [pl]))"

lemma moves_cong: "flow v = flow wp \<Longrightarrow> moves S v w = moves S wp w"
  by (simp add: moves_def flow_def)

lemma flush_moves: "flushQueue S wp = (None, w) \<Longrightarrow> moves S wp w"
  by (cases rule: flushQueue_cases [of wp S]) (auto simp: moves_def flow_def)

lemma respond_moves: "respondAndFlush S i r wp = (Returns None, w) \<Longrightarrow> moves S wp w"
  using flush_moves [of S "pushResponse i r wp" w] moves_cong [of "pushResponse i r wp" wp S w]
  by (auto simp: respondAndFlush_def split: prod.splits option.splits)

lemma continuable_moves: "createContinuableCallback S i r e wp = (Returns (), w) \<Longrightarrow> moves S wp w"
  using flush_moves [of S "deliver S i r None wp" w] moves_cong [of "deliver S i r None wp" wp S w]
  by (auto simp: createContinuableCallback_def moves_def split: prod.splits option.splits)

lemma then_moves:
  assumes "bindA m f wp = (Returns x, w)" "flow (snd (m wp)) = flow wp"
    and "\<And>y w1. f y w1 = (Returns x, w) \<Longrightarrow> moves S w1 w"
  shows "moves S wp w"
proof -
  obtain y w1 where w1: "m wp = (Returns y, w1)" "f y w1 = (Returns x, w)"
    using assms(1) by (auto simp: bindA_def split: prod.splits outcome.splits)
  then have "flow w1 = flow wp" using assms(2) by simp
  then show ?thesis using moves_cong assms(3) [OF w1(2)] by blast
qed

lemma flushing_moves:
  assumes "flushing msg" "handleMessage S msg wp = (Returns None, w)"
  shows "moves S wp w"
proof -
  obtain c where c: "Command msg = Some c" "causes_exchange c"
    using assms(1) by (auto simp: flushing_def split: option.splits)
  show ?thesis
  proof (cases c)
    case (GetVersion ch lo hi)
    then have "hmGetVersion S msg ch lo hi wp = (Returns None, w)" using assms(2) c by (simp add: handleMessage_def)
    then show ?thesis unfolding hmGetVersion_def
      by (rule then_moves) (auto simp: pureA_def respond_moves split: sum.splits)
  next
    case SideEffect
    then have "hmSideEffect S msg wp = (Returns None, w)" using assms(2) c by (simp add: handleMessage_def)
    then show ?thesis unfolding hmSideEffect_def
      by (rule then_moves)
        (auto simp: seqA_def bindA_def pureA_def split: prod.splits outcome.splits intro: continuable_moves)
  next
    case (Cancel cids)
    then have "hmCancel S msg cids wp = (Returns None, w)" using assms(2) c by (simp add: handleMessage_def)
    then show ?thesis unfolding hmCancel_def
      by (rule then_moves) (auto simp: pureA_def respond_moves split: option.splits)
  qed (use c in simp_all)
qed

lemma handleMessage_moves:
  assumes "handleMessage S msg wp = (Returns None, w)"
  shows "flow w = flow wp \<or> flushing msg \<and> moves S wp w"
  using flushing_moves [OF _ assms] not_flushing_flow [of msg S wp] assms by (cases "flushing msg") auto

section \<open>Termination\<close>

text \<open>From its \<open>N\<close>-th exchange on the worker sends no command that causes an exchange.\<close>

definition settles :: "'z world_scheme \<Rightarrow> nat \<Rightarrow> bool" where
  "settles S N \<longleftrightarrow> (\<forall>h. N \<le> length h \<longrightarrow> (\<forall>m \<in> set (answered S (exec S h)). \<not> flushing m))"

definition loop_measure :: "nat \<Rightarrow> (Workflow \<times> Workflow) set" where
  "loop_measure N = measures [\<lambda>wp. N - length (sent wp), \<lambda>wp. length (filter flushing (pipeline wp)),
     \<lambda>wp. length (pipeline wp)]"

lemma loop_decreases:
  assumes "settles S N" "pipeline wp = m # rest"
    and "handleMessage S m (wp\<lparr>pipeline := rest\<rparr>) = (Returns None, w)"
  shows "(w, wp) \<in> loop_measure N"
proof -
  let ?wp = "wp\<lparr>pipeline := rest\<rparr>"
  consider (same) "flow w = flow ?wp"
    | (more) pl where "flushing m" "flow w = (rest @ answered S (exec S (sent wp @ [pl])), sent wp @ [pl])"
    using handleMessage_moves [OF assms(3)] by (auto simp: moves_def)
  then show ?thesis
  proof cases
    case same
    then show ?thesis using assms(2) by (simp add: loop_measure_def flow_def)
  next
    case (more pl)
    have quiet: "filter flushing (answered S (exec S (sent wp @ [pl]))) = []" if "N \<le> length (sent wp)"
      using assms(1) [unfolded settles_def, rule_format, of "sent wp @ [pl]"] that
      by (auto simp: filter_empty_conv)
    show ?thesis
    proof (cases "N \<le> length (sent wp)")
      case True
      then show ?thesis using more assms(2) quiet by (simp add: loop_measure_def flow_def)
    next
      case False
      then have "N - Suc (length (sent wp)) < N - length (sent wp)" by simp
      then show ?thesis using more by (simp add: loop_measure_def flow_def)
    qed
  qed
qed

lemma pipeline_terminates:
  assumes "settles S N"
  shows "\<exists>fuel res. processPipeline fuel S wp = Some res"
proof -
  have "wf (loop_measure N)" by (simp add: loop_measure_def)
  then show ?thesis
  proof (induction wp rule: wf_induct_rule)
    case (less wp)
    show ?case
    proof (cases "pipeline wp")
      case Nil
      then have "processPipeline 1 S wp = Some (Returns (), wp)" by simp
      then show ?thesis by blast
    next
      case (Cons m rest)
      let ?wp = "wp\<lparr>pipeline := rest\<rparr>"
      have step: "\<exists>fuel res. processPipeline fuel S w = Some res"
        if "w = ?wp \<or> handleMessage S m ?wp = (Returns None, w)" for w
      proof (cases "w = ?wp")
        case True
        then have "(w, wp) \<in> loop_measure N" using Cons by (simp add: loop_measure_def)
        then show ?thesis by (rule less.IH)
      next
        case False
        then show ?thesis using that loop_decreases [OF assms Cons] by (blast intro: less.IH)
      qed
      show ?thesis
      proof (cases "handleMessage S m ?wp")
        case (Pair r w)
        from step [of ?wp] obtain f2 res2 where "processPipeline f2 S ?wp = Some res2" by blast
        moreover from step [of w] obtain f1 where "r = Returns None \<longrightarrow> (\<exists>res. processPipeline f1 S w = Some res)"
          using Pair by blast
        ultimately have "\<exists>res. processPipeline (Suc (if IsCommand m then f1 else f2)) S wp = Some res"
          using Cons Pair by (cases r; cases "isUndefinedResponse m"; auto simp: Let_def split: option.splits)
        then show ?thesis by blast
      qed
    qed
  qed
qed

lemma pipeline_fuel_mono:
  "processPipeline fuel S wp = Some res \<Longrightarrow> fuel \<le> fuel' \<Longrightarrow> processPipeline fuel' S wp = Some res"
proof (induction fuel arbitrary: wp fuel')
  case (Suc fuel)
  then obtain f' where f': "fuel' = Suc f'" "fuel \<le> f'" by (cases fuel') auto
  show ?case using Suc.prems(1) Suc.IH [OF _ f'(2)]
    by (auto simp: f'(1) Let_def split: list.splits if_splits prod.splits outcome.splits option.splits)
qed simp

lemma task_fuel_mono:
  assumes "OnWorkflowTaskStarted fuel S order wp = Some res" "fuel \<le> fuel'"
  shows "OnWorkflowTaskStarted fuel' S order wp = Some res"
proof (cases "taskPrologue S order wp")
  case (Pair r w)
  show ?thesis
  proof (cases r)
    case (Returns x)
    then obtain q where "processPipeline fuel S w = Some q" "res = map_prod id (\<lambda>wp. wp\<lparr>inLoop := 0\<rparr>) q"
      using assms(1) Pair by (auto simp: OnWorkflowTaskStarted_def)
    moreover from this(1) have "processPipeline fuel' S w = Some q"
      using assms(2) by (rule pipeline_fuel_mono)
    ultimately show ?thesis using Pair Returns by (cases q) (simp add: OnWorkflowTaskStarted_def)
  qed (use assms Pair in \<open>simp add: OnWorkflowTaskStarted_def\<close>)
qed

section \<open>The state after a task\<close>

text \<open>During a task no result is deferred.\<close>

abbreviation looping :: "Workflow \<Rightarrow> bool" where
  "looping wp \<equiv> inLoop wp = 1 \<and> callbacks wp = []"

interpretation looping_calls: call_invariant S looping "\<lambda>_ _. True" for S :: "'z world_scheme"
  by unfold_locales auto

lemma looping_envCall [simp]: "looping wp \<Longrightarrow> looping (snd (envCall S c wp))"
  using looping_calls.envCall_P [of wp c S] by simp

lemma looping_hmUpdates:
  assumes "looping wp"
  shows "looping (snd (hmUpdateCompleted S msg u wp))" "looping (snd (hmUpdateValidated S msg u wp))"
  using assms looping_envCall [OF assms, of S]
  by (simp_all add: hmUpdateCompleted_def hmUpdateValidated_def completeCb_def validateCb_def act_simps
      split: outcome.split option.split bool.split)

interpretation looping: handler_invariant S looping "\<lambda>_ _. True" for S :: "'z world_scheme"
  by unfold_locales (simp_all add: looping_hmUpdates pushResponse_def)

lemma looping_runQueued: "keeps looping (runQueued S c)"
proof -
  have "keeps looping (modifyA (updatesQueueCb qu))" for qu
    by (simp add: keeps_def modifyA_def updatesQueueCb_def)
  moreover have "keeps looping (envCall S c)" by (simp add: keeps_def)
  ultimately show ?thesis unfolding runQueued_def by (intro keeps_bind keeps_mapA)
qed

lemma looping_prologue: "looping (snd (taskPrologue S order wp))"
proof -
  have deferreds: "inLoop (fold (runDeferred S) ds w) = inLoop w" for ds w
  proof (induction ds arbitrary: w)
    case (Cons d ds)
    then show ?case by (cases d) simp_all
  qed simp
  have "keeps looping (runUpdates S order)"
    unfolding runUpdates_def
    by (intro keeps_seq keeps_mapA looping_runQueued keeps_modify) simp_all
  moreover have "keeps looping (flushOrPanic S)" by (simp add: keeps_def)
  ultimately have "keeps looping (seqA (runUpdates S order) (flushOrPanic S))" by (intro keeps_seq)
  then show ?thesis
    by (simp add: taskPrologue_def keeps_def runCallbacks_def deferreds)
qed

lemma pipeline_done:
  "processPipeline fuel S wp = Some (Returns (), w) \<Longrightarrow> pipeline w = []"
proof (induction fuel arbitrary: wp)
  case (Suc fuel)
  then show ?case
    by (auto simp: Let_def split: list.splits if_splits prod.splits outcome.splits option.splits)
qed simp

section \<open>Properties\<close>

text \<open>
  C3: every workflow task ends when the worker settles: if from some exchange on its answers
  contain no \<open>GetVersion\<close>, \<open>SideEffect\<close> or \<open>Cancel\<close> command, then the task has a result, and any
  larger fuel gives the same one.
\<close>

theorem task_terminates:
  assumes "settles S N"
  shows "\<exists>fuel res. \<forall>fuel' \<ge> fuel. OnWorkflowTaskStarted fuel' S order wp = Some res"
proof -
  obtain fuel res where "OnWorkflowTaskStarted fuel S order wp = Some res"
  proof (cases "taskPrologue S order wp")
    case (Pair r w)
    obtain fuel res where "processPipeline fuel S w = Some res"
      using pipeline_terminates [OF assms] by blast
    then show ?thesis using that [of fuel] Pair
      by (cases r) (simp_all add: OnWorkflowTaskStarted_def)
  qed
  then show ?thesis using task_fuel_mono by blast
qed

theorem task_terminates_witness:
  "\<exists>fuel res. \<forall>fuel' \<ge> fuel. OnWorkflowTaskStarted fuel' timer_world [] timer_start = Some res"
proof (rule task_terminates [of _ 0])
  have "exec timer_world h = Response None
      (new_pool_payload\<lparr>plBody := (if length h = 1 then ''2'' else ''4'')\<rparr>)" for h
    by (simp add: timer_world_def table_wire_def)
  moreover have "answered timer_world (Response None (new_pool_payload\<lparr>plBody := ''2''\<rparr>)) = [timer_command]"
    "answered timer_world (Response None (new_pool_payload\<lparr>plBody := ''4''\<rparr>)) = []"
    by code_simp+
  ultimately show "settles timer_world 0"
    by (simp add: settles_def flushing_def timer_command_def)
qed

text \<open>
  C7: a task that ended, normally or by a panic, has left the loop and holds no deferred result;
  after a normal end no command of the worker is left in the pipeline.
\<close>

theorem task_postcondition:
  assumes "OnWorkflowTaskStarted fuel S order wp = Some (r, wp')"
  shows "inLoop wp' = 0 \<and> callbacks wp' = [] \<and> (r = Returns () \<longrightarrow> pipeline wp' = [])"
proof -
  obtain o1 w where w: "taskPrologue S order wp = (o1, w)" by (cases "taskPrologue S order wp")
  have l: "looping w" using looping_prologue [of S order wp] w by simp
  show ?thesis
  proof (cases o1)
    case (Returns x)
    then obtain w2 where "processPipeline fuel S w = Some (r, w2)" "wp' = w2\<lparr>inLoop := 0\<rparr>"
      using assms w by (auto simp: OnWorkflowTaskStarted_def)
    then show ?thesis using looping.processPipeline_P [OF l] pipeline_done [of fuel S w w2] by auto
  next
    case (Panics e)
    then show ?thesis using assms w l by (auto simp: OnWorkflowTaskStarted_def)
  qed
qed

theorem task_postcondition_witness:
  "callbacks timer_fired \<noteq> [] \<and> callbacks (timer_task timer_fired) = [] \<and> inLoop (timer_task timer_fired) = 0 \<and>
   pipeline (timer_task timer_fired) = []"
proof -
  have "map_option fst (OnWorkflowTaskStarted 20 timer_world [] timer_fired) = Some (Returns ())"
    by code_simp
  then obtain w where w: "OnWorkflowTaskStarted 20 timer_world [] timer_fired = Some (Returns (), w)"
    by auto
  moreover have "callbacks timer_fired \<noteq> []" by code_simp
  ultimately show ?thesis using task_postcondition [OF w] by (simp add: timer_task_def)
qed

end
