(* ===== verification/Workflow_Updates.thy ===== *)
theory Workflow_Updates
  imports Workflow_Invariants Sample_World
begin

text \<open>
  The life of a workflow update. The SDK hands an update to \<open>handleUpdate\<close> with a callbacks object
  (the handle); the workflow answers it through that object with \<open>Accept\<close>, \<open>Reject\<close> and \<open>Complete\<close>.
  \<open>verdicts\<close> is the sequence of answers a handle got. The invariant \<open>updates_inv\<close> ties the two
  callback maps to the verdicts given so far, and interpreting \<open>task_invariant\<close> shows that all
  reachable states have it.
\<close>

section \<open>Verdicts\<close>

datatype verdict = VAccept | VReject | VComplete

fun verdict_of :: "nat \<Rightarrow> env_call \<Rightarrow> verdict list" where
  "verdict_of h (EnvUpdateAccept j) = (if j = h then [VAccept] else [])"
| "verdict_of h (EnvUpdateReject j _) = (if j = h then [VReject] else [])"
| "verdict_of h (EnvUpdateComplete j _ _) = (if j = h then [VComplete] else [])"
| "verdict_of _ _ = []"

definition verdicts :: "nat \<Rightarrow> env_call list \<Rightarrow> verdict list" where
  "verdicts h log = concat (map (verdict_of h) log)"

lemma verdicts_snoc [simp]: "verdicts h (log @ [c]) = verdicts h log @ verdict_of h c"
  by (simp add: verdicts_def)

lemma verdict_of_plain [simp]: "plain_call c \<Longrightarrow> verdict_of h c = []"
  by (cases c) simp_all

text \<open>
  The sequences that can occur: at most one decision, at most one completion, and no completion
  after a rejection.
\<close>

definition lawful :: "verdict list \<Rightarrow> bool" where
  "lawful vs \<longleftrightarrow> vs \<in> {[], [VAccept], [VReject], [VComplete], [VAccept, VComplete],
                       [VComplete, VAccept], [VComplete, VReject]}"

section \<open>The invariant\<close>

definition updates_inv ::
  "env_call list \<Rightarrow> (string \<rightharpoonup> queued_update) \<Rightarrow> (string \<rightharpoonup> queued_update) \<Rightarrow> bool" where
  "updates_inv log V C \<longleftrightarrow>
     distinct (map quHandle (waiting_updates log @ started_updates log)) \<and>
     (\<forall>u q. V u = Some q \<longrightarrow> q \<in> set (started_updates log) \<and> quID q = u \<and>
                            verdicts (quHandle q) log \<in> {[], [VComplete]}) \<and>
     (\<forall>u q. C u = Some q \<longrightarrow> q \<in> set (started_updates log) \<and> quID q = u \<and>
                            verdicts (quHandle q) log \<in> {[], [VAccept]}) \<and>
     (\<forall>u q q'. V u = Some q \<longrightarrow> C u = Some q' \<longrightarrow> q = q') \<and>
     (\<forall>h. lawful (verdicts h log)) \<and>
     (\<forall>h. h \<notin> quHandle ` set (started_updates log) \<longrightarrow> verdicts h log = [])"

abbreviation upd_P :: "'z world_scheme \<Rightarrow> Workflow \<Rightarrow> bool" where
  "upd_P S wp \<equiv> updates_ok S \<longrightarrow> updates_inv (calls wp) (updateValidateCb wp) (updateCompleteCb wp)"

lemma updates_inv_plain: "updates_inv log V C \<Longrightarrow> plain_call c \<Longrightarrow> updates_inv (log @ [c]) V C"
  by (simp add: updates_inv_def)

lemma updates_inv_start: "updates_inv [EnvRegisterHandlers] Map.empty Map.empty"
  by (simp add: updates_inv_def waiting_updates_def started_updates_def verdicts_def lawful_def)

lemma updates_inv_noComplete: "updates_inv log V C \<Longrightarrow> updates_inv log V Map.empty"
  by (simp add: updates_inv_def)

lemma started_inj:
  assumes "updates_inv log V C" "q \<in> set (started_updates log)" "q' \<in> set (started_updates log)"
    "quHandle q = quHandle q'"
  shows "q = q'"
  using assms by (auto simp: updates_inv_def distinct_map inj_on_def)

text \<open>The changes of the maps that come with an answer.\<close>

lemma updates_inv_complete:
  assumes inv: "updates_inv log V C" and C: "C u = Some q"
  shows "updates_inv (log @ [EnvUpdateComplete (quHandle q) p e]) V (C(u := None))"
proof -
  have q: "q \<in> set (started_updates log)" "quID q = u" "verdicts (quHandle q) log \<in> {[], [VAccept]}"
    using inv C unfolding updates_inv_def by blast+
  have only: "u' = u" if "C u' = Some q'" "quHandle q' = quHandle q" for u' q'
    using that started_inj [OF inv, of q' q] inv q C unfolding updates_inv_def by metis
  have onlyV: "verdicts (quHandle q) log = []" if "V u' = Some q'" "quHandle q' = quHandle q" for u' q'
  proof -
    have "verdicts (quHandle q) log \<in> {[], [VComplete]}" using that inv unfolding updates_inv_def by metis
    then show ?thesis using q(3) by auto
  qed
  show ?thesis
    using inv q only onlyV unfolding updates_inv_def
    by (auto simp: lawful_def) 
qed

lemma validating:
  assumes inv: "updates_inv log V C" and V: "V u = Some q"
  shows "q \<in> set (started_updates log)" "verdicts (quHandle q) log \<in> {[], [VComplete]}"
    and "\<And>u' q'. V u' = Some q' \<Longrightarrow> quHandle q' = quHandle q \<Longrightarrow> u' = u"
    and "\<And>u' q'. C u' = Some q' \<Longrightarrow> quHandle q' = quHandle q \<Longrightarrow>
           u' = u \<and> verdicts (quHandle q) log = []"
proof -
  show q: "q \<in> set (started_updates log)" "verdicts (quHandle q) log \<in> {[], [VComplete]}"
    using inv V unfolding updates_inv_def by blast+
  have "quID q = u" using inv V unfolding updates_inv_def by blast
  then show "u' = u" if "V u' = Some q'" "quHandle q' = quHandle q" for u' q'
    using that started_inj [OF inv, of q' q] inv q(1) unfolding updates_inv_def by metis
  show "u' = u \<and> verdicts (quHandle q) log = []" if "C u' = Some q'" "quHandle q' = quHandle q" for u' q'
  proof -
    have "q' \<in> set (started_updates log)" "quID q' = u'" "verdicts (quHandle q') log \<in> {[], [VAccept]}"
      using inv that unfolding updates_inv_def by blast+
    then show ?thesis
      using started_inj [OF inv, of q' q] that q \<open>quID q = u\<close> by auto
  qed
qed

lemma updates_inv_accept:
  assumes inv: "updates_inv log V C" and V: "V u = Some q"
  shows "updates_inv (log @ [EnvUpdateAccept (quHandle q)]) (V(u := None)) C"
  using inv validating [OF assms] unfolding updates_inv_def by (auto simp: lawful_def)

lemma updates_inv_reject:
  assumes inv: "updates_inv log V C" and V: "V u = Some q"
  shows "updates_inv (log @ [EnvUpdateReject (quHandle q) e]) (V(u := None)) (C(u := None))"
  using inv validating [OF assms] unfolding updates_inv_def by (auto simp: lawful_def)

text \<open>A replayed failed validation accepts the update and forgets its completion.\<close>

lemma updates_inv_forget: "updates_inv log V C \<Longrightarrow> updates_inv log V (C(u := None))"
  unfolding updates_inv_def by auto

text \<open>Queueing updates and running their closures.\<close>

lemma updates_inv_queue:
  assumes "updates_inv log V C"
    and "\<forall>q \<in> set (waiting_updates log @ started_updates log). quHandle q \<noteq> quHandle qu"
  shows "updates_inv (log @ [EnvQueueUpdate k qu]) V C"
  using assms unfolding updates_inv_def by auto

lemma updates_inv_run:
  assumes "updates_inv log V C"
    and "mset (waiting_updates (log @ [c]) @ started_updates (log @ [c])) =
         mset (waiting_updates log @ started_updates log)"
    and "set (started_updates log) \<subseteq> set (started_updates (log @ [c]))"
    and "\<And>h. verdict_of h c = []"
  shows "updates_inv (log @ [c]) V C"
proof -
  have "mset (map quHandle (waiting_updates (log @ [c]) @ started_updates (log @ [c]))) =
      mset (map quHandle (waiting_updates log @ started_updates log))"
    using assms(2) by (metis mset_map)
  then have dist: "distinct (map quHandle (waiting_updates (log @ [c]) @ started_updates (log @ [c])))"
    using assms(1) mset_eq_imp_distinct_iff unfolding updates_inv_def by blast
  have mono: "quHandle ` set (started_updates log) \<subseteq> quHandle ` set (started_updates (log @ [c]))"
    using assms(3) by (rule image_mono)
  have same: "verdicts h (log @ [c]) = verdicts h log" for h using assms(4) by simp
  show ?thesis using assms(1) unfolding updates_inv_def same
    by (intro conjI dist) (use assms(3) mono in blast)+
qed

lemma updates_inv_insert:
  assumes "updates_inv log V C" "q \<in> set (started_updates log)" "verdicts (quHandle q) log = []"
  shows "updates_inv log (V(quID q \<mapsto> q)) (C(quID q \<mapsto> q))"
  using assms unfolding updates_inv_def by auto

section \<open>The operations keep it\<close>

lemma envCall_update:
  assumes "updates_ok S" "\<not> plain_call c"
  shows "envCall S c wp = (Returns (calls wp @ [c]), wp\<lparr>calls := calls wp @ [c]\<rparr>)"
  using assms by (simp add: envCall_def Let_def updates_ok_def seqA_def bindA_def pureA_def)

lemma hmUpdateCompleted_eq:
  assumes "updates_ok S" "u \<noteq> []" "updateCompleteCb wp u = Some q"
  shows "hmUpdateCompleted S msg u wp =
     (Returns None, wp\<lparr>calls := calls wp @ [EnvUpdateComplete (quHandle q)
          (if Failure msg = None then Payloads msg else None)
          (map_option (failure_to_error S) (Failure msg))],
        updateCompleteCb := (updateCompleteCb wp)(u := None)\<rparr>)"
  using assms
  by (cases "Failure msg")
    (simp_all add: hmUpdateCompleted_def completeCb_def seqA_def bindA_def pureA_def modifyA_def envCall_update)

lemma hmUpdateValidated_eq:
  assumes "updates_ok S" "u \<noteq> []" "updateValidateCb wp u = Some q"
  shows "hmUpdateValidated S msg u wp =
     (Returns None, wp\<lparr>calls := calls wp @
          [case (IsReplaying (env wp), Failure msg) of
             (False, Some f) \<Rightarrow> EnvUpdateReject (quHandle q) (failure_to_error S f)
           | _ \<Rightarrow> EnvUpdateAccept (quHandle q)],
        updateValidateCb := (updateValidateCb wp)(u := None),
        updateCompleteCb := (if Failure msg \<noteq> None then (updateCompleteCb wp)(u := None)
                             else updateCompleteCb wp)\<rparr>)"
  using assms
  by (cases "Failure msg"; cases "IsReplaying (env wp)")
    (simp_all add: hmUpdateValidated_def validateCb_def seqA_def bindA_def pureA_def modifyA_def envCall_update)

lemma updates_inv_completed:
  assumes "updates_ok S" "updates_inv (calls wp) (updateValidateCb wp) (updateCompleteCb wp)"
    "updateCompleteCb wp u = Some q"
  shows "upd_P S (snd (hmUpdateCompleted S msg u wp))"
  using assms
  by (cases "u = []") (simp_all add: hmUpdateCompleted_eq updates_inv_complete, simp add: hmUpdateCompleted_def)

lemma updates_inv_validated:
  assumes "updates_ok S" "updates_inv (calls wp) (updateValidateCb wp) (updateCompleteCb wp)"
    "updateValidateCb wp u = Some q"
  shows "upd_P S (snd (hmUpdateValidated S msg u wp))"
proof (cases "u = []")
  case True
  then show ?thesis using assms by (simp add: hmUpdateValidated_def)
next
  case False
  then show ?thesis using assms
    by (cases "IsReplaying (env wp)"; cases "Failure msg")
      (simp_all add: hmUpdateValidated_eq updates_inv_accept updates_inv_reject updates_inv_forget)
qed

lemma updatesQueueCb_maps [simp]:
  "calls (updatesQueueCb q wp) = calls wp"
  "updateValidateCb (updatesQueueCb q wp) = (updateValidateCb wp)(quID q \<mapsto> q)"
  "updateCompleteCb (updatesQueueCb q wp) = (updateCompleteCb wp)(quID q \<mapsto> q)"
  by (simp_all add: updatesQueueCb_def)

lemma updates_inv_closures:
  assumes "updates_inv (calls wp) (updateValidateCb wp) (updateCompleteCb wp)"
    and "\<forall>q \<in> set qs. q \<in> set (started_updates (calls wp)) \<and> verdicts (quHandle q) (calls wp) = []"
  shows "upd_P S (snd (mapA (\<lambda>q. modifyA (updatesQueueCb q)) qs wp))"
  using assms
proof (induction qs arbitrary: wp)
  case (Cons q qs)
  have "updates_inv (calls wp) ((updateValidateCb wp)(quID q \<mapsto> q)) ((updateCompleteCb wp)(quID q \<mapsto> q))"
    using Cons.prems by (intro updates_inv_insert) auto
  then show ?case using Cons.prems Cons.IH [of "updatesQueueCb q wp"] by (simp add: fun_upd_def)
qed simp

lemma updates_inv_handle:
  assumes inv: "updates_inv log V C"
  shows "updates_inv (log @ [EnvHandleQueuedUpdates k]) V C"
    and "updates_inv (log @ [EnvDrainUnhandledUpdates]) V C"
proof -
  show "updates_inv (log @ [EnvHandleQueuedUpdates k]) V C"
    by (rule updates_inv_run [OF inv])
      (simp_all add: ac_simps flip: mset_filter, metis multiset_partition mset_filter)
  show "updates_inv (log @ [EnvDrainUnhandledUpdates]) V C"
    by (rule updates_inv_run [OF inv]) simp_all
qed

lemma updates_inv_runQueued:
  assumes ok: "updates_ok S" and inv: "updates_inv (calls wp) (updateValidateCb wp) (updateCompleteCb wp)"
    and c: "c = EnvDrainUnhandledUpdates \<or> c = EnvHandleQueuedUpdates k"
  shows "upd_P S (snd (runQueued S c wp))"
proof -
  let ?log = "calls wp @ [c]"
  let ?wp = "wp\<lparr>calls := ?log\<rparr>"
  have fresh: "verdicts (quHandle q) (calls wp) = []" if "q \<in> set (waiting_updates (calls wp))" for q
  proof -
    have "quHandle q \<notin> quHandle ` set (started_updates (calls wp))"
      using inv that unfolding updates_inv_def by auto
    then show ?thesis using inv unfolding updates_inv_def by blast
  qed
  have "upd_P S (snd (mapA (\<lambda>q. modifyA (updatesQueueCb q)) (ret_queued S ?log) ?wp))"
  proof (rule updates_inv_closures)
    show "updates_inv (calls ?wp) (updateValidateCb ?wp) (updateCompleteCb ?wp)"
      using c updates_inv_handle [OF inv] by auto
    show "\<forall>q \<in> set (ret_queued S ?log). q \<in> set (started_updates (calls ?wp)) \<and>
        verdicts (quHandle q) (calls ?wp) = []"
      using c ok fresh by (auto simp: updates_ok_def)
  qed
  moreover have "\<not> plain_call c" using c by auto
  ultimately show ?thesis using ok by (simp add: runQueued_def bindA_def envCall_update)
qed

lemma updates_inv_handleUpdate:
  assumes "updates_ok S" "updates_inv (calls wp) (updateValidateCb wp) (updateCompleteCb wp)"
    "\<forall>qu \<in> set (waiting_updates (calls wp) @ started_updates (calls wp)). quHandle qu \<noteq> cbs"
  shows "upd_P S (snd (handleUpdate S k uid input hdr cbs wp))"
  using assms by (auto simp: handleUpdate_def Let_def envCall_update intro!: updates_inv_queue)

lemma Execute_maps [simp]:
  "calls (Execute S m ev hdr input wp) = calls wp @ [EnvRegisterHandlers]"
  "updateValidateCb (Execute S m ev hdr input wp) = updateValidateCb wp"
  "updateCompleteCb (Execute S m ev hdr input wp) = updateCompleteCb wp"
  by (simp_all add: Execute_def Let_def split_beta)

lemma NewWorkflowDefinition_maps [simp]:
  "calls (NewWorkflowDefinition rid ev n) = []"
  "updateValidateCb (NewWorkflowDefinition rid ev n) = Map.empty"
  "updateCompleteCb (NewWorkflowDefinition rid ev n) = Map.empty"
  by (simp_all add: NewWorkflowDefinition_def)

lemma deliver_maps [simp]:
  "updateValidateCb (deliver S i r e wp) = updateValidateCb wp"
  "updateCompleteCb (deliver S i r e wp) = updateCompleteCb wp"
  by (simp_all add: deliver_def)

lemma pushResponse_maps [simp]:
  "calls (pushResponse i r wp) = calls wp"
  "updateValidateCb (pushResponse i r wp) = updateValidateCb wp"
  "updateCompleteCb (pushResponse i r wp) = updateCompleteCb wp"
  by (simp_all add: pushResponse_def)

interpretation updates: task_invariant S "upd_P S" "\<lambda>_ _. True" for S :: "'z world_scheme"
  by unfold_locales (auto simp: updates_inv_plain updates_inv_completed updates_inv_validated updates_inv_runQueued
    updates_inv_handleUpdate updates_inv_start updates_inv_noComplete)

section \<open>Waiting updates\<close>

text \<open>The handlers of the worker's commands neither queue nor start an update.\<close>

lemma update_handlers_frame:
  assumes "updates_ok S"
  shows "waiting_updates (calls (snd (hmUpdateCompleted S msg u wp))) = waiting_updates (calls wp)"
    "updatesQueue (snd (hmUpdateCompleted S msg u wp)) = updatesQueue wp"
    "waiting_updates (calls (snd (hmUpdateValidated S msg u wp))) = waiting_updates (calls wp)"
    "updatesQueue (snd (hmUpdateValidated S msg u wp)) = updatesQueue wp"
proof -
  let ?same = "\<lambda>w. waiting_updates (calls w) = waiting_updates (calls wp) \<and> updatesQueue w = updatesQueue wp"
  have "?same (snd (hmUpdateCompleted S msg u wp))"
  proof (cases "u = [] \<or> updateCompleteCb wp u = None")
    case True
    then show ?thesis by (auto simp: hmUpdateCompleted_def)
  next
    case False
    then show ?thesis using assms by (auto simp: hmUpdateCompleted_eq)
  qed
  moreover have "?same (snd (hmUpdateValidated S msg u wp))"
  proof (cases "u = [] \<or> updateValidateCb wp u = None")
    case True
    then show ?thesis by (auto simp: hmUpdateValidated_def)
  next
    case False
    then show ?thesis using assms
      by (auto simp: hmUpdateValidated_eq split: bool.splits option.splits)
  qed
  ultimately show "waiting_updates (calls (snd (hmUpdateCompleted S msg u wp))) = waiting_updates (calls wp)"
    "updatesQueue (snd (hmUpdateCompleted S msg u wp)) = updatesQueue wp"
    "waiting_updates (calls (snd (hmUpdateValidated S msg u wp))) = waiting_updates (calls wp)"
    "updatesQueue (snd (hmUpdateValidated S msg u wp)) = updatesQueue wp"
    by auto
qed

interpretation waiting: handler_invariant S
  "\<lambda>wp. updates_ok S \<longrightarrow> waiting_updates (calls wp) = ws \<and> updatesQueue wp = us" "\<lambda>_ _. True"
  for S :: "'z world_scheme" and ws us
  by unfold_locales (auto simp: deliver_def pushResponse_def update_handlers_frame)

lemma updatesQueueCb_queue [simp]: "updatesQueue (updatesQueueCb q wp) = updatesQueue wp"
  by (simp add: updatesQueueCb_def)

lemma closures_frame:
  "\<exists>wp'. mapA (\<lambda>q. modifyA (updatesQueueCb q)) qs wp = (Returns (), wp') \<and>
     calls wp' = calls wp \<and> updatesQueue wp' = updatesQueue wp"
proof (induction qs arbitrary: wp)
  case (Cons q qs)
  show ?case using Cons.IH [of "updatesQueueCb q wp"] by simp
qed (simp add: pureA_def)

lemma runQueued_frame:
  assumes "updates_ok S" "\<not> plain_call c"
  shows "\<exists>wp'. runQueued S c wp = (Returns (), wp') \<and> calls wp' = calls wp @ [c] \<and>
     updatesQueue wp' = updatesQueue wp"
  using closures_frame [of "ret_queued S (calls wp @ [c])" "wp\<lparr>calls := calls wp @ [c]\<rparr>"] assms
  by (simp add: runQueued_def bindA_def envCall_update)

text \<open>Handling the names of \<open>order\<close> leaves the updates of other names waiting.\<close>

lemma runNames_waiting:
  assumes "updates_ok S"
  shows "\<exists>wp'. mapA (\<lambda>k. seqA (runQueued S (EnvHandleQueuedUpdates k))
        (modifyA (\<lambda>wp. wp\<lparr>updatesQueue := removeAll k (updatesQueue wp)\<rparr>))) order wp = (Returns (), wp') \<and>
     waiting_updates (calls wp') = filter (\<lambda>q. quName q \<notin> set order) (waiting_updates (calls wp))"
proof (induction order arbitrary: wp)
  case (Cons k order)
  obtain wp1 where wp1: "runQueued S (EnvHandleQueuedUpdates k) wp = (Returns (), wp1)"
    "calls wp1 = calls wp @ [EnvHandleQueuedUpdates k]"
    using runQueued_frame [OF assms, of "EnvHandleQueuedUpdates k" wp] by auto
  let ?wp1 = "wp1\<lparr>updatesQueue := removeAll k (updatesQueue wp1)\<rparr>"
  show ?case
    using Cons.IH [of ?wp1] wp1
    by (auto simp: seqA_def bindA_def modifyA_def conj_commute intro!: filter_cong)
qed (simp add: pureA_def)

lemma runUpdates_waiting:
  assumes "updates_ok S"
  shows "\<exists>wp'. runUpdates S order wp = (Returns (), wp') \<and> updatesQueue wp' = [] \<and>
     waiting_updates (calls wp') = filter (\<lambda>q. quName q \<notin> set order) (waiting_updates (calls wp))"
  using runNames_waiting [OF assms, of order wp]
  by (auto simp: runUpdates_def seqA_def bindA_def modifyA_def)

lemma runDeferreds_frame:
  "calls (fold (runDeferred S) ds wp) = calls wp \<and> updatesQueue (fold (runDeferred S) ds wp) = updatesQueue wp"
proof (induction ds arbitrary: wp)
  case (Cons d ds)
  then show ?case by (cases d) (simp_all add: deliver_def)
qed simp

lemma taskPrologue_waiting:
  assumes "updates_ok S" "quName ` set (waiting_updates (calls wp)) \<subseteq> set order"
  shows "waiting_updates (calls (snd (taskPrologue S order wp))) = [] \<and>
     updatesQueue (snd (taskPrologue S order wp)) = []"
proof -
  let ?wp = "runCallbacks S (wp\<lparr>inLoop := 1\<rparr>)"
  have "calls ?wp = calls wp"
    using runDeferreds_frame [of S "callbacks wp" "wp\<lparr>inLoop := 1\<rparr>"] by (simp add: runCallbacks_def)
  moreover have "filter (\<lambda>q. quName q \<notin> set order) (waiting_updates (calls wp)) = []"
    using assms(2) by (auto simp: filter_empty_conv)
  ultimately obtain wp1 where wp1: "runUpdates S order ?wp = (Returns (), wp1)" "updatesQueue wp1 = []"
      "waiting_updates (calls wp1) = []"
    using runUpdates_waiting [OF assms(1), of order ?wp] by (metis (no_types, lifting))
  have "calls (snd (flushOrPanic S wp1)) = calls wp1" "updatesQueue (snd (flushOrPanic S wp1)) = updatesQueue wp1"
    by simp_all
  then show ?thesis using wp1 by (simp add: taskPrologue_def seqA_def bindA_def modifyA_def)
qed

lemma task_waiting:
  assumes "updates_ok S" "quName ` set (waiting_updates (calls wp)) \<subseteq> set order"
    and "OnWorkflowTaskStarted fuel S order wp = Some (r, wp')"
  shows "waiting_updates (calls wp') = [] \<and> updatesQueue wp' = []"
proof -
  obtain o1 wp1 where wp1: "taskPrologue S order wp = (o1, wp1)" by (cases "taskPrologue S order wp")
  then have w: "waiting_updates (calls wp1) = [] \<and> updatesQueue wp1 = []"
    using taskPrologue_waiting [OF assms(1,2)] by (metis snd_conv)
  show ?thesis
  proof (cases o1)
    case (Returns x)
    then obtain wp2 where "processPipeline fuel S wp1 = Some (r, wp2)" "wp' = wp2\<lparr>inLoop := 0\<rparr>"
      using assms(3) wp1 by (auto simp: OnWorkflowTaskStarted_def)
    then show ?thesis using waiting.processPipeline_P [where S = S and ws = "[]" and us = "[]" and wp = wp1] w assms(1) by simp
  next
    case (Panics e)
    then show ?thesis using assms(3) wp1 w by (auto simp: OnWorkflowTaskStarted_def)
  qed
qed

text \<open>The commands sent to the worker for queued updates.\<close>

definition invocation :: "queued_update \<Rightarrow> command option" where
  "invocation q = Some (InvokeUpdate (quID q) (quRunID q) (quName q) valExec)"

definition queued_commands :: "Workflow \<Rightarrow> command option list" where
  "queued_commands wp = map Command (Messages (mq wp))"

lemma queued_commands_frame [simp]:
  "queued_commands (wp\<lparr>calls := log\<rparr>) = queued_commands wp"
  "queued_commands (wp\<lparr>updatesQueue := us\<rparr>) = queued_commands wp"
  "queued_commands (updatesQueueCb q wp) = queued_commands wp @ [invocation q]"
  by (simp_all add: queued_commands_def updatesQueueCb_def pushCommand_def PushCommand_def seq_def
      Let_def enqueue_def Messages_def invocation_def)

lemma closures_commands:
  "queued_commands (snd (mapA (\<lambda>q. modifyA (updatesQueueCb q)) qs wp)) =
     queued_commands wp @ map invocation qs"
  by (induction qs arbitrary: wp) auto

lemma runQueued_commands:
  assumes "updates_ok S"
  shows "queued_commands (snd (runQueued S (EnvHandleQueuedUpdates k) wp)) =
     queued_commands wp @ map invocation (filter (\<lambda>q. quName q = k) (waiting_updates (calls wp)))"
  using assms closures_commands [of "filter (\<lambda>q. quName q = k) (waiting_updates (calls wp))"
      "wp\<lparr>calls := calls wp @ [EnvHandleQueuedUpdates k]\<rparr>"]
  by (simp add: runQueued_def bindA_def envCall_update) (simp add: updates_ok_def)

abbreviation by_name :: "string list \<Rightarrow> queued_update list \<Rightarrow> queued_update list" where
  "by_name order ws \<equiv> concat (map (\<lambda>k. filter (\<lambda>q. quName q = k) ws) order)"

lemma by_name_other: "k \<notin> set order \<Longrightarrow> by_name order (filter (\<lambda>q. quName q \<noteq> k) ws) = by_name order ws"
  by (intro arg_cong [of _ _ concat] map_cong) (auto intro!: filter_cong)

lemma runNames_commands:
  assumes "updates_ok S" "distinct order"
  shows "queued_commands (snd (mapA (\<lambda>k. seqA (runQueued S (EnvHandleQueuedUpdates k))
        (modifyA (\<lambda>wp. wp\<lparr>updatesQueue := removeAll k (updatesQueue wp)\<rparr>))) order wp)) =
     queued_commands wp @ map invocation (by_name order (waiting_updates (calls wp)))"
  using assms(2)
proof (induction order arbitrary: wp)
  case (Cons k order)
  obtain wp1 where wp1: "runQueued S (EnvHandleQueuedUpdates k) wp = (Returns (), wp1)"
    "calls wp1 = calls wp @ [EnvHandleQueuedUpdates k]"
    using runQueued_frame [OF assms(1), of "EnvHandleQueuedUpdates k" wp] by auto
  let ?wp1 = "wp1\<lparr>updatesQueue := removeAll k (updatesQueue wp1)\<rparr>"
  have "queued_commands ?wp1 =
      queued_commands wp @ map invocation (filter (\<lambda>q. quName q = k) (waiting_updates (calls wp)))"
    using runQueued_commands [OF assms(1), of k wp] wp1 by simp
  then show ?case
    using Cons.IH [of ?wp1] Cons.prems wp1 by_name_other [of k order]
    by (simp add: seqA_def bindA_def modifyA_def)
qed simp

lemma runUpdates_commands:
  assumes "updates_ok S" "distinct order"
  shows "queued_commands (snd (runUpdates S order wp)) =
     queued_commands wp @ map invocation (by_name order (waiting_updates (calls wp)))"
  using runNames_commands [OF assms, of wp] runNames_waiting [OF assms(1), of order wp]
  by (auto simp: runUpdates_def seqA_def bindA_def modifyA_def)

lemma mset_by_name:
  "distinct order \<Longrightarrow> mset (by_name order ws) = mset (filter (\<lambda>q. quName q \<in> set order) ws)"
proof (induction order)
  case (Cons k order)
  have "{#q \<in># mset ws. quName q = k \<or> quName q \<in> set order#} =
      {#q \<in># mset ws. quName q = k#} + {#q \<in># mset ws. quName q \<in> set order#}"
    using Cons.prems by (induction ws) auto
  then show ?case using Cons by (simp add: mset_filter)
qed simp

text \<open>In every reachable state the set \<open>updatesQueue\<close> names all waiting updates.\<close>

lemma handler_waiting:
  assumes "updates_ok S"
  shows "waiting_updates (calls (snd (runHandler S hc wp))) = waiting_updates (calls wp) \<and>
    updatesQueue (snd (runHandler S hc wp)) = updatesQueue wp"
  using waiting.runHandler_keeps [where S = S and hc = hc and h = "sent wp" and log = "calls wp"
      and ws = "waiting_updates (calls wp)" and us = "updatesQueue wp"]
    assms by (simp add: keeps_def)

lemma reachable_waiting:
  assumes "updates_ok S"
  shows "reachable S wp \<Longrightarrow>
    quName ` set (waiting_updates (calls wp)) \<subseteq> set (updatesQueue wp) \<and> distinct (updatesQueue wp)"
proof (induction rule: reachable.induct)
  case (reach_start metrics ev hdr input rid n)
  then show ?case
    by (simp add: waiting_updates_def Execute_def NewWorkflowDefinition_def Let_def split_beta)
next
  case (reach_step wp wp')
  from reach_step(2,3) show ?case
  proof (cases rule: wf_step.cases)
    case (step_task order fuel r)
    then show ?thesis using task_waiting [OF assms, of wp order] reach_step(3)
      by (metis distinct.simps(1) empty_subsetI image_empty list.set(1) set_mset_mset)
  next
    case (step_result hc)
    then show ?thesis using handler_waiting [OF assms, of hc wp] reach_step(3) by simp
  next
    case (step_query name input hdr)
    then show ?thesis using reach_step(3) by simp
  next
    case (step_trace)
    then show ?thesis using reach_step(3) by simp
  next
    case (step_close)
    then show ?thesis
      using runQueued_frame [OF assms, of EnvDrainUnhandledUpdates wp]
      by (auto simp: Close_def seqA_def bindA_def modifyA_def Let_def split_beta)
  next
    case (step_update cbs name uid input hdr)
    then show ?thesis using reach_step(3) assms
      by (auto simp: handleUpdate_def Let_def envCall_update)
  qed (use reach_step(3) in \<open>auto simp: handleSignal_def handleCancel_def\<close>)
qed

section \<open>Properties\<close>

text \<open>A script of a worker that validates, then completes the update \<open>u1\<close>.\<close>

definition update_script :: "nat \<Rightarrow> proto_message list" where
  "update_script n =
     (if n = 1 then [sample_frame 100 ''UpdateValidated'' ''u1'', sample_frame 101 ''NewTimer'' ''t'',
                     sample_frame 102 ''UpdateCompleted'' ''u1'']
      else [])"

definition update_queued :: Workflow where
  "update_queued = snd (handleUpdate (sample_world update_script) ''upd'' ''u1'' None None 7
                          (sample_start update_script))"

lemma update_queued_reachable: "reachable (sample_world update_script) update_queued"
  unfolding update_queued_def
  by (rule sample_update_reachable [OF sample_start_reachable]) (simp, code_simp)

lemma update_queued_names: "updatesQueue update_queued = [''upd'']"
  by code_simp

text \<open>
  C2: in every reachable state of a workflow, the SDK's callbacks object of an update (a handle) got
  at most one decision (accept or reject), at most one completion and no completion after a
  rejection, and a handle whose update was not started got no verdict at all.
\<close>

theorem update_verdicts_lawful:
  assumes "updates_ok S" "reachable S wp"
  shows "lawful (verdicts h (calls wp)) \<and>
    (h \<notin> quHandle ` set (started_updates (calls wp)) \<longrightarrow> verdicts h (calls wp) = [])"
  using updates.reachable_P [OF assms(2)] assms(1) unfolding updates_inv_def by blast

theorem update_verdicts_lawful_witness:
  "lawful (verdicts 7 (calls (sample_task update_script [''upd''] update_queued))) \<and>
   verdicts 7 (calls (sample_task update_script [''upd''] update_queued)) = [VAccept, VComplete] \<and>
   verdicts 8 (calls (sample_task update_script [''upd''] update_queued)) = []"
proof -
  let ?wp = "sample_task update_script [''upd''] update_queued"
  have r: "reachable (sample_world update_script) ?wp"
    by (rule sample_task_reachable [OF update_queued_reachable]) (simp add: update_queued_names)
  have "8 \<notin> quHandle ` set (started_updates (calls ?wp))" by code_simp
  then have "verdicts 8 (calls ?wp) = []" "lawful (verdicts 7 (calls ?wp))"
    using update_verdicts_lawful [OF sample_updates_ok r] by blast+
  moreover have "verdicts 7 (calls ?wp) = [VAccept, VComplete]" by code_simp
  ultimately show ?thesis by simp
qed



end
