(* ===== verification/Workflow_Exchange.thy ===== *)
theory Workflow_Exchange
  imports Workflow_Progress Workflow_Updates
begin

unbundle bit_operations_syntax

text \<open>
  What single operations of a workflow do: the exchange of the queue and of a single command with
  the worker, the delivery of results inside and outside of a task, cancellation, the ids of
  child workflows, the start command and the end of a workflow.
\<close>

section \<open>Results outside of a task\<close>

text \<open>The arrival of a result: the two callbacks by the closure they defer.\<close>

fun arrive :: "'z world_scheme \<Rightarrow> deferred \<Rightarrow> Workflow \<Rightarrow> Workflow" where
  "arrive S (DeferResult i t r e) = createCallback S i t r e"
| "arrive S (DeferLocal i r e) = createLocalActivityCallback S i r e"

lemma arrive_eq:
  "arrive S d wp = (if inLoop wp = 1 then runDeferred S d wp else wp\<lparr>callbacks := callbacks wp @ [d]\<rparr>)"
  by (cases d) (simp_all add: createCallback_def createLocalActivityCallback_def)

lemma runDeferred_commute:
  "runDeferred S d (wp\<lparr>callbacks := cs\<rparr>) = (runDeferred S d wp)\<lparr>callbacks := cs\<rparr>"
  "inLoop (runDeferred S d wp) = inLoop wp"
proof -
  show "runDeferred S d (wp\<lparr>callbacks := cs\<rparr>) = (runDeferred S d wp)\<lparr>callbacks := cs\<rparr>"
    by (cases wp; cases d) (simp_all add: deliver_def split: option.split)
  show "inLoop (runDeferred S d wp) = inLoop wp" by (cases d) simp_all
qed

lemma runDeferreds_commute:
  "fold (runDeferred S) ds (wp\<lparr>callbacks := cs\<rparr>) = (fold (runDeferred S) ds wp)\<lparr>callbacks := cs\<rparr>"
  "inLoop (fold (runDeferred S) ds wp) = inLoop wp"
  by (induction ds arbitrary: wp) (simp_all add: runDeferred_commute)

lemma arrivals_outside:
  "inLoop wp \<noteq> 1 \<Longrightarrow> fold (arrive S) ds wp = wp\<lparr>callbacks := callbacks wp @ ds\<rparr>"
  by (induction ds arbitrary: wp) (simp_all add: arrive_eq)

lemma arrivals_inside: "inLoop wp = 1 \<Longrightarrow> fold (arrive S) ds wp = fold (runDeferred S) ds wp"
  by (induction ds arbitrary: wp) (simp_all add: arrive_eq runDeferred_commute)

section \<open>Payload objects\<close>

lemma pldOut_bookkeeping [simp]:
  "pldOut (getPld wp) = pldOut wp + 1" "pldOut (putPld wp) = pldOut wp - 1"
  "pldOut (gaugeNow S n wp) = pldOut wp" "pldOut (gaugeDeferred S n k wp) = pldOut wp"
  by (simp_all add: getPld_def putPld_def gaugeNow_def gaugeDeferred_def)

lemma pldOut_exchangeQueue [simp]: "pldOut (snd (exchangeQueue S wp)) = pldOut wp"
  by (auto simp: exchangeQueue_def poolExec_eq split: prod.splits option.splits sum.splits)

lemma pldOut_flushQueue [simp]: "pldOut (snd (flushQueue S wp)) = pldOut wp"
  by (simp add: flushQueue_def Let_def split_beta)

section \<open>Cancellation\<close>

interpretation gone: call_invariant S "\<lambda>wp. canceller wp i = None" "\<lambda>_ _. True" for S :: "'z world_scheme" and i
  by unfold_locales (simp_all add: deliver_def Discard_def)

lemma gone_envCall: "canceller wp i = None \<Longrightarrow> canceller (snd (envCall S c wp)) i = None"
  using gone.envCall_P [of wp c i S] by simp

lemma cancellables_only_remove: "only_removes canceller (runCancellable S)"
  unfolding only_removes_def keeps_def
proof (intro allI impI)
  fix c i and wp :: Workflow
  assume "canceller wp i = None"
  then show "canceller (snd (runCancellable S c wp)) i = None"
    by (cases "(S, c)" rule: runCancellable.cases) (simp_all add: gone_envCall)
qed

lemma runCancellable_no_error: "runCancellable S c wp = (Returns e, w) \<Longrightarrow> e = None"
  by (cases "(S, c)" rule: runCancellable.cases)
    (auto simp: bindA_def pureA_def split: prod.splits outcome.splits)

lemma cancelIDs_no_error: "cancelIDs S is wp = (Returns e, w) \<Longrightarrow> e = None"
proof (induction "is" arbitrary: wp)
  case (Cons i "is")
  then show ?case
    by (auto simp: cancelIDs_def LoadAndDelete_def split: option.splits prod.splits outcome.splits
        dest: runCancellable_no_error)
qed (simp add: cancelIDs_def)

section \<open>What a call to the SDK leaves alone\<close>

definition numbering :: "Workflow \<Rightarrow> u64 \<times> env_call list" where
  "numbering wp = (seqID wp, calls wp)"

interpretation numbering: call_invariant S "\<lambda>wp. numbering wp = v" "\<lambda>_ _. True" for S :: "'z world_scheme" and v
  by unfold_locales (simp_all add: numbering_def deliver_def)

lemma envCall_numbering:
  "seqID (snd (envCall S c wp)) = seqID wp" "calls (snd (envCall S c wp)) = calls wp @ [c]"
  using numbering.envCall_P [where S = S and c = c and wp = wp and v = "(seqID wp, calls wp @ [c])"]
  by (simp_all add: numbering_def)

section \<open>The input of a workflow\<close>

abbreviation payload_list :: "payloads \<Rightarrow> payload list" where
  "payload_list p \<equiv> (case p of None \<Rightarrow> [] | Some xs \<Rightarrow> xs)"

lemma withLastCompletion_split:
  assumes "withLastCompletion lc input = (pls, n)" "length (payload_list lc) < 2 ^ 64"
  shows "unat n = length (payload_list lc) \<and> payload_list pls = payload_list input @ payload_list lc"
proof (cases "payload_list lc")
  case Nil
  then show ?thesis using assms(1)
    by (auto simp: withLastCompletion_def split: option.splits list.splits)
next
  case (Cons p ps)
  then have "lc = Some (p # ps)" by (cases lc) simp_all
  then show ?thesis using assms
    by (auto simp: withLastCompletion_def unat_of_nat take_bit_nat_eq_self simp flip: of_nat_Suc)
qed

section \<open>A single command\<close>

definition command_message :: "command \<Rightarrow> payloads \<Rightarrow> header \<Rightarrow> Workflow \<Rightarrow> message" where
  "command_message cmd pls hdr wp =
     \<lparr>ID = gseq wp + 1, Command = Some cmd, Failure = None, Payloads = pls, Header = hdr\<rparr>"

lemma AllocateMessage_seq:
  "AllocateMessage seq cmd pls hdr emptyMessage (gseq wp) = (command_message cmd pls hdr wp, gseq wp + 1)"
  by (simp add: AllocateMessage_def seq_def command_message_def emptyMessage_def)

lemma exchangeCommand_ok:
  assumes "fst (exchangeCommand S msg wp) = Inr m"
  obtains pl where "Encode S (getContext S wp) new_pool_payload [msg] = (None, pl)"
    "sent (snd (exchangeCommand S msg wp)) = sent wp @ [pl]" "answered S (exec S (sent wp @ [pl])) = [m]"
  using assms
  by (auto simp: exchangeCommand_def poolExec_eq answered_receive
      split: prod.splits option.splits sum.splits exec_outcome.splits list.splits)

lemma runCommand_ok:
  assumes "runCommand S cmd pls hdr wp = (Inr m, wp')"
  obtains pl where "Encode S (getContext S wp) new_pool_payload [command_message cmd pls hdr wp] = (None, pl)"
    "sent wp' = sent wp @ [pl]" "answered S (exec S (sent wp @ [pl])) = [m]"
proof -
  let ?msg = "command_message cmd pls hdr wp"
  let ?wp = "getPld (gaugeNow S RrMetricName (wp\<lparr>gseq := gseq wp + 1\<rparr>))"
  have "getContext S ?wp = getContext S wp" by (rule getContext_core) simp
  moreover have "fst (exchangeCommand S ?msg ?wp) = Inr m" "sent wp' = sent (snd (exchangeCommand S ?msg ?wp))"
    using assms by (auto simp: runCommand_def AllocateMessage_seq Let_def split_beta)
  ultimately show ?thesis using exchangeCommand_ok [of S ?msg ?wp m] that by auto
qed

text \<open>The three error branches of the \<open>select\<close>.\<close>

definition select_fails :: "'z world_scheme \<Rightarrow> exec_outcome \<Rightarrow> bool" where
  "select_fails S out \<longleftrightarrow> (case out of
     ExecError _ \<Rightarrow> False
   | NoResponse \<Rightarrow> True
   | Response err r \<Rightarrow> err \<noteq> None \<or> plFlags r AND stream_flag S \<noteq> 0)"

lemma pldOut_exchangeCommand:
  "pldOut (snd (exchangeCommand S msg wp)) =
     pldOut wp - (case Encode S (getContext S wp) new_pool_payload [msg] of
        (None, pl) \<Rightarrow> if select_fails S (exec S (sent wp @ [pl])) then 0 else 1
      | (Some e, pl) \<Rightarrow> 1)"
  by (auto simp: exchangeCommand_def poolExec_eq select_fails_def receive_def
      split: prod.splits option.splits sum.splits exec_outcome.splits list.splits if_splits)

section \<open>Properties\<close>

text \<open>
  C5: deferring a result is the same as delivering it. Results that arrive outside of a task and
  are run when the next task starts leave the workflow in the state in which their immediate
  delivery, in order of arrival and after the results deferred before, leaves it.
\<close>

theorem deferral_equivalence:
  assumes "inLoop wp \<noteq> 1"
  shows "runCallbacks S ((fold (arrive S) ds wp)\<lparr>inLoop := 1\<rparr>) =
    fold (arrive S) ds (runCallbacks S (wp\<lparr>inLoop := 1\<rparr>))"
proof -
  let ?w = "wp\<lparr>inLoop := 1\<rparr>"
  have "runCallbacks S ((fold (arrive S) ds wp)\<lparr>inLoop := 1\<rparr>) =
      (fold (runDeferred S) (callbacks wp @ ds) (?w\<lparr>callbacks := callbacks wp @ ds\<rparr>))\<lparr>callbacks := []\<rparr>"
  proof -
    have "(wp\<lparr>callbacks := callbacks wp @ ds\<rparr>)\<lparr>inLoop := 1\<rparr> = ?w\<lparr>callbacks := callbacks wp @ ds\<rparr>"
      by (cases wp) simp
    then show ?thesis by (simp only: arrivals_outside [OF assms] runCallbacks_def) simp
  qed
  also have "\<dots> = fold (runDeferred S) ds ((fold (runDeferred S) (callbacks wp) ?w)\<lparr>callbacks := []\<rparr>)"
    by (simp only: runDeferreds_commute fold_append comp_apply) simp
  also have "\<dots> = fold (arrive S) ds (runCallbacks S ?w)"
    by (simp add: arrivals_inside runCallbacks_def runDeferreds_commute)
  finally show ?thesis .
qed

theorem deferral_equivalence_witness:
  "map ID (Messages (mq (runCallbacks timer_world
      ((fold (arrive timer_world) [DeferResult 8 ''activity'' None None, DeferLocal 9 None None] timer_fired)\<lparr>inLoop := 1\<rparr>))))
   = [100, 8, 9]"
proof -
  have "inLoop timer_fired \<noteq> 1" by code_simp
  note claim = deferral_equivalence [OF this, of timer_world "[DeferResult 8 ''activity'' None None, DeferLocal 9 None None]"]
  show ?thesis unfolding claim by code_simp
qed



text \<open>
  C14: a command of the worker to cancel. Cancelling never reports an error; when it returns, none
  of the ids is cancellable any more, and cancelling the same ids again changes nothing.
\<close>

theorem cancel_clears:
  assumes "cancelIDs S cids wp = (Returns e, wp')"
  shows "e = None \<and> (\<forall>i \<in> set cids. canceller wp' i = None) \<and> cancelIDs S cids wp' = (Returns None, wp')"
proof -
  have "e = None" using cancelIDs_no_error [OF assms] .
  moreover from this assms have "\<forall>i \<in> set cids. canceller wp' i = None"
    using CancelIds_clears [OF cancellables_only_remove [of S], of "\<lambda>c wp. wp\<lparr>canceller := c\<rparr>" cids wp wp']
    by (simp add: cancelIDs_def)
  moreover from this have "cancelIDs S cids wp' = (Returns None, wp')"
    unfolding cancelIDs_def by (rule CancelIds_unknown)
  ultimately show ?thesis by blast
qed

theorem cancel_clears_witness:
  "canceller (timer_task timer_start) 100 = Some (CancelTimer (Some ''timer'')) \<and>
   canceller (snd (cancelIDs timer_world [100, 7] (timer_task timer_start))) 100 = None"
proof -
  have "fst (cancelIDs timer_world [100, 7] (timer_task timer_start)) = Returns None"
    and c: "canceller (timer_task timer_start) 100 = Some (CancelTimer (Some ''timer''))" by code_simp+
  then obtain w where w: "cancelIDs timer_world [100, 7] (timer_task timer_start) = (Returns None, w)"
    by (cases "cancelIDs timer_world [100, 7] (timer_task timer_start)") simp
  show ?thesis using cancel_clears [OF w] w c by simp
qed

text \<open>
  C15: a query does not disturb the workflow: it sends one payload with the single \<open>InvokeQuery\<close>
  command, returns the payloads of the single message of the worker's answer, and leaves the
  queue and the pipeline alone.
\<close>

theorem query_answer:
  assumes "wire_ok S" "handleQuery S queryType args hdr wp = (Inr res, wp')"
  shows "\<exists>pl m. sent wp' = sent wp @ [pl] \<and>
     Decode S pl = Inr [command_message (InvokeQuery (RunID (info (env wp))) queryType) args hdr wp] \<and>
     answered S (exec S (sent wp')) = [m] \<and> Failure m = None \<and> Payloads m = res \<and>
     mq wp' = mq wp \<and> pipeline wp' = pipeline wp"
proof -
  let ?cmd = "InvokeQuery (RunID (info (env wp))) queryType"
  obtain m where m: "runCommand S ?cmd args hdr wp = (Inr m, wp')" "Failure m = None" "Payloads m = res"
    using assms(2) by (auto simp: handleQuery_def split: prod.splits sum.splits option.splits)
  from runCommand_ok [OF m(1)] obtain pl where
    pl: "Encode S (getContext S wp) new_pool_payload [command_message ?cmd args hdr wp] = (None, pl)"
      "sent wp' = sent wp @ [pl]" "answered S (exec S (sent wp @ [pl])) = [m]" .
  have "Decode S pl = Inr [command_message ?cmd args hdr wp]"
    using proto.decode_encode [OF assms(1) _ pl(1)] by (simp add: readable_def command_message_def)
  then show ?thesis using m pl runCommand_frame [of S ?cmd args hdr wp] by simp
qed

text \<open>A world in which the worker answers a query with the payload \<open>42\<close>.\<close>

definition query_cmd :: command where
  "query_cmd = InvokeQuery ''run'' ''total''"

definition query_frame :: "message \<Rightarrow> proto_message list" where
  "query_frame m =
     [projr (packMessage (table_wire [] [(query_cmd, ''q'')] (sample_world (\<lambda>_. []))) m
               (getContext (sample_world (\<lambda>_. [])) (sample_start (\<lambda>_. []))))]"

definition query_reply :: message where
  "query_reply = emptyMessage\<lparr>ID := 2, Payloads := Some [\<lparr>metadata = [], data = ''42''\<rparr>]\<rparr>"

definition query_world :: world where
  "query_world =
     table_wire [(query_frame (command_message query_cmd None None (sample_start (\<lambda>_. []))), ''1''),
                 (query_frame query_reply, ''2'')] [(query_cmd, ''q'')]
       ((sample_world (\<lambda>_. []))\<lparr>exec := (\<lambda>h. Response None (new_pool_payload\<lparr>plBody := ''2''\<rparr>))\<rparr>)"

theorem query_answer_witness:
  "fst (handleQuery query_world ''total'' None None (sample_start (\<lambda>_. []))) =
     Inr (Some [\<lparr>metadata = [], data = ''42''\<rparr>]) \<and>
   mq (snd (handleQuery query_world ''total'' None None (sample_start (\<lambda>_. [])))) = mq (sample_start (\<lambda>_. []))"
proof -
  have ok: "wire_ok query_world" unfolding query_world_def by (rule table_wire_ok) simp_all
  have r: "fst (handleQuery query_world ''total'' None None (sample_start (\<lambda>_. []))) =
      Inr (Some [\<lparr>metadata = [], data = ''42''\<rparr>])" by code_simp
  then obtain w where w: "handleQuery query_world ''total'' None None (sample_start (\<lambda>_. [])) =
      (Inr (Some [\<lparr>metadata = [], data = ''42''\<rparr>]), w)"
    by (cases "handleQuery query_world ''total'' None None (sample_start (\<lambda>_. []))") simp
  show ?thesis using query_answer [OF ok w] w by auto
qed

text \<open>
  \<open>runCommand\<close> loses a payload object of the pool exactly when the worker accepted the
  command but the response is missing, an error or a stream; in all other cases the object
  is returned.
\<close>

lemma runCommand_payload_leak:
  "pldOut (snd (runCommand S cmd pls hdr wp)) =
     pldOut wp +
       (case Encode S (getContext S wp) new_pool_payload [command_message cmd pls hdr wp] of
          (None, pl) \<Rightarrow> if select_fails S (exec S (sent wp @ [pl])) then 1 else 0
        | (Some e, pl) \<Rightarrow> 0)"
proof -
  let ?msg = "command_message cmd pls hdr wp"
  let ?wp = "getPld (gaugeNow S RrMetricName (wp\<lparr>gseq := gseq wp + 1\<rparr>))"
  have "getContext S ?wp = getContext S wp" by (rule getContext_core) simp
  then show ?thesis
    using pldOut_exchangeCommand [of S ?msg ?wp]
    by (simp add: runCommand_def AllocateMessage_seq Let_def split_beta split: prod.splits option.splits)
qed

text \<open>
  C19: a child workflow without an id gets one from the parent's run id and the next number of the
  parent; it is the id in the request to the SDK and in the entry for its cancellation, and
  different numbers give different ids.
\<close>

theorem child_workflow_id:
  assumes "woWorkflowID opts = []" "hmExecuteChildWorkflow S msg name opts wp = (Returns e, wp')"
  defines "n \<equiv> seqID wp + 1" and "run \<equiv> RunID (info (env wp))"
  shows "e = None \<and> seqID wp' = n \<and>
    (\<exists>params. calls wp' = calls wp @ [EnvExecuteChildWorkflow params
                (Callback (ID msg) ''ExecuteChildWorkflow'') (ChildStarted (ID msg))] \<and>
       woWorkflowID (wpOptions params) = childWorkflowID run n) \<and>
    canceller wp' (ID msg) = Some (CancelChildWorkflow (woNamespace opts) (childWorkflowID run n)) \<and>
    (\<forall>m. childWorkflowID run m = childWorkflowID run n \<longrightarrow> m = n)"
proof -
  let ?p = "WorkflowParams name opts (info (env wp)) (Payloads msg) (Header msg)"
  let ?params = "?p\<lparr>wpOptions := (wpOptions ?p)\<lparr>woWorkflowID := childWorkflowID run n\<rparr>\<rparr>"
  let ?c = "EnvExecuteChildWorkflow ?params (Callback (ID msg) ''ExecuteChildWorkflow'') (ChildStarted (ID msg))"
  let ?r = "envCall S ?c (wp\<lparr>seqID := n\<rparr>)"
  have p: "woWorkflowID (wpOptions ?p) = []" "woNamespace (wpOptions ?p) = woNamespace opts"
    using assms(1) by (simp_all add: WorkflowParams_def Let_def)
  then have eq: "hmExecuteChildWorkflow S msg name opts wp =
      bindA (envCall S ?c) (\<lambda>_. seqA (register (ID msg)
         (CancelChildWorkflow (woNamespace opts) (childWorkflowID run n))) (pureA None)) (wp\<lparr>seqID := n\<rparr>)"
    by (simp add: hmExecuteChildWorkflow_def Let_def n_def run_def)
  then have "e = None" "wp' = (snd ?r)\<lparr>canceller :=
      Register (ID msg) (CancelChildWorkflow (woNamespace opts) (childWorkflowID run n)) (canceller (snd ?r))\<rparr>"
    using assms(2) by (auto simp: bindA_def pureA_def split: prod.splits outcome.splits)
  moreover have "seqID (snd ?r) = n" "calls (snd ?r) = calls wp @ [?c]"
    using envCall_numbering [of S ?c "wp\<lparr>seqID := n\<rparr>"] by simp_all
  moreover have "\<forall>m. childWorkflowID run m = childWorkflowID run n \<longrightarrow> m = n"
    by (auto simp: childWorkflowID_def dest: Itoa_inj)
  ultimately show ?thesis by (simp add: Register_def)
qed

theorem child_workflow_id_witness:
  "canceller (snd (hmExecuteChildWorkflow (sample_world (\<lambda>_. [])) (emptyMessage\<lparr>ID := 5\<rparr>) ''child''
      zero_workflow_options (sample_start (\<lambda>_. [])))) 5 = Some (CancelChildWorkflow [] ''run_1'')"
proof -
  let ?hm = "hmExecuteChildWorkflow (sample_world (\<lambda>_. [])) (emptyMessage\<lparr>ID := 5\<rparr>) ''child''
      zero_workflow_options (sample_start (\<lambda>_. []))"
  have "fst ?hm = Returns None" by code_simp
  then obtain w where w: "?hm = (Returns None, w)" by (cases ?hm) simp
  have z: "woWorkflowID zero_workflow_options = []" by (simp add: zero_workflow_options_def)
  have "childWorkflowID (RunID (info (env (sample_start (\<lambda>_. []))))) (seqID (sample_start (\<lambda>_. [])) + 1) = ''run_1''"
    by code_simp
  then show ?thesis using child_workflow_id [OF z w] w by (simp add: zero_workflow_options_def)
qed

text \<open>
  C20: \<open>Execute\<close> queues exactly one message, the start command with the next sequence number. Its
  payloads are the input followed by the payloads of the last completion, whose number the
  command carries, so that the worker can separate the two.
\<close>

theorem Execute_queues_start:
  assumes "length (payload_list (lastCompletionResult ev)) < 2 ^ 64"
  shows "\<exists>n pls. Messages (mq (Execute S metrics ev hdr input wp)) =
       [\<lparr>ID = gseq wp + 1, Command = Some (startCommand S ev n), Failure = None, Payloads = pls, Header = hdr\<rparr>] \<and>
     take (length (payload_list pls) - unat n) (payload_list pls) = payload_list input \<and>
     drop (length (payload_list pls) - unat n) (payload_list pls) = payload_list (lastCompletionResult ev)"
proof -
  obtain pls n where w: "withLastCompletion (lastCompletionResult ev) input = (pls, n)"
    by (cases "withLastCompletion (lastCompletionResult ev) input")
  have "Messages (mq (Execute S metrics ev hdr input wp)) =
      [\<lparr>ID = gseq wp + 1, Command = Some (startCommand S ev n), Failure = None, Payloads = pls, Header = hdr\<rparr>]"
    by (simp add: Execute_def w Let_def pushCommand_def PushCommand_def seq_def enqueue_def Messages_def
        NewMessageQueue_def)
  then show ?thesis using withLastCompletion_split [OF w assms] by auto
qed

theorem Execute_queues_start_witness:
  "\<exists>n pls. Messages (mq (Execute (sample_world (\<lambda>_. [])) True
        (sample_view\<lparr>lastCompletionResult := Some [\<lparr>metadata = [], data = ''old''\<rparr>]\<rparr>) None
        (Some [\<lparr>metadata = [], data = ''in''\<rparr>]) (NewWorkflowDefinition ''rr'' sample_view 6))) =
     [\<lparr>ID = 7, Command = Some (startCommand (sample_world (\<lambda>_. []))
         (sample_view\<lparr>lastCompletionResult := Some [\<lparr>metadata = [], data = ''old''\<rparr>]\<rparr>) n), Failure = None,
       Payloads = pls, Header = None\<rparr>]"
  using Execute_queues_start [of "sample_view\<lparr>lastCompletionResult := Some [\<lparr>metadata = [], data = ''old''\<rparr>]\<rparr>"
      "sample_world (\<lambda>_. [])" True None "Some [\<lparr>metadata = [], data = ''in''\<rparr>]"
      "NewWorkflowDefinition ''rr'' sample_view 6"]
  by (auto simp: NewWorkflowDefinition_def)

text \<open>
  C29: when a history is replayed and the worker reports that the validation of an update failed, the
  update is accepted, as it was when the history was written, but the entry for its completion is
  dropped: a completion the worker sends afterwards is ignored.
\<close>

theorem replayed_validation_failure:
  assumes "updates_ok S" "IsReplaying (env wp)" "u \<noteq> []" "updateValidateCb wp u = Some q"
    and "Command msg = Some (UpdateValidated u)" "Failure msg = Some f"
    and "Command msg' = Some (UpdateCompleted u)"
  defines "wp' \<equiv> snd (handleMessage S msg wp)"
  shows "fst (handleMessage S msg wp) = Returns None \<and>
    calls wp' = calls wp @ [EnvUpdateAccept (quHandle q)] \<and>
    handleMessage S msg' wp' = (Returns None, wp')"
  using assms
  by (simp add: handleMessage_def hmUpdateValidated_eq) (simp add: hmUpdateCompleted_def)

theorem replayed_validation_failure_witness:
  fixes S q wp msg msg'
  defines "S \<equiv> sample_world (\<lambda>_. [])"
    and "q \<equiv> \<lparr>quName = ''upd'', quID = ''u1'', quInput = None, quHeader = None, quRunID = ''run'', quHandle = 7\<rparr>"
    and "wp \<equiv> updatesQueueCb q ((sample_start (\<lambda>_. []))\<lparr>env := sample_view\<lparr>IsReplaying := True\<rparr>\<rparr>)"
    and "msg \<equiv> emptyMessage\<lparr>Command := Some (UpdateValidated ''u1''), Failure := Some \<lparr>Message = ''no'', failureRest = []\<rparr>\<rparr>"
    and "msg' \<equiv> emptyMessage\<lparr>Command := Some (UpdateCompleted ''u1'')\<rparr>"
  shows "calls (snd (handleMessage S msg wp)) = calls wp @ [EnvUpdateAccept 7] \<and>
    calls (snd (handleMessage S msg' (snd (handleMessage S msg wp)))) = calls wp @ [EnvUpdateAccept 7]"
proof -
  have ok: "updates_ok S" unfolding S_def by (rule sample_updates_ok)
  have view: "IsReplaying (env wp)" "updateValidateCb wp ''u1'' = Some q"
    by (simp_all add: wp_def updatesQueueCb_def pushCommand_def PushCommand_def seq_def Let_def q_def)
  have m: "Command msg = Some (UpdateValidated ''u1'')" "Failure msg = Some \<lparr>Message = ''no'', failureRest = []\<rparr>"
    "Command msg' = Some (UpdateCompleted ''u1'')" by (simp_all add: msg_def msg'_def)
  show ?thesis
    using replayed_validation_failure [OF ok view(1) _ view(2) m] by (simp add: q_def)
qed

text \<open>
  A timer whose callback the SDK runs at once, inside \<open>NewTimer\<close> and within a task (a timer of no
  duration), is answered immediately; its entry for cancellation is registered afterwards and
  stays although the timer is over.
\<close>

lemma immediate_timer:
  assumes "Command msg = Some (NewTimer ms sm)" "inLoop wp = 1"
    and "ret_sync S (calls wp @ [EnvNewTimer (ToDuration ms) sm (Callback (ID msg) ''NewTimer'')]) =
           [CallResult (ID msg) ''NewTimer'' res None]"
  defines "wp' \<equiv> snd (handleMessage S msg wp)"
  shows "Messages (mq wp') = Messages (mq wp) @ [emptyMessage\<lparr>ID := ID msg, Payloads := res\<rparr>] \<and>
    canceller wp' (ID msg) \<noteq> None"
  using assms
  by (simp add: handleMessage_def hmNewTimer_def envCall_def createCallback_def deliver_def act_simps
      PushResponse_def enqueue_def Messages_def Register_def emptyMessage_def)

text \<open>
  C27: \<open>Close\<close>, if it does not panic, leaves no message in the queue, no waiting update and no
  completion callback; the validation callbacks of the workflow stay in their map.
\<close>

theorem Close_clears:
  assumes "updates_ok S" "Close S wp = (Returns (), wp')"
  shows "Messages (mq wp') = [] \<and> waiting_updates (calls wp') = [] \<and> updatesQueue wp' = [] \<and>
    updateCompleteCb wp' = Map.empty \<and> dom (updateValidateCb wp) \<subseteq> dom (updateValidateCb wp')"
proof -
  obtain w where w: "runQueued S EnvDrainUnhandledUpdates wp = (Returns (), w)"
    "calls w = calls wp @ [EnvDrainUnhandledUpdates]"
    using runQueued_frame [OF assms(1), of EnvDrainUnhandledUpdates wp] by auto
  have closures: "dom (updateValidateCb v) \<subseteq> dom (updateValidateCb (snd (mapA (\<lambda>q. modifyA (updatesQueueCb q)) qs v)))"
    for qs v
  proof (induction qs arbitrary: v)
    case (Cons q qs)
    have "dom (updateValidateCb v) \<subseteq> dom (updateValidateCb (updatesQueueCb q v))" by auto
    also have "\<dots> \<subseteq> dom (updateValidateCb (snd (mapA (\<lambda>q. modifyA (updatesQueueCb q)) qs (updatesQueueCb q v))))"
      by (rule Cons.IH)
    finally show ?case by simp
  qed simp
  have "dom (updateValidateCb wp) \<subseteq> dom (updateValidateCb w)"
    using closures [of "wp\<lparr>calls := calls wp @ [EnvDrainUnhandledUpdates]\<rparr>"] w assms(1)
    by (simp add: runQueued_def bindA_def envCall_update) (metis snd_conv)
  then show ?thesis
    using assms(2) w
    by (auto simp: Close_def seqA_def bindA_def modifyA_def Let_def split_beta Flush_def Messages_def)
qed

theorem Close_clears_witness:
  "updateCompleteCb (snd (Close (sample_world update_script) update_queued)) = Map.empty \<and>
   Messages (mq (snd (Close (sample_world update_script) update_queued))) = []"
proof -
  have "fst (Close (sample_world update_script) update_queued) = Returns ()" by code_simp
  then obtain w where w: "Close (sample_world update_script) update_queued = (Returns (), w)"
    by (cases "Close (sample_world update_script) update_queued") simp
  show ?thesis using Close_clears [OF sample_updates_ok w] w by simp
qed

end
