(* ===== verification/Activity_Pool.thy ===== *)
theory Activity_Pool
  imports Workflow_State Sample_World
begin

text \<open>
  \<open>aggregatedpool/activity.go\<close>, \<open>aggregatedpool/local_activity.go\<close>, \<open>aggregatedpool/interceptor.go\<close>
  and \<open>api/context.go\<close>: the execution of activities and local activities by the activity
  workers.

  An activity runs on a goroutine of its own. \<open>execute\<close> is split at the call of the pool: \<open>executeBegin\<close>
  is what happens before the worker has the request and \<open>executeEnd\<close> what happens when the pool
  returns, so that several activities and heartbeats can interleave; \<open>execute\<close> is one after the
  other. The Go context is the record \<open>act_ctx\<close> of what the code reads from it.
\<close>

section \<open>Contexts and headers\<close>

text \<open>A value stored in a context under the key \<open>HeaderContextKey\<close>.\<close>

datatype ctx_value = NoValue | HeaderMap "(string \<times> payload) list" | OtherValue string

text \<open>\<open>actHeartbeat\<close> is \<open>None\<close> without heartbeat details, otherwise the result of reading them.\<close>

record act_ctx =
  actInfo :: activity_info
  actHeartbeat :: "(go_error + payload list) option"
  actHeaders :: ctx_value
  actMetrics :: bool

definition ActivityHeadersFromCtx :: "act_ctx \<Rightarrow> header" where
  "ActivityHeadersFromCtx ctx =
     (case actHeaders ctx of
        NoValue \<Rightarrow> None
      | HeaderMap val \<Rightarrow> (if length val = 0 then None else Some val)
      | OtherValue _ \<Rightarrow> None)"

text \<open>
  The inbound interceptor: \<open>hdr\<close> is the SDK's \<open>interceptor.Header(ctx)\<close>; the rest of the call goes
  to the next interceptor with the new context.
\<close>

definition interceptExecuteActivity :: "(string \<times> payload) list \<Rightarrow> (act_ctx \<Rightarrow> 'r) \<Rightarrow> act_ctx \<Rightarrow> 'r" where
  "interceptExecuteActivity hdr nxt ctx = nxt (ctx\<lparr>actHeaders := HeaderMap hdr\<rparr>)"

section \<open>The activity definition\<close>

text \<open>
  \<open>aSent\<close> is the history of payloads given to the pool, \<open>aPldOut\<close> the payload objects taken and not
  returned, \<open>aGauges\<close> and \<open>aReads\<close> the metrics updates and reads of the queue size.
\<close>

record Activity =
  aSeqID :: u64
  running :: "string \<rightharpoonup> act_ctx"
  disableActivityWorkers :: bool
  aPldOut :: int
  aSent :: "pool_payload list"
  aGauges :: "(string \<times> u64) list"
  aReads :: nat

definition NewActivityDefinition :: "bool \<Rightarrow> Activity" where
  "NewActivityDefinition disable =
     \<lparr>aSeqID = 0, running = Map.empty, disableActivityWorkers = disable, aPldOut = 0, aSent = [],
      aGauges = [], aReads = 0\<rparr>"

definition GetActivityContext :: "bytes \<Rightarrow> Activity \<Rightarrow> go_error + act_ctx" where
  "GetActivityContext taskToken a =
     (case running a taskToken of
        None \<Rightarrow> Inl (ErrE ''activity_pool_get_activity_context'' (ErrStr ''heartbeat on non running activity''))
      | Some c \<Rightarrow> Inr c)"

text \<open>The context of the messages: only the task queue is set.\<close>

definition queueContext :: "string \<Rightarrow> Context" where
  "queueContext q = \<lparr>TaskQueue = q, TickTime = [], Replay = False, HistoryLen = 0, HistorySize = 0, RrID = [],
     ContinueAsNewSuggested = False\<rparr>"

abbreviation "opExecute \<equiv> ''activity_pool_execute_activity''"
abbreviation "doNotCompleteOnReturn \<equiv> ''doNotCompleteOnReturn''"

text \<open>
  What the two functions do with the outcome of the pool: \<open>emptyText\<close> and \<open>invalidText\<close> are the texts
  of their errors for an empty channel and for an answer that is not one message.
\<close>

definition workerAnswer :: "'z world_scheme \<Rightarrow> string \<Rightarrow> string \<Rightarrow> exec_outcome \<Rightarrow> go_error + payloads" where
  "workerAnswer S emptyText invalidText out =
     (case out of
        ExecError e \<Rightarrow> Inl (ErrE opExecute e)
      | _ \<Rightarrow>
          (case receive S opExecute emptyText out of
             Inl e \<Rightarrow> Inl e
           | Inr r \<Rightarrow>
               (case Decode S r of
                  Inl e \<Rightarrow> Inl e
                | Inr [retPld] \<Rightarrow>
                    (case Failure retPld of
                       Some f \<Rightarrow> (if Message f = doNotCompleteOnReturn then Inl ErrResultPending
                                  else Inl (failure_to_error S f))
                     | None \<Rightarrow> Inr (Payloads retPld))
                | Inr _ \<Rightarrow> Inl (ErrE opExecute (ErrStr invalidText)))))"

definition activityGaugeNow :: "'z world_scheme \<Rightarrow> bool \<Rightarrow> Activity \<Rightarrow> Activity" where
  "activityGaugeNow S metrics a =
     (if metrics
      then a\<lparr>aGauges := aGauges a @ [(''rr_activities_pool_queue_size'', queue_size S (aReads a))],
             aReads := aReads a + 2\<rparr>
      else a)"

text \<open>The deferred update has the value read when the \<open>defer\<close> statement was executed (\<open>k\<close>-th read).\<close>

definition activityGaugeDeferred :: "'z world_scheme \<Rightarrow> bool \<Rightarrow> nat \<Rightarrow> Activity \<Rightarrow> Activity" where
  "activityGaugeDeferred S metrics k a =
     (if metrics
      then a\<lparr>aGauges := aGauges a @ [(''rr_activities_pool_queue_size'', queue_size S (Suc k))]\<rparr> else a)"

text \<open>
  The first half of \<open>execute\<close>. It ends with the payload for the pool, with an error, or with a panic:
  appending heartbeat details to the payloads of a nil \<open>args\<close> dereferences a nil pointer.
\<close>

datatype begin_result =
    BeginSent pool_payload nat
  | BeginError go_error
  | BeginPanic

definition executeBegin ::
  "'z world_scheme \<Rightarrow> act_ctx \<Rightarrow> payloads \<Rightarrow> Activity \<Rightarrow> begin_result \<times> Activity" where
  "executeBegin S ctx args a =
     (case actHeartbeat ctx of
        Some (Inl e) \<Rightarrow> (BeginError (ErrE opExecute e), a)
      | hb \<Rightarrow>
          (let details = (case hb of Some (Inr ps) \<Rightarrow> ps | _ \<Rightarrow> []);
               inf = actInfo ctx;
               k = aReads a;
               a1 = activityGaugeNow S (actMetrics ctx) (a\<lparr>running := (running a)(TaskToken inf \<mapsto> ctx)\<rparr>);
               a2 = a1\<lparr>aSeqID := aSeqID a1 + 1\<rparr>;
               msg = \<lparr>ID = aSeqID a2,
                      Command = Some (InvokeActivity (ActivityTypeName inf) inf (of_nat (length details))),
                      Failure = None, Payloads = args, Header = ActivityHeadersFromCtx ctx\<rparr>
           in if details \<noteq> [] \<and> args = None
              then (BeginPanic, activityGaugeDeferred S (actMetrics ctx) k a2)
              else let msg' = (if details = [] then msg
                               else msg\<lparr>Payloads := map_option (\<lambda>ps. ps @ details) args\<rparr>);
                       a3 = a2\<lparr>aPldOut := aPldOut a2 + 1\<rparr>
                   in case Encode S (queueContext (aiTaskQueue inf)) new_pool_payload [msg'] of
                        (Some e, _) \<Rightarrow>
                          (BeginError e,
                           activityGaugeDeferred S (actMetrics ctx) k (a3\<lparr>aPldOut := aPldOut a3 - 1\<rparr>))
                      | (None, pl) \<Rightarrow> (BeginSent pl k, a3\<lparr>aSent := aSent a3 @ [pl]\<rparr>)))"

text \<open>The second half: the pool returned with the outcome \<open>out\<close>.\<close>

definition executeEnd ::
  "'z world_scheme \<Rightarrow> act_ctx \<Rightarrow> nat \<Rightarrow> exec_outcome \<Rightarrow> Activity \<Rightarrow> (go_error + payloads) \<times> Activity" where
  "executeEnd S ctx k out a =
     (let a1 = a\<lparr>running := (running a)(TaskToken (actInfo ctx) := None)\<rparr>
      in (workerAnswer S ''activity worker empty response'' ''invalid activity worker response'' out,
          activityGaugeDeferred S (actMetrics ctx) k (a1\<lparr>aPldOut := aPldOut a1 - 1\<rparr>)))"

definition execute ::
  "'z world_scheme \<Rightarrow> act_ctx \<Rightarrow> payloads \<Rightarrow> Activity \<Rightarrow> (go_error + payloads) outcome \<times> Activity" where
  "execute S ctx args a =
     (case executeBegin S ctx args a of
        (BeginPanic, a1) \<Rightarrow> (Panics (ErrExt ''nil pointer dereference''), a1)
      | (BeginError e, a1) \<Rightarrow> (Returns (Inl e), a1)
      | (BeginSent pl k, a1) \<Rightarrow>
          (let (r, a2) = executeEnd S ctx k (exec S (aSent a1)) a1 in (Returns r, a2)))"

section \<open>Local activities\<close>

record LocalActivityFn =
  laSeqID :: u64
  laSent :: "pool_payload list"
  laPldOut :: int
  laGauges :: "(string \<times> u64) list"
  laReads :: nat

definition NewLocalActivityFn :: LocalActivityFn where
  "NewLocalActivityFn = \<lparr>laSeqID = 0, laSent = [], laPldOut = 0, laGauges = [], laReads = 0\<rparr>"

text \<open>\<open>uid\<close> is the fresh UUID that replaces the task token.\<close>

definition ExecuteLA ::
  "'z world_scheme \<Rightarrow> string \<Rightarrow> act_ctx \<Rightarrow> header \<Rightarrow> payloads \<Rightarrow> LocalActivityFn
   \<Rightarrow> (go_error + payloads) \<times> LocalActivityFn" where
  "ExecuteLA S uid ctx hdr args la =
     (let inf = (actInfo ctx)\<lparr>TaskToken := uid\<rparr>;
          k = laReads la;
          gauge = (\<lambda>i la. if actMetrics ctx
                          then la\<lparr>laGauges := laGauges la @ [(''rr_activities_pool_queue_size'', queue_size S i)]\<rparr>
                          else la);
          la1 = gauge k (if actMetrics ctx then la\<lparr>laReads := k + 2\<rparr> else la);
          la2 = la1\<lparr>laSeqID := laSeqID la1 + 1, laPldOut := laPldOut la1 + 1\<rparr>;
          msg = \<lparr>ID = laSeqID la2, Command = Some (InvokeLocalActivity (ActivityTypeName inf) inf),
                 Failure = None, Payloads = args, Header = hdr\<rparr>
      in case Encode S (queueContext (aiTaskQueue inf)) new_pool_payload [msg] of
           (Some e, _) \<Rightarrow> (Inl e, gauge (Suc k) (la2\<lparr>laPldOut := laPldOut la2 - 1\<rparr>))
         | (None, pl) \<Rightarrow>
             (let h = laSent la2 @ [pl]
              in (workerAnswer S ''worker empty response'' ''invalid local activity worker response'' (exec S h),
                  gauge (Suc k) (la2\<lparr>laSent := h, laPldOut := laPldOut la2 - 1\<rparr>))))"

section \<open>Interleaved activities\<close>

text \<open>
  The activities in flight with what their second half needs. The task token of a new activity is not
  the token of one in flight (the server issues tokens).
\<close>

type_synonym act_state = "Activity \<times> (act_ctx \<times> nat) list"

definition tokens :: "(act_ctx \<times> nat) list \<Rightarrow> bytes list" where
  "tokens fl = map (TaskToken \<circ> actInfo \<circ> fst) fl"

inductive act_step :: "'z world_scheme \<Rightarrow> act_state \<Rightarrow> act_state \<Rightarrow> bool" for S where
  act_sent: "executeBegin S ctx args a = (BeginSent pl k, a') \<Longrightarrow> TaskToken (actInfo ctx) \<notin> set (tokens fl) \<Longrightarrow>
     act_step S (a, fl) (a', (ctx, k) # fl)"
| act_error: "executeBegin S ctx args a = (BeginError e, a') \<Longrightarrow> TaskToken (actInfo ctx) \<notin> set (tokens fl) \<Longrightarrow>
     act_step S (a, fl) (a', fl)"
| act_panic: "executeBegin S ctx args a = (BeginPanic, a') \<Longrightarrow> TaskToken (actInfo ctx) \<notin> set (tokens fl) \<Longrightarrow>
     act_step S (a, fl) (a', fl)"
| act_end: "(ctx, k) \<in> set fl \<Longrightarrow>
     act_step S (a, fl) (snd (executeEnd S ctx k out a), remove1 (ctx, k) fl)"

inductive act_reachable :: "'z world_scheme \<Rightarrow> act_state \<Rightarrow> bool" for S where
  act_start: "act_reachable S (NewActivityDefinition d, [])"
| act_next: "act_reachable S s \<Longrightarrow> act_step S s s' \<Longrightarrow> act_reachable S s'"

inductive_cases act_stepE: "act_step S (a, fl) (a', fl')"

lemma gauges_frame [simp]:
  "running (activityGaugeNow S m a) = running a" "running (activityGaugeDeferred S m k a) = running a"
  "aPldOut (activityGaugeNow S m a) = aPldOut a" "aPldOut (activityGaugeDeferred S m k a) = aPldOut a"
  "aSeqID (activityGaugeNow S m a) = aSeqID a" "aSeqID (activityGaugeDeferred S m k a) = aSeqID a"
  "aSent (activityGaugeNow S m a) = aSent a" "aSent (activityGaugeDeferred S m k a) = aSent a"
  by (simp_all add: activityGaugeNow_def activityGaugeDeferred_def)

lemma executeBegin_cases:
  assumes "executeBegin S ctx args a = (r, a')"
  shows "(running a' = running a \<or> running a' = (running a)(TaskToken (actInfo ctx) \<mapsto> ctx)) \<and>
    (case r of BeginSent pl k \<Rightarrow> running a' = (running a)(TaskToken (actInfo ctx) \<mapsto> ctx) \<and> aPldOut a' = aPldOut a + 1
             | _ \<Rightarrow> aPldOut a' = aPldOut a)"
  using assms
  by (auto simp: executeBegin_def Let_def split: option.splits sum.splits if_splits prod.splits)

definition act_inv :: "act_state \<Rightarrow> bool" where
  "act_inv s \<longleftrightarrow> (case s of (a, fl) \<Rightarrow>
     distinct (tokens fl) \<and> (\<forall>(ctx, k) \<in> set fl. running a (TaskToken (actInfo ctx)) = Some ctx) \<and>
     aPldOut a = int (length fl))"

lemma tokens_mem: "(ctx, k) \<in> set fl \<Longrightarrow> TaskToken (actInfo ctx) \<in> set (tokens fl)"
  by (force simp: tokens_def)

lemma act_inv_begin:
  assumes "act_inv (a, fl)" "executeBegin S ctx args a = (r, a')" "TaskToken (actInfo ctx) \<notin> set (tokens fl)"
  shows "act_inv (a', case r of BeginSent pl k \<Rightarrow> (ctx, k) # fl | _ \<Rightarrow> fl)"
proof -
  have old: "running a' (TaskToken (actInfo c)) = running a (TaskToken (actInfo c))" if "(c, k) \<in> set fl" for c k
  proof -
    have "TaskToken (actInfo c) \<noteq> TaskToken (actInfo ctx)" using tokens_mem [OF that] assms(3) by auto
    then show ?thesis using executeBegin_cases [OF assms(2)] by auto
  qed
  then have "\<forall>(c, k) \<in> set fl. running a' (TaskToken (actInfo c)) = Some c"
    using assms(1) by (auto simp: act_inv_def)
  then show ?thesis
    using assms(1,3) executeBegin_cases [OF assms(2)]
    by (cases r) (simp_all add: act_inv_def tokens_def)
qed

lemma act_inv_end:
  assumes "act_inv (a, fl)" "(ctx, k) \<in> set fl"
  shows "act_inv (snd (executeEnd S ctx k out a), remove1 (ctx, k) fl)"
proof -
  have inj: "inj_on (TaskToken \<circ> actInfo \<circ> fst) (set fl)" and d: "distinct fl"
    using assms(1) by (auto simp: act_inv_def tokens_def distinct_map)
  have sub: "set (remove1 (ctx, k) fl) \<subseteq> set fl" by (rule set_remove1_subset)
  have ne: "TaskToken (actInfo c) \<noteq> TaskToken (actInfo ctx)" if "(c, j) \<in> set (remove1 (ctx, k) fl)" for c j
  proof
    assume "TaskToken (actInfo c) = TaskToken (actInfo ctx)"
    moreover have "(c, j) \<in> set fl" using that sub by blast
    ultimately have "(c, j) = (ctx, k)"
      using inj_onD [OF inj, of "(c, j)" "(ctx, k)"] assms(2) by simp
    then show False using that d by (simp add: set_remove1_eq)
  qed
  have old: "running a (TaskToken (actInfo c)) = Some c" if "(c, j) \<in> set (remove1 (ctx, k) fl)" for c j
    using subsetD [OF sub that] assms(1) by (auto simp: act_inv_def)
  have "running (snd (executeEnd S ctx k out a)) (TaskToken (actInfo c)) = Some c"
    if "(c, j) \<in> set (remove1 (ctx, k) fl)" for c j
    using ne [OF that] old [OF that] by (simp add: executeEnd_def Let_def)
  moreover have "distinct (tokens (remove1 (ctx, k) fl))"
    using d inj_on_subset [OF inj set_remove1_subset] by (simp add: tokens_def distinct_map)
  moreover have "aPldOut (snd (executeEnd S ctx k out a)) = int (length (remove1 (ctx, k) fl))"
    using assms length_pos_if_in_set [OF assms(2)]
    by (simp add: act_inv_def length_remove1 of_nat_diff Suc_leI executeEnd_def Let_def)
  ultimately show ?thesis unfolding act_inv_def by blast
qed

lemma act_reachable_inv: "act_reachable S s \<Longrightarrow> act_inv s"
proof (induction rule: act_reachable.induct)
  case (act_start d)
  then show ?case by (simp add: act_inv_def NewActivityDefinition_def tokens_def)
next
  case (act_next s s')
  from act_next(2,3) show ?case
  proof (induction rule: act_step.induct)
    case (act_sent ctx args a pl k a' fl)
    then show ?case using act_inv_begin [of a fl S ctx args "BeginSent pl k" a'] by simp
  next
    case (act_error ctx args a e a' fl)
    then show ?case using act_inv_begin [of a fl S ctx args "BeginError e" a'] by simp
  next
    case (act_panic ctx args a a' fl)
    then show ?case using act_inv_begin [of a fl S ctx args BeginPanic a'] by simp
  next
    case (act_end ctx k fl a out)
    then show ?case by (simp add: act_inv_end)
  qed
qed

section \<open>The request and the answer\<close>

definition activity_request :: "act_ctx \<Rightarrow> payloads \<Rightarrow> Activity \<Rightarrow> message" where
  "activity_request ctx args a =
     (let details = (case actHeartbeat ctx of Some (Inr ps) \<Rightarrow> ps | _ \<Rightarrow> [])
      in \<lparr>ID = aSeqID a + 1,
          Command = Some (InvokeActivity (ActivityTypeName (actInfo ctx)) (actInfo ctx) (of_nat (length details))),
          Failure = None,
          Payloads = (if details = [] then args else map_option (\<lambda>ps. ps @ details) args),
          Header = ActivityHeadersFromCtx ctx\<rparr>)"

lemma executeBegin_sent:
  assumes "executeBegin S ctx args a = (BeginSent pl k, a')"
  shows "Encode S (queueContext (aiTaskQueue (actInfo ctx))) new_pool_payload [activity_request ctx args a] = (None, pl) \<and>
    aSent a' = aSent a @ [pl] \<and> running a' = (running a)(TaskToken (actInfo ctx) \<mapsto> ctx) \<and> aPldOut a' = aPldOut a + 1"
  using assms
  by (auto simp: executeBegin_def activity_request_def Let_def split: option.splits sum.splits if_splits prod.splits)

lemma workerAnswer_ok:
  "workerAnswer S et it out = Inr res \<longleftrightarrow>
     (\<exists>r m. receive S opExecute et out = Inr r \<and> Decode S r = Inr [m] \<and> Failure m = None \<and> Payloads m = res)"
  by (auto simp: workerAnswer_def receive_def
      split: exec_outcome.splits sum.splits list.splits option.splits if_splits)

section \<open>Properties\<close>

text \<open>
  C30: an activity that returns a result sent exactly one payload to the activity workers; it decodes to
  the single \<open>InvokeActivity\<close> command with the arguments, followed by the heartbeat details whose
  number the command carries, and with the headers of the context. The result is the payloads of
  the single message of the worker's answer. Afterwards the activity is not running and its
  payload object is returned.
\<close>

theorem activity_roundtrip:
  assumes "wire_ok S" "execute S ctx args a = (Returns (Inr res), a')"
  shows "\<exists>pl m. aSent a' = aSent a @ [pl] \<and> Decode S pl = Inr [activity_request ctx args a] \<and>
    answered S (exec S (aSent a')) = [m] \<and> Failure m = None \<and> Payloads m = res \<and>
    running a' (TaskToken (actInfo ctx)) = None \<and> aPldOut a' = aPldOut a"
proof -
  from assms(2) obtain pl k a1 where b: "executeBegin S ctx args a = (BeginSent pl k, a1)"
    and e: "executeEnd S ctx k (exec S (aSent a1)) a1 = (Inr res, a')"
    by (auto simp: execute_def split: prod.splits begin_result.splits)
  note sent = executeBegin_sent [OF b]
  have "workerAnswer S ''activity worker empty response'' ''invalid activity worker response'' (exec S (aSent a1)) = Inr res"
    and a': "running a' (TaskToken (actInfo ctx)) = None" "aSent a' = aSent a1" "aPldOut a' = aPldOut a1 - 1"
    using e by (auto simp: executeEnd_def Let_def)
  then obtain r m where "receive S opExecute ''activity worker empty response'' (exec S (aSent a1)) = Inr r"
    "Decode S r = Inr [m]" "Failure m = None" "Payloads m = res"
    by (auto simp: workerAnswer_ok)
  moreover from this(1,2) have "answered S (exec S (aSent a1)) = [m]" by (rule answered_receive)
  moreover have "Decode S pl = Inr [activity_request ctx args a]"
    using sent by (intro proto.decode_encode [OF assms(1)]) (auto simp: readable_def activity_request_def Let_def)
  ultimately show ?thesis using sent a' by auto
qed

text \<open>An activity with heartbeat details and a worker that answers it.\<close>

definition sample_activity :: act_ctx where
  "sample_activity =
     \<lparr>actInfo = \<lparr>TaskToken = ''token'', ActivityTypeName = ''greet'', aiTaskQueue = ''default'', ActivityID = ''1'', aiRest = []\<rparr>,
      actHeartbeat = Some (Inr [\<lparr>metadata = [], data = ''50%''\<rparr>]), actHeaders = HeaderMap [], actMetrics = True\<rparr>"

definition activity_frame :: "message \<Rightarrow> proto_message list" where
  "activity_frame m =
     [projr (packMessage (table_wire [] [(the (Command (activity_request sample_activity (Some []) (NewActivityDefinition False))), ''a'')]
               (sample_world (\<lambda>_. []))) m (queueContext ''default''))]"

definition activity_world :: world where
  "activity_world =
     table_wire [(activity_frame (activity_request sample_activity (Some []) (NewActivityDefinition False)), ''1''),
                 (activity_frame (emptyMessage\<lparr>ID := 1, Payloads := Some [\<lparr>metadata = [], data = ''hi''\<rparr>]\<rparr>), ''2'')]
       [(the (Command (activity_request sample_activity (Some []) (NewActivityDefinition False))), ''a'')]
       ((sample_world (\<lambda>_. []))\<lparr>exec := (\<lambda>h. Response None (new_pool_payload\<lparr>plBody := ''2''\<rparr>))\<rparr>)"

lemma activity_world_ok: "wire_ok activity_world"
  unfolding activity_world_def by (rule table_wire_ok) simp_all

theorem activity_roundtrip_witness:
  "fst (execute activity_world sample_activity (Some []) (NewActivityDefinition False)) =
     Returns (Inr (Some [\<lparr>metadata = [], data = ''hi''\<rparr>])) \<and>
   running (snd (execute activity_world sample_activity (Some []) (NewActivityDefinition False))) ''token'' = None"
proof -
  let ?e = "execute activity_world sample_activity (Some []) (NewActivityDefinition False)"
  have "fst ?e = Returns (Inr (Some [\<lparr>metadata = [], data = ''hi''\<rparr>]))" by code_simp
  then obtain a' where e: "?e = (Returns (Inr (Some [\<lparr>metadata = [], data = ''hi''\<rparr>])), a')" by (cases ?e) simp
  have "TaskToken (actInfo sample_activity) = ''token''" by (simp add: sample_activity_def)
  then show ?thesis using activity_roundtrip [OF activity_world_ok e] e by auto
qed

text \<open>
  C31: however activities interleave, a heartbeat of an activity in flight finds its context, and exactly
  one payload object is taken from the pool for each activity in flight.
\<close>

theorem heartbeat_finds_running:
  assumes "act_reachable S (a, fl)"
  shows "(\<forall>(ctx, k) \<in> set fl. GetActivityContext (TaskToken (actInfo ctx)) a = Inr ctx) \<and> aPldOut a = int (length fl)"
  using act_reachable_inv [OF assms] by (auto simp: act_inv_def GetActivityContext_def)

theorem heartbeat_finds_running_witness:
  "GetActivityContext ''token'' (snd (executeBegin activity_world sample_activity (Some []) (NewActivityDefinition False))) =
     Inr sample_activity"
proof -
  let ?b = "executeBegin activity_world sample_activity (Some []) (NewActivityDefinition False)"
  have "fst ?b = BeginSent (new_pool_payload\<lparr>plContext := ''context'', plBody := ''1''\<rparr>) 0" by code_simp
  then obtain a' where b: "?b = (BeginSent (new_pool_payload\<lparr>plContext := ''context'', plBody := ''1''\<rparr>) 0, a')"
    by (cases ?b) simp
  have "act_reachable activity_world (a', [(sample_activity, 0)])"
    by (rule act_next [OF act_start act_sent [OF b]]) (simp add: tokens_def)
  moreover have "TaskToken (actInfo sample_activity) = ''token''" by (simp add: sample_activity_def)
  ultimately show ?thesis using heartbeat_finds_running [of activity_world a' "[(sample_activity, 0)]"] b by simp
qed

text \<open>
  When the request of an activity cannot be encoded, \<open>execute\<close> returns the error but leaves the
  activity among the running ones: later heartbeats with its token are accepted.
\<close>

lemma encode_error_keeps_running:
  assumes "actHeartbeat ctx = None"
    and "Encode S (queueContext (aiTaskQueue (actInfo ctx))) new_pool_payload [activity_request ctx args a] = (Some e, p)"
  shows "fst (execute S ctx args a) = Returns (Inl e) \<and>
    GetActivityContext (TaskToken (actInfo ctx)) (snd (execute S ctx args a)) = Inr ctx"
  using assms
  by (simp add: execute_def executeBegin_def activity_request_def GetActivityContext_def Let_def)

end
