(* ===== verification/Worker_Setup.thy ===== *)
theory Worker_Setup
  imports Activity_Pool "HOL-Library.Multiset"
begin

text \<open>
  \<open>aggregatedpool/workers.go\<close> and \<open>info.go\<close>: asking the workflow worker which task queues, workflows
  and activities it serves, creating one Temporal worker for each task queue, and the tables of
  names that the RPC methods report.

  The parameters are the SDK's registration methods (a non-nil value is the panic of a rejected
  registration, given what the worker has registered so far), the SDK's \<open>DefaultNamespace\<close>, the
  \<open>n\<close>-th generated UUID, and the order in which Go iterates over the map of interceptors each time.
\<close>

section \<open>Worker information\<close>

abbreviation "opWorkerInfo \<equiv> ''workflow_definition_init''"

definition workerInfoRequest :: "string \<Rightarrow> i64 \<Rightarrow> message" where
  "workerInfoRequest rrVersion wwPID =
     \<lparr>ID = 0, Command = Some (GetWorkerInfo rrVersion wwPID), Failure = None, Payloads = None, Header = None\<rparr>"

text \<open>
  The function \<open>WorkerInfo\<close>. \<open>h\<close> is the history of its requests to the workflow pool and \<open>conv\<close> the data
  converter's \<open>FromPayload\<close>.
\<close>

definition WorkerInfo_fetch ::
  "'z host_scheme \<Rightarrow> (payload \<Rightarrow> go_error + WorkerInfo) \<Rightarrow> string \<Rightarrow> i64 \<Rightarrow> pool_payload list
   \<Rightarrow> (go_error + WorkerInfo list) \<times> pool_payload list" where
  "WorkerInfo_fetch S conv rrVersion wwPID h =
     (case Encode S (queueContext []) new_pool_payload [workerInfoRequest rrVersion wwPID] of
        (Some e, _) \<Rightarrow> (Inl (ErrE opWorkerInfo e), h)
      | (None, pl) \<Rightarrow>
          (let h' = h @ [pl]
           in (case exec S h' of
                 ExecError e \<Rightarrow> Inl (ErrE opWorkerInfo e)
               | out \<Rightarrow>
                   (case receive S opWorkerInfo ''worker empty response'' out of
                      Inl e \<Rightarrow> Inl e
                    | Inr r \<Rightarrow> wrapE opWorkerInfo (DecodeWorkerInfo S conv r)), h')))"

text \<open>The two tables: a nested loop that overwrites the entry of a name that occurs again.\<close>

definition WorkflowsInfo :: "WorkerInfo list \<Rightarrow> string \<rightharpoonup> workflow_desc" where
  "WorkflowsInfo wi =
     fold (\<lambda>w m. fold (\<lambda>d m. m(wdName d \<mapsto> d)) (Workflows w) m) wi Map.empty"

definition ActivitiesInfo :: "WorkerInfo list \<Rightarrow> string \<rightharpoonup> activity_desc" where
  "ActivitiesInfo wi =
     fold (\<lambda>w m. fold (\<lambda>d m. m(adName d \<mapsto> d)) (Activities w) m) wi Map.empty"

section \<open>Temporal workers\<close>

record temporal_worker =
  twQueue :: string
  twOptions :: worker_options
  twWorkflows :: "(string \<times> i64) list"
  twActivities :: "string list"

record worker_lib =
  DefaultNamespace :: string
  NewUUID :: "nat \<Rightarrow> string"
  RegisterWorkflow :: "(string \<times> i64) list \<Rightarrow> string \<times> i64 \<Rightarrow> go_error option"
  RegisterActivity :: "string list \<Rightarrow> string \<Rightarrow> go_error option"
  interceptorOrder :: "nat \<Rightarrow> string list"

text \<open>The interceptor of the package, which hands on the headers.\<close>

definition NewWorkerInterceptor :: string where
  "NewWorkerInterceptor = ''workerInterceptor''"

text \<open>
  The changes made to a description before its worker is created. \<open>u\<close> counts the UUIDs generated so
  far and \<open>k\<close> the iterations over the map of interceptors; \<open>ints\<close> maps the name of an interceptor
  to its worker interceptor.
\<close>

definition prepareInfo :: "worker_lib \<Rightarrow> (string \<rightharpoonup> string) \<Rightarrow> nat \<Rightarrow> nat \<Rightarrow> WorkerInfo \<Rightarrow> WorkerInfo \<times> nat" where
  "prepareInfo L ints k u w =
     (let o0 = (wiOptions w)\<lparr>WorkerStopTimeout := 0\<rparr>;
          q = (if wiTaskQueue w = [] then DefaultNamespace L else wiTaskQueue w);
          (o1, u') = (if Identity o0 = []
                      then (o0\<lparr>Identity := ''roadrunner:'' @ q @ '':'' @ NewUUID L u\<rparr>, Suc u) else (o0, u));
          o2 = o1\<lparr>Interceptors := (Interceptors o1 @ [NewWorkerInterceptor]) @ List.map_filter ints (interceptorOrder L k)\<rparr>
      in (w\<lparr>wiTaskQueue := q, wiOptions := o2\<rparr>, u'))"

text \<open>A loop of registrations: the first rejected one panics.\<close>

fun registerAll :: "('a list \<Rightarrow> 'a \<Rightarrow> go_error option) \<Rightarrow> 'a list \<Rightarrow> 'a list \<Rightarrow> 'a list outcome" where
  "registerAll reg regs [] = Returns regs"
| "registerAll reg regs (x # xs) =
     (case reg regs x of Some e \<Rightarrow> Panics e | None \<Rightarrow> registerAll reg (regs @ [x]) xs)"

definition createWorker :: "worker_lib \<Rightarrow> bool \<Rightarrow> WorkerInfo \<Rightarrow> temporal_worker outcome" where
  "createWorker L disabled w =
     (case registerAll (RegisterWorkflow L) [] (map (\<lambda>d. (wdName d, VersioningBehavior d)) (Workflows w)) of
        Panics e \<Rightarrow> Panics e
      | Returns wfs \<Rightarrow>
          (let wrk = \<lparr>twQueue = wiTaskQueue w, twOptions = wiOptions w, twWorkflows = wfs, twActivities = []\<rparr>
           in if disabled then Returns wrk
              else case registerAll (RegisterActivity L) [] (map adName (Activities w)) of
                     Panics e \<Rightarrow> Panics e
                   | Returns acts \<Rightarrow> Returns (wrk\<lparr>twActivities := acts\<rparr>)))"

text \<open>The loop of \<open>TemporalWorkers\<close>; it returns the workers, the changed descriptions and the count of UUIDs.\<close>

fun workersLoop ::
  "worker_lib \<Rightarrow> bool \<Rightarrow> (string \<rightharpoonup> string) \<Rightarrow> nat \<Rightarrow> nat \<Rightarrow> WorkerInfo list
   \<Rightarrow> (temporal_worker list \<times> WorkerInfo list \<times> nat) outcome" where
  "workersLoop L disabled ints k u [] = Returns ([], [], u)"
| "workersLoop L disabled ints k u (w # ws) =
     (case prepareInfo L ints k u w of (w', u') \<Rightarrow>
        (case createWorker L disabled w' of
           Panics e \<Rightarrow> Panics e
         | Returns wrk \<Rightarrow>
             (case workersLoop L disabled ints (Suc k) u' ws of
                Panics e \<Rightarrow> Panics e
              | Returns (wrks, ws', u'') \<Rightarrow> Returns (wrk # wrks, w' # ws', u''))))"

definition TemporalWorkers ::
  "worker_lib \<Rightarrow> Activity \<Rightarrow> WorkerInfo list \<Rightarrow> (string \<rightharpoonup> string) \<Rightarrow> nat \<Rightarrow> nat
   \<Rightarrow> (temporal_worker list \<times> WorkerInfo list \<times> nat) outcome" where
  "TemporalWorkers L actDef wi ints k u = workersLoop L (disableActivityWorkers actDef) ints k u wi"

section \<open>Lemmas\<close>

lemma fold_map_upd:
  "fold (\<lambda>d m. m(f d \<mapsto> d)) xs m = m ++ map_of (rev (map (\<lambda>d. (f d, d)) xs))"
  by (induction xs arbitrary: m) (simp_all add: map_add_upd_left [symmetric] fun_eq_iff map_add_def split: option.splits)

lemma nested_fold_map_upd:
  "fold (\<lambda>w m. fold (\<lambda>d m. m(f d \<mapsto> d)) (g w) m) ws m =
     m ++ map_of (rev (map (\<lambda>d. (f d, d)) (concat (map g ws))))"
  by (induction ws arbitrary: m) (simp_all add: fold_map_upd)

lemma registerAll_Returns: "registerAll reg regs xs = Returns ys \<Longrightarrow> ys = regs @ xs"
  by (induction reg regs xs rule: registerAll.induct) (auto split: option.splits)

lemma createWorker_Returns:
  "createWorker L disabled w = Returns wrk \<Longrightarrow>
     twQueue wrk = wiTaskQueue w \<and> twOptions wrk = wiOptions w \<and>
     twWorkflows wrk = map (\<lambda>d. (wdName d, VersioningBehavior d)) (Workflows w) \<and>
     twActivities wrk = (if disabled then [] else map adName (Activities w))"
  by (auto simp: createWorker_def Let_def dest!: registerAll_Returns split: outcome.splits if_splits)

text \<open>What a worker made from a description is: the specification of \<open>prepareInfo\<close> and \<open>createWorker\<close>.\<close>

definition worker_for :: "worker_lib \<Rightarrow> bool \<Rightarrow> (string \<rightharpoonup> string) \<Rightarrow> WorkerInfo \<Rightarrow> temporal_worker \<Rightarrow> bool" where
  "worker_for L disabled ints w wrk \<longleftrightarrow>
     twQueue wrk = (if wiTaskQueue w = [] then DefaultNamespace L else wiTaskQueue w) \<and>
     WorkerStopTimeout (twOptions wrk) = 0 \<and>
     (if Identity (wiOptions w) = []
      then \<exists>n. Identity (twOptions wrk) = ''roadrunner:'' @ twQueue wrk @ '':'' @ NewUUID L n
      else Identity (twOptions wrk) = Identity (wiOptions w)) \<and>
     (\<exists>k. Interceptors (twOptions wrk) =
        Interceptors (wiOptions w) @ NewWorkerInterceptor # List.map_filter ints (interceptorOrder L k)) \<and>
     twWorkflows wrk = map (\<lambda>d. (wdName d, VersioningBehavior d)) (Workflows w) \<and>
     twActivities wrk = (if disabled then [] else map adName (Activities w))"

lemma worker_for_step:
  assumes "prepareInfo L ints k u w = (w', u')" "createWorker L disabled w' = Returns wrk"
  shows "worker_for L disabled ints w wrk \<and> Workflows w' = Workflows w \<and> Activities w' = Activities w"
  using assms(1) createWorker_Returns [OF assms(2)]
  by (auto simp: prepareInfo_def worker_for_def Let_def split: if_splits)

lemma workersLoop_Returns:
  assumes "workersLoop L disabled ints k u ws = Returns (wrks, ws', u')"
  shows "list_all2 (worker_for L disabled ints) ws wrks \<and>
    map Workflows ws' = map Workflows ws \<and> map Activities ws' = map Activities ws"
  using assms
proof (induction ws arbitrary: k u wrks ws')
  case (Cons w ws)
  then show ?case
    using worker_for_step by (fastforce split: prod.splits outcome.splits)
qed simp


lemma mset_map_filter_dom:
  assumes "distinct ks" "set ks = dom m"
  shows "mset (List.map_filter m ks) = image_mset (\<lambda>k. the (m k)) (mset_set (dom m))"
proof -
  have "set ks \<subseteq> dom m \<Longrightarrow> List.map_filter m ks = map (\<lambda>k. the (m k)) ks"
    by (induction ks) (auto simp: List.map_filter_def)
  then show ?thesis using assms mset_set_set [OF assms(1)] by simp
qed

text \<open>The generated identities use consecutive UUIDs.\<close>

definition generated :: "WorkerInfo list \<Rightarrow> temporal_worker list \<Rightarrow> string list" where
  "generated wi wrks = map (\<lambda>(w, wrk). Identity (twOptions wrk)) (filter (\<lambda>(w, wrk). Identity (wiOptions w) = []) (zip wi wrks))"

lemma workersLoop_generated:
  assumes "workersLoop L disabled ints k u ws = Returns (wrks, ws', u')"
  shows "u \<le> u' \<and> (\<exists>qs. generated ws wrks = map2 (\<lambda>q n. ''roadrunner:'' @ q @ '':'' @ NewUUID L n) qs [u..<u'] \<and> length qs = u' - u)"
  using assms
proof (induction ws arbitrary: k u wrks ws')
  case (Cons w ws)
  then obtain w' u1 wrk wrks1 ws1 where p: "prepareInfo L ints k u w = (w', u1)"
    and c: "createWorker L disabled w' = Returns wrk" "wrks = wrk # wrks1"
    and r: "workersLoop L disabled ints (Suc k) u1 ws = Returns (wrks1, ws1, u')"
    by (auto split: prod.splits outcome.splits)
  from Cons.IH [OF r] obtain qs where le: "u1 \<le> u'" and
    qs: "generated ws wrks1 = map2 (\<lambda>q n. ''roadrunner:'' @ q @ '':'' @ NewUUID L n) qs [u1..<u']" "length qs = u' - u1"
    by auto
  note cw = createWorker_Returns [OF c(1)]
  show ?case
  proof (cases "Identity (wiOptions w) = []")
    case True
    then have "u1 = Suc u" "Identity (twOptions wrk) = ''roadrunner:'' @ wiTaskQueue w' @ '':'' @ NewUUID L u"
      using p cw by (auto simp: prepareInfo_def Let_def)
    then show ?thesis using True le qs c(2)
      by (auto simp: generated_def upt_conv_Cons intro!: exI [of _ "wiTaskQueue w' # qs"])
  next
    case False
    then have "u1 = u" using p by (auto simp: prepareInfo_def Let_def)
    then show ?thesis using False le qs c(2) by (auto simp: generated_def)
  qed
qed (simp add: generated_def)

lemma distinct_identities:
  assumes "\<And>n. length (f n) = (36 :: nat)" "length qs = length ns" "distinct ns" "inj_on f (set ns)"
  shows "distinct (map2 (\<lambda>q n. ''roadrunner:'' @ q @ '':'' @ f n) qs ns)"
  using assms(2-)
proof (induction qs ns rule: list_induct2)
  case (Cons q qs n ns)
  have "n = n'" if "''roadrunner:'' @ q @ '':'' @ f n = ''roadrunner:'' @ q' @ '':'' @ f n'" "n' \<in> set ns" for q' n'
  proof -
    have "(q @ '':'') @ f n = (q' @ '':'') @ f n'" using that(1) by simp
    then have "f n = f n'" using assms(1) by (simp add: append_eq_append_conv)
    then show ?thesis using that(2) Cons.prems(2) by (simp add: inj_on_def)
  qed
  then show ?case using Cons by (auto dest: set_zip_rightD)
qed simp

text \<open>The last entry of a key in a list of pairs.\<close>

lemma dom_map_of_rev: "dom (map_of (rev (map (\<lambda>d. (f d, d)) xs))) = f ` set xs"
  by (simp add: dom_map_of_conv_image_fst image_image)

lemma map_of_rev_Some_iff:
  "map_of (rev (map (\<lambda>d. (f d, d)) xs)) n = Some d \<longleftrightarrow> (\<exists>ys zs. xs = ys @ d # zs \<and> f d = n \<and> n \<notin> f ` set zs)"
proof (induction xs arbitrary: rule: rev_induct)
  case (snoc x xs)
  show ?case
  proof (cases "f x = n")
    case True
    have "zs = []" if "xs @ [x] = ys @ d # zs" "n \<notin> f ` set zs" for ys zs
      using that True by (cases zs rule: rev_cases) auto
    then show ?thesis using True by fastforce
  next
    case False
    have "(\<exists>ys zs. xs @ [x] = ys @ d # zs \<and> f d = n \<and> n \<notin> f ` set zs) \<longleftrightarrow>
        (\<exists>ys zs. xs = ys @ d # zs \<and> f d = n \<and> n \<notin> f ` set zs)" (is "?l \<longleftrightarrow> ?r")
    proof
      assume ?l
      then obtain ys zs where z: "xs @ [x] = ys @ d # zs" "f d = n" "n \<notin> f ` set zs" by blast
      then have "zs \<noteq> []" using False by auto
      then obtain zs' y where "zs = zs' @ [y]" by (cases zs rule: rev_cases) auto
      then show ?r using z by auto
    next
      assume ?r
      then obtain ys zs where "xs = ys @ d # zs" "f d = n" "n \<notin> f ` set zs" by blast
      then show ?l using False by (intro exI [of _ ys] exI [of _ "zs @ [x]"]) auto
    qed
    then show ?thesis using False snoc by simp
  qed
qed simp

text \<open>
  The tables name what the Temporal workers serve: every registered workflow name is in the table and
  conversely, with the last description of that name; the same holds of the activities unless
  activity workers are disabled.
\<close>

lemma TemporalWorkers_names:
  assumes "TemporalWorkers L actDef wi ints k u = Returns (wrks, wi', u')"
  shows "dom (WorkflowsInfo wi') = (\<Union>wrk \<in> set wrks. fst ` set (twWorkflows wrk)) \<and>
    (\<forall>n d. WorkflowsInfo wi' n = Some d \<longleftrightarrow>
       (\<exists>xs ys. concat (map Workflows wi) = xs @ d # ys \<and> wdName d = n \<and> n \<notin> wdName ` set ys)) \<and>
    (\<not> disableActivityWorkers actDef \<longrightarrow>
       dom (ActivitiesInfo wi') = (\<Union>wrk \<in> set wrks. set (twActivities wrk)))"
proof -
  have maps: "concat (map Workflows wi') = concat (map Workflows wi)" "concat (map Activities wi') = concat (map Activities wi)"
    and l: "list_all2 (worker_for L (disableActivityWorkers actDef) ints) wi wrks"
    using workersLoop_Returns [OF assms [unfolded TemporalWorkers_def]] by simp_all
  have "(\<Union>wrk \<in> set wrks. fst ` set (twWorkflows wrk)) = wdName ` set (concat (map Workflows wi)) \<and>
     (\<not> disableActivityWorkers actDef \<longrightarrow> (\<Union>wrk \<in> set wrks. set (twActivities wrk)) = adName ` set (concat (map Activities wi)))"
    using l by (induction rule: list_all2_induct) (auto simp: worker_for_def image_Un image_image)
  then show ?thesis
    unfolding WorkflowsInfo_def ActivitiesInfo_def nested_fold_map_upd maps
    by (simp add: map_of_rev_Some_iff dom_map_of_rev)
qed

section \<open>Examples\<close>

definition sample_lib :: worker_lib where
  "sample_lib = \<lparr>DefaultNamespace = ''default'', NewUUID = (\<lambda>n. replicate 35 (CHR ''a'') @ [digit_char (n mod 10)]),
     RegisterWorkflow = (\<lambda>_ _. None), RegisterActivity = (\<lambda>regs a. if a \<in> set regs then Some (ErrExt a) else None),
     interceptorOrder = (\<lambda>_. [''tracing''])\<rparr>"

definition sample_info :: WorkerInfo where
  "sample_info = \<lparr>wiTaskQueue = [], wiOptions = \<lparr>Identity = [], WorkerStopTimeout = 5, Interceptors = [], woptRest = []\<rparr>,
     PhpSdkVersion = ''2.7.0'', Flags = [(''ApiKey'', ''secret'')],
     Workflows = [\<lparr>wdName = ''order'', Queries = [], Signals = [], VersioningBehavior = 0\<rparr>],
     Activities = [\<lparr>adName = ''charge''\<rparr>]\<rparr>"

section \<open>Properties\<close>

text \<open>
  C36: the worker information is obtained with one request, which the worker reads as \<open>GetWorkerInfo\<close>
  with the version and the process id; it is returned only for an answer of one message with id 0,
  and it is the list of the converted payloads of that message.
\<close>

theorem worker_info_exchange:
  assumes "wire_ok S" "WorkerInfo_fetch S conv rrVersion wwPID h = (Inr wis, h')"
  shows "\<exists>pl m. h' = h @ [pl] \<and> Decode S pl = Inr [workerInfoRequest rrVersion wwPID] \<and>
    answered S (exec S h') = [m] \<and> ID m = 0 \<and>
    list_all2 (\<lambda>p wi. conv p = Inr wi) (case Payloads m of None \<Rightarrow> [] | Some ps \<Rightarrow> ps) wis"
proof -
  from assms(2) obtain pl r where enc: "Encode S (queueContext []) new_pool_payload [workerInfoRequest rrVersion wwPID] = (None, pl)"
    and h': "h' = h @ [pl]"
    and r: "receive S opWorkerInfo ''worker empty response'' (exec S h') = Inr r" "DecodeWorkerInfo S conv r = Inr wis"
    by (auto simp: WorkerInfo_fetch_def Let_def split: prod.splits option.splits exec_outcome.splits sum.splits)
  from r(2) obtain m where "Decode S r = Inr [m]" "ID m = 0"
    "list_all2 (\<lambda>p wi. conv p = Inr wi) (case Payloads m of None \<Rightarrow> [] | Some ps \<Rightarrow> ps) wis"
    by (auto simp: DecodeWorkerInfo_iff)
  moreover from r(1) this(1) have "answered S (exec S h') = [m]" by (rule answered_receive)
  moreover have "Decode S pl = Inr [workerInfoRequest rrVersion wwPID]"
    using enc by (intro proto.decode_encode [OF assms(1)]) (auto simp: readable_def workerInfoRequest_def)
  ultimately show ?thesis using h' by blast
qed

text \<open>A worker that describes one task queue.\<close>

definition info_frame :: "message \<Rightarrow> proto_message list" where
  "info_frame m = [projr (packMessage (table_wire [] [(GetWorkerInfo ''2024'' 42, ''g'')] (sample_world (\<lambda>_. []))) m (queueContext []))]"

definition info_world :: world where
  "info_world =
     table_wire [(info_frame (workerInfoRequest ''2024'' 42), ''1''),
                 (info_frame (emptyMessage\<lparr>Payloads := Some [\<lparr>metadata = [], data = ''info''\<rparr>]\<rparr>), ''2'')]
       [(GetWorkerInfo ''2024'' 42, ''g'')]
       ((sample_world (\<lambda>_. []))\<lparr>exec := (\<lambda>h. Response None (new_pool_payload\<lparr>plBody := ''2''\<rparr>))\<rparr>)"

lemma info_world_ok: "wire_ok info_world"
  unfolding info_world_def by (rule table_wire_ok) simp_all

theorem worker_info_exchange_witness:
  "Decode info_world (hd (snd (WorkerInfo_fetch info_world (\<lambda>_. Inr sample_info) ''2024'' 42 []))) =
     Inr [workerInfoRequest ''2024'' 42] \<and>
   fst (WorkerInfo_fetch info_world (\<lambda>_. Inr sample_info) ''2024'' 42 []) = Inr [sample_info]"
proof -
  let ?f = "WorkerInfo_fetch info_world (\<lambda>_. Inr sample_info) ''2024'' 42 []"
  have "fst ?f = Inr [sample_info]" by code_simp
  then obtain h' where f: "?f = (Inr [sample_info], h')" by (cases ?f) simp
  then show ?thesis using worker_info_exchange [OF info_world_ok f] by auto
qed

text \<open>
  C35: one Temporal worker is created for each description, in order. It polls the described task
  queue, or the default one, is stopped without a grace period, carries the configured identity
  and interceptors followed by the header interceptor and each registered interceptor once, and
  serves the described workflows and, unless activity workers are disabled, the described
  activities. Generated identities differ from each other.
\<close>

theorem workers_match_descriptions:
  assumes "TemporalWorkers L actDef wi ints k u = Returns (wrks, wi', u')"
    and "\<And>k. distinct (interceptorOrder L k) \<and> set (interceptorOrder L k) = dom ints"
    and "inj_on (NewUUID L) {u..<u'}" "\<And>n. length (NewUUID L n) = 36"
  shows "list_all2 (\<lambda>w wrk.
       twQueue wrk = (if wiTaskQueue w = [] then DefaultNamespace L else wiTaskQueue w) \<and>
       WorkerStopTimeout (twOptions wrk) = 0 \<and>
       (Identity (wiOptions w) \<noteq> [] \<longrightarrow> Identity (twOptions wrk) = Identity (wiOptions w)) \<and>
       Identity (twOptions wrk) \<noteq> [] \<and>
       (\<exists>own. Interceptors (twOptions wrk) = Interceptors (wiOptions w) @ NewWorkerInterceptor # own \<and>
              mset own = image_mset (\<lambda>n. the (ints n)) (mset_set (dom ints))) \<and>
       twWorkflows wrk = map (\<lambda>d. (wdName d, VersioningBehavior d)) (Workflows w) \<and>
       twActivities wrk = (if disableActivityWorkers actDef then [] else map adName (Activities w))) wi wrks \<and>
     distinct (generated wi wrks)" (is "list_all2 ?spec wi wrks \<and> _")
proof -
  note loop = assms(1) [unfolded TemporalWorkers_def]
  have l: "list_all2 (worker_for L (disableActivityWorkers actDef) ints) wi wrks"
    using workersLoop_Returns [OF loop] by simp
  have d: "distinct (generated wi wrks)"
    using workersLoop_generated [OF loop] distinct_identities [OF assms(4), of _ "[u..<u']"] assms(3) by auto
  have m: "mset (List.map_filter ints (interceptorOrder L k)) = image_mset (\<lambda>n. the (ints n)) (mset_set (dom ints))" for k
    using assms(2) [of k] by (intro mset_map_filter_dom) simp_all
  have "?spec w wrk" if "worker_for L (disableActivityWorkers actDef) ints w wrk" for w wrk
  proof -
    from that obtain k where
      "Interceptors (twOptions wrk) = Interceptors (wiOptions w) @ NewWorkerInterceptor # List.map_filter ints (interceptorOrder L k)"
      unfolding worker_for_def by blast
    moreover have "Identity (twOptions wrk) \<noteq> [] \<and> (Identity (wiOptions w) \<noteq> [] \<longrightarrow> Identity (twOptions wrk) = Identity (wiOptions w))"
      using that unfolding worker_for_def by (cases "Identity (wiOptions w) = []") auto
    ultimately show ?thesis using that m unfolding worker_for_def by simp
  qed
  then have "list_all2 ?spec wi wrks" using l by (rule list_all2_mono [rotated])
  then show ?thesis using d by simp
qed

definition sample_workers :: "(temporal_worker list \<times> WorkerInfo list \<times> nat) outcome" where
  "sample_workers =
     TemporalWorkers sample_lib (NewActivityDefinition False) [sample_info, sample_info] [''tracing'' \<mapsto> ''t''] 0 0"

lemma sample_workers_run:
  "\<exists>wrks wi'. sample_workers = Returns (wrks, wi', 2) \<and> map twQueue wrks = [''default'', ''default''] \<and>
     map twActivities wrks = [[''charge''], [''charge'']] \<and> fst ` set (twWorkflows (hd wrks)) = {''order''}"
proof -
  have "\<forall>r. sample_workers = Returns r \<longrightarrow> snd (snd r) = 2 \<and> map twQueue (fst r) = [''default'', ''default''] \<and>
      map twActivities (fst r) = [[''charge''], [''charge'']] \<and> fst ` set (twWorkflows (hd (fst r))) = {''order''}"
    "\<exists>r. sample_workers = Returns r"
    by (simp_all add: sample_workers_def TemporalWorkers_def NewActivityDefinition_def prepareInfo_def createWorker_def
        sample_lib_def sample_info_def Let_def)
  then show ?thesis by (metis prod.collapse)
qed

theorem workers_match_descriptions_witness:
  "\<exists>wrks wi'. sample_workers = Returns (wrks, wi', 2) \<and>
     distinct (generated [sample_info, sample_info] wrks) \<and> map twQueue wrks = [''default'', ''default'']"
proof -
  from sample_workers_run obtain wrks wi' where r: "sample_workers = Returns (wrks, wi', 2)"
    and q: "map twQueue wrks = [''default'', ''default'']" by (elim exE conjE)
  have o: "\<And>k. distinct (interceptorOrder sample_lib k) \<and> set (interceptorOrder sample_lib k) = dom [''tracing'' \<mapsto> ''t'']"
    by (simp add: sample_lib_def)
  have i: "inj_on (NewUUID sample_lib) {0..<2}" "\<And>n. length (NewUUID sample_lib n) = 36"
    by (auto simp: sample_lib_def inj_on_def digit_char_def less_2_cases_iff)
  have "distinct (generated [sample_info, sample_info] wrks)"
    by (rule conjunct2 [OF workers_match_descriptions [OF r [unfolded sample_workers_def] o i]])
  then show ?thesis using r q by (intro exI conjI)
qed

end
