(* ===== verification/Config.thy ===== *)
theory Config
  imports Prelude
begin

text \<open>
  \<open>config.go\<close> and \<open>tls.go\<close>: the configuration of the plugin with its defaults and checks, and the TLS
  configuration of the connection to the Temporal server.

  The files the configuration names are looked up through \<open>stat\<close>, the outcome of \<open>os.Stat\<close>; the
  defaults of the pool's own configuration are a library function, the argument \<open>poolDefaults\<close>; the
  certificate store and the PEM parser are the record \<open>cert_lib\<close>. Of \<open>pool.Config\<close> the plugin reads
  two fields.
\<close>

section \<open>Data\<close>

record pool_config =
  pcCommand :: "string list"
  pcDestroyTimeout :: i64
  pcRest :: bytes

record Prometheus =
  prAddress :: string
  prType :: string
  prPrefix :: string

record Statsd =
  HostPort :: string
  stPrefix :: string
  FlushInterval :: i64
  FlushBytes :: i64
  Tags :: "(string \<times> string) list"
  TagPrefix :: string
  TagSeparator :: string

record Metrics =
  Driver :: string
  mPrometheus :: "Prometheus option"
  mStatsd :: "Statsd option"

text \<open>\<open>tls.ClientAuthType\<close> of the standard library.\<close>

datatype client_auth =
  AuthNoClientCert | AuthRequestClientCert | AuthRequireAnyClientCert | AuthVerifyClientCertIfGiven
| AuthRequireAndVerifyClientCert

record TLS =
  tlsKey :: string
  tlsCert :: string
  RootCA :: string
  AuthType :: string
  ServerName :: string
  UseH2C :: bool
  auth :: client_auth

record Config =
  cMetrics :: "Metrics option"
  cActivities :: "pool_config option"
  cTLS :: "TLS option"
  DisableActivityWorkers :: bool
  Address :: string
  Namespace :: string
  CacheSize :: i64

abbreviation "driverPrometheus \<equiv> ''prometheus''"
abbreviation "driverStatsd \<equiv> ''statsd''"
abbreviation "MetricsTypeSummary \<equiv> ''summary''"

definition empty_pool_config :: pool_config where
  "empty_pool_config = \<lparr>pcCommand = [], pcDestroyTimeout = 0, pcRest = []\<rparr>"

definition empty_prometheus :: Prometheus where
  "empty_prometheus = \<lparr>prAddress = [], prType = [], prPrefix = []\<rparr>"

section \<open>Defaults\<close>

text \<open>The outcome of \<open>os.Stat\<close>: no error, an error for which \<open>os.IsNotExist\<close> holds, another error.\<close>

datatype stat_result = StatOk | StatMissing | StatError go_error

abbreviation "opDefaults \<equiv> ''init_defaults_temporal''"

definition prometheusDefaults :: "Prometheus option \<Rightarrow> Prometheus" where
  "prometheusDefaults p =
     (let p0 = (case p of None \<Rightarrow> empty_prometheus | Some x \<Rightarrow> x);
          p1 = (if prType p0 = [] then p0\<lparr>prType := MetricsTypeSummary\<rparr> else p0)
      in if prAddress p1 = [] then p1\<lparr>prAddress := ''127.0.0.1:9091''\<rparr> else p1)"

definition statsdDefaults :: "Statsd \<Rightarrow> Statsd" where
  "statsdDefaults s =
     (let s1 = (if HostPort s = [] then s\<lparr>HostPort := ''127.0.0.1:8125''\<rparr> else s)
      in if FlushBytes s1 = 0 then s1\<lparr>FlushBytes := 1432\<rparr> else s1)"

definition metricsDefaults :: "Metrics \<Rightarrow> Metrics" where
  "metricsDefaults m =
     (let m1 = (if Driver m = [] then m\<lparr>Driver := driverPrometheus\<rparr> else m)
      in if Driver m1 = driverPrometheus
         then m1\<lparr>mPrometheus := Some (prometheusDefaults (mPrometheus m1))\<rparr>
         else if Driver m1 = driverStatsd
         then m1\<lparr>mStatsd := map_option statsdDefaults (mStatsd m1)\<rparr>
         else m1)"

text \<open>The check of one file; \<open>what\<close> is the text before its name in the error message.\<close>

definition checkFile :: "(string \<Rightarrow> stat_result) \<Rightarrow> string \<Rightarrow> string \<Rightarrow> go_error option" where
  "checkFile stat what path =
     (if path = [] then None
      else case stat path of
             StatOk \<Rightarrow> None
           | StatMissing \<Rightarrow> Some (ErrE opDefaults (ErrStr (what @ '' file '' @ [CHR 0x27] @ path @ [CHR 0x27] @ '' does not exist'')))
           | StatError e \<Rightarrow> Some (ErrE opDefaults e))"

definition authType :: "string \<Rightarrow> client_auth" where
  "authType t =
     (if t = ''no_client_cert'' then AuthNoClientCert
      else if t = ''request_client_cert'' then AuthRequestClientCert
      else if t = ''require_any_client_cert'' then AuthRequireAnyClientCert
      else if t = ''verify_client_cert_if_given'' then AuthVerifyClientCertIfGiven
      else if t = ''require_and_verify_client_cert'' then AuthRequireAndVerifyClientCert
      else AuthNoClientCert)"

definition tlsDefaults :: "(string \<Rightarrow> stat_result) \<Rightarrow> TLS \<Rightarrow> go_error option \<times> TLS" where
  "tlsDefaults stat t =
     (case checkFile stat ''private key'' (tlsKey t) of
        Some e \<Rightarrow> (Some e, t)
      | None \<Rightarrow>
          (case checkFile stat ''public certificate'' (tlsCert t) of
             Some e \<Rightarrow> (Some e, t)
           | None \<Rightarrow>
               (if RootCA t = [] then (None, t)
                else case checkFile stat ''root CA'' (RootCA t) of
                       Some e \<Rightarrow> (Some e, t)
                     | None \<Rightarrow> (None, t\<lparr>auth := authType (AuthType t)\<rparr>))))"

text \<open>\<open>InitDefault\<close> changes the configuration in place, also when it returns an error.\<close>

definition InitDefault ::
  "(pool_config \<Rightarrow> pool_config) \<Rightarrow> (string \<Rightarrow> stat_result) \<Rightarrow> Config \<Rightarrow> go_error option \<times> Config" where
  "InitDefault poolDefaults stat c =
     (let a = (case cActivities c of None \<Rightarrow> empty_pool_config | Some x \<Rightarrow> x);
          c1 = c\<lparr>cActivities := Some (poolDefaults a)\<rparr>;
          c2 = (if CacheSize c1 = 0 then c1\<lparr>CacheSize := 10000\<rparr> else c1);
          c3 = (if Namespace c2 = [] then c2\<lparr>Namespace := ''default''\<rparr> else c2);
          c4 = c3\<lparr>cMetrics := map_option metricsDefaults (cMetrics c3)\<rparr>
      in case cTLS c4 of
           None \<Rightarrow> (None, c4)
         | Some t \<Rightarrow> (case tlsDefaults stat t of (err, t') \<Rightarrow> (err, c4\<lparr>cTLS := Some t'\<rparr>)))"

section \<open>TLS\<close>

text \<open>
  The system's certificate pool (\<open>None\<close> is a nil pool), reading a file, and whether a PEM text adds a
  certificate. A certificate pool is the list of PEM texts added to it, with the system's
  certificates or without.
\<close>

record cert_lib =
  systemCertPool :: "go_error + bytes list option"
  readFile :: "string \<Rightarrow> go_error + bytes"
  appendCerts :: "bytes \<Rightarrow> bool"
  loadKeyPair :: "string \<Rightarrow> string \<Rightarrow> go_error + bytes"

text \<open>\<open>tls.Config\<close> with the fields the plugin sets; \<open>tcCertificate\<close> is the \<open>GetClientCertificate\<close> hook.\<close>

record tls_config =
  MinVersion :: nat
  ClientAuth :: client_auth
  tcCertificate :: "(cert_lib \<Rightarrow> go_error + bytes) option"
  ClientCAs :: "bytes list option"
  RootCAs :: "bytes list option"
  tcServerName :: string

text \<open>The hook reads the pair again at each call, so that renewed files are used.\<close>

definition getClientCertificate :: "TLS \<Rightarrow> cert_lib \<Rightarrow> go_error + bytes" where
  "getClientCertificate t L = loadKeyPair L (tlsCert t) (tlsKey t)"

abbreviation "VersionTLS12 \<equiv> 771"

definition initTLS :: "cert_lib \<Rightarrow> TLS \<Rightarrow> go_error + tls_config option" where
  "initTLS L t =
     (if RootCA t \<noteq> []
      then case systemCertPool L of
             Inl e \<Rightarrow> Inl e
           | Inr sys \<Rightarrow>
               (let certPool = (case sys of None \<Rightarrow> [] | Some ps \<Rightarrow> ps)
                in case readFile L (RootCA t) of
                     Inl e \<Rightarrow> Inl e
                   | Inr rca \<Rightarrow>
                       (if \<not> appendCerts L rca then Inr None
                        else Inr (Some \<lparr>MinVersion = VersionTLS12, ClientAuth = auth t,
                                         tcCertificate = Some (getClientCertificate t),
                                         ClientCAs = Some (certPool @ [rca]), RootCAs = Some (certPool @ [rca]),
                                         tcServerName = ServerName t\<rparr>)))
      else if UseH2C t
      then Inr (Some \<lparr>MinVersion = VersionTLS12, ClientAuth = AuthNoClientCert, tcCertificate = None,
                       ClientCAs = None, RootCAs = None, tcServerName = ServerName t\<rparr>)
      else Inr (Some \<lparr>MinVersion = VersionTLS12, ClientAuth = AuthNoClientCert,
                       tcCertificate = Some (getClientCertificate t),
                       ClientCAs = None, RootCAs = None, tcServerName = ServerName t\<rparr>))"

section \<open>What the defaults guarantee\<close>

definition config_ok :: "(string \<Rightarrow> stat_result) \<Rightarrow> Config \<Rightarrow> bool" where
  "config_ok stat c \<longleftrightarrow>
     cActivities c \<noteq> None \<and> CacheSize c \<noteq> 0 \<and> Namespace c \<noteq> [] \<and>
     (case cMetrics c of
        None \<Rightarrow> True
      | Some m \<Rightarrow> Driver m \<noteq> [] \<and>
          (Driver m = driverPrometheus \<longrightarrow> (\<exists>p. mPrometheus m = Some p \<and> prType p \<noteq> [] \<and> prAddress p \<noteq> [])) \<and>
          (Driver m = driverStatsd \<longrightarrow> (\<forall>s. mStatsd m = Some s \<longrightarrow> HostPort s \<noteq> [] \<and> FlushBytes s \<noteq> 0))) \<and>
     (case cTLS c of
        None \<Rightarrow> True
      | Some t \<Rightarrow> (\<forall>f \<in> {tlsKey t, tlsCert t, RootCA t}. f \<noteq> [] \<longrightarrow> stat f = StatOk) \<and>
          (RootCA t \<noteq> [] \<longrightarrow> auth t = authType (AuthType t)))"

lemma checkFile_None: "checkFile stat what path = None \<longleftrightarrow> path = [] \<or> stat path = StatOk"
  by (simp add: checkFile_def split: stat_result.splits)

lemma metricsDefaults_ok:
  "Driver (metricsDefaults m) \<noteq> []"
  "Driver (metricsDefaults m) = driverPrometheus \<Longrightarrow>
     \<exists>p. mPrometheus (metricsDefaults m) = Some p \<and> prType p \<noteq> [] \<and> prAddress p \<noteq> []"
  "Driver (metricsDefaults m) = driverStatsd \<Longrightarrow> mStatsd (metricsDefaults m) = Some s \<Longrightarrow>
     HostPort s \<noteq> [] \<and> FlushBytes s \<noteq> 0"
  by (auto simp: metricsDefaults_def prometheusDefaults_def statsdDefaults_def Let_def split: if_splits)

lemma metricsDefaults_idem: "metricsDefaults (metricsDefaults m) = metricsDefaults m"
  by (cases "mPrometheus m"; cases "mStatsd m")
    (simp_all add: metricsDefaults_def prometheusDefaults_def statsdDefaults_def empty_prometheus_def Let_def)

lemma tlsDefaults_ok:
  assumes "tlsDefaults stat t = (None, t')"
  shows "(\<forall>f \<in> {tlsKey t', tlsCert t', RootCA t'}. f \<noteq> [] \<longrightarrow> stat f = StatOk) \<and>
    (RootCA t' \<noteq> [] \<longrightarrow> auth t' = authType (AuthType t')) \<and> tlsDefaults stat t' = (None, t')"
proof -
  have files: "checkFile stat ''private key'' (tlsKey t) = None" "checkFile stat ''public certificate'' (tlsCert t) = None"
    using assms by (simp_all add: tlsDefaults_def split: option.splits)
  show ?thesis
  proof (cases "RootCA t = []")
    case True
    then have "t' = t" using assms files by (simp add: tlsDefaults_def)
    then show ?thesis using assms files True by (simp add: checkFile_None) blast
  next
    case False
    then have "checkFile stat ''root CA'' (RootCA t) = None" and t': "t' = t\<lparr>auth := authType (AuthType t)\<rparr>"
      using assms files by (simp_all add: tlsDefaults_def split: option.splits)
    then have "tlsDefaults stat t' = (None, t')" using files False by (simp add: tlsDefaults_def)
    then show ?thesis
      using files False \<open>checkFile stat ''root CA'' (RootCA t) = None\<close> by (auto simp: checkFile_None t')
  qed
qed

section \<open>Properties\<close>


definition sample_config :: Config where
  "sample_config = \<lparr>cMetrics = Some \<lparr>Driver = [], mPrometheus = None, mStatsd = None\<rparr>, cActivities = None,
     cTLS = Some \<lparr>tlsKey = ''k'', tlsCert = [], RootCA = ''ca'', AuthType = ''request_client_cert'',
                  ServerName = [], UseH2C = False, auth = AuthNoClientCert\<rparr>,
     DisableActivityWorkers = False, Address = [], Namespace = [], CacheSize = 0\<rparr>"


text \<open>
  A TLS section leads to a TLS connection of at least version 1.2 or to an error, with one
  exception: a root CA file that can be read but contains no certificate gives neither, and the
  plugin goes on without TLS.
\<close>

lemma initTLS_result:
  "case initTLS L t of
     Inl e \<Rightarrow> RootCA t \<noteq> [] \<and> (systemCertPool L = Inl e \<or> readFile L (RootCA t) = Inl e)
   | Inr (Some tc) \<Rightarrow> MinVersion tc = VersionTLS12 \<and> tcServerName tc = ServerName t \<and>
       (RootCA t \<noteq> [] \<longrightarrow> (\<exists>rca cas. readFile L (RootCA t) = Inr rca \<and> appendCerts L rca \<and>
                                       RootCAs tc = Some (cas @ [rca]) \<and> ClientAuth tc = auth t))
   | Inr None \<Rightarrow> RootCA t \<noteq> [] \<and> (\<exists>rca. readFile L (RootCA t) = Inr rca \<and> \<not> appendCerts L rca)"
  by (auto simp: initTLS_def Let_def split: sum.splits option.splits)

end
