(* ===== verification/Observability.thy ===== *)
theory Observability
  imports Config Strconv
begin

text \<open>
  \<open>internal/logger/wrapper.go\<close> and \<open>metrics.go\<close>: the adapter from the SDK's key-value logging to zap
  fields, the choice of the metrics reporter and the metrics of the worker processes.

  The statsd and prometheus clients, the formatting verb \<open>%v\<close> and the arithmetic of \<open>float64\<close> are
  parameters.
\<close>

section \<open>Log fields\<close>

datatype zap_field = ZapZero | ZapError string | ZapAny string goval

text \<open>The key of a pair: a string, or the value printed with \<open>%v\<close>.\<close>

definition fieldKey :: "(goval \<Rightarrow> string) \<Rightarrow> goval \<Rightarrow> string" where
  "fieldKey fmtV k = (case k of VString s \<Rightarrow> s | _ \<Rightarrow> fmtV k)"

text \<open>The loop \<open>for i := 0; i < len(keyvals); i += 2\<close>; an index out of range is a panic.\<close>

function fieldsLoop ::
  "(goval \<Rightarrow> string) \<Rightarrow> goval list \<Rightarrow> nat \<Rightarrow> nat \<Rightarrow> zap_field list \<Rightarrow> zap_field list outcome" where
  "fieldsLoop fmtV kvs i j zf =
     (if i < length kvs
      then if Suc i < length kvs \<and> j < length zf
           then fieldsLoop fmtV kvs (i + 2) (Suc j) (zf[j := ZapAny (fieldKey fmtV (kvs ! i)) (kvs ! Suc i)])
           else Panics (ErrExt ''index out of range'')
      else Returns zf)"
  by pat_completeness auto
termination by (relation "measure (\<lambda>(_, kvs, i, _, _). length kvs - i)") auto

declare fieldsLoop.simps [simp del]

definition log_fields :: "(goval \<Rightarrow> string) \<Rightarrow> (goval list \<Rightarrow> string) \<Rightarrow> goval list \<Rightarrow> zap_field list outcome" where
  "log_fields fmtV fmtList kvs =
     (if length kvs mod 2 \<noteq> 0 then Returns [ZapError (''odd number of keyvals pairs: '' @ fmtList kvs)]
      else fieldsLoop fmtV kvs 0 0 (replicate (length kvs div 2) ZapZero))"

text \<open>The reference: the list taken two by two.\<close>

fun pairs :: "(goval \<Rightarrow> string) \<Rightarrow> goval list \<Rightarrow> zap_field list" where
  "pairs fmtV (k # v # r) = ZapAny (fieldKey fmtV k) v # pairs fmtV r"
| "pairs fmtV _ = []"

lemma fieldsLoop_pairs:
  assumes "length rest = 2 * n"
  shows "fieldsLoop fmtV (done @ rest) (length done) (length out) (out @ replicate n ZapZero) =
     Returns (out @ pairs fmtV rest)"
  using assms
proof (induction n arbitrary: "done" rest out)
  case 0
  then show ?case by (subst fieldsLoop.simps) simp
next
  case (Suc n)
  then obtain k v r where rest: "rest = k # v # r" "length r = 2 * n"
    by (auto simp: length_Suc_conv)
  let ?f = "ZapAny (fieldKey fmtV k) v"
  have "fieldsLoop fmtV ((done @ [k, v]) @ r) (length (done @ [k, v])) (length (out @ [?f]))
      ((out @ [?f]) @ replicate n ZapZero) = Returns ((out @ [?f]) @ pairs fmtV r)"
    using rest(2) by (rule Suc.IH)
  then show ?case
    by (subst fieldsLoop.simps) (simp add: rest(1) nth_append)
qed

section \<open>The metrics reporter\<close>

text \<open>
  The two scopes \<open>initMetrics\<close> can build, with the settings handed to the libraries. The functions
  of \<open>metrics_lib\<close> are the constructors that can fail.
\<close>

datatype tally_scope =
    PrometheusScope string string string
  | StatsdScope string string i64 i64 "(string \<times> string) list" string

record metrics_lib =
  newReporter :: "string \<Rightarrow> string \<Rightarrow> go_error option"
  newStatsdClient :: "string \<Rightarrow> string \<Rightarrow> i64 \<Rightarrow> i64 \<Rightarrow> go_error option"

definition newPrometheusScope :: "metrics_lib \<Rightarrow> string \<Rightarrow> string \<Rightarrow> string \<Rightarrow> go_error + tally_scope" where
  "newPrometheusScope L listenAddress timerType prefix =
     (case newReporter L listenAddress timerType of
        Some e \<Rightarrow> Inl e
      | None \<Rightarrow> Inr (PrometheusScope listenAddress timerType prefix))"

definition newStatsdScope :: "metrics_lib \<Rightarrow> Statsd \<Rightarrow> go_error + tally_scope" where
  "newStatsdScope L s =
     (case newStatsdClient L (HostPort s) (stPrefix s) (FlushInterval s) (FlushBytes s) of
        Some e \<Rightarrow> Inl e
      | None \<Rightarrow> Inr (StatsdScope (HostPort s) (stPrefix s) (FlushInterval s) (FlushBytes s) (Tags s) (TagSeparator s)))"

text \<open>A nil section of the chosen driver is dereferenced.\<close>

definition initMetrics :: "metrics_lib \<Rightarrow> Metrics \<Rightarrow> (go_error + tally_scope) outcome" where
  "initMetrics L m =
     (if Driver m = driverPrometheus
      then case mPrometheus m of
             None \<Rightarrow> Panics (ErrExt ''nil pointer dereference'')
           | Some p \<Rightarrow> Returns (newPrometheusScope L (prAddress p) (prType p) (prPrefix p))
      else if Driver m = driverStatsd
      then case mStatsd m of
             None \<Rightarrow> Panics (ErrExt ''nil pointer dereference'')
           | Some s \<Rightarrow> Returns (newStatsdScope L s)
      else Returns (Inl (ErrStr (''unknown driver provided: '' @ Driver m))))"

section \<open>Worker metrics\<close>

text \<open>\<open>process.State\<close>, and the two worker states the exporter distinguishes (constants of the pool library).\<close>

record worker_state =
  Pid :: i64
  Status :: i64
  StatusStr :: string
  MemoryUsage :: u64

record metric_lib =
  stateReady :: i64
  stateWorking :: i64
  of_uint64 :: "u64 \<Rightarrow> float64"
  fadd :: "float64 \<Rightarrow> float64 \<Rightarrow> float64"

record metric =
  mDesc :: string
  mValue :: float64
  mLabels :: "string list"

record totals =
  cum :: float64
  ready :: nat
  working :: nat
  invalid :: nat

definition count :: "nat \<Rightarrow> float64" where
  "count n = Fin (int n) 0"

definition workerMetrics :: "metric_lib \<Rightarrow> worker_state \<Rightarrow> metric list" where
  "workerMetrics L w =
     [\<lparr>mDesc = ''worker_state'', mValue = count 0, mLabels = [StatusStr w, Itoa (Pid w)]\<rparr>,
      \<lparr>mDesc = ''worker_memory_bytes'', mValue = of_uint64 L (MemoryUsage w), mLabels = [Itoa (Pid w)]\<rparr>]"

definition tally :: "metric_lib \<Rightarrow> worker_state \<Rightarrow> totals \<Rightarrow> totals" where
  "tally L w t =
     (let t1 = t\<lparr>cum := fadd L (cum t) (of_uint64 L (MemoryUsage w))\<rparr>
      in if Status w = stateReady L then t1\<lparr>ready := ready t1 + 1\<rparr>
         else if Status w = stateWorking L then t1\<lparr>working := working t1 + 1\<rparr>
         else t1\<lparr>invalid := invalid t1 + 1\<rparr>)"

definition Collect_metrics :: "metric_lib \<Rightarrow> worker_state list \<Rightarrow> metric list" where
  "Collect_metrics L ws =
     (let t = fold (tally L) ws \<lparr>cum = count 0, ready = 0, working = 0, invalid = 0\<rparr>
      in concat (map (workerMetrics L) ws) @
         [\<lparr>mDesc = ''workers_ready'', mValue = count (ready t), mLabels = []\<rparr>,
          \<lparr>mDesc = ''workers_working'', mValue = count (working t), mLabels = []\<rparr>,
          \<lparr>mDesc = ''workers_invalid'', mValue = count (invalid t), mLabels = []\<rparr>,
          \<lparr>mDesc = ''total_workers'', mValue = count (length ws), mLabels = []\<rparr>,
          \<lparr>mDesc = ''workers_memory_bytes'', mValue = cum t, mLabels = []\<rparr>])"

definition Describe :: "string list" where
  "Describe = [''total_workers'', ''workers_memory_bytes'', ''worker_state'', ''worker_memory_bytes'',
               ''workers_ready'', ''workers_working'', ''workers_invalid'']"

lemma tally_counts:
  assumes "stateReady L \<noteq> stateWorking L"
  shows "ready (fold (tally L) ws t) = ready t + length (filter (\<lambda>w. Status w = stateReady L) ws) \<and>
    working (fold (tally L) ws t) = working t + length (filter (\<lambda>w. Status w = stateWorking L) ws) \<and>
    ready (fold (tally L) ws t) + working (fold (tally L) ws t) + invalid (fold (tally L) ws t) =
      ready t + working t + invalid t + length ws"
proof (induction ws arbitrary: t)
  case (Cons w ws)
  show ?case using assms Cons.IH [of "tally L w t"] by (auto simp: tally_def Let_def)
qed simp

section \<open>Properties\<close>

text \<open>
  The log fields of a call with an even number of arguments are the arguments taken two by two; the
  loop never leaves the bounds of its arrays. An odd number gives one error field.
\<close>

lemma fields_pairs:
  "log_fields fmtV fmtList kvs =
     Returns (if even (length kvs) then pairs fmtV kvs
              else [ZapError (''odd number of keyvals pairs: '' @ fmtList kvs)])"
proof (cases "even (length kvs)")
  case True
  then obtain n where n: "length kvs = 2 * n" by (elim evenE)
  have "fieldsLoop fmtV kvs 0 0 (replicate n ZapZero) = Returns (pairs fmtV kvs)"
    using fieldsLoop_pairs [OF n, of fmtV "[]" "[]"] by simp
  then show ?thesis using n by (simp add: log_fields_def)
next
  case False
  then have "length kvs mod 2 \<noteq> 0" by presburger
  then show ?thesis using False unfolding log_fields_def by simp
qed

text \<open>
  Every metric collected from the workers is one of those described, and the counts are
  consistent: the ready, the working and the other workers add up to the total, and the first two
  are the numbers of workers in these states.
\<close>

lemma collected_metrics:
  assumes "stateReady L \<noteq> stateWorking L"
  shows "set (map mDesc (Collect_metrics L ws)) \<subseteq> set Describe \<and>
    (\<exists>r w i. r + w + i = length ws \<and> r = length (filter (\<lambda>s. Status s = stateReady L) ws) \<and>
       w = length (filter (\<lambda>s. Status s = stateWorking L) ws) \<and>
       map (\<lambda>m. (mDesc m, mValue m)) (take 4 (drop (2 * length ws) (Collect_metrics L ws))) =
         [(''workers_ready'', count r), (''workers_working'', count w), (''workers_invalid'', count i),
          (''total_workers'', count (length ws))])"
proof -
  let ?t = "fold (tally L) ws \<lparr>cum = count 0, ready = 0, working = 0, invalid = 0\<rparr>"
  have len: "length (concat (map (workerMetrics L) ws)) = 2 * length ws"
    by (induction ws) (simp_all add: workerMetrics_def)
  have "set (map mDesc (Collect_metrics L ws)) \<subseteq> set Describe"
    by (auto simp: Collect_metrics_def Describe_def Let_def workerMetrics_def)
  moreover have "ready ?t + working ?t + invalid ?t = length ws"
    "ready ?t = length (filter (\<lambda>s. Status s = stateReady L) ws)"
    "working ?t = length (filter (\<lambda>s. Status s = stateWorking L) ws)"
    using tally_counts [OF assms, of ws "\<lparr>cum = count 0, ready = 0, working = 0, invalid = 0\<rparr>"] by simp_all
  ultimately show ?thesis
    by (auto simp: Collect_metrics_def Let_def len numeral_eq_Suc intro!: exI [of _ "invalid ?t"])
qed

end
