(* ===== verification/Plugin.thy ===== *)
theory Plugin
  imports Worker_Setup Observability
begin

text \<open>
  \<open>plugin.go\<close>, \<open>internal.go\<close>, \<open>status.go\<close> and \<open>workers_manager.go\<close>: the life of the plugin. \<open>Init\<close> reads the
  configuration, \<open>Serve\<close> creates the two worker pools, dials the Temporal server, starts the
  Temporal workers and then handles the events of stopped worker processes; \<open>Stop\<close> releases
  everything.

  Pools, clients and Temporal workers are objects of libraries. They are numbered in the order of
  their creation, and \<open>plog\<close> records every call made to them with its result. The libraries'
  answers are the functions of the record \<open>plug_env\<close> of the calls made so far, so that an answer may
  change from call to call. All methods hold the plugin's lock, so they are modelled as atomic; the
  lock itself is the field \<open>locked\<close>, because \<open>Stop\<close> can release it twice.
\<close>

section \<open>Data\<close>

text \<open>A worker process of a pool: its pid and the two questions the plugin asks about its state.\<close>

record worker_process =
  procPid :: i64
  IsActive :: bool
  isReady :: bool

text \<open>
  The configuration a pool is created with: that of the configuration file, with the option for no
  workers or without, or the one assembled for the workflow pool (number of workers, command, and the two
  timeouts in nanoseconds).
\<close>

datatype pool_request =
    ActivityPoolRequest "pool_config option" bool
  | WorkflowPoolRequest i64 "string list" i64 i64

record dial_options =
  doHostPort :: string
  doMetricsHandler :: "tally_scope option"
  doNamespace :: string
  doTLS :: "tls_config option"
  doClientVersion :: string
  doNoProxy :: bool

datatype plug_event =
    NewPool nat pool_request "(string \<times> string) list" "go_error option"
  | ReadWorkers "nat option"
  | PoolReset "nat option"
  | PoolAddWorker "nat option"
  | PoolRemoveWorker "nat option"
  | PoolDestroy nat
  | SetStickyCacheSize i64
  | PurgeStickyCache
  | Dial nat dial_options "go_error option"
  | ClientClose nat
  | WorkerStart nat temporal_worker "go_error option"
  | WorkerStop nat
  | SubscribeP string "go_error option"
  | Unsubscribe
  | TallyClose

text \<open>The workflow definition: the pool it exchanges with and the pool of its local activities.\<close>

record workflow_factory =
  wfPool :: nat
  laPool :: nat

record temporal =
  rrActivityDef :: "(nat \<times> Activity) option"
  rrWorkflowDef :: "workflow_factory option"
  workflows :: "string \<rightharpoonup> workflow_desc"
  activities :: "string \<rightharpoonup> activity_desc"
  metricsHandler :: "tally_scope option"
  tallyCloser :: bool
  tlsCfg :: "tls_config option"
  client :: "nat option"
  workers :: "(nat \<times> temporal_worker) list"
  interceptors :: "string \<rightharpoonup> string"

text \<open>
  \<open>stopSignals\<close> is the number of signals in \<open>stopCh\<close>, \<open>serving\<close> tells whether the goroutine that handles
  events runs. The last group is the history: the calls, the next number of an object, the requests
  for worker information, the generated UUIDs and the iterations over the interceptors.
\<close>

record Plugin =
  locked :: bool
  config :: "Config option"
  codec :: bool
  actP :: "nat option"
  wfP :: "nat option"
  apiKey :: "string option"
  wwPID :: i64
  rrVersion :: string
  temporal :: temporal
  eventBus :: bool
  stopSignals :: nat
  serving :: bool
  plog :: "plug_event list"
  fresh :: nat
  infoSent :: "pool_payload list"
  uuids :: nat
  rounds :: nat

definition empty_temporal :: temporal where
  "empty_temporal =
     \<lparr>rrActivityDef = None, rrWorkflowDef = None, workflows = Map.empty, activities = Map.empty, metricsHandler = None,
      tallyCloser = False, tlsCfg = None, client = None, workers = [], interceptors = Map.empty\<rparr>"

definition zero_plugin :: Plugin where
  "zero_plugin =
     \<lparr>locked = False, config = None, codec = False, actP = None, wfP = None, apiKey = None, wwPID = 0, rrVersion = [],
      temporal = empty_temporal, eventBus = False, stopSignals = 0, serving = False,
      plog = [], fresh = 0, infoSent = [], uuids = 0, rounds = 0\<rparr>"

record plug_env =
  cfgHas :: bool
  cfgUnmarshal :: "go_error + Config option"
  cfgPrometheus :: "Prometheus option \<Rightarrow> go_error + Prometheus option"
  cfgStatsd :: "Statsd option \<Rightarrow> go_error + Statsd option"
  cfgVersion :: string
  poolDefaults :: "pool_config \<Rightarrow> pool_config"
  osStat :: "string \<Rightarrow> stat_result"
  certs :: cert_lib
  metricsLib :: metrics_lib
  noProxy :: bool
  workflowHost :: world
  fromPayload :: "payload \<Rightarrow> go_error + WorkerInfo"
  workerLib :: worker_lib
  newPoolErr :: "plug_event list \<Rightarrow> pool_request \<Rightarrow> go_error option"
  poolWorkers :: "plug_event list \<Rightarrow> nat option \<Rightarrow> worker_process list outcome"
  poolCall :: "plug_event list \<Rightarrow> go_error option outcome"
  dialErr :: "plug_event list \<Rightarrow> dial_options \<Rightarrow> go_error option"
  startErr :: "plug_event list \<Rightarrow> nat \<Rightarrow> go_error option"
  subscribeErr :: "plug_event list \<Rightarrow> go_error option"
  closeErr :: "plug_event list \<Rightarrow> go_error option"
  processState :: "worker_process \<Rightarrow> go_error + worker_state"
  resetText :: "go_error \<Rightarrow> string \<Rightarrow> string"
  eventWorkerStopped :: string

abbreviation "pluginName \<equiv> ''temporal''"
abbreviation "opInit \<equiv> ''temporal_plugin_init''"
abbreviation "clientBaselineVersion \<equiv> ''2.5.0''"
abbreviation "poolEnv \<equiv> [(''RR_MODE'', ''temporal''), (''RR_CODEC'', ''protobuf'')]"
abbreviation "nilDeref \<equiv> ErrExt ''nil pointer dereference''"

section \<open>Calls that return an error\<close>

type_synonym 'a plug = "Plugin \<Rightarrow> (go_error + 'a) outcome \<times> Plugin"

definition okP :: "'a \<Rightarrow> 'a plug" where
  "okP x p = (Returns (Inr x), p)"

definition failP :: "go_error \<Rightarrow> 'a plug" where
  "failP e p = (Returns (Inl e), p)"

definition panicP :: "go_error \<Rightarrow> 'a plug" where
  "panicP e p = (Panics e, p)"

definition doP :: "(Plugin \<Rightarrow> Plugin) \<Rightarrow> unit plug" where
  "doP f p = (Returns (Inr ()), f p)"

text \<open>The Go pattern \<open>x, err := m(); if err != nil { return err }\<close> followed by \<open>f\<close>.\<close>

definition andThen :: "'a plug \<Rightarrow> ('a \<Rightarrow> 'b plug) \<Rightarrow> 'b plug" where
  "andThen m f p =
     (case m p of
        (Returns (Inr x), p') \<Rightarrow> f x p'
      | (Returns (Inl e), p') \<Rightarrow> (Returns (Inl e), p')
      | (Panics e, p') \<Rightarrow> (Panics e, p'))"

definition getP :: "(Plugin \<Rightarrow> 'a) \<Rightarrow> 'a plug" where
  "getP f p = (Returns (Inr (f p)), p)"

text \<open>\<open>errors.E(op, err)\<close> on the error of a call.\<close>

definition wrapP :: "string \<Rightarrow> 'a plug \<Rightarrow> 'a plug" where
  "wrapP op m p = (case m p of (Returns r, p') \<Rightarrow> (Returns (wrapE op r), p') | (Panics e, p') \<Rightarrow> (Panics e, p'))"

text \<open>
  \<open>p.mu.Lock(); defer p.mu.Unlock()\<close> around a body. Unlocking a mutex that is not locked is fatal.
\<close>

definition withLock :: "(Plugin \<Rightarrow> 'r outcome \<times> Plugin) \<Rightarrow> Plugin \<Rightarrow> 'r outcome \<times> Plugin" where
  "withLock m p =
     (case m (p\<lparr>locked := True\<rparr>) of
        (r, p') \<Rightarrow> (if locked p' then (r, p'\<lparr>locked := False\<rparr>)
                     else (Panics (ErrExt ''sync: Unlock of unlocked RWMutex''), p')))"

definition emit :: "plug_event \<Rightarrow> Plugin \<Rightarrow> Plugin" where
  "emit ev p = p\<lparr>plog := plog p @ [ev]\<rparr>"

section \<open>Init\<close>

text \<open>The metrics section is read again from its own key, into the part that the driver names.\<close>

definition unmarshalMetrics :: "plug_env \<Rightarrow> Metrics \<Rightarrow> go_error + Metrics" where
  "unmarshalMetrics E m =
     (if Driver m = driverStatsd
      then case cfgStatsd E (mStatsd m) of Inl e \<Rightarrow> Inl e | Inr s \<Rightarrow> Inr (m\<lparr>mStatsd := s\<rparr>)
      else case cfgPrometheus E (mPrometheus m) of Inl e \<Rightarrow> Inl e | Inr s \<Rightarrow> Inr (m\<lparr>mPrometheus := s\<rparr>))"

definition readConfig :: "plug_env \<Rightarrow> Config \<Rightarrow> (go_error + Config)" where
  "readConfig E c =
     (case cMetrics c of
        None \<Rightarrow> Inr c
      | Some m \<Rightarrow> (case unmarshalMetrics E m of Inl e \<Rightarrow> Inl e | Inr m' \<Rightarrow> Inr (c\<lparr>cMetrics := Some m'\<rparr>)))"

text \<open>After the defaults: TLS, metrics, the empty table of interceptors and the empty API key.\<close>

definition initLibraries :: "plug_env \<Rightarrow> Config \<Rightarrow> temporal \<Rightarrow> (go_error + temporal) outcome" where
  "initLibraries E c t =
     (case (case cTLS c of None \<Rightarrow> Inr None | Some tls \<Rightarrow> initTLS (certs E) tls) of
        Inl e \<Rightarrow> Returns (Inl (ErrE opInit e))
      | Inr cfg \<Rightarrow>
          (let t1 = t\<lparr>tlsCfg := cfg\<rparr>
           in case cMetrics c of
                None \<Rightarrow> Returns (Inr t1)
              | Some m \<Rightarrow>
                  (case initMetrics (metricsLib E) m of
                     Panics e \<Rightarrow> Panics e
                   | Returns (Inl e) \<Rightarrow> Returns (Inl (ErrE opInit e))
                   | Returns (Inr scope) \<Rightarrow> Returns (Inr (t1\<lparr>metricsHandler := Some scope, tallyCloser := True\<rparr>)))))"

definition Init :: "plug_env \<Rightarrow> unit plug" where
  "Init E p =
     (if \<not> cfgHas E then (Returns (Inl (ErrE opInit (ErrExt ''Disabled''))), p)
      else case cfgUnmarshal E of
             Inl e \<Rightarrow> (Returns (Inl (ErrE opInit e)), p)
           | Inr None \<Rightarrow> (Panics nilDeref, p)
           | Inr (Some c) \<Rightarrow>
               (case readConfig E c of
                  Inl e \<Rightarrow> (Returns (Inl (ErrE opInit e)), p\<lparr>config := Some c\<rparr>)
                | Inr c1 \<Rightarrow>
                    (case InitDefault (poolDefaults E) (osStat E) c1 of
                       (Some e, c2) \<Rightarrow> (Returns (Inl (ErrE opInit e)), p\<lparr>config := Some c2\<rparr>)
                     | (None, c2) \<Rightarrow>
                         (let p1 = p\<lparr>config := Some c2, temporal := empty_temporal, rrVersion := cfgVersion E,
                                     eventBus := True, stopSignals := 0\<rparr>
                          in case initLibraries E c2 empty_temporal of
                               Panics e \<Rightarrow> (Panics e, p1)
                             | Returns (Inl e) \<Rightarrow> (Returns (Inl e), p1)
                             | Returns (Inr t) \<Rightarrow>
                                 (Returns (Inr ()), p1\<lparr>temporal := t\<lparr>interceptors := Map.empty\<rparr>, apiKey := Some []\<rparr>)))))"

section \<open>Pools and clients\<close>

definition newPool :: "plug_env \<Rightarrow> pool_request \<Rightarrow> nat plug" where
  "newPool E req p =
     (let err = newPoolErr E (plog p) req; n = fresh p;
          p1 = (emit (NewPool n req poolEnv err) p)\<lparr>fresh := Suc n\<rparr>
      in case err of Some e \<Rightarrow> (Returns (Inl e), p1) | None \<Rightarrow> (Returns (Inr n), p1))"

definition readWorkers :: "plug_env \<Rightarrow> nat option \<Rightarrow> worker_process list plug" where
  "readWorkers E pool p =
     (let p1 = emit (ReadWorkers pool) p
      in case poolWorkers E (plog p1) pool of
           Panics e \<Rightarrow> (Panics e, p1)
         | Returns ws \<Rightarrow> (Returns (Inr ws), p1))"

text \<open>A call of \<open>Reset\<close>, \<open>AddWorker\<close> or \<open>RemoveWorker\<close> of a pool; the receiver may be nil.\<close>

definition callPool :: "plug_env \<Rightarrow> plug_event \<Rightarrow> unit plug" where
  "callPool E ev p =
     (let p1 = emit ev p
      in case poolCall E (plog p1) of
           Panics e \<Rightarrow> (Panics e, p1)
         | Returns (Some e) \<Rightarrow> (Returns (Inl e), p1)
         | Returns None \<Rightarrow> (Returns (Inr ()), p1))"

text \<open>The pid of the first worker of the workflow pool, read after its list was found not empty.\<close>

definition firstWorkerPid :: "plug_env \<Rightarrow> go_error \<Rightarrow> nat option \<Rightarrow> unit plug" where
  "firstWorkerPid E err pool =
     andThen (readWorkers E pool) (\<lambda>ws.
       if length ws < 1 then failP err
       else andThen (readWorkers E pool) (\<lambda>ws'.
              case ws' of
                [] \<Rightarrow> panicP (ErrExt ''index out of range'')
              | w # _ \<Rightarrow> doP (\<lambda>p. p\<lparr>wwPID := procPid w\<rparr>)))"

definition fetchInfo :: "plug_env \<Rightarrow> WorkerInfo list plug" where
  "fetchInfo E p =
     (case WorkerInfo_fetch (workflowHost E) (fromPayload E) (rrVersion p) (wwPID p) (infoSent p) of
        (r, h) \<Rightarrow> (Returns r, p\<lparr>infoSent := h\<rparr>))"

definition dialOptions :: "plug_env \<Rightarrow> string \<Rightarrow> Config \<Rightarrow> temporal \<Rightarrow> dial_options" where
  "dialOptions E version c t =
     \<lparr>doHostPort = Address c, doMetricsHandler = metricsHandler t, doNamespace = Namespace c, doTLS = tlsCfg t,
      doClientVersion = version, doNoProxy = noProxy E\<rparr>"

text \<open>The API key after the flag of the worker was read: an empty value does not change it.\<close>

definition flagKey :: "(string \<times> string) list \<Rightarrow> string option \<Rightarrow> string option" where
  "flagKey flags k = (case map_of flags ''ApiKey'' of Some val \<Rightarrow> (if val \<noteq> [] then Some val else k) | None \<Rightarrow> k)"

definition initTemporalClient :: "plug_env \<Rightarrow> string \<Rightarrow> (string \<times> string) list \<Rightarrow> unit plug" where
  "initTemporalClient E phpSdkVersion flags p =
     (case config p of
        None \<Rightarrow> (Panics nilDeref, p)
      | Some c \<Rightarrow>
          (let version = (if phpSdkVersion = [] then clientBaselineVersion else phpSdkVersion);
               p1 = p\<lparr>apiKey := flagKey flags (apiKey p)\<rparr>;
               p2 = emit (SetStickyCacheSize (CacheSize c)) p1;
               opts = dialOptions E version c (temporal p2);
               err = dialErr E (plog p2) opts;
               n = fresh p2;
               p3 = (emit (Dial n opts err) p2)
                      \<lparr>fresh := Suc n, temporal := (temporal p2)\<lparr>client := (if err = None then Some n else None)\<rparr>\<rparr>
           in (Returns (case err of Some e \<Rightarrow> Inl e | None \<Rightarrow> Inr ()), p3)))"

text \<open>The dynamic credentials given to \<open>Dial\<close>: read at every request.\<close>

definition credentials :: "Plugin \<Rightarrow> string" where
  "credentials p = (case apiKey p of Some k \<Rightarrow> k | None \<Rightarrow> [])"

text \<open>The unary interceptor of the connection; \<open>md\<close> is the outgoing metadata of the call, if there is any.\<close>

definition rewriteNameAndVersion :: "string \<Rightarrow> (string \<rightharpoonup> string list) option \<Rightarrow> (string \<rightharpoonup> string list) option" where
  "rewriteNameAndVersion phpSdkVersion md =
     (case md of
        None \<Rightarrow> None
      | Some m \<Rightarrow> Some ((m(''client-name'' \<mapsto> [''temporal-php-2'']))(''client-version'' \<mapsto> [phpSdkVersion])))"

section \<open>Temporal workers\<close>

definition buildWorkers :: "plug_env \<Rightarrow> Activity \<Rightarrow> WorkerInfo list \<Rightarrow> ((nat \<times> temporal_worker) list \<times> WorkerInfo list) plug" where
  "buildWorkers E actDef wi p =
     (case TemporalWorkers (workerLib E) actDef wi (interceptors (temporal p)) (rounds p) (uuids p) of
        Panics e \<Rightarrow> (Panics e, p)
      | Returns (wrks, wi', u) \<Rightarrow>
          (Returns (Inr (zip [fresh p ..< fresh p + length wrks] wrks, wi')),
           p\<lparr>uuids := u, rounds := rounds p + length wi, fresh := fresh p + length wrks\<rparr>))"

definition startWorker :: "plug_env \<Rightarrow> nat \<times> temporal_worker \<Rightarrow> unit plug" where
  "startWorker E w p =
     (let err = startErr E (plog p) (fst w)
      in (Returns (case err of Some e \<Rightarrow> Inl e | None \<Rightarrow> Inr ()), emit (WorkerStart (fst w) (snd w) err) p))"

fun startWorkers :: "plug_env \<Rightarrow> (nat \<times> temporal_worker) list \<Rightarrow> unit plug" where
  "startWorkers E [] = okP ()"
| "startWorkers E (w # ws) = andThen (startWorker E w) (\<lambda>_. startWorkers E ws)"

definition stopWorkers :: "(nat \<times> temporal_worker) list \<Rightarrow> Plugin \<Rightarrow> Plugin" where
  "stopWorkers ws p = fold (\<lambda>w. emit (WorkerStop (fst w))) ws p"

section \<open>Serve\<close>

abbreviation "noWorkflowWorker \<equiv> ErrStr ''failed to allocate a workflow worker''"

text \<open>The first part of \<open>initPool\<close>: the two pools.\<close>

definition createPools :: "plug_env \<Rightarrow> (nat \<times> nat) plug" where
  "createPools E =
     andThen (\<lambda>p. case config p of
                    None \<Rightarrow> panicP nilDeref p
                  | Some c \<Rightarrow> newPool E (ActivityPoolRequest (cActivities c) (DisableActivityWorkers c)) p) (\<lambda>ap.
     andThen (\<lambda>p. case config p of
                    Some c \<Rightarrow>
                      (case cActivities c of
                         None \<Rightarrow> panicP nilDeref p
                       | Some a \<Rightarrow> newPool E (WorkflowPoolRequest 1 (pcCommand a) 864000000000000 (pcDestroyTimeout a)) p)
                  | None \<Rightarrow> panicP nilDeref p) (\<lambda>wp.
     okP (ap, wp)))"

text \<open>The assignments at the end of \<open>initPool\<close>.\<close>

definition recordPools ::
  "nat \<Rightarrow> nat \<Rightarrow> Activity \<Rightarrow> (nat \<times> temporal_worker) list \<Rightarrow> WorkerInfo list \<Rightarrow> Plugin \<Rightarrow> Plugin" where
  "recordPools ap wp actDef ws wi p =
     p\<lparr>temporal := (temporal p)\<lparr>rrWorkflowDef := Some \<lparr>wfPool = wp, laPool = ap\<rparr>, rrActivityDef := Some (ap, actDef),
                               workers := ws, activities := ActivitiesInfo wi, workflows := WorkflowsInfo wi\<rparr>,
       codec := True, actP := Some ap, wfP := Some wp\<rparr>"

definition initPool :: "plug_env \<Rightarrow> unit plug" where
  "initPool E =
     andThen (createPools E) (\<lambda>(ap, wp).
     andThen (firstWorkerPid E (ErrE [] noWorkflowWorker) (Some wp)) (\<lambda>_.
     andThen (fetchInfo E) (\<lambda>wi.
       case wi of
         [] \<Rightarrow> failP (ErrStr ''worker info should contain at least 1 worker'')
       | w # _ \<Rightarrow>
           andThen (initTemporalClient E (PhpSdkVersion w) (Flags w)) (\<lambda>_.
           andThen (getP (\<lambda>p. NewActivityDefinition (case config p of Some c \<Rightarrow> DisableActivityWorkers c | None \<Rightarrow> False)))
             (\<lambda>actDef.
           andThen (buildWorkers E actDef wi) (\<lambda>(ws, wi').
           andThen (startWorkers E ws) (\<lambda>_.
             doP (recordPools ap wp actDef ws wi'))))))))"

text \<open>
  \<open>Serve\<close> returns the channel of errors: here its first element. When it is empty the goroutine runs.
\<close>

abbreviation "opServe \<equiv> ''temporal_plugin_serve''"

definition subscribe :: "plug_env \<Rightarrow> unit plug" where
  "subscribe E p =
     (if eventBus p
      then let err = subscribeErr E (plog p)
           in (Returns (case err of Some e \<Rightarrow> Inl e | None \<Rightarrow> Inr ()), emit (SubscribeP (''*.'' @ eventWorkerStopped E) err) p)
      else (Panics nilDeref, p))"

definition Serve :: "plug_env \<Rightarrow> Plugin \<Rightarrow> go_error option outcome \<times> Plugin" where
  "Serve E =
     withLock (\<lambda>p.
       case wrapP opServe (andThen (initPool E) (\<lambda>_. subscribe E)) p of
         (Panics e, p') \<Rightarrow> (Panics e, p')
       | (Returns (Inl e), p') \<Rightarrow> (Returns (Some e), p')
       | (Returns (Inr _), p') \<Rightarrow> (Returns None, p'\<lparr>serving := True\<rparr>))"

section \<open>Reset\<close>

abbreviation "opReset \<equiv> ''temporal_reset''"

definition ResetAP :: "plug_env \<Rightarrow> unit plug" where
  "ResetAP E = withLock (\<lambda>p. wrapP ''temporal_plugin_reset'' (callPool E (PoolReset (actP p))) p)"

text \<open>
  The part of \<open>Reset\<close> after the pools: worker information, new workers, the tables. The activity
  definition is read for each description, so a nil one is dereferenced only if there is a description.
\<close>

definition restartWorkers :: "plug_env \<Rightarrow> unit plug" where
  "restartWorkers E =
     andThen (fetchInfo E) (\<lambda>wi p.
       if rrActivityDef (temporal p) = None \<and> wi \<noteq> [] then (Panics nilDeref, p)
       else let actDef = (case rrActivityDef (temporal p) of Some d \<Rightarrow> snd d | None \<Rightarrow> NewActivityDefinition False)
            in andThen (buildWorkers E actDef wi) (\<lambda>(ws, wi').
               andThen (startWorkers E ws) (\<lambda>_.
                 doP (\<lambda>p. p\<lparr>temporal := (temporal p)\<lparr>activities := ActivitiesInfo wi', workflows := WorkflowsInfo wi',
                                                    workers := ws\<rparr>\<rparr>))) p)"

definition Reset_plugin :: "plug_env \<Rightarrow> unit plug" where
  "Reset_plugin E =
     withLock (\<lambda>p.
       let p1 = stopWorkers (workers (temporal p)) p;
           p2 = emit PurgeStickyCache (p1\<lparr>temporal := (temporal p1)\<lparr>workers := []\<rparr>\<rparr>)
       in andThen (firstWorkerPid E (ErrE opReset noWorkflowWorker) (wfP p)) (\<lambda>_.
          andThen (wrapP opReset (callPool E (PoolReset (actP p)))) (\<lambda>_.
            restartWorkers E)) p2)"

section \<open>Events\<close>

text \<open>\<open>strings.Contains(s, sub)\<close>.\<close>

fun Contains :: "string \<Rightarrow> string \<Rightarrow> bool" where
  "Contains [] sub = (sub = [])"
| "Contains (c # s) sub = (take (length sub) (c # s) = sub \<or> Contains s sub)"

text \<open>
  One event of the goroutine of \<open>Serve\<close>; the result is the error it sends before it ends, if it does.
\<close>

definition handleEvent :: "plug_env \<Rightarrow> string \<Rightarrow> Plugin \<Rightarrow> go_error option outcome \<times> Plugin" where
  "handleEvent E msg p =
     (case (if Contains msg (Itoa (wwPID p)) then Reset_plugin E p else ResetAP E p) of
        (Panics e, p') \<Rightarrow> (Panics e, p')
      | (Returns (Inl e), p') \<Rightarrow> (Returns (Some (ErrE opServe (ErrStr (resetText E e msg)))), p'\<lparr>serving := False\<rparr>)
      | (Returns (Inr _), p') \<Rightarrow> (Returns None, p'))"

section \<open>Stop\<close>

definition destroyPool :: "nat option \<Rightarrow> Plugin \<Rightarrow> Plugin" where
  "destroyPool pool p = (case pool of None \<Rightarrow> p | Some i \<Rightarrow> emit (PoolDestroy i) p)"

text \<open>A second \<open>Unlock\<close> in the branch where the metrics scope cannot be closed.\<close>

definition closeTally :: "plug_env \<Rightarrow> Plugin \<Rightarrow> Plugin" where
  "closeTally E p =
     (if tallyCloser (temporal p)
      then let p1 = emit TallyClose p in (if closeErr E (plog p1) \<noteq> None then p1\<lparr>locked := False\<rparr> else p1)
      else p)"

definition closeClient :: "Plugin \<Rightarrow> Plugin" where
  "closeClient p = (case client (temporal p) of None \<Rightarrow> p | Some i \<Rightarrow> emit (ClientClose i) p)"

text \<open>The goroutine of \<open>Stop\<close>.\<close>

definition stopBody :: "plug_env \<Rightarrow> Plugin \<Rightarrow> unit outcome \<times> Plugin" where
  "stopBody E =
     withLock (\<lambda>p.
       if \<not> eventBus p then (Panics nilDeref, p)
       else let p1 = (emit Unsubscribe p)\<lparr>stopSignals := stopSignals p + 1, eventBus := False, serving := False\<rparr>;
                p2 = destroyPool (actP p1) (destroyPool (wfP p1) p1);
                p3 = stopWorkers (workers (temporal p2)) p2
            in (Returns (), closeClient (closeTally E p3)))"

text \<open>
  \<open>Stop\<close>: \<open>ctxErr\<close> is the error of a context that ends before the goroutine does. The state is the one
  after the goroutine.
\<close>

definition Stop :: "plug_env \<Rightarrow> go_error option \<Rightarrow> Plugin \<Rightarrow> go_error option outcome \<times> Plugin" where
  "Stop E ctxErr p =
     (case stopBody E p of (Panics e, p') \<Rightarrow> (Panics e, p') | (Returns _, p') \<Rightarrow> (Returns ctxErr, p'))"

section \<open>Information\<close>

text \<open>The states of the processes of both pools; those that cannot be read are left out.\<close>

definition Workers_plugin :: "plug_env \<Rightarrow> worker_state list plug" where
  "Workers_plugin E p =
     andThen (readWorkers E (wfP p)) (\<lambda>wfPw.
     andThen (readWorkers E (actP p)) (\<lambda>actPw.
       okP (List.map_filter (\<lambda>w. case processState E w of Inl _ \<Rightarrow> None | Inr st \<Rightarrow> Some st) (wfPw @ actPw)))) p"

text \<open>
  \<open>Status\<close> and \<open>Ready\<close> differ in the question \<open>good\<close> they ask about a worker; the list of the workflow workers is read a
  second time for its first element.
\<close>

definition workflowGood :: "plug_env \<Rightarrow> (worker_process \<Rightarrow> bool) \<Rightarrow> bool plug" where
  "workflowGood E good p =
     (case config p of
        None \<Rightarrow> (Panics nilDeref, p)
      | Some c \<Rightarrow>
          (if \<not> DisableActivityWorkers c then okP False p
           else andThen (readWorkers E (wfP p)) (\<lambda>ws.
                  if length ws > 0
                  then andThen (readWorkers E (wfP p)) (\<lambda>ws'.
                         case ws' of [] \<Rightarrow> panicP (ErrExt ''index out of range'') | w # _ \<Rightarrow> okP (good w))
                  else okP False) p))"

definition statusWith :: "plug_env \<Rightarrow> (worker_process \<Rightarrow> bool) \<Rightarrow> nat plug" where
  "statusWith E good p =
     andThen (workflowGood E good) (\<lambda>b.
       if b then okP 200
       else andThen (readWorkers E (actP p)) (\<lambda>ws. okP (if \<exists>w \<in> set ws. good w then 200 else 503))) p"

definition Status_plugin :: "plug_env \<Rightarrow> nat plug" where
  "Status_plugin E = statusWith E IsActive"

definition Ready_plugin :: "plug_env \<Rightarrow> nat plug" where
  "Ready_plugin E = statusWith E isReady"

section \<open>Other operations\<close>

definition AddWorker :: "plug_env \<Rightarrow> unit plug" where
  "AddWorker E p = callPool E (PoolAddWorker (actP p)) p"

definition RemoveWorker :: "plug_env \<Rightarrow> unit plug" where
  "RemoveWorker E p = callPool E (PoolRemoveWorker (actP p)) p"

text \<open>The function \<open>Collects\<close> hands to the container: an interceptor is stored under its name.\<close>

definition collectInterceptor :: "string \<Rightarrow> string \<Rightarrow> Plugin \<Rightarrow> Plugin" where
  "collectInterceptor name mdw p =
     p\<lparr>temporal := (temporal p)\<lparr>interceptors := (interceptors (temporal p))(name \<mapsto> mdw)\<rparr>\<rparr>"

definition getWfDef :: "Plugin \<Rightarrow> workflow_factory option" where
  "getWfDef p = rrWorkflowDef (temporal p)"

definition getActDef :: "Plugin \<Rightarrow> (nat \<times> Activity) option" where
  "getActDef p = rrActivityDef (temporal p)"

end
