(* ===== verification/Plugin_Resources.thy ===== *)
theory Plugin_Resources
  imports Plugin
begin

text \<open>
  What the plugin holds at each moment of its life: the pools, Temporal workers and clients that its
  calls have created and not yet released, compared with those its fields record. The lemmas
  describe a successful call of each operation by the events it adds to the log. The locales
  \<open>plugin_operation\<close> and \<open>neutral_operation\<close> are the contracts by which operations keep the record
  complete; every method of a serving plugin is an instance of one of them.
\<close>

section \<open>Resources in the log\<close>

definition created_pools :: "plug_event list \<Rightarrow> nat list" where
  "created_pools = List.map_filter (\<lambda>ev. case ev of NewPool i _ _ None \<Rightarrow> Some i | _ \<Rightarrow> None)"

definition destroyed_pools :: "plug_event list \<Rightarrow> nat list" where
  "destroyed_pools = List.map_filter (\<lambda>ev. case ev of PoolDestroy i \<Rightarrow> Some i | _ \<Rightarrow> None)"

definition started_workers :: "plug_event list \<Rightarrow> nat list" where
  "started_workers = List.map_filter (\<lambda>ev. case ev of WorkerStart i _ None \<Rightarrow> Some i | _ \<Rightarrow> None)"

definition stopped_workers :: "plug_event list \<Rightarrow> nat list" where
  "stopped_workers = List.map_filter (\<lambda>ev. case ev of WorkerStop i \<Rightarrow> Some i | _ \<Rightarrow> None)"

definition dialed_clients :: "plug_event list \<Rightarrow> nat list" where
  "dialed_clients = List.map_filter (\<lambda>ev. case ev of Dial i _ None \<Rightarrow> Some i | _ \<Rightarrow> None)"

definition closed_clients :: "plug_event list \<Rightarrow> nat list" where
  "closed_clients = List.map_filter (\<lambda>ev. case ev of ClientClose i \<Rightarrow> Some i | _ \<Rightarrow> None)"

definition open_pools :: "Plugin \<Rightarrow> nat list" where
  "open_pools p = filter (\<lambda>i. i \<notin> set (destroyed_pools (plog p))) (created_pools (plog p))"

definition running_workers :: "Plugin \<Rightarrow> nat list" where
  "running_workers p = filter (\<lambda>i. i \<notin> set (stopped_workers (plog p))) (started_workers (plog p))"

definition open_clients :: "Plugin \<Rightarrow> nat list" where
  "open_clients p = filter (\<lambda>i. i \<notin> set (closed_clients (plog p))) (dialed_clients (plog p))"

named_theorems resources \<open>the resource an event creates or releases\<close>

lemma resources_append [resources]:
  "created_pools (l @ l') = created_pools l @ created_pools l'"
  "destroyed_pools (l @ l') = destroyed_pools l @ destroyed_pools l'"
  "started_workers (l @ l') = started_workers l @ started_workers l'"
  "stopped_workers (l @ l') = stopped_workers l @ stopped_workers l'"
  "dialed_clients (l @ l') = dialed_clients l @ dialed_clients l'"
  "closed_clients (l @ l') = closed_clients l @ closed_clients l'"
  by (simp_all add: created_pools_def destroyed_pools_def started_workers_def stopped_workers_def
      dialed_clients_def closed_clients_def List.map_filter_def)

lemma resources_Nil [resources]:
  "created_pools [] = []" "destroyed_pools [] = []" "started_workers [] = []" "stopped_workers [] = []"
  "dialed_clients [] = []" "closed_clients [] = []"
  by (simp_all add: created_pools_def destroyed_pools_def started_workers_def stopped_workers_def
      dialed_clients_def closed_clients_def List.map_filter_def)

lemma resources_Cons [resources]:
  "created_pools (ev # l) = (case ev of NewPool i _ _ None \<Rightarrow> [i] | _ \<Rightarrow> []) @ created_pools l"
  "destroyed_pools (ev # l) = (case ev of PoolDestroy i \<Rightarrow> [i] | _ \<Rightarrow> []) @ destroyed_pools l"
  "started_workers (ev # l) = (case ev of WorkerStart i _ None \<Rightarrow> [i] | _ \<Rightarrow> []) @ started_workers l"
  "stopped_workers (ev # l) = (case ev of WorkerStop i \<Rightarrow> [i] | _ \<Rightarrow> []) @ stopped_workers l"
  "dialed_clients (ev # l) = (case ev of Dial i _ None \<Rightarrow> [i] | _ \<Rightarrow> []) @ dialed_clients l"
  "closed_clients (ev # l) = (case ev of ClientClose i \<Rightarrow> [i] | _ \<Rightarrow> []) @ closed_clients l"
  by (simp_all add: created_pools_def destroyed_pools_def started_workers_def stopped_workers_def
      dialed_clients_def closed_clients_def List.map_filter_def split: plug_event.split option.split)

text \<open>Runs of workers.\<close>

lemma resources_starts [resources]:
  "started_workers (map (\<lambda>w. WorkerStart (fst w) (snd w) None) ws) = map fst ws"
  "created_pools (map (\<lambda>w. WorkerStart (fst w) (snd w) None) ws) = []"
  "destroyed_pools (map (\<lambda>w. WorkerStart (fst w) (snd w) None) ws) = []"
  "stopped_workers (map (\<lambda>w. WorkerStart (fst w) (snd w) None) ws) = []"
  "dialed_clients (map (\<lambda>w. WorkerStart (fst w) (snd w) None) ws) = []"
  "closed_clients (map (\<lambda>w. WorkerStart (fst w) (snd w) None) ws) = []"
  by (induction ws) (simp_all add: resources)

lemma resources_stops [resources]:
  "stopped_workers (map (\<lambda>w. WorkerStop (fst w)) ws) = map fst ws"
  "created_pools (map (\<lambda>w. WorkerStop (fst w)) ws) = []"
  "destroyed_pools (map (\<lambda>w. WorkerStop (fst w)) ws) = []"
  "started_workers (map (\<lambda>w. WorkerStop (fst w)) ws) = []"
  "dialed_clients (map (\<lambda>w. WorkerStop (fst w)) ws) = []"
  "closed_clients (map (\<lambda>w. WorkerStop (fst w)) ws) = []"
  by (induction ws) (simp_all add: resources)

section \<open>Successful calls\<close>

lemma andThen_Inr:
  "andThen m f p = (Returns (Inr y), p') \<longleftrightarrow>
     (\<exists>x p1. m p = (Returns (Inr x), p1) \<and> f x p1 = (Returns (Inr y), p'))"
  by (auto simp: andThen_def split: prod.splits outcome.splits sum.splits)

lemma wrapP_Inr [simp]: "wrapP op m p = (Returns (Inr x), p') \<longleftrightarrow> m p = (Returns (Inr x), p')"
  by (auto simp: wrapP_def split: prod.splits outcome.splits)

lemma newPool_Inr:
  "newPool E req p = (Returns (Inr n), p') \<longleftrightarrow>
     newPoolErr E (plog p) req = None \<and> n = fresh p \<and>
     p' = p\<lparr>plog := plog p @ [NewPool n req poolEnv None], fresh := Suc n\<rparr>"
  by (auto simp: newPool_def emit_def Let_def split: option.splits)

lemma readWorkers_Inr:
  "readWorkers E pool p = (Returns (Inr ws), p') \<longleftrightarrow>
     poolWorkers E (plog p @ [ReadWorkers pool]) pool = Returns ws \<and> p' = p\<lparr>plog := plog p @ [ReadWorkers pool]\<rparr>"
  by (auto simp: readWorkers_def emit_def Let_def split: outcome.splits)

lemma callPool_Inr:
  "callPool E ev p = (Returns (Inr x), p') \<longleftrightarrow>
     poolCall E (plog p @ [ev]) = Returns None \<and> p' = p\<lparr>plog := plog p @ [ev]\<rparr>"
  by (auto simp: callPool_def emit_def Let_def split: outcome.splits option.splits)

lemma firstWorkerPid_Inr:
  "firstWorkerPid E err pool p = (Returns (Inr x), p') \<longleftrightarrow>
     (\<exists>w0 ws0 w ws. poolWorkers E (plog p @ [ReadWorkers pool]) pool = Returns (w0 # ws0) \<and>
        poolWorkers E (plog p @ [ReadWorkers pool, ReadWorkers pool]) pool = Returns (w # ws) \<and>
        p' = p\<lparr>plog := plog p @ [ReadWorkers pool, ReadWorkers pool], wwPID := procPid w\<rparr>)"
  by (auto simp: firstWorkerPid_def andThen_Inr readWorkers_Inr failP_def panicP_def doP_def Suc_le_eq neq_Nil_conv
      split: if_splits list.splits)

lemma startWorkers_Inr:
  "startWorkers E ws p = (Returns (Inr x), p') \<Longrightarrow>
     p' = p\<lparr>plog := plog p @ map (\<lambda>w. WorkerStart (fst w) (snd w) None) ws\<rparr>"
proof (induction ws arbitrary: p)
  case (Cons w ws)
  then obtain p1 where "startWorker E w p = (Returns (Inr ()), p1)" "startWorkers E ws p1 = (Returns (Inr x), p')"
    by (auto simp: andThen_Inr)
  with Cons.IH [of p1] show ?case
    by (auto simp: startWorker_def emit_def Let_def split: option.splits)
qed (simp add: okP_def)

lemma stopWorkers_eq: "stopWorkers ws p = p\<lparr>plog := plog p @ map (\<lambda>w. WorkerStop (fst w)) ws\<rparr>"
  unfolding stopWorkers_def
  by (induction ws arbitrary: p) (simp_all add: emit_def)

lemma buildWorkers_Inr:
  "buildWorkers E actDef wi p = (Returns (Inr (ws, wi')), p') \<Longrightarrow>
     \<exists>wrks u. TemporalWorkers (workerLib E) actDef wi (interceptors (temporal p)) (rounds p) (uuids p) = Returns (wrks, wi', u) \<and>
       ws = zip [fresh p ..< fresh p + length wrks] wrks \<and>
       p' = p\<lparr>uuids := u, rounds := rounds p + length wi, fresh := fresh p + length wrks\<rparr>"
  by (auto simp: buildWorkers_def split: outcome.splits)

lemma fetchInfo_Inr:
  "fetchInfo E p = (Returns (Inr wi), p') \<Longrightarrow> \<exists>h. p' = p\<lparr>infoSent := h\<rparr> \<and>
     WorkerInfo_fetch (workflowHost E) (fromPayload E) (rrVersion p) (wwPID p) (infoSent p) = (Inr wi, h)"
  by (auto simp: fetchInfo_def split: prod.splits)

lemma withLock_Returns:
  "withLock m p = (Returns x, p') \<longleftrightarrow>
     (\<exists>p1. m (p\<lparr>locked := True\<rparr>) = (Returns x, p1) \<and> locked p1 \<and> p' = p1\<lparr>locked := False\<rparr>)"
  by (auto simp: withLock_def split: prod.splits if_splits)

section \<open>A complete record of the resources\<close>

text \<open>Everything about a plugin that the following definition looks at.\<close>

definition holdings :: "Plugin \<Rightarrow> _" where
  "holdings p =
     ((actP p, wfP p, fresh p, eventBus p),
      (rrActivityDef (temporal p), rrWorkflowDef (temporal p), workers (temporal p), client (temporal p),
       workflows (temporal p)),
      (created_pools (plog p), destroyed_pools (plog p), started_workers (plog p), stopped_workers (plog p),
       dialed_clients (plog p), closed_clients (plog p)))"

definition numbered :: "Plugin \<Rightarrow> bool" where
  "numbered p \<longleftrightarrow>
     (\<forall>i \<in> set (created_pools (plog p)) \<union> set (destroyed_pools (plog p)) \<union> set (started_workers (plog p)) \<union>
          set (stopped_workers (plog p)) \<union> set (dialed_clients (plog p)) \<union> set (closed_clients (plog p)). i < fresh p)"

text \<open>The names of the workflows that workers serve.\<close>

definition served :: "(nat \<times> temporal_worker) list \<Rightarrow> string set" where
  "served ws = (\<Union>w \<in> set ws. fst ` set (twWorkflows (snd w)))"

text \<open>
  The fields name all open pools, running workers and open clients, the definitions given to the
  SDK use the recorded pools, and the table of workflows lists what the workers serve.
\<close>

definition complete :: "Plugin \<Rightarrow> bool" where
  "complete p \<longleftrightarrow> numbered p \<and> eventBus p \<and>
     (\<exists>ap wp c d. actP p = Some ap \<and> wfP p = Some wp \<and> open_pools p = [ap, wp] \<and>
        client (temporal p) = Some c \<and> open_clients p = [c] \<and>
        running_workers p = map fst (workers (temporal p)) \<and>
        rrWorkflowDef (temporal p) = Some \<lparr>wfPool = wp, laPool = ap\<rparr> \<and> rrActivityDef (temporal p) = Some (ap, d) \<and>
        dom (workflows (temporal p)) = served (workers (temporal p)))"

lemma complete_holdings: "holdings p' = holdings p \<Longrightarrow> complete p' \<longleftrightarrow> complete p"
  by (simp add: holdings_def complete_def numbered_def open_pools_def open_clients_def running_workers_def)

text \<open>
  The contract of an operation on a plugin that serves: if it succeeds, the record stays complete.
\<close>

locale plugin_operation =
  fixes run :: "Plugin \<Rightarrow> 'r \<times> Plugin"
    and good :: "'r \<Rightarrow> bool"
  assumes keeps_complete: "complete p \<Longrightarrow> run p = (r, p') \<Longrightarrow> good r \<Longrightarrow> complete p'"
begin

lemma iterate_complete:
  assumes "complete p" "\<forall>k < n. good (fst (run (((\<lambda>p. snd (run p)) ^^ k) p)))"
  shows "complete (((\<lambda>p. snd (run p)) ^^ n) p)"
  using assms(2)
proof (induction n)
  case (Suc n)
  then show ?case using keeps_complete [of "((\<lambda>p. snd (run p)) ^^ n) p"] by (simp add: prod_eq_iff)
qed (simp add: assms(1))

end

text \<open>An operation that creates and releases nothing, whatever it returns.\<close>

locale neutral_operation =
  fixes run :: "Plugin \<Rightarrow> 'r \<times> Plugin"
  assumes same_holdings: "holdings (snd (run p)) = holdings p"
begin

lemma neutral_complete: "run p = (r, p') \<Longrightarrow> complete p' \<longleftrightarrow> complete p"
  using complete_holdings [OF same_holdings, of p] by simp

end

sublocale neutral_operation \<subseteq> plugin_operation run "\<lambda>_. True"
  by unfold_locales (simp add: neutral_complete)

section \<open>Operations that create nothing\<close>

definition neutral :: "(Plugin \<Rightarrow> 'r \<times> Plugin) \<Rightarrow> bool" where
  "neutral m \<longleftrightarrow> (\<forall>p. holdings (snd (m p)) = holdings p)"

named_theorems neutral_intros \<open>rules for neutral\<close>

lemma neutral_ok [neutral_intros]: "neutral (okP x)" "neutral (failP e)" "neutral (panicP e)" "neutral (getP f)"
  by (simp_all add: neutral_def okP_def failP_def panicP_def getP_def)

lemma neutral_andThen [neutral_intros]: "neutral m \<Longrightarrow> (\<And>x. neutral (f x)) \<Longrightarrow> neutral (andThen m f)"
  by (auto simp: neutral_def andThen_def split: prod.splits outcome.splits sum.splits) (metis snd_conv)+

lemma neutral_wrapP [neutral_intros]: "neutral m \<Longrightarrow> neutral (wrapP op m)"
  by (auto simp: neutral_def wrapP_def split: prod.splits outcome.splits) (metis snd_conv)+

lemma neutral_readWorkers [neutral_intros]: "neutral (readWorkers E pool)"
  by (auto simp: neutral_def readWorkers_def Let_def emit_def holdings_def resources split: outcome.splits)

lemma neutral_callPool:
  assumes "\<And>l. created_pools (ev # l) = created_pools l" "\<And>l. destroyed_pools (ev # l) = destroyed_pools l"
    "\<And>l. started_workers (ev # l) = started_workers l" "\<And>l. stopped_workers (ev # l) = stopped_workers l"
    "\<And>l. dialed_clients (ev # l) = dialed_clients l" "\<And>l. closed_clients (ev # l) = closed_clients l"
  shows "neutral (callPool E ev)"
  using assms [of "[]"]
  by (auto simp: neutral_def callPool_def Let_def emit_def holdings_def resources_append resources_Nil
      split: outcome.splits option.splits)

lemma neutral_pool_calls [neutral_intros]:
  "neutral (callPool E (PoolReset i))" "neutral (callPool E (PoolAddWorker i))" "neutral (callPool E (PoolRemoveWorker i))"
  by (rule neutral_callPool; simp add: resources)+

lemma neutral_firstWorkerPid [neutral_intros]: "neutral (firstWorkerPid E err pool)"
  unfolding firstWorkerPid_def
  by (intro neutral_intros) (auto simp: neutral_def failP_def panicP_def doP_def andThen_def readWorkers_def Let_def
      emit_def holdings_def resources split: list.splits outcome.splits)

lemma holdings_locked [simp]: "holdings (p\<lparr>locked := b\<rparr>) = holdings p"
  by (simp add: holdings_def)

lemma neutral_withLock: "neutral m \<Longrightarrow> neutral (withLock m)"
  by (auto simp: neutral_def withLock_def split: prod.splits) (metis holdings_locked snd_conv)+

lemma neutralD: "neutral m \<Longrightarrow> holdings (snd (m p)) = holdings p"
  by (simp add: neutral_def)

lemma neutral_ResetAP: "neutral (ResetAP E)"
  unfolding ResetAP_def
  by (rule neutral_withLock, unfold neutral_def, intro allI neutralD neutral_intros)

lemma neutral_info: "neutral (Workers_plugin E)" "neutral (AddWorker E)" "neutral (RemoveWorker E)"
  unfolding neutral_def Workers_plugin_def AddWorker_def RemoveWorker_def
  by (intro allI neutralD neutral_intros)+

lemma neutral_workflowGood: "neutral (workflowGood E good)"
proof -
  have "neutral (case ws' of [] \<Rightarrow> panicP e | w # _ \<Rightarrow> okP (good w))" for ws' :: "worker_process list" and e
    by (cases ws') (simp_all add: neutral_intros)
  then have "neutral (andThen (readWorkers E pool) (\<lambda>ws. if length ws > 0
        then andThen (readWorkers E pool) (\<lambda>ws'.
               case ws' of [] \<Rightarrow> panicP (ErrExt ''index out of range'') | w # _ \<Rightarrow> okP (good w))
        else okP False))" for pool
    by (auto intro!: neutral_intros)
  then show ?thesis
    unfolding neutral_def workflowGood_def
    by (auto simp: neutralD neutral_intros split: option.split)
qed

lemma neutral_status: "neutral (statusWith E good)"
proof -
  have "neutral (if b then okP 200 else andThen (readWorkers E pool) (\<lambda>ws. okP (if \<exists>w \<in> set ws. good w then 200 else (503 :: nat))))" for b pool
    by (auto intro!: neutral_intros)
  then show ?thesis
    unfolding neutral_def [of "statusWith E good"] statusWith_def
    by (intro allI neutralD neutral_andThen neutral_workflowGood)
qed

section \<open>Reset\<close>

text \<open>The end of both \<open>initPool\<close> and \<open>Reset\<close>: creating, starting and recording Temporal workers.\<close>

definition launched :: "plug_env \<Rightarrow> Activity \<Rightarrow> WorkerInfo list \<Rightarrow> Plugin \<Rightarrow> (nat \<times> temporal_worker) list \<Rightarrow> WorkerInfo list \<Rightarrow> nat \<Rightarrow> bool" where
  "launched E actDef wi p ws wi' u \<longleftrightarrow>
     TemporalWorkers (workerLib E) actDef wi (interceptors (temporal p)) (rounds p) (uuids p) = Returns (map snd ws, wi', u) \<and>
     map fst ws = [fresh p ..< fresh p + length ws]"

lemma launched_served: "launched E actDef wi p ws wi' u \<Longrightarrow> dom (WorkflowsInfo wi') = served ws"
proof -
  assume "launched E actDef wi p ws wi' u"
  then have "TemporalWorkers (workerLib E) actDef wi (interceptors (temporal p)) (rounds p) (uuids p) = Returns (map snd ws, wi', u)"
    by (simp add: launched_def)
  from conjunct1 [OF TemporalWorkers_names [OF this]] show ?thesis by (simp add: served_def)
qed

lemma launch_Inr:
  assumes "andThen (buildWorkers E actDef wi) (\<lambda>(ws, wi'). andThen (startWorkers E ws) (\<lambda>_. doP (f ws wi'))) p =
    (Returns (Inr x), p')"
  shows "\<exists>ws wi' u. launched E actDef wi p ws wi' u \<and>
    p' = f ws wi' (p\<lparr>uuids := u, rounds := rounds p + length wi, fresh := fresh p + length ws,
                     plog := plog p @ map (\<lambda>w. WorkerStart (fst w) (snd w) None) ws\<rparr>)"
proof -
  from assms obtain ws wi' p2 p3 where b: "buildWorkers E actDef wi p = (Returns (Inr (ws, wi')), p2)"
    and s: "startWorkers E ws p2 = (Returns (Inr ()), p3)" and p': "p' = f ws wi' p3"
    by (auto simp: andThen_Inr doP_def)
  from buildWorkers_Inr [OF b] obtain wrks u where w:
    "TemporalWorkers (workerLib E) actDef wi (interceptors (temporal p)) (rounds p) (uuids p) = Returns (wrks, wi', u)"
    "ws = zip [fresh p ..< fresh p + length wrks] wrks"
    "p2 = p\<lparr>uuids := u, rounds := rounds p + length wi, fresh := fresh p + length wrks\<rparr>" by blast
  then have "launched E actDef wi p ws wi' u" "length wrks = length ws" by (simp_all add: launched_def)
  then show ?thesis using p' w(3) startWorkers_Inr [OF s] by auto
qed

lemma restartWorkers_Inr:
  assumes "restartWorkers E p = (Returns (Inr x), p')"
  shows "\<exists>wi h ws wi' u d.
    WorkerInfo_fetch (workflowHost E) (fromPayload E) (rrVersion p) (wwPID p) (infoSent p) = (Inr wi, h) \<and>
    (wi \<noteq> [] \<longrightarrow> (\<exists>ap. rrActivityDef (temporal p) = Some (ap, d))) \<and> launched E d wi p ws wi' u \<and>
    p' = p\<lparr>infoSent := h, uuids := u, rounds := rounds p + length wi, fresh := fresh p + length ws,
           plog := plog p @ map (\<lambda>w. WorkerStart (fst w) (snd w) None) ws,
           temporal := (temporal p)\<lparr>activities := ActivitiesInfo wi', workflows := WorkflowsInfo wi', workers := ws\<rparr>\<rparr>"
proof -
  from assms obtain wi p1 where f: "fetchInfo E p = (Returns (Inr wi), p1)"
    and r: "wi \<noteq> [] \<longrightarrow> rrActivityDef (temporal p1) \<noteq> None"
    "andThen (buildWorkers E (case rrActivityDef (temporal p1) of Some d \<Rightarrow> snd d | None \<Rightarrow> NewActivityDefinition False) wi)
       (\<lambda>(ws, wi'). andThen (startWorkers E ws) (\<lambda>_.
          doP (\<lambda>p. p\<lparr>temporal := (temporal p)\<lparr>activities := ActivitiesInfo wi', workflows := WorkflowsInfo wi', workers := ws\<rparr>\<rparr>))) p1 =
       (Returns (Inr x), p')"
    by (auto simp: restartWorkers_def andThen_Inr [of "fetchInfo E"] Let_def split: if_splits)
  from fetchInfo_Inr [OF f] obtain h where h: "p1 = p\<lparr>infoSent := h\<rparr>"
    "WorkerInfo_fetch (workflowHost E) (fromPayload E) (rrVersion p) (wwPID p) (infoSent p) = (Inr wi, h)" by blast
  let ?d = "case rrActivityDef (temporal p1) of Some d \<Rightarrow> snd d | None \<Rightarrow> NewActivityDefinition False"
  have d: "wi \<noteq> [] \<longrightarrow> (\<exists>ap. rrActivityDef (temporal p) = Some (ap, ?d))" using r(1) h(1) by auto
  from launch_Inr [OF r(2)] obtain ws wi' u where "launched E ?d wi p1 ws wi' u"
    "p' = (p1\<lparr>uuids := u, rounds := rounds p1 + length wi, fresh := fresh p1 + length ws,
             plog := plog p1 @ map (\<lambda>w. WorkerStart (fst w) (snd w) None) ws,
             temporal := (temporal p1)\<lparr>activities := ActivitiesInfo wi', workflows := WorkflowsInfo wi', workers := ws\<rparr>\<rparr>)"
    by auto
  moreover from this(1) have "launched E ?d wi p ws wi' u" by (simp add: launched_def h(1))
  ultimately show ?thesis using h d by (intro exI [of _ wi] exI [of _ h] exI [of _ ws] exI [of _ wi'] exI [of _ u] exI [of _ ?d]) simp
qed

text \<open>The state in which \<open>Reset\<close> starts the new workers: the old ones are stopped.\<close>

definition drained :: "plug_env \<Rightarrow> worker_process \<Rightarrow> Plugin \<Rightarrow> Plugin" where
  "drained E w p =
     p\<lparr>temporal := (temporal p)\<lparr>workers := []\<rparr>, wwPID := procPid w,
       plog := plog p @ map (\<lambda>w. WorkerStop (fst w)) (workers (temporal p)) @
                 [PurgeStickyCache, ReadWorkers (wfP p), ReadWorkers (wfP p), PoolReset (actP p)]\<rparr>"

lemma Reset_Inr:
  assumes "Reset_plugin E p = (Returns (Inr x), p')"
  shows "\<exists>w ws0 p1. poolWorkers E (plog p @ map (\<lambda>w. WorkerStop (fst w)) (workers (temporal p)) @
        [PurgeStickyCache, ReadWorkers (wfP p), ReadWorkers (wfP p)]) (wfP p) = Returns (w # ws0) \<and>
      restartWorkers E (drained E w (p\<lparr>locked := True\<rparr>)) = (Returns (Inr x), p1) \<and> p' = p1\<lparr>locked := False\<rparr>"
  using assms
  by (auto simp: Reset_plugin_def withLock_Returns Let_def andThen_Inr firstWorkerPid_Inr callPool_Inr stopWorkers_eq emit_def
      drained_def)

lemma fresh_not_stopped:
  "numbered p \<Longrightarrow> i \<in> set (stopped_workers (plog p)) \<Longrightarrow> i < fresh p"
  "numbered p \<Longrightarrow> i \<in> set (started_workers (plog p)) \<Longrightarrow> i < fresh p"
  by (auto simp: numbered_def)

lemma Reset_complete:
  assumes "complete p" "Reset_plugin E p = (Returns (Inr x), p')"
  shows "complete p'"
proof -
  from Reset_Inr [OF assms(2)] obtain w p1 where r: "restartWorkers E (drained E w (p\<lparr>locked := True\<rparr>)) = (Returns (Inr x), p1)"
    and p': "p' = p1\<lparr>locked := False\<rparr>" by blast
  let ?q = "drained E w (p\<lparr>locked := True\<rparr>)"
  from restartWorkers_Inr [OF r] obtain wi h ws wi' u d where l: "launched E d wi ?q ws wi' u"
    and eq: "p1 = ?q\<lparr>infoSent := h, uuids := u, rounds := rounds ?q + length wi, fresh := fresh ?q + length ws,
      plog := plog ?q @ map (\<lambda>w. WorkerStart (fst w) (snd w) None) ws,
      temporal := (temporal ?q)\<lparr>activities := ActivitiesInfo wi', workflows := WorkflowsInfo wi', workers := ws\<rparr>\<rparr>"
    by blast
  have p1: "eventBus p1 = eventBus p" "actP p1 = actP p" "wfP p1 = wfP p" "fresh p1 = fresh p + length ws"
      "plog p1 = plog ?q @ map (\<lambda>w. WorkerStart (fst w) (snd w) None) ws" "workers (temporal p1) = ws"
      "client (temporal p1) = client (temporal p)" "rrActivityDef (temporal p1) = rrActivityDef (temporal p)"
      "rrWorkflowDef (temporal p1) = rrWorkflowDef (temporal p)"
      "workflows (temporal p1) = WorkflowsInfo wi'"
    unfolding eq by (simp_all add: drained_def)
  have run: "running_workers p = map fst (workers (temporal p))" and num: "numbered p"
    using assms(1) by (auto simp: complete_def)
  have fst_ws: "map fst ws = [fresh p ..< fresh p + length ws]" using l by (simp add: launched_def drained_def)
  then have new: "set (map fst ws) = {fresh p ..< fresh p + length ws}" by simp
  have old: "set (map fst (workers (temporal p))) = set (started_workers (plog p)) - set (stopped_workers (plog p))"
    using run by (simp add: running_workers_def set_eq_iff flip: run)
  have "filter (\<lambda>i. i \<notin> set (stopped_workers (plog p)) \<and> i \<notin> set (map fst (workers (temporal p)))) (started_workers (plog p)) = []"
    unfolding old by (auto simp: filter_empty_conv)
  moreover have "\<forall>i \<in> set (map fst ws). i \<notin> set (stopped_workers (plog p)) \<and> i \<notin> set (map fst (workers (temporal p)))"
    unfolding new old using fresh_not_stopped [OF num] by fastforce
  ultimately have "running_workers p1 = map fst ws"
    unfolding running_workers_def p1(5) by (simp add: drained_def resources)
  moreover have "numbered p1"
    using num old new unfolding numbered_def p1(4,5)
    by (auto simp: drained_def resources intro: trans_less_add1)
  moreover have "dom (WorkflowsInfo wi') = served ws"
    using launched_served [OF l] by simp
  moreover have "open_pools p1 = open_pools p" "open_clients p1 = open_clients p"
    unfolding open_pools_def open_clients_def p1(5) by (simp_all add: drained_def resources)
  ultimately have "complete p1" using assms(1) p1 by (auto simp: complete_def)
  then show ?thesis using complete_holdings [of p' p1] by (simp add: p')
qed

interpretation reset: plugin_operation "Reset_plugin E" "\<lambda>r. \<exists>x. r = Returns (Inr x)" for E
  by unfold_locales (auto intro: Reset_complete)

interpretation resetAP: neutral_operation "ResetAP E" for E
  by unfold_locales (rule neutralD [OF neutral_ResetAP])

interpretation status: neutral_operation "statusWith E good" for E good
  by unfold_locales (rule neutralD [OF neutral_status])

interpretation processes: neutral_operation "Workers_plugin E" for E
  by unfold_locales (rule neutralD [OF neutral_info(1)])

interpretation addWorker: neutral_operation "AddWorker E" for E
  by unfold_locales (rule neutralD [OF neutral_info(2)])

interpretation removeWorker: neutral_operation "RemoveWorker E" for E
  by unfold_locales (rule neutralD [OF neutral_info(3)])

lemma complete_serving [simp]: "complete (p\<lparr>serving := b\<rparr>) = complete p"
  by (rule complete_holdings) (simp add: holdings_def)

interpretation event: plugin_operation "handleEvent E msg" "\<lambda>r. r = Returns None" for E msg
proof unfold_locales
  fix p p' :: Plugin and r
  assume c: "complete p" and h: "handleEvent E msg p = (r, p')" "r = Returns None"
  show "complete p'"
  proof (cases "Contains msg (Itoa (wwPID p))")
    case True
    then have "Reset_plugin E p = (Returns (Inr ()), p')"
      using h by (simp add: handleEvent_def split: prod.splits outcome.splits sum.splits)
    with c show ?thesis by (blast intro: reset.keeps_complete)
  next
    case False
    then have "ResetAP E p = (Returns (Inr ()), p')"
      using h by (simp add: handleEvent_def split: prod.splits outcome.splits sum.splits)
    then show ?thesis using c resetAP.neutral_complete by blast
  qed
qed

section \<open>Serve\<close>

lemma initTemporalClient_Inr:
  assumes "initTemporalClient E v flags p = (Returns (Inr x), p')"
  shows "\<exists>c opts. config p = Some c \<and> opts = dialOptions E (if v = [] then clientBaselineVersion else v) c (temporal p) \<and>
    p' = p\<lparr>apiKey := flagKey flags (apiKey p), plog := plog p @ [SetStickyCacheSize (CacheSize c), Dial (fresh p) opts None],
           fresh := Suc (fresh p), temporal := (temporal p)\<lparr>client := Some (fresh p)\<rparr>\<rparr>"
  using assms
  by (auto simp: initTemporalClient_def emit_def Let_def split: option.splits if_splits)

lemma createPools_Inr:
  assumes "createPools E p = (Returns (Inr (ap, wp)), p')"
  shows "ap = fresh p \<and> wp = Suc (fresh p) \<and>
    (\<exists>r1 r2. p' = p\<lparr>plog := plog p @ [NewPool (fresh p) r1 poolEnv None, NewPool (Suc (fresh p)) r2 poolEnv None],
                  fresh := Suc (Suc (fresh p))\<rparr>)"
  using assms
  by (auto simp: createPools_def andThen_Inr newPool_Inr panicP_def okP_def split: option.splits)


text \<open>What a successful \<open>initPool\<close> from the state \<open>p\<close> leaves, with the workers \<open>ws\<close> it started.\<close>

definition set_up :: "plug_env \<Rightarrow> Config \<Rightarrow> string \<Rightarrow> pool_request \<Rightarrow> pool_request \<Rightarrow> (nat \<times> temporal_worker) list \<Rightarrow> WorkerInfo list \<Rightarrow> Plugin \<Rightarrow> Plugin \<Rightarrow> bool" where
  "set_up E c version r1 r2 ws wi' p p' \<longleftrightarrow>
     config p = Some c \<and> config p' = config p \<and> eventBus p' = eventBus p \<and> locked p' = locked p \<and>
     actP p' = Some (fresh p) \<and> wfP p' = Some (Suc (fresh p)) \<and> fresh p' = fresh p + 3 + length ws \<and>
     map fst ws = [fresh p + 3 ..< fresh p + 3 + length ws] \<and> dom (WorkflowsInfo wi') = served ws \<and>
     temporal p' = (temporal p)\<lparr>client := Some (fresh p + 2), rrWorkflowDef := Some \<lparr>wfPool = Suc (fresh p), laPool = fresh p\<rparr>,
       rrActivityDef := Some (fresh p, NewActivityDefinition (DisableActivityWorkers c)), workers := ws,
       activities := ActivitiesInfo wi', workflows := WorkflowsInfo wi'\<rparr> \<and>
     plog p' = plog p @ [NewPool (fresh p) r1 poolEnv None, NewPool (Suc (fresh p)) r2 poolEnv None,
       ReadWorkers (Some (Suc (fresh p))), ReadWorkers (Some (Suc (fresh p))), SetStickyCacheSize (CacheSize c),
       Dial (fresh p + 2) (dialOptions E version c (temporal p)) None] @ map (\<lambda>w. WorkerStart (fst w) (snd w) None) ws"

lemma initPool_Inr:
  assumes "initPool E p = (Returns (Inr x), p')"
  shows "\<exists>c version r1 r2 ws wi'. set_up E c version r1 r2 ws wi' p p'"
proof -
  from assms obtain ap wp p1 p2 wi p3 where
      c1: "createPools E p = (Returns (Inr (ap, wp)), p1)"
    and c2: "firstWorkerPid E (ErrE [] noWorkflowWorker) (Some wp) p1 = (Returns (Inr ()), p2)"
    and c3: "fetchInfo E p2 = (Returns (Inr wi), p3)"
    and rest: "(case wi of [] \<Rightarrow> failP (ErrStr ''worker info should contain at least 1 worker'')
       | w # _ \<Rightarrow> andThen (initTemporalClient E (PhpSdkVersion w) (Flags w)) (\<lambda>_.
           andThen (getP (\<lambda>p. NewActivityDefinition (case config p of Some c \<Rightarrow> DisableActivityWorkers c | None \<Rightarrow> False)))
             (\<lambda>actDef. andThen (buildWorkers E actDef wi) (\<lambda>(ws, wi').
           andThen (startWorkers E ws) (\<lambda>_. doP (recordPools ap wp actDef ws wi')))))) p3 = (Returns (Inr x), p')"
    by (auto simp: initPool_def andThen_Inr)
  from rest obtain w wi0 p4 where w: "wi = w # wi0"
    and c4: "initTemporalClient E (PhpSdkVersion w) (Flags w) p3 = (Returns (Inr ()), p4)"
    and c5: "andThen (buildWorkers E (NewActivityDefinition (case config p4 of Some c \<Rightarrow> DisableActivityWorkers c | None \<Rightarrow> False)) wi)
       (\<lambda>(ws, wi'). andThen (startWorkers E ws) (\<lambda>_.
          doP (recordPools ap wp (NewActivityDefinition (case config p4 of Some c \<Rightarrow> DisableActivityWorkers c | None \<Rightarrow> False)) ws wi'))) p4 =
       (Returns (Inr x), p')"
    by (auto simp: andThen_Inr [of "initTemporalClient E _ _"] andThen_Inr [of "getP _"] getP_def failP_def split: list.splits)
  from createPools_Inr [OF c1] obtain r1 r2 where p1: "ap = fresh p" "wp = Suc (fresh p)"
    "p1 = p\<lparr>plog := plog p @ [NewPool (fresh p) r1 poolEnv None, NewPool (Suc (fresh p)) r2 poolEnv None],
           fresh := Suc (Suc (fresh p))\<rparr>" by blast
  from c2 [unfolded firstWorkerPid_Inr] obtain pw :: worker_process where p2: "p2 = p1\<lparr>plog := plog p1 @ [ReadWorkers (Some wp), ReadWorkers (Some wp)], wwPID := procPid pw\<rparr>"
    by blast
  from fetchInfo_Inr [OF c3] obtain h where p3: "p3 = p2\<lparr>infoSent := h\<rparr>" by blast
  from initTemporalClient_Inr [OF c4] obtain c v where p4: "config p3 = Some c"
    "p4 = p3\<lparr>apiKey := flagKey (Flags w) (apiKey p3), plog := plog p3 @ [SetStickyCacheSize (CacheSize c),
             Dial (fresh p3) (dialOptions E v c (temporal p3)) None],
           fresh := Suc (fresh p3), temporal := (temporal p3)\<lparr>client := Some (fresh p3)\<rparr>\<rparr>" by blast
  have "config p4 = Some c" using p4 by simp
  with launch_Inr [OF c5] obtain ws wi' u where p':
    "launched E (NewActivityDefinition (DisableActivityWorkers c)) wi p4 ws wi' u"
    "p' = recordPools ap wp (NewActivityDefinition (DisableActivityWorkers c)) ws wi'
      (p4\<lparr>uuids := u, rounds := rounds p4 + length wi, fresh := fresh p4 + length ws,
          plog := plog p4 @ map (\<lambda>w. WorkerStart (fst w) (snd w) None) ws\<rparr>)"
    by auto
  have "set_up E c v r1 r2 ws wi' p p'"
    using p1 p2 p3 p4 p' launched_served [OF p'(1)] by (simp add: set_up_def recordPools_def launched_def numeral_3_eq_3 numeral_2_eq_2 del: upt_Suc)
  then show ?thesis by blast
qed


text \<open>A plugin that was initialised and has not served yet.\<close>

definition initialised :: "Plugin \<Rightarrow> bool" where
  "initialised p \<longleftrightarrow> created_pools (plog p) = [] \<and> destroyed_pools (plog p) = [] \<and> started_workers (plog p) = [] \<and>
     stopped_workers (plog p) = [] \<and> dialed_clients (plog p) = [] \<and> closed_clients (plog p) = [] \<and>
     actP p = None \<and> wfP p = None \<and> workers (temporal p) = [] \<and> client (temporal p) = None \<and> eventBus p"

lemma Init_initialised:
  assumes "Init E zero_plugin = (Returns (Inr x), p)"
  shows "initialised p"
proof -
  from assms obtain c t where "initLibraries E c empty_temporal = Returns (Inr t)"
    and p: "plog p = []" "actP p = None" "wfP p = None" "eventBus p" "temporal p = t\<lparr>interceptors := Map.empty\<rparr>"
    by (auto simp: Init_def zero_plugin_def Let_def split: if_splits sum.splits option.splits prod.splits outcome.splits)
  then have "workers t = [] \<and> client t = None"
    by (auto simp: initLibraries_def empty_temporal_def Let_def split: sum.splits option.splits outcome.splits)
  then show ?thesis using p by (simp add: initialised_def resources)
qed

lemma Serve_None:
  assumes "Serve E p = (Returns None, p')"
  shows "\<exists>p1. initPool E (p\<lparr>locked := True\<rparr>) = (Returns (Inr ()), p1) \<and> eventBus p1 \<and>
    p' = p1\<lparr>plog := plog p1 @ [SubscribeP (''*.'' @ eventWorkerStopped E) None], serving := True, locked := False\<rparr>"
  using assms
  by (auto simp: Serve_def withLock_Returns wrapP_def andThen_def subscribe_def emit_def Let_def
      split: prod.splits outcome.splits sum.splits option.splits if_splits)

lemma set_up_complete:
  assumes "initialised p" "set_up E c version r1 r2 ws wi' p p'"
  shows "complete p'"
proof -
  have f: "set (map fst ws) = {fresh p + 3 ..< fresh p + 3 + length ws}" using assms(2) by (simp add: set_up_def)
  have "created_pools (plog p') = [fresh p, Suc (fresh p)]" "destroyed_pools (plog p') = []"
    "started_workers (plog p') = map fst ws" "stopped_workers (plog p') = []"
    "dialed_clients (plog p') = [fresh p + 2]" "closed_clients (plog p') = []"
    using assms by (simp_all add: set_up_def initialised_def resources)
  moreover from this have "numbered p'" using assms(2) f by (auto simp: numbered_def set_up_def)
  moreover have "eventBus p'" using assms by (simp add: set_up_def initialised_def)
  ultimately show ?thesis
    using assms(2) by (auto simp: complete_def open_pools_def open_clients_def running_workers_def set_up_def)
qed

lemma initialised_locked [simp]: "initialised (p\<lparr>locked := b\<rparr>) = initialised p"
  by (simp add: initialised_def)

lemma Serve_complete:
  assumes "initialised p" "Serve E p = (Returns None, p')"
  shows "complete p'"
proof -
  from Serve_None [OF assms(2)] obtain p1 where s: "initPool E (p\<lparr>locked := True\<rparr>) = (Returns (Inr ()), p1)"
    and p': "p' = p1\<lparr>plog := plog p1 @ [SubscribeP (''*.'' @ eventWorkerStopped E) None], serving := True, locked := False\<rparr>"
    by blast
  have "holdings p' = holdings p1" unfolding p' by (simp add: holdings_def resources)
  moreover have "complete p1" using initPool_Inr [OF s] set_up_complete [of "p\<lparr>locked := True\<rparr>"] assms(1) by auto
  ultimately show ?thesis using complete_holdings by blast
qed

section \<open>Runs\<close>

text \<open>
  The life of the plugin as long as no operation that creates or releases resources has failed: it is
  initialised, serves, and then handles events and requests in any order.
\<close>

inductive plugin_run :: "plug_env \<Rightarrow> Plugin \<Rightarrow> bool" for E where
  run_serve: "Init E zero_plugin = (Returns (Inr x), p0) \<Longrightarrow> p1 = fold (\<lambda>(n, i). collectInterceptor n i) ints p0 \<Longrightarrow>
     Serve E p1 = (Returns None, p) \<Longrightarrow> plugin_run E p"
| run_event: "plugin_run E p \<Longrightarrow> handleEvent E msg p = (Returns None, p') \<Longrightarrow> plugin_run E p'"
| run_reset: "plugin_run E p \<Longrightarrow> Reset_plugin E p = (Returns (Inr x), p') \<Longrightarrow> plugin_run E p'"
| run_resetAP: "plugin_run E p \<Longrightarrow> ResetAP E p = (r, p') \<Longrightarrow> plugin_run E p'"
| run_status: "plugin_run E p \<Longrightarrow> statusWith E good p = (n, p') \<Longrightarrow> plugin_run E p'"
| run_workers: "plugin_run E p \<Longrightarrow> Workers_plugin E p = (ws, p') \<Longrightarrow> plugin_run E p'"
| run_add: "plugin_run E p \<Longrightarrow> AddWorker E p = (r, p') \<Longrightarrow> plugin_run E p'"
| run_remove: "plugin_run E p \<Longrightarrow> RemoveWorker E p = (r, p') \<Longrightarrow> plugin_run E p'"
| run_key: "plugin_run E p \<Longrightarrow> plugin_run E (p\<lparr>apiKey := k\<rparr>)"

lemma collect_initialised: "initialised p \<Longrightarrow> initialised (fold (\<lambda>(n, i). collectInterceptor n i) ints p)"
proof (induction ints arbitrary: p)
  case (Cons ni ints)
  have "initialised (collectInterceptor (fst ni) (snd ni) p)"
    using Cons.prems by (simp add: collectInterceptor_def initialised_def)
  then show ?case using Cons.IH by (simp add: split_beta)
qed simp

lemma plugin_run_complete: "plugin_run E p \<Longrightarrow> complete p"
proof (induction rule: plugin_run.induct)
  case (run_serve x p0 p1 ints p)
  have "initialised p1" using collect_initialised [OF Init_initialised [OF run_serve(1)]] run_serve(2) by simp
  then show ?case using run_serve(3) by (rule Serve_complete)
next
  case (run_key p k)
  then show ?case using complete_holdings [of "p\<lparr>apiKey := k\<rparr>" p] by (simp add: holdings_def)
next
  case (run_event p msg p')
  then show ?case by (blast intro: event.keeps_complete)
next
  case (run_reset p x p')
  then show ?case by (blast intro: reset.keeps_complete)
qed (simp_all add: resetAP.neutral_complete status.neutral_complete processes.neutral_complete
      addWorker.neutral_complete removeWorker.neutral_complete)

end
