(* ===== verification/Plugin_Lifecycle.thy ===== *)
theory Plugin_Lifecycle
  imports Plugin_Resources
begin

text \<open>
  The properties of the plugin's life: what it holds while it serves, what \<open>Stop\<close> releases, what a
  failed start leaves behind, how the exit of a worker process is handled, its health checks, and the
  TLS configuration of its connection.
\<close>

section \<open>Stop\<close>

text \<open>The calls of \<open>Stop\<close> before the client is closed, in order.\<close>

definition stop_log :: "Plugin \<Rightarrow> plug_event list" where
  "stop_log p =
     plog p @ Unsubscribe # map PoolDestroy (rev (open_pools p)) @ map WorkerStop (running_workers p) @
     (if tallyCloser (temporal p) then [TallyClose] else [])"

abbreviation "unlockFatal \<equiv> ErrExt ''sync: Unlock of unlocked RWMutex''"

lemma Stop_complete:
  assumes "complete p"
  shows "plog (snd (Stop E ctxErr p)) = stop_log p @ map ClientClose (open_clients p) \<and>
    fst (Stop E ctxErr p) =
      (if tallyCloser (temporal p) \<and> closeErr E (stop_log p) \<noteq> None then Panics unlockFatal else Returns ctxErr) \<and>
    \<not> serving (snd (Stop E ctxErr p)) \<and> \<not> eventBus (snd (Stop E ctxErr p))"
proof -
  from assms obtain ap wp c where "eventBus p" "actP p = Some ap" "wfP p = Some wp" "open_pools p = [ap, wp]"
    "client (temporal p) = Some c" "open_clients p = [c]" and run: "running_workers p = map fst (workers (temporal p))"
    by (auto simp: complete_def)
  moreover have "map WorkerStop (running_workers p) = map (\<lambda>w. WorkerStop (fst w)) (workers (temporal p))"
    by (simp add: run)
  ultimately show ?thesis
    by (simp add: Stop_def stopBody_def withLock_def Let_def emit_def destroyPool_def stopWorkers_eq closeTally_def
        closeClient_def stop_log_def comp_def split: option.split)
qed

lemma released_lists:
  "destroyed_pools (map PoolDestroy is) = is" "created_pools (map PoolDestroy is) = []"
  "started_workers (map PoolDestroy is) = []" "stopped_workers (map PoolDestroy is) = []"
  "dialed_clients (map PoolDestroy is) = []" "closed_clients (map PoolDestroy is) = []"
  "destroyed_pools (map WorkerStop is) = []" "created_pools (map WorkerStop is) = []"
  "started_workers (map WorkerStop is) = []" "stopped_workers (map WorkerStop is) = is"
  "dialed_clients (map WorkerStop is) = []" "closed_clients (map WorkerStop is) = []"
  "destroyed_pools (map ClientClose is) = []" "created_pools (map ClientClose is) = []"
  "started_workers (map ClientClose is) = []" "stopped_workers (map ClientClose is) = []"
  "dialed_clients (map ClientClose is) = []" "closed_clients (map ClientClose is) = is"
  by (induction "is") (simp_all add: resources)

lemma stop_log_releases:
  assumes "plog p' = stop_log p @ map ClientClose (open_clients p)"
  shows "open_pools p' = [] \<and> running_workers p' = [] \<and> open_clients p' = []"
  unfolding open_pools_def [of p'] running_workers_def [of p'] open_clients_def [of p'] assms
  by (auto simp: stop_log_def resources released_lists filter_empty_conv open_pools_def running_workers_def open_clients_def)

section \<open>A failed start\<close>

text \<open>The plugin records no pool and no worker, and has released none.\<close>

definition unrecorded :: "Plugin \<Rightarrow> bool" where
  "unrecorded p \<longleftrightarrow> actP p = None \<and> wfP p = None \<and> workers (temporal p) = [] \<and> destroyed_pools (plog p) = [] \<and>
     stopped_workers (plog p) = [] \<and> eventBus p"

definition failing :: "(Plugin \<Rightarrow> bool) \<Rightarrow> 'a plug \<Rightarrow> bool" where
  "failing P m \<longleftrightarrow> (\<forall>p e p'. P p \<longrightarrow> m p = (Returns (Inl e), p') \<longrightarrow> P p')"

lemma failing_andThen:
  assumes "keeps P m" "\<And>x. failing P (f x)"
  shows "failing P (andThen m f)"
  unfolding failing_def
proof (intro allI impI)
  fix p e p'
  assume "P p" "andThen m f p = (Returns (Inl e), p')"
  moreover have "P (snd (m p))" using assms(1) \<open>P p\<close> by (rule keepsD)
  ultimately show "P p'"
    using assms(2) by (fastforce simp: andThen_def failing_def split: prod.splits outcome.splits sum.splits)
qed

lemma failing_keeps: "keeps P m \<Longrightarrow> failing P m"
  by (auto simp: failing_def dest!: keepsD)

lemma keeps_andThen: "keeps P m \<Longrightarrow> (\<And>x. keeps P (f x)) \<Longrightarrow> keeps P (andThen m f)"
proof -
  assume m: "keeps P m" and f: "\<And>x. keeps P (f x)"
  have "P (snd (andThen m f p))" if "P p" for p
    using keepsD [OF m that] keepsD [OF f]
    by (cases "m p") (simp add: andThen_def split: outcome.split sum.split)
  then show ?thesis by (simp add: keeps_def)
qed

text \<open>
  A property of the plugin that the calls of \<open>initPool\<close> keep. It then holds after every failure of \<open>initPool\<close>.
\<close>

locale setup_invariant =
  fixes E :: plug_env and P :: "Plugin \<Rightarrow> bool"
  assumes keeps_newPool: "keeps P (newPool E req)"
    and keeps_readWorkers: "keeps P (readWorkers E pool)"
    and keeps_pid: "keeps P (doP (\<lambda>p. p\<lparr>wwPID := pid\<rparr>))"
    and keeps_fetchInfo: "keeps P (fetchInfo E)"
    and keeps_client: "keeps P (initTemporalClient E v flags)"
    and keeps_build: "keeps P (buildWorkers E d wi)"
    and keeps_start: "keeps P (startWorker E w)"
begin

lemma keeps_results: "keeps P (okP x)" "keeps P (failP e)" "keeps P (panicP e)" "keeps P (getP f)"
  by (simp_all add: keeps_def okP_def failP_def panicP_def getP_def)

lemma keeps_createPools: "keeps P (createPools E)"
proof -
  have a: "keeps P (\<lambda>p. case config p of None \<Rightarrow> panicP nilDeref p | Some c \<Rightarrow> newPool E (f c) p)" for f
    using keeps_newPool by (auto simp: keeps_def panicP_def split: option.splits)
  have b: "keeps P (\<lambda>p. case config p of Some c \<Rightarrow>
      (case cActivities c of None \<Rightarrow> panicP nilDeref p | Some a \<Rightarrow> newPool E (f a) p) | None \<Rightarrow> panicP nilDeref p)" for f
    using keeps_newPool by (auto simp: keeps_def panicP_def split: option.splits)
  show ?thesis
    unfolding createPools_def by (rule keeps_andThen [OF a keeps_andThen [OF b keeps_results(1)]])
qed

lemma keeps_firstWorkerPid: "keeps P (firstWorkerPid E err pool)"
proof -
  have "keeps P (case ws of [] \<Rightarrow> panicP e | w # _ \<Rightarrow> doP (\<lambda>p. p\<lparr>wwPID := procPid w\<rparr>))" for ws :: "worker_process list" and e
    by (cases ws) (simp_all add: keeps_results keeps_pid)
  then show ?thesis
    unfolding firstWorkerPid_def by (auto intro!: keeps_andThen keeps_readWorkers keeps_results)
qed

lemma keeps_startWorkers: "keeps P (startWorkers E ws)"
  by (induction ws) (auto intro: keeps_andThen keeps_start keeps_results)

lemma failing_initPool: "failing P (initPool E)"
proof -
  have end': "failing P (doP f)" for f by (simp add: failing_def doP_def)
  have "failing P (case wi of [] \<Rightarrow> failP err | w # _ \<Rightarrow>
      andThen (initTemporalClient E (PhpSdkVersion w) (Flags w)) (\<lambda>_.
      andThen (getP g) (\<lambda>actDef.
      andThen (buildWorkers E actDef wi) (\<lambda>(ws, wi').
      andThen (startWorkers E ws) (\<lambda>_. doP (h actDef ws wi'))))))" for wi err g h
    by (cases wi) (auto intro!: failing_andThen keeps_client keeps_build keeps_startWorkers end' keeps_results
        intro: failing_keeps)
  then show ?thesis
    unfolding initPool_def
    by (auto intro!: failing_andThen keeps_createPools keeps_firstWorkerPid keeps_fetchInfo)
qed

end

lemmas setup_calls =
  newPool_def readWorkers_def doP_def fetchInfo_def initTemporalClient_def buildWorkers_def startWorker_def emit_def

interpretation unrecorded: setup_invariant E unrecorded for E
  by unfold_locales (auto simp: keeps_def unrecorded_def setup_calls Let_def resources
      split: prod.splits option.splits outcome.splits)

interpretation lock_held: setup_invariant E locked for E
  by unfold_locales (auto simp: keeps_def setup_calls Let_def split: prod.splits option.splits outcome.splits)

lemma Stop_unrecorded:
  assumes "unrecorded p"
  shows "open_pools (snd (Stop E ctxErr p)) = created_pools (plog p) \<and>
    running_workers (snd (Stop E ctxErr p)) = started_workers (plog p)"
  using assms
  by (auto simp: unrecorded_def Stop_def stopBody_def withLock_def Let_def emit_def destroyPool_def stopWorkers_def
      closeTally_def closeClient_def open_pools_def running_workers_def resources split: option.splits prod.splits outcome.splits)

section \<open>Exit of a worker process\<close>

lemma Contains_iff: "Contains s sub \<longleftrightarrow> (\<exists>u v. s = u @ sub @ v)"
proof (induction s)
  case (Cons c s)
  have "take (length sub) (c # s) = sub \<longleftrightarrow> (\<exists>v. c # s = sub @ v)"
    by (metis append_eq_conv_conj)
  then show ?case using Cons by (auto simp: Cons_eq_append_conv)
qed simp

text \<open>What a successful reset does to the Temporal workers.\<close>

lemma Reset_effect:
  assumes "complete p" "Reset_plugin E p = (Returns (Inr x), p')"
  shows "set (running_workers p) \<inter> set (running_workers p') = {} \<and> open_pools p' = open_pools p \<and>
    (\<exists>l w ws. poolWorkers E l (wfP p) = Returns (w # ws) \<and> wwPID p' = procPid w) \<and>
    dom (workflows (temporal p')) = served (workers (temporal p')) \<and>
    (\<exists>h wi. WorkerInfo_fetch (workflowHost E) (fromPayload E) (rrVersion p) (wwPID p') (infoSent p) = (Inr wi, h) \<and>
            length (workers (temporal p')) = length wi)"
proof -
  from Reset_Inr [OF assms(2)] obtain w ws0 p1 where pid: "poolWorkers E (plog p @ map (\<lambda>w. WorkerStop (fst w)) (workers (temporal p)) @
        [PurgeStickyCache, ReadWorkers (wfP p), ReadWorkers (wfP p)]) (wfP p) = Returns (w # ws0)"
    and r: "restartWorkers E (drained E w (p\<lparr>locked := True\<rparr>)) = (Returns (Inr x), p1)" and p': "p' = p1\<lparr>locked := False\<rparr>"
    by blast
  let ?q = "drained E w (p\<lparr>locked := True\<rparr>)"
  from restartWorkers_Inr [OF r] obtain wi h ws wi' u d where
      info: "WorkerInfo_fetch (workflowHost E) (fromPayload E) (rrVersion ?q) (wwPID ?q) (infoSent ?q) = (Inr wi, h)"
    and l: "launched E d wi ?q ws wi' u"
    and eq: "p1 = ?q\<lparr>infoSent := h, uuids := u, rounds := rounds ?q + length wi, fresh := fresh ?q + length ws,
      plog := plog ?q @ map (\<lambda>w. WorkerStart (fst w) (snd w) None) ws,
      temporal := (temporal ?q)\<lparr>activities := ActivitiesInfo wi', workflows := WorkflowsInfo wi', workers := ws\<rparr>\<rparr>"
    by blast
  have tw: "TemporalWorkers (workerLib E) d wi (interceptors (temporal ?q)) (rounds ?q) (uuids ?q) = Returns (map snd ws, wi', u)"
    and ids: "map fst ws = [fresh p ..< fresh p + length ws]"
    using l by (simp_all add: launched_def drained_def)
  have run: "running_workers p' = map fst ws"
    using Reset_complete [OF assms] by (auto simp: complete_def p' eq)
  have "\<forall>i \<in> set (running_workers p). i < fresh p"
    using assms(1) by (auto simp: complete_def numbered_def running_workers_def)
  then have "set (running_workers p) \<inter> set (running_workers p') = {}"
    unfolding run ids by auto
  moreover have "open_pools p' = open_pools p" "wwPID p' = procPid w" "workers (temporal p') = ws"
    unfolding p' eq open_pools_def by (simp_all add: drained_def resources)
  moreover have "dom (workflows (temporal p')) = served ws"
    using launched_served [OF l] by (simp add: p' eq)
  moreover have "length ws = length wi"
    using workersLoop_Returns [OF tw [unfolded TemporalWorkers_def]] by (auto dest: list_all2_lengthD)
  ultimately show ?thesis using pid info by (auto simp: drained_def)
qed

section \<open>The connection\<close>

lemma Init_tls:
  assumes "Init E zero_plugin = (Returns (Inr x), p)" "config p = Some c"
  shows "plog p = [] \<and> (case cTLS c of None \<Rightarrow> tlsCfg (temporal p) = None | Some t \<Rightarrow> initTLS (certs E) t = Inr (tlsCfg (temporal p)))"
proof -
  from assms obtain t where l: "initLibraries E c empty_temporal = Returns (Inr t)"
    and p: "plog p = []" "temporal p = t\<lparr>interceptors := Map.empty\<rparr>"
    by (auto simp: Init_def zero_plugin_def Let_def split: if_splits sum.splits option.splits prod.splits outcome.splits)
  from l have "(case cTLS c of None \<Rightarrow> Inr None | Some tls \<Rightarrow> initTLS (certs E) tls) = Inr (tlsCfg t)"
    by (auto simp: initLibraries_def Let_def split: sum.splits option.splits outcome.splits)
  then show ?thesis using p by (auto split: option.splits)
qed

lemma initTLS_None:
  "initTLS L t = Inr cfg \<Longrightarrow>
     cfg = None \<longleftrightarrow> RootCA t \<noteq> [] \<and> (\<exists>rca. readFile L (RootCA t) = Inr rca \<and> \<not> appendCerts L rca)"
  by (auto simp: initTLS_def Let_def split: if_splits sum.splits)

lemma dialed_clients_mem: "i \<in> set (dialed_clients l) \<Longrightarrow> \<exists>opts. Dial i opts None \<in> set l"
  by (induction l) (auto simp: resources split: plug_event.splits option.splits)

lemma Serve_dials:
  assumes "plog p = []" "config p = Some c" "Serve E p = (Returns None, p')" "Dial i opts None \<in> set (plog p')"
  shows "\<exists>version. opts = dialOptions E version c (temporal p)"
proof -
  from Serve_None [OF assms(3)] obtain p1 where s: "initPool E (p\<lparr>locked := True\<rparr>) = (Returns (Inr ()), p1)"
    and p': "plog p' = plog p1 @ [SubscribeP (''*.'' @ eventWorkerStopped E) None]" by auto
  from initPool_Inr [OF s] show ?thesis
    using assms(1,2,4) by (auto simp: set_up_def p')
qed

section \<open>A plugin that runs\<close>

text \<open>
  A worker that describes one task queue; the root CA file holds no certificate. \<open>starts\<close> decides which
  Temporal workers can be started.
\<close>

definition sample_env :: "(nat \<Rightarrow> go_error option) \<Rightarrow> plug_env" where
  "sample_env starts =
     \<lparr>cfgHas = True, cfgUnmarshal = Inr (Some sample_config), cfgPrometheus = Inr, cfgStatsd = Inr, cfgVersion = ''2024'',
      poolDefaults = id, osStat = (\<lambda>_. StatOk),
      certs = \<lparr>systemCertPool = Inr None, readFile = (\<lambda>_. Inr ''no certificate''), appendCerts = (\<lambda>_. False), loadKeyPair = (\<lambda>_ _. Inr [])\<rparr>,
      metricsLib = \<lparr>newReporter = (\<lambda>_ _. None), newStatsdClient = (\<lambda>_ _ _ _. None)\<rparr>,
      noProxy = False, workflowHost = info_world, fromPayload = (\<lambda>_. Inr sample_info), workerLib = sample_lib,
      newPoolErr = (\<lambda>_ _. None),
      poolWorkers = (\<lambda>_ _. Returns [\<lparr>procPid = 42, IsActive = True, isReady = True\<rparr>]),
      poolCall = (\<lambda>_. Returns None), dialErr = (\<lambda>_ _. None), startErr = (\<lambda>_. starts), subscribeErr = (\<lambda>_. None),
      closeErr = (\<lambda>_. None), processState = (\<lambda>w. Inl (ErrExt ''gone'')), resetText = (\<lambda>_ msg. msg),
      eventWorkerStopped = ''EventWorkerStopped''\<rparr>"

abbreviation "good_env \<equiv> sample_env (\<lambda>_. None)"

abbreviation "refusing_env \<equiv> sample_env (\<lambda>_. Some (ErrExt ''refused''))"

definition sample_init :: Plugin where
  "sample_init = snd (Init good_env zero_plugin)"

definition sample_serve :: Plugin where
  "sample_serve = snd (Serve good_env sample_init)"

definition sample_exit :: Plugin where
  "sample_exit = snd (handleEvent good_env ''process exited, pid: 42'' sample_serve)"

lemma sample_init_run: "Init good_env zero_plugin = (Returns (Inr ()), sample_init)"
proof -
  have "fst (Init good_env zero_plugin) = Returns (Inr ())" by code_simp
  then show ?thesis by (simp add: sample_init_def prod_eq_iff)
qed

lemma sample_serve_run: "Serve good_env sample_init = (Returns None, sample_serve)"
proof -
  have "fst (Serve good_env sample_init) = Returns None" by code_simp
  then show ?thesis by (simp add: sample_serve_def prod_eq_iff)
qed

text \<open>What it holds then, evaluated once.\<close>

lemma sample_serve_holds:
  "open_pools sample_serve = [0, 1] \<and> running_workers sample_serve = [3] \<and> wwPID sample_serve = 42 \<and>
   workers (temporal sample_serve) \<noteq> [] \<and> config sample_serve \<noteq> None"
proof -
  have "(open_pools sample_serve, running_workers sample_serve, wwPID sample_serve,
      length (workers (temporal sample_serve)), config sample_serve = None) = ([0, 1], [3], 42, 1, False)" by code_simp
  then show ?thesis by (auto simp del: length_0_conv)
qed

lemma sample_run: "plugin_run good_env sample_serve"
  by (rule run_serve [OF sample_init_run _ sample_serve_run, of "[]"]) simp

lemma sample_exit_run: "handleEvent good_env ''process exited, pid: 42'' sample_serve = (Returns None, sample_exit)"
proof -
  have "fst (handleEvent good_env ''process exited, pid: 42'' sample_serve) = Returns None" by code_simp
  then show ?thesis by (simp add: sample_exit_def prod_eq_iff)
qed

section \<open>Properties\<close>





text \<open>
  C33: when \<open>Serve\<close> fails before its last assignments, a later \<open>Stop\<close> releases none of the pools
  and Temporal workers created so far: they all stay open.
\<close>

theorem failed_serve_leaks:
  assumes "Init E zero_plugin = (Returns (Inr x), p)" "initPool E (p\<lparr>locked := True\<rparr>) = (Returns (Inl e), p1)"
  shows "\<exists>p'. Serve E p = (Returns (Some (ErrE opServe e)), p') \<and>
    open_pools (snd (Stop E ctxErr p')) = created_pools (plog p1) \<and>
    running_workers (snd (Stop E ctxErr p')) = started_workers (plog p1)"
proof -
  have "unrecorded (p\<lparr>locked := True\<rparr>)"
    using Init_initialised [OF assms(1)] by (simp add: initialised_def unrecorded_def)
  then have u: "unrecorded p1" using unrecorded.failing_initPool assms(2) unfolding failing_def by blast
  have "locked p1" using lock_held.failing_initPool [unfolded failing_def, rule_format, OF _ assms(2)] by simp
  then have "Serve E p = (Returns (Some (ErrE opServe e)), p1\<lparr>locked := False\<rparr>)"
    by (simp add: Serve_def withLock_def wrapP_def andThen_def assms(2))
  moreover have "unrecorded (p1\<lparr>locked := False\<rparr>)" using u by (simp add: unrecorded_def)
  ultimately show ?thesis using Stop_unrecorded by fastforce
qed

theorem failed_serve_leaks_witness:
  "\<exists>p p'. Init refusing_env zero_plugin = (Returns (Inr ()), p) \<and>
     Serve refusing_env p = (Returns (Some (ErrE opServe (ErrExt ''refused''))), p') \<and>
     open_pools (snd (Stop refusing_env None p')) = [0, 1]"
proof -
  let ?n = "Init refusing_env zero_plugin" and ?i = "initPool refusing_env ((snd (Init refusing_env zero_plugin))\<lparr>locked := True\<rparr>)"
  have "fst ?n = Returns (Inr ())" by code_simp
  then obtain p where n: "?n = (Returns (Inr ()), p)" by (cases ?n) simp
  have "fst ?i = Returns (Inl (ErrExt ''refused''))" "created_pools (plog (snd ?i)) = [0, 1]" by code_simp+
  then obtain p1 where e: "initPool refusing_env (p\<lparr>locked := True\<rparr>) = (Returns (Inl (ErrExt ''refused'')), p1)" "created_pools (plog p1) = [0, 1]"
    using n by (cases ?i) simp
  show ?thesis using failed_serve_leaks [OF n e(1), of None] e(2) n by auto
qed







end
