(* ===== verification/Rpc.thy ===== *)
theory Rpc
  imports Plugin_Lifecycle
begin

text \<open>
  \<open>rpc.go\<close>: the methods that the PHP process calls over RPC. Each of the replay methods always returns a
  nil error and reports its result in the status of the response.

  The Temporal client's history, the SDK's replayer, protojson and the file system calls are the
  record \<open>rpc_env\<close>; the files are a map from paths to contents. Names of protobuf messages that may
  be nil are options, and the getters of a nil message return the empty value.
\<close>

section \<open>Requests and responses\<close>

record execution =
  exWorkflowId :: string
  exRunId :: string

record replay_request =
  rqExecution :: "execution option"
  rqWorkflowType :: "string option"
  rqSavePath :: string
  rqLastEventId :: i64

definition GetRunId :: "replay_request \<Rightarrow> string" where
  "GetRunId r = (case rqExecution r of None \<Rightarrow> [] | Some x \<Rightarrow> exRunId x)"

definition GetWorkflowId :: "replay_request \<Rightarrow> string" where
  "GetWorkflowId r = (case rqExecution r of None \<Rightarrow> [] | Some x \<Rightarrow> exWorkflowId x)"

definition GetTypeName :: "string option \<Rightarrow> string" where
  "GetTypeName t = (case t of None \<Rightarrow> [] | Some n \<Rightarrow> n)"

text \<open>The gRPC codes that are used.\<close>

datatype status_code = OK | InvalidArgument | FailedPrecondition | Internal

record rpc_status =
  Code :: status_code
  stMessage :: string

text \<open>
  A history event is opaque. \<open>historyOf\<close> is what the iterator returns, up to its end; \<open>writeErr\<close> also gives the
  number of bytes written before the error; \<open>registerErr\<close> is the panic of a rejected registration.
\<close>

type_synonym history_event = string
type_synonym files = "string \<rightharpoonup> bytes"

record rpc_env =
  historyOf :: "string \<Rightarrow> string \<Rightarrow> (go_error + history_event) list"
  registerErr :: "string \<Rightarrow> go_error option"
  replayHistory :: "workflow_factory \<Rightarrow> string \<Rightarrow> history_event list \<Rightarrow> go_error option"
  replayFile :: "workflow_factory \<Rightarrow> string \<Rightarrow> bytes option \<Rightarrow> i64 option \<Rightarrow> go_error option"
  marshalHistory :: "history_event list \<Rightarrow> go_error + bytes"
  createErr :: "string \<Rightarrow> go_error option"
  writeErr :: "string \<Rightarrow> bytes \<Rightarrow> (nat \<times> go_error) option"
  errorText :: "go_error \<Rightarrow> string"
  unmarshalPayloads :: "bytes \<Rightarrow> go_error + payload list"
  contextCause :: "act_ctx \<Rightarrow> go_error option"
  isActivityPaused :: "go_error \<Rightarrow> bool"
  contextDone :: "act_ctx \<Rightarrow> bool"

definition statusError :: "rpc_env \<Rightarrow> status_code \<Rightarrow> go_error \<Rightarrow> rpc_status" where
  "statusError R c e = \<lparr>Code = c, stMessage = errorText R e\<rparr>"

definition statusText :: "status_code \<Rightarrow> string \<Rightarrow> rpc_status" where
  "statusText c m = \<lparr>Code = c, stMessage = m\<rparr>"

abbreviation "notInitialized \<equiv> ''workflow definition is not initialized, retry in a second''"

section \<open>Replay\<close>

text \<open>The loop over the iterator of a history, shared by two methods: it stops at the first error.\<close>

fun readHistory :: "(go_error + history_event) list \<Rightarrow> history_event list \<Rightarrow> go_error + history_event list" where
  "readHistory [] evs = Inr evs"
| "readHistory (Inl e # its) evs = Inl e"
| "readHistory (Inr ev # its) evs = readHistory its (evs @ [ev])"

text \<open>Creating a replayer with the workflow definition registered under a name, and running it.\<close>

definition withReplayer ::
  "rpc_env \<Rightarrow> Plugin \<Rightarrow> string \<Rightarrow> (workflow_factory \<Rightarrow> go_error option) \<Rightarrow> rpc_status outcome" where
  "withReplayer R p name run =
     (case getWfDef p of
        None \<Rightarrow> Returns (statusText FailedPrecondition notInitialized)
      | Some def \<Rightarrow>
          (case registerErr R name of
             Some e \<Rightarrow> Panics e
           | None \<Rightarrow>
               (case run def of
                  Some e \<Rightarrow> Returns (statusError R FailedPrecondition e)
                | None \<Rightarrow> Returns (statusText OK []))))"

definition ReplayWorkflow :: "rpc_env \<Rightarrow> replay_request \<Rightarrow> Plugin \<Rightarrow> rpc_status outcome" where
  "ReplayWorkflow R r p =
     (if rqExecution r = None \<or> rqWorkflowType r = None
      then Returns (statusText InvalidArgument ''run_id, workflow_id or workflow_name should not be empty'')
      else if GetRunId r = [] \<or> GetWorkflowId r = [] \<or> GetTypeName (rqWorkflowType r) = []
      then Returns (statusText InvalidArgument ''run_id, workflow_id or workflow_name should not be empty'')
      else if client (temporal p) = None then Panics nilDeref
      else case readHistory (historyOf R (GetWorkflowId r) (GetRunId r)) [] of
             Inl e \<Rightarrow> Returns (statusError R Internal e)
           | Inr hist \<Rightarrow>
               withReplayer R p (GetTypeName (rqWorkflowType r))
                 (\<lambda>def. replayHistory R def (GetTypeName (rqWorkflowType r)) hist))"

definition DownloadWorkflowHistory :: "rpc_env \<Rightarrow> replay_request \<Rightarrow> Plugin \<Rightarrow> files \<Rightarrow> rpc_status outcome \<times> files" where
  "DownloadWorkflowHistory R r p fs =
     (if rqExecution r = None \<or> rqWorkflowType r = None \<or> rqSavePath r = []
      then (Returns (statusText InvalidArgument ''run_id, workflow_id or save_path should not be empty''), fs)
      else if GetRunId r = [] \<or> GetWorkflowId r = [] \<or> GetTypeName (rqWorkflowType r) = []
      then (Returns (statusText InvalidArgument ''run_id, workflow_id or save_path should not be empty''), fs)
      else case createErr R (rqSavePath r) of
             Some e \<Rightarrow> (Returns (statusError R Internal e), fs)
           | None \<Rightarrow>
               (let fs1 = fs(rqSavePath r \<mapsto> [])
                in if client (temporal p) = None then (Panics nilDeref, fs1)
                   else case readHistory (historyOf R (GetWorkflowId r) (GetRunId r)) [] of
                          Inl e \<Rightarrow> (Returns (statusError R Internal e), fs1)
                        | Inr hist \<Rightarrow>
                            (case marshalHistory R hist of
                               Inl e \<Rightarrow> (Returns (statusError R Internal e), fs1)
                             | Inr bs \<Rightarrow>
                                 (case writeErr R (rqSavePath r) bs of
                                    Some (n, e) \<Rightarrow> (Returns (statusError R Internal e), fs1(rqSavePath r \<mapsto> take n bs))
                                  | None \<Rightarrow> (Returns (statusText OK []), fs1(rqSavePath r \<mapsto> bs))))))"

definition ReplayFromJSON :: "rpc_env \<Rightarrow> replay_request \<Rightarrow> Plugin \<Rightarrow> files \<Rightarrow> rpc_status outcome" where
  "ReplayFromJSON R r p fs =
     (if rqWorkflowType r = None \<or> rqSavePath r = []
      then Returns (statusText InvalidArgument ''workflow_name and save_path should not be empty'')
      else if GetTypeName (rqWorkflowType r) = []
      then Returns (statusText InvalidArgument ''workflow_name should not be empty'')
      else withReplayer R p (GetTypeName (rqWorkflowType r))
             (\<lambda>def. replayFile R def (GetTypeName (rqWorkflowType r)) (fs (rqSavePath r))
                      (if rqLastEventId r = 0 then None else Some (rqLastEventId r))))"

definition ReplayWorkflowHistory ::
  "rpc_env \<Rightarrow> history_event list option \<Rightarrow> string option \<Rightarrow> Plugin \<Rightarrow> rpc_status outcome" where
  "ReplayWorkflowHistory R hist wtype p =
     (case hist of
        None \<Rightarrow> Returns (statusText FailedPrecondition ''workflow_name and/or history should not be empty'')
      | Some evs \<Rightarrow>
          (if GetTypeName wtype = []
           then Returns (statusText FailedPrecondition ''workflow_name and/or history should not be empty'')
           else withReplayer R p (GetTypeName wtype) (\<lambda>def. replayHistory R def (GetTypeName wtype) evs)))"

section \<open>Heartbeats, names and the API key\<close>

record heartbeat_response =
  Canceled :: bool
  Paused :: bool

text \<open>\<open>beats\<close> are the heartbeats handed to the SDK, with their details.\<close>

definition RecordActivityHeartbeat ::
  "rpc_env \<Rightarrow> bytes \<Rightarrow> bytes \<Rightarrow> Plugin \<Rightarrow> (act_ctx \<times> payload list) list
   \<Rightarrow> (go_error + heartbeat_response) \<times> (act_ctx \<times> payload list) list" where
  "RecordActivityHeartbeat R taskToken dets p beats =
     (case (if length dets \<noteq> 0 then unmarshalPayloads R dets else Inr []) of
        Inl e \<Rightarrow> (Inl e, beats)
      | Inr details \<Rightarrow>
          (case getActDef p of
             None \<Rightarrow> (Inl (ErrStr ''no activity definition registered''), beats)
           | Some (ap, a) \<Rightarrow>
               (case GetActivityContext taskToken a of
                  Inl e \<Rightarrow> (Inl e, beats)
                | Inr ctx \<Rightarrow>
                    (let beats' = beats @ [(ctx, details)]
                     in case contextCause R ctx of
                          Some e \<Rightarrow>
                            (if isActivityPaused R e then (Inr \<lparr>Canceled = False, Paused = True\<rparr>, beats')
                             else (Inr \<lparr>Canceled = contextDone R ctx, Paused = False\<rparr>, beats'))
                        | None \<Rightarrow> (Inr \<lparr>Canceled = contextDone R ctx, Paused = False\<rparr>, beats')))))"

text \<open>The names are appended to \<open>out\<close> in the order in which Go iterates over the table.\<close>

definition GetActivityNames :: "string list \<Rightarrow> Plugin \<Rightarrow> string list \<Rightarrow> string list" where
  "GetActivityNames order p out = out @ filter (\<lambda>k. activities (temporal p) k \<noteq> None) order"

definition GetWorkflowNames :: "string list \<Rightarrow> Plugin \<Rightarrow> string list \<Rightarrow> string list" where
  "GetWorkflowNames order p out = out @ filter (\<lambda>k. workflows (temporal p) k \<noteq> None) order"

text \<open>A nil pointer or an empty key is refused.\<close>

definition UpdateAPIKey :: "string option \<Rightarrow> Plugin \<Rightarrow> bool \<times> Plugin" where
  "UpdateAPIKey key p =
     (case key of
        Some k \<Rightarrow> (if k \<noteq> [] then (True, p\<lparr>apiKey := Some k\<rparr>) else (False, p))
      | None \<Rightarrow> (False, p))"

section \<open>Lemmas\<close>

lemma readHistory_Inr: "readHistory its evs = Inr hist \<longleftrightarrow> (\<exists>es. its = map Inr es \<and> hist = evs @ es)"
  by (induction its evs rule: readHistory.induct) (auto simp: Cons_eq_map_conv)

lemma readHistory_Inl: "readHistory its evs = Inl e \<Longrightarrow> Inl e \<in> set its"
  by (induction its evs rule: readHistory.induct) auto

lemma readHistory_cases:
  "(\<exists>e. readHistory its [] = Inl e \<and> Inl e \<in> set its) \<or> (\<exists>hist. readHistory its [] = Inr hist \<and> its = map Inr hist)"
  by (cases "readHistory its []") (auto simp: readHistory_Inr dest: readHistory_Inl)

lemma serving_has_definition:
  assumes "plugin_run E p"
  shows "client (temporal p) \<noteq> None \<and> (\<exists>def. getWfDef p = Some def)"
  using plugin_run_complete [OF assms] by (auto simp: complete_def getWfDef_def)

definition valid_request :: "replay_request \<Rightarrow> bool" where
  "valid_request r \<longleftrightarrow> GetRunId r \<noteq> [] \<and> GetWorkflowId r \<noteq> [] \<and> GetTypeName (rqWorkflowType r) \<noteq> []"

lemma valid_present: "valid_request r \<Longrightarrow> rqExecution r \<noteq> None \<and> rqWorkflowType r \<noteq> None"
  by (auto simp: valid_request_def GetRunId_def GetTypeName_def split: option.splits)

text \<open>The whole of \<open>ReplayWorkflow\<close> for a valid request.\<close>

lemma ReplayWorkflow_valid:
  assumes "valid_request r" "client (temporal p) \<noteq> None"
  shows "ReplayWorkflow R r p =
    (case readHistory (historyOf R (GetWorkflowId r) (GetRunId r)) [] of
       Inl e \<Rightarrow> Returns (statusError R Internal e)
     | Inr hist \<Rightarrow> withReplayer R p (GetTypeName (rqWorkflowType r))
         (\<lambda>def. replayHistory R def (GetTypeName (rqWorkflowType r)) hist))"
  using assms valid_present [OF assms(1)] by (auto simp: ReplayWorkflow_def valid_request_def)

lemma ReplayWorkflow_invalid:
  "\<not> valid_request r \<Longrightarrow>
     ReplayWorkflow R r p = Returns (statusText InvalidArgument ''run_id, workflow_id or workflow_name should not be empty'')"
  by (auto simp: ReplayWorkflow_def valid_request_def)

text \<open>A download that succeeded has written the marshalled history.\<close>

lemma Download_OK:
  assumes "DownloadWorkflowHistory R r p fs = (Returns st, fs')" "Code st = OK"
  shows "valid_request r \<and> rqSavePath r \<noteq> [] \<and> client (temporal p) \<noteq> None \<and>
    (\<exists>hist bs. historyOf R (GetWorkflowId r) (GetRunId r) = map Inr hist \<and> marshalHistory R hist = Inr bs \<and>
       fs' = fs(rqSavePath r \<mapsto> bs))"
  using assms
  by (auto simp: DownloadWorkflowHistory_def valid_request_def statusText_def statusError_def readHistory_Inr Let_def
      split: if_splits option.splits sum.splits)

text \<open>A download that fails after the file was created has emptied it or left a part of the history.\<close>

lemma Download_error_truncates:
  assumes "DownloadWorkflowHistory R r p fs = (Returns st, fs')" "Code st = Internal" "createErr R (rqSavePath r) = None"
  shows "fs' (rqSavePath r) = Some [] \<or>
    (\<exists>hist bs n. marshalHistory R hist = Inr bs \<and> fs' (rqSavePath r) = Some (take n bs))"
  using assms
  by (auto simp: DownloadWorkflowHistory_def statusText_def statusError_def Let_def
      split: if_splits option.splits sum.splits) blast

text \<open>The API key after requests, and after the flag of the worker was read.\<close>

definition accepted :: "string option list \<Rightarrow> string list" where
  "accepted ks = filter (\<lambda>k. k \<noteq> []) (List.map_filter (\<lambda>k. k) ks)"

lemma UpdateAPIKey_credentials:
  "credentials (fold (\<lambda>k p. snd (UpdateAPIKey k p)) ks p) = last (credentials p # accepted ks)"
proof (induction ks arbitrary: p)
  case (Cons k ks)
  have "credentials (snd (UpdateAPIKey k p)) = last (credentials p # accepted [k])"
    by (auto simp: UpdateAPIKey_def credentials_def accepted_def List.map_filter_def split: option.splits)
  then show ?case
    using Cons by (auto simp: accepted_def List.map_filter_def split: option.splits if_splits)
qed (simp add: accepted_def List.map_filter_def)

section \<open>Examples\<close>

text \<open>A server with one history of two events, and files that hold the events one after the other.\<close>

definition sample_rpc :: rpc_env where
  "sample_rpc =
     \<lparr>historyOf = (\<lambda>_ _. [Inr ''a'', Inr ''b'']), registerErr = (\<lambda>_. None),
      replayHistory = (\<lambda>_ _ hist. if hist = [''a'', ''b''] then None else Some (ErrExt ''nondeterminism'')),
      replayFile = (\<lambda>_ _ bs _. if bs = Some ''ab'' then None else Some (ErrExt ''nondeterminism'')),
      marshalHistory = (\<lambda>hist. if hist = [''a'', ''b''] then Inr ''ab'' else Inl (ErrExt ''marshal'')),
      createErr = (\<lambda>_. None), writeErr = (\<lambda>_ _. None), errorText = (\<lambda>_. ''error''),
      unmarshalPayloads = (\<lambda>bs. Inr [\<lparr>metadata = [], data = bs\<rparr>]), contextCause = (\<lambda>_. None), isActivityPaused = (\<lambda>_. False),
      contextDone = (\<lambda>_. True)\<rparr>"

definition sample_request :: replay_request where
  "sample_request = \<lparr>rqExecution = Some \<lparr>exWorkflowId = ''wf'', exRunId = ''run''\<rparr>, rqWorkflowType = Some ''order'',
     rqSavePath = ''history.json'', rqLastEventId = 0\<rparr>"

section \<open>Properties\<close>

text \<open>
  C11: a serving plugin answers a replay request with exactly one of four codes: \<open>InvalidArgument\<close> iff an
  argument is empty, otherwise \<open>Internal\<close> iff the history cannot be read to its end,
  otherwise \<open>OK\<close> or \<open>FailedPrecondition\<close> as the replay of the whole history, by the registered workflow
  definition, succeeds or fails.
\<close>

theorem replay_codes:
  assumes "plugin_run E p" "registerErr R (GetTypeName (rqWorkflowType r)) = None"
  shows "\<exists>st. ReplayWorkflow R r p = Returns st \<and> (Code st = InvalidArgument \<longleftrightarrow> \<not> valid_request r) \<and>
    (Code st = Internal \<longleftrightarrow> valid_request r \<and> (\<exists>e. Inl e \<in> set (historyOf R (GetWorkflowId r) (GetRunId r)))) \<and>
    (Code st = OK \<longleftrightarrow> valid_request r \<and>
       (\<exists>hist. historyOf R (GetWorkflowId r) (GetRunId r) = map Inr hist \<and>
               replayHistory R (the (getWfDef p)) (GetTypeName (rqWorkflowType r)) hist = None))"
proof (cases "valid_request r")
  case False
  then show ?thesis by (auto simp: ReplayWorkflow_invalid statusText_def)
next
  case True
  from serving_has_definition [OF assms(1)] obtain def where c: "client (temporal p) \<noteq> None" and d: "getWfDef p = Some def"
    by blast
  have inj: "map Inr xs = map Inr ys \<longleftrightarrow> xs = ys" for xs ys :: "history_event list" by (simp add: inj_map_eq_map)
  show ?thesis
    using readHistory_cases [of "historyOf R (GetWorkflowId r) (GetRunId r)"]
  proof (elim disjE exE conjE)
    fix e assume "readHistory (historyOf R (GetWorkflowId r) (GetRunId r)) [] = Inl e"
      "Inl e \<in> set (historyOf R (GetWorkflowId r) (GetRunId r))"
    then show ?thesis using True c by (auto simp: ReplayWorkflow_valid statusError_def)
  next
    fix hist assume "readHistory (historyOf R (GetWorkflowId r) (GetRunId r)) [] = Inr hist"
      "historyOf R (GetWorkflowId r) (GetRunId r) = map Inr hist"
    then show ?thesis
      using True c d assms(2)
      by (auto simp: ReplayWorkflow_valid withReplayer_def statusError_def statusText_def inj split: option.split)
  qed
qed

theorem replay_codes_witness:
  "\<exists>st. ReplayWorkflow sample_rpc sample_request sample_serve = Returns st \<and> Code st = OK"
proof -
  have r: "registerErr sample_rpc (GetTypeName (rqWorkflowType sample_request)) = None" by (simp add: sample_rpc_def)
  have v: "valid_request sample_request"
    by (simp add: valid_request_def sample_request_def GetRunId_def GetWorkflowId_def GetTypeName_def)
  have h: "historyOf sample_rpc (GetWorkflowId sample_request) (GetRunId sample_request) = map Inr [''a'', ''b'']"
    "replayHistory sample_rpc d n [''a'', ''b''] = None" for d n by (simp_all add: sample_rpc_def)
  show ?thesis using replay_codes [OF sample_run r] v h by blast
qed







text \<open>
  C39: the key presented to the server is the last non-empty one of the keys given by the worker's flag
  at the start and by later updates; empty keys change nothing.
\<close>

theorem api_key_last:
  assumes "config p = Some c"
  shows "credentials (fold (\<lambda>k p. snd (UpdateAPIKey k p)) ks (snd (initTemporalClient E v flags p))) =
    last (credentials p # accepted (map_of flags ''ApiKey'' # ks))"
proof -
  have "credentials (snd (initTemporalClient E v flags p)) = last (credentials p # accepted [map_of flags ''ApiKey''])"
    using assms
    by (auto simp: initTemporalClient_def credentials_def flagKey_def emit_def accepted_def List.map_filter_def Let_def split: option.split)
  then show ?thesis
    by (simp add: UpdateAPIKey_credentials accepted_def List.map_filter_def split: option.split)
qed

theorem api_key_last_witness:
  "credentials (fold (\<lambda>k p. snd (UpdateAPIKey k p)) [None, Some []] (snd (initTemporalClient good_env [] [(''ApiKey'', ''secret'')] sample_init))) =
     ''secret''"
proof -
  have "config sample_init \<noteq> None" by code_simp
  then obtain c where c: "config sample_init = Some c" by blast
  show ?thesis using api_key_last [OF c, of "[None, Some []]" good_env "[]" "[(''ApiKey'', ''secret'')]"]
    by (simp add: accepted_def List.map_filter_def)
qed

end
