(* ===== verification/Data_Converter.thy ===== *)
theory Data_Converter
  imports Prelude
begin

text \<open>
  \<open>dataconverter/converter.go\<close>: the wrapper around the SDK's data converter that hands payloads
  through without decoding them. The wrapped converter is a parameter. A pointer given to
  \<open>FromPayloads\<close> is a \<open>target\<close>: a \<open>**commonpb.Payloads\<close> or a pointer to a value of some type. The
  result is the list of values stored through the pointers, in order.
\<close>

section \<open>Operations\<close>

fun firstPayloads :: "goval list \<Rightarrow> payloads option" where
  "firstPayloads [] = None"
| "firstPayloads (VPayloads p # vs) = Some p"
| "firstPayloads (v # vs) = firstPayloads vs"

definition ToPayloads :: "(goval list \<Rightarrow> go_error + payloads) \<Rightarrow> goval list \<Rightarrow> go_error + payloads" where
  "ToPayloads dc vs = (case firstPayloads vs of Some aggregated \<Rightarrow> Inr aggregated | None \<Rightarrow> dc vs)"

definition ToPayload :: "(goval \<Rightarrow> go_error + payload) \<Rightarrow> goval \<Rightarrow> go_error + payload" where
  "ToPayload dc v = dc v"

definition ToString :: "(payload \<Rightarrow> string) \<Rightarrow> payload \<Rightarrow> string" where
  "ToString dc p = dc p"

definition ToStrings :: "(payloads \<Rightarrow> string list) \<Rightarrow> payloads \<Rightarrow> string list" where
  "ToStrings dc p = dc p"

datatype target = PayloadsTarget | ValueTarget string

definition FromPayload :: "(payload \<Rightarrow> target \<Rightarrow> go_error + goval) \<Rightarrow> payload \<Rightarrow> target \<Rightarrow> go_error + goval" where
  "FromPayload dc p t = dc p t"

text \<open>The loop: it indexes the pointers with the index of the payload.\<close>

fun convertEach ::
  "(payload \<Rightarrow> target \<Rightarrow> go_error + goval) \<Rightarrow> payload list \<Rightarrow> target list \<Rightarrow> (go_error + goval list) outcome" where
  "convertEach dc [] ts = Returns (Inr [])"
| "convertEach dc (p # ps) [] = Panics (ErrExt ''index out of range'')"
| "convertEach dc (p # ps) (t # ts) =
     (case FromPayload dc p t of
        Inl e \<Rightarrow> Returns (Inl e)
      | Inr v \<Rightarrow>
          (case convertEach dc ps ts of
             Returns (Inr vs) \<Rightarrow> Returns (Inr (v # vs))
           | r \<Rightarrow> r))"

definition FromPayloads ::
  "(payload \<Rightarrow> target \<Rightarrow> go_error + goval) \<Rightarrow> payloads \<Rightarrow> target list \<Rightarrow> (go_error + goval list) outcome" where
  "FromPayloads dc pls ts =
     (case pls of
        None \<Rightarrow> Returns (Inr [])
      | Some ps \<Rightarrow> (if ts = [PayloadsTarget] then Returns (Inr [VPayloads (Some ps)]) else convertEach dc ps ts))"

section \<open>Properties\<close>

lemma convertEach_panics:
  "(\<exists>e. convertEach dc ps ts = Panics e) \<longleftrightarrow>
     length ts < length ps \<and> (\<forall>i < length ts. \<exists>v. dc (ps ! i) (ts ! i) = Inr v)"
proof (induction dc ps ts rule: convertEach.induct)
  case (3 dc p ps t ts)
  have all: "(\<forall>i < length (t # ts). \<exists>v. dc ((p # ps) ! i) ((t # ts) ! i) = Inr v) \<longleftrightarrow>
      (\<exists>v. dc p t = Inr v) \<and> (\<forall>i < length ts. \<exists>v. dc (ps ! i) (ts ! i) = Inr v)"
    by (auto simp: less_Suc_eq_0_disj)
  show ?case
  proof (cases "dc p t")
    case (Inl e)
    then show ?thesis unfolding all by (simp add: FromPayload_def)
  next
    case (Inr v)
    have "(\<exists>e. convertEach dc (p # ps) (t # ts) = Panics e) \<longleftrightarrow> (\<exists>e. convertEach dc ps ts = Panics e)"
      using Inr by (auto simp: FromPayload_def split: outcome.splits sum.splits)
    then show ?thesis using "3.IH" [of v] Inr unfolding all by (simp add: FromPayload_def)
  qed
qed auto

text \<open>
  Payloads pass the converter untouched: a payloads value among the arguments is the result of
  \<open>ToPayloads\<close>, and reading payloads into a payloads pointer stores exactly them. Reading into
  other pointers panics exactly when there are more payloads than pointers and all payloads up
  to the last pointer convert.
\<close>

lemma converter_payloads:
  "(\<forall>xs ys. (\<forall>x \<in> set xs. \<forall>q. x \<noteq> VPayloads q) \<longrightarrow> ToPayloads to (xs @ VPayloads p # ys) = Inr p) \<and>
   FromPayloads from (Some ps) [PayloadsTarget] = Returns (Inr [VPayloads (Some ps)]) \<and>
   ((\<exists>e. FromPayloads from (Some ps) ts = Panics e) \<longleftrightarrow>
      ts \<noteq> [PayloadsTarget] \<and> length ts < length ps \<and> (\<forall>i < length ts. \<exists>v. from (ps ! i) (ts ! i) = Inr v))"
proof (intro conjI allI impI)
  fix xs ys
  assume "\<forall>x \<in> set xs. \<forall>q. x \<noteq> VPayloads q"
  then have "firstPayloads (xs @ VPayloads p # ys) = Some p"
  proof (induction xs)
    case (Cons x xs)
    then show ?case by (cases x) auto
  qed simp
  then show "ToPayloads to (xs @ VPayloads p # ys) = Inr p" by (simp add: ToPayloads_def)
next
  show "FromPayloads from (Some ps) [PayloadsTarget] = Returns (Inr [VPayloads (Some ps)])"
    by (simp add: FromPayloads_def)
  show "(\<exists>e. FromPayloads from (Some ps) ts = Panics e) \<longleftrightarrow>
      ts \<noteq> [PayloadsTarget] \<and> length ts < length ps \<and> (\<forall>i < length ts. \<exists>v. from (ps ! i) (ts ! i) = Inr v)"
    by (simp add: FromPayloads_def convertEach_panics)
qed

end
