(* ===== verification/Spec2Isabelle.thy ===== *)
theory Spec2Isabelle
  imports Workflow_Exchange Rpc Data_Converter
begin

text \<open>
  The RoadRunner Temporal plugin: a Go program that lets PHP processes execute Temporal workflows and
  activities. It owns two pools of PHP workers. The workflow pool has one process, which runs the
  code of all workflows; the activity pool runs activities. The plugin registers itself with the
  Temporal Go SDK as the definition of every workflow and activity that the PHP side announces, turns what
  the SDK asks for into messages for the PHP processes and executes the commands they answer with.

  \<^bold>\<open>The parts of the program and the theories.\<close>

  \<^item> Messages and commands: \<open>Protocol\<close> (\<open>internal/protocol.go\<close>), with Go's number conversions in \<open>Strconv\<close>;
    \<open>Codec\<close> (\<open>internal/codec/proto/proto.go\<close>, the records of \<open>internal/worker_info.go\<close>), \<open>Pool_Exchange\<close>
    (the answer of a worker pool to one payload).
  \<^item> The state of one workflow: \<open>Message_Queue\<close> (\<open>queue/queue.go\<close>), \<open>Canceller\<close> (\<open>canceller/canceller.go\<close>),
    \<open>Registry\<close> (\<open>registry/registry.go\<close>), and the record \<open>Workflow\<close> in \<open>Workflow_State\<close>, which also has the calls to
    the SDK environment and the callbacks of results.
  \<^item> The behaviour of a workflow: \<open>Workflow_Handlers\<close> (\<open>aggregatedpool/handler.go\<close>, one definition for each
    case of \<open>handleMessage\<close>), \<open>Search_Attributes\<close> (the typed search attributes of both files),
    \<open>Workflow_Loop\<close> (\<open>aggregatedpool/workflow.go\<close>), and \<open>Workflow_Steps\<close>, the inductive step relation of a
    workflow run: the SDK starts tasks, delivers results, signals, queries, updates and cancellation
    in any order.
  \<^item> Activities: \<open>Activity_Pool\<close> (\<open>aggregatedpool/activity.go\<close>, \<open>local_activity.go\<close>, \<open>interceptor.go\<close> and
    \<open>api/context.go\<close>), with a step relation for interleaved activities; \<open>Data_Converter\<close>
    (\<open>dataconverter/converter.go\<close>).
  \<^item> The plugin: \<open>Config\<close> (\<open>config.go\<close>, \<open>tls.go\<close>), \<open>Observability\<close> (\<open>metrics.go\<close>, \<open>internal/logger/wrapper.go\<close>),
    \<open>Worker_Setup\<close> (\<open>info.go\<close>, \<open>aggregatedpool/workers.go\<close>), \<open>Plugin\<close> (\<open>plugin.go\<close>, \<open>internal.go\<close>, \<open>status.go\<close>,
    \<open>workers_manager.go\<close>) and \<open>Rpc\<close> (\<open>rpc.go\<close>).

  \<^bold>\<open>How the model corresponds to the code.\<close> A struct is a record, an enumeration or a tagged union a
  datatype, a machine integer a word of its width, a Go error a value of \<open>go_error\<close>. A method is a function
  of the same name on the record of its receiver which returns the new record; a panic is the
  value \<open>Panics\<close>. A Go closure that is stored and called later is a value of a datatype with the
  variables it captures, and a function that runs it. The order in which Go iterates over a map is
  an argument.

  Code outside of the repository is a parameter. The records \<open>wire\<close>, \<open>host\<close> and \<open>world\<close> have the
  serialisers, the worker pool and the Temporal SDK; \<open>cert_lib\<close>, \<open>metrics_lib\<close>, \<open>worker_lib\<close>, \<open>plug_env\<close> and
  \<open>rpc_env\<close> the libraries the plugin calls. The answer of such a call is a function of the calls made before, so it
  may differ each time. What a theorem needs of them is a named hypothesis such as \<open>wire_ok\<close> (what was
  marshalled is unmarshalled to the same value), and the examples of \<open>Sample_World\<close>, \<open>Worker_Setup\<close>,
  \<open>Plugin_Lifecycle\<close> and \<open>Rpc\<close> are concrete instances of it.

  \<^bold>\<open>Interfaces.\<close> The locales are the contracts between the components, each interpreted on
  the model: \<open>command_table\<close> (the two name tables), \<open>api_codec\<close>, \<open>message_queue\<close> (for the list and for the Go
  slice), \<open>seq_source\<close>, \<open>cancel_store\<close>, \<open>rendezvous\<close>, the three levels \<open>call_invariant\<close>, \<open>handler_invariant\<close> and
  \<open>task_invariant\<close> for properties that a workflow keeps, \<open>plugin_operation\<close> and \<open>neutral_operation\<close> for the
  methods of a serving plugin, \<open>setup_invariant\<close> for what holds after a failed start.

  \<^bold>\<open>What the lemmas show.\<close>

  \<^item> Exchange: encoding then decoding is the identity; \<open>flushQueue\<close> sends exactly the queued messages and
    loses none (\<open>Workflow_Exchange\<close>); every response answers a command of the worker
    (\<open>Workflow_Responses\<close>); ids are fresh as long as the 64-bit counter does not wrap.
  \<^item> Updates: each gets at most one verdict and one completion, and none waits after a task
    (\<open>Workflow_Updates\<close>).
  \<^item> Tasks: a task ends if the worker eventually sends no more commands that cause an exchange, and leaves
    an empty pipeline (\<open>Workflow_Progress\<close>); deferred results have the effect of immediate ones.
  \<^item> Activities: the request and the answer of an activity; heartbeats find every activity in flight.
  \<^item> Plugin: while it serves, it knows all its pools, workers and clients, and \<open>Stop\<close> releases them
    (\<open>Plugin_Resources\<close>, \<open>Plugin_Lifecycle\<close>); what a failed start leaks; the effect of a reset; health
    checks; when the connection lacks TLS; the answers of the RPC methods (\<open>Rpc\<close>).

  \<^bold>\<open>Fuel.\<close> Only the pipeline loop of a workflow task has fuel, because a worker can keep it going for
  ever; \<open>task_terminates\<close> shows that for a worker that stops some fuel is enough and that more fuel does
  not change the result. All other loops are structural or have a termination proof.

  \<^bold>\<open>Not modelled.\<close> Log lines; \<open>sync.Pool\<close> beyond the count of objects taken; the frame pool of the codec; the
  interface declarations of \<open>api/interfaces.go\<close>; the constructors \<open>Name\<close>, \<open>RPC\<close>, \<open>MetricsCollector\<close>. Methods
  of the plugin and of a workflow are atomic: the plugin holds its lock, and the SDK calls a workflow
  definition from one goroutine at a time. Activities and the two operations of the registry do
  interleave in the model. Timeouts of contexts are one of the errors a library call can return.
\<close>

end
